(* ===== verification/Effects.thy ===== *)
theory Effects
  imports Rust_Str
begin

text \<open>
  The effects of the driver. An asynchronous operation of \<open>Aws\<close> is a function of the
  driver's state that returns an error or a value and the new state; \<open>?\<close> is \<open>bindE\<close>. The
  state holds the world outside the driver (\<open>ext\<close>, of any type: what AWS, the clock and the
  disk do is a parameter), the shared fields of the \<open>Aws\<close> bundle that change
  (\<open>kms_key_id\<close>, the limiter's next slot, \<open>leaked_versions\<close>), the rows counter of the
  results writer, and a log of the outgoing calls, which no operation reads.
\<close>

section \<open>Errors\<close>

text \<open>
  A failed SDK call: a service error with its code and message, or a failure before any
  service answer. The driver's own errors keep the facts of their message (the function, the
  number, the text); the context strings \<open>anyhow\<close> wraps around them are dropped.
\<close>

datatype sdk_error =
    ServiceError (err_code: string) (err_message: "string option")
  | DispatchError string

datatype err =
    Sdk sdk_error
  | NoConfiguration string
  | UpdateFailed string
  | NotReady string
  | NoNumericVersion string
  | NotSnapStarted string string
  | VersionFailed string string
  | VersionNotActive string string
  | KmsKeyUnset string
  | BadBase64
  | NoLogResult string "string option" int
  | NoReportLine string
  | ReportMismatch string
  | MissingField string
  | BadNumber string string
  | StatusNot200 string int
  | FunctionErrorReported string string
  | NoPayload string
  | NotJson string
  | NoStatusCode string
  | HttpStatus string int
  | NoRestoreDuration string nat string
  | NoHostCpuLine string string
  | ColdForceExhausted string nat
  | CycleExhausted string nat
  | NoSizes string
  | Message string
  | IoError string
  | SerializeError string
  | Panicked string
  | Incomplete "(string \<times> err) list"

section \<open>The driver's state\<close>

text \<open>The outgoing calls, in order. \<open>EvSleep\<close> is in milliseconds, \<open>EvSlot\<close> in nanoseconds.\<close>

datatype event =
    EvSleep nat
  | EvSlot nat
  | EvGetFunction string "string option"
  | EvUpdateCode string
  | EvUpdateConfig string
  | EvCreateFunction string
  | EvPublish string
  | EvDeleteFunction string "string option"
  | EvInvoke string string "string option" "string option"
  | EvWrite string
  | EvFlush
  | EvService string string

record 'x drv =
  ext :: 'x
  kms_key_id :: "string option"
  next_slot :: nat
  leaked_versions :: "(string \<times> string) list"
  rows_count :: nat
  calls :: "event list"

type_synonym ('x, 'a) eff = "'x drv \<Rightarrow> (err + 'a) \<times> 'x drv"

definition ret :: "'a \<Rightarrow> ('x, 'a) eff" where
  "ret x s = (Inr x, s)"

definition fail :: "err \<Rightarrow> ('x, 'a) eff" where
  "fail e s = (Inl e, s)"

definition of_result :: "err + 'a \<Rightarrow> ('x, 'a) eff" where
  "of_result r s = (r, s)"

definition bindE :: "('x, 'a) eff \<Rightarrow> ('a \<Rightarrow> ('x, 'b) eff) \<Rightarrow> ('x, 'b) eff" where
  "bindE m k s = (case m s of (Inl e, t) \<Rightarrow> (Inl e, t) | (Inr x, t) \<Rightarrow> k x t)"

definition thenE :: "('x, 'a) eff \<Rightarrow> ('x, 'b) eff \<Rightarrow> ('x, 'b) eff" where
  "thenE m k = bindE m (\<lambda>_. k)"

text \<open>\<open>match op.await\<close>: the result as a value.\<close>

definition attempt :: "('x, 'a) eff \<Rightarrow> ('x, err + 'a) eff" where
  "attempt m s = (case m s of (r, t) \<Rightarrow> (Inr r, t))"

text \<open>The same where \<open>m\<close> may panic: a panic is not a value, it unwinds through the caller.\<close>

definition catching :: "('x, 'a) eff \<Rightarrow> ('x, err + 'a) eff" where
  "catching m s =
     (case m s of
        (Inl (Panicked e), t) \<Rightarrow> (Inl (Panicked e), t)
      | (r, t) \<Rightarrow> (Inr r, t))"

text \<open>One outgoing call: the world answers and the call is logged.\<close>

definition call :: "event \<Rightarrow> ('x \<Rightarrow> 'a \<times> 'x) \<Rightarrow> ('x, 'a) eff" where
  "call ev f s =
     (case f (ext s) of (r, x) \<Rightarrow> (Inr r, s\<lparr>ext := x, calls := calls s @ [ev]\<rparr>))"

text \<open>\<open>send().await.with_context(..)?\<close>: an SDK error ends the operation.\<close>

definition sdk_ok :: "sdk_error + 'a \<Rightarrow> ('x, 'a) eff" where
  "sdk_ok r = of_result (case r of Inl e \<Rightarrow> Inl (Sdk e) | Inr x \<Rightarrow> Inr x)"

definition send :: "event \<Rightarrow> ('x \<Rightarrow> (sdk_error + 'a) \<times> 'x) \<Rightarrow> ('x, 'a) eff" where
  "send ev f = bindE (call ev f) sdk_ok"

text \<open>A read of the clock or of a random source: no call is logged.\<close>

definition peek :: "('x \<Rightarrow> 'a \<times> 'x) \<Rightarrow> ('x, 'a) eff" where
  "peek f s = (case f (ext s) of (r, x) \<Rightarrow> (Inr r, s\<lparr>ext := x\<rparr>))"

fun for_each :: "('a \<Rightarrow> ('x, unit) eff) \<Rightarrow> 'a list \<Rightarrow> ('x, unit) eff" where
  "for_each f [] = ret ()"
| "for_each f (x # xs) = thenE (f x) (for_each f xs)"

text \<open>
  A loop over the items of an SDK paginator: a failed page ends it by \<open>bad\<close>, a body that
  returns a value ends it with that value, the end of the stream by \<open>fin\<close>.
\<close>

fun scan_items ::
    "(sdk_error \<Rightarrow> ('x, 'b) eff) \<Rightarrow> ('i \<Rightarrow> ('x, 'b option) eff) \<Rightarrow> ('x, 'b) eff \<Rightarrow>
     (sdk_error + 'i) list \<Rightarrow> ('x, 'b) eff" where
  "scan_items bad body fin [] = fin"
| "scan_items bad body fin (Inl e # items) = bad e"
| "scan_items bad body fin (Inr i # items) =
     bindE (body i) (\<lambda>o'.
       case o' of Some b \<Rightarrow> ret b | None \<Rightarrow> scan_items bad body fin items)"

section \<open>How the combinators compute\<close>

lemma run_simps [eff_simps]:
  "ret x s = (Inr x, s)" "fail e s = (Inl e, s)" "of_result r s = (r, s)"
  by (simp_all add: ret_def fail_def of_result_def)

lemma bindE_apply [eff_simps]:
  "bindE m k s = (case m s of (Inl e, t) \<Rightarrow> (Inl e, t) | (Inr x, t) \<Rightarrow> k x t)"
  by (simp add: bindE_def)

lemma bindE_ret [simp]: "bindE (ret x) k = k x"
  by (rule ext) (simp add: bindE_def ret_def)

lemma bindE_fail [simp]: "bindE (fail e) k = fail e"
  by (rule ext) (simp add: bindE_def fail_def)

lemma of_result_simps [simp]: "of_result (Inr x) = ret x" "of_result (Inl e) = fail e"
  by (rule ext, simp add: of_result_def ret_def fail_def)+

lemma bindE_Inr:
  "bindE m k s = (Inr y, t) \<longleftrightarrow> (\<exists>x u. m s = (Inr x, u) \<and> k x u = (Inr y, t))"
  by (auto simp: bindE_def split: prod.splits sum.splits)

lemma bindE_InrE:
  assumes "bindE m k s = (Inr y, t)"
  obtains x u where "m s = (Inr x, u)" "k x u = (Inr y, t)"
  using assms by (auto simp: bindE_Inr)

lemma thenE_InrE:
  assumes "thenE m k s = (Inr y, t)"
  obtains x u where "m s = (Inr x, u)" "k u = (Inr y, t)"
  using assms by (auto simp: thenE_def bindE_Inr)

lemma of_result_Inr: "of_result r s = (Inr x, t) \<longleftrightarrow> r = Inr x \<and> t = s"
  by (auto simp: of_result_def)

lemma ret_Inr: "ret v s = (Inr x, t) \<longleftrightarrow> x = v \<and> t = s"
  by (auto simp: ret_def)

lemma attempt_apply [eff_simps]: "attempt m s = (Inr (fst (m s)), snd (m s))"
  by (simp add: attempt_def split: prod.splits)

section \<open>Reasoning about every outcome\<close>

text \<open>
  \<open>returns m Q\<close>: whatever the world does, a value that \<open>m\<close> returns satisfies \<open>Q\<close>.
  \<open>keeps P m\<close>: \<open>m\<close> keeps the state property \<open>P\<close>, on success and on failure.
  \<open>costs f n m\<close>: the calls \<open>m\<close> makes weigh at most \<open>n\<close> under \<open>f\<close>, on success and failure.
\<close>

definition returns :: "('x, 'a) eff \<Rightarrow> ('a \<Rightarrow> bool) \<Rightarrow> bool" where
  "returns m Q \<longleftrightarrow> (\<forall>s x t. m s = (Inr x, t) \<longrightarrow> Q x)"

definition keeps :: "('x drv \<Rightarrow> bool) \<Rightarrow> ('x, 'a) eff \<Rightarrow> bool" where
  "keeps P m \<longleftrightarrow> (\<forall>s. P s \<longrightarrow> P (snd (m s)))"

definition weight :: "(event \<Rightarrow> nat) \<Rightarrow> 'x drv \<Rightarrow> nat" where
  "weight f s = sum_list (map f (calls s))"

definition costs :: "(event \<Rightarrow> nat) \<Rightarrow> nat \<Rightarrow> ('x, 'a) eff \<Rightarrow> bool" where
  "costs f n m \<longleftrightarrow> (\<forall>s. weight f (snd (m s)) \<le> weight f s + n)"

lemma returnsD: "returns m Q \<Longrightarrow> m s = (Inr x, t) \<Longrightarrow> Q x"
  by (auto simp: returns_def)

lemma returns_ret: "Q x \<Longrightarrow> returns (ret x) Q"
  by (simp add: returns_def ret_def)

lemma returns_fail: "returns (fail e) Q"
  by (simp add: returns_def fail_def)

lemma returns_of_result: "(\<And>x. r = Inr x \<Longrightarrow> Q x) \<Longrightarrow> returns (of_result r) Q"
  by (simp add: returns_def of_result_def)

lemma returns_bind:
  "returns m P \<Longrightarrow> (\<And>x. P x \<Longrightarrow> returns (k x) Q) \<Longrightarrow> returns (bindE m k) Q"
  unfolding returns_def bindE_Inr by blast

lemma returns_bind_any: "(\<And>x. returns (k x) Q) \<Longrightarrow> returns (bindE m k) Q"
  unfolding returns_def bindE_Inr by blast

lemma returns_then: "returns k Q \<Longrightarrow> returns (thenE m k) Q"
  unfolding thenE_def by (rule returns_bind_any)

lemma returns_mono: "returns m P \<Longrightarrow> (\<And>x. P x \<Longrightarrow> Q x) \<Longrightarrow> returns m Q"
  unfolding returns_def by blast

lemma keeps_ret: "keeps P (ret x)" "keeps P (fail e)" "keeps P (of_result r)"
  by (simp_all add: keeps_def ret_def fail_def of_result_def)

lemma keeps_bind: "keeps P m \<Longrightarrow> (\<And>x. keeps P (k x)) \<Longrightarrow> keeps P (bindE m k)"
  unfolding keeps_def bindE_def by (force split: prod.splits sum.splits)

lemma keeps_then: "keeps P m \<Longrightarrow> keeps P k \<Longrightarrow> keeps P (thenE m k)"
  unfolding thenE_def by (rule keeps_bind)

lemma keeps_attempt: "keeps P m \<Longrightarrow> keeps P (attempt m)"
  by (simp add: keeps_def attempt_apply)

lemma costs_ret: "costs f 0 (ret x)" "costs f 0 (fail e)" "costs f 0 (of_result r)"
  by (simp_all add: costs_def ret_def fail_def of_result_def)

lemma costs_bind:
  assumes "costs f a m" "\<And>x. costs f b (k x)"
  shows "costs f (a + b) (bindE m k)"
  unfolding costs_def
proof
  fix s
  obtain r t where m: "m s = (r, t)" by force
  have a: "weight f t \<le> weight f s + a" using assms(1) m unfolding costs_def by (metis snd_conv)
  show "weight f (snd (bindE m k s)) \<le> weight f s + (a + b)"
  proof (cases r)
    case (Inl e)
    with m a show ?thesis by (simp add: bindE_def)
  next
    case (Inr x)
    have "weight f (snd (k x t)) \<le> weight f t + b" using assms(2) unfolding costs_def by blast
    with m a Inr show ?thesis by (simp add: bindE_def)
  qed
qed

lemma costs_then: "costs f a m \<Longrightarrow> costs f b k \<Longrightarrow> costs f (a + b) (thenE m k)"
  unfolding thenE_def by (rule costs_bind)

lemma costs_attempt: "costs f a m \<Longrightarrow> costs f a (attempt m)"
  by (simp add: costs_def attempt_apply)

lemma costs_mono: "costs f a m \<Longrightarrow> a \<le> b \<Longrightarrow> costs f b m"
  unfolding costs_def by (meson add_left_mono le_trans)

lemma costs_call: "costs f (f ev) (call ev g)"
  by (simp add: costs_def call_def weight_def split: prod.splits)

lemma costs_send: "costs f (f ev) (send ev g)"
  using costs_bind [OF costs_call [of f ev g], of 0 sdk_ok]
  by (simp add: send_def sdk_ok_def costs_ret)

lemma costs_peek: "costs f 0 (peek g)"
  by (simp add: costs_def peek_def weight_def split: prod.splits)

lemma costsD: "costs f n m \<Longrightarrow> m s = (r, t) \<Longrightarrow> weight f t \<le> weight f s + n"
  unfolding costs_def by (metis snd_conv)

section \<open>Total correctness\<close>

text \<open>\<open>runs P m Q\<close>: from a world in \<open>P\<close>, \<open>m\<close> returns a value, and \<open>Q\<close> holds of it and of the
  world it leaves.\<close>

definition runs :: "('x \<Rightarrow> bool) \<Rightarrow> ('x, 'a) eff \<Rightarrow> ('a \<Rightarrow> 'x \<Rightarrow> bool) \<Rightarrow> bool" where
  "runs P m Q \<longleftrightarrow> (\<forall>s. P (ext s) \<longrightarrow> (\<exists>v t. m s = (Inr v, t) \<and> Q v (ext t)))"

lemma runs_ret: "(\<And>x. P x \<Longrightarrow> Q v x) \<Longrightarrow> runs P (ret v) Q"
  by (simp add: runs_def ret_def)

lemma runs_bind:
  assumes "runs P m Q" "\<And>v. runs (Q v) (k v) R"
  shows "runs P (bindE m k) R"
  using assms unfolding runs_def bindE_def by fastforce

lemma runs_then: "runs P m (\<lambda>_. Q) \<Longrightarrow> runs Q k R \<Longrightarrow> runs P (thenE m k) R"
  unfolding thenE_def by (rule runs_bind)

lemma runs_attempt: "runs P m Q \<Longrightarrow> runs P (attempt m) (\<lambda>r x. \<exists>v. r = Inr v \<and> Q v x)"
  by (fastforce simp: runs_def attempt_def)

lemma runs_send:
  "(\<And>x. P x \<Longrightarrow> \<exists>v. fst (f x) = Inr v \<and> Q v (snd (f x))) \<Longrightarrow> runs P (send ev f) Q"
  by (fastforce simp: runs_def send_def bindE_def call_def sdk_ok_def of_result_def
      split: prod.splits)

lemma runs_peek: "(\<And>x. P x \<Longrightarrow> Q (fst (f x)) (snd (f x))) \<Longrightarrow> runs P (peek f) Q"
  by (auto simp: runs_def peek_def split: prod.splits) (metis fst_conv snd_conv)

lemma runs_conseq:
  "runs P m Q \<Longrightarrow> (\<And>x. P' x \<Longrightarrow> P x) \<Longrightarrow> (\<And>v x. Q v x \<Longrightarrow> Q' v x) \<Longrightarrow> runs P' m Q'"
  unfolding runs_def by fast

lemma runs_pure: "(F \<Longrightarrow> runs P m Q) \<Longrightarrow> runs (\<lambda>x. F \<and> P x) m Q"
  unfolding runs_def by blast

lemma runsD: "runs P m Q \<Longrightarrow> P (ext s) \<Longrightarrow> \<exists>v t. m s = (Inr v, t) \<and> Q v (ext t)"
  unfolding runs_def by blast

end
