(* ===== verification/Report.thy ===== *)
theory Report
  imports Effects
begin

text \<open>
  \<open>bencher/src/parse.rs\<close>: the parser of Lambda's \<open>REPORT\<close> line and of the host CPU line. The
  three patterns are syntax trees of the fragment they use; the \<open>regex\<close> crate that runs them
  is a parameter (\<open>regex_engine\<close>). \<open>leftmost_first\<close> below is the search the crate's
  documentation prescribes for such patterns (leftmost match, greedy repetitions longest
  first, lazy ones shortest first); theorems that need an engine to match as documented say so.
  A binary64 number is the rational its decimal text denotes.
\<close>

section \<open>Patterns\<close>

datatype cls = Space | AnyChar | HexDash | DigitDot | Digit

definition in_cls :: "cls \<Rightarrow> char \<Rightarrow> bool" where
  "in_cls k c =
     (let n = (of_char c :: nat)
      in case k of
           Space \<Rightarrow> is_ws c
         | AnyChar \<Rightarrow> c \<noteq> nl
         | HexDash \<Rightarrow> is_digit c \<or> (97 \<le> n \<and> n \<le> 102) \<or> (65 \<le> n \<and> n \<le> 70) \<or> c = CHR ''-''
         | DigitDot \<Rightarrow> is_digit c \<or> c = CHR ''.''
         | Digit \<Rightarrow> is_digit c)"

datatype item =
    Lit string
  | Star cls
  | Plus cls
  | LazyStar cls
  | CapPlus string cls
  | OptCap string string

type_synonym captures = "string \<Rightarrow> string option"

definition report_regex :: "item list" where
  "report_regex =
     [Lit ''REPORT RequestId:'', Star Space, CapPlus ''rid'' HexDash, Plus Space,
      LazyStar AnyChar, Lit ''Duration:'', Star Space, CapPlus ''dur'' DigitDot, Star Space,
      Lit ''ms'', Plus Space, Lit ''Billed Duration:'', Star Space, CapPlus ''billed'' DigitDot,
      Star Space, Lit ''ms'', Plus Space, Lit ''Memory Size:'', Star Space,
      CapPlus ''memsize'' Digit, Star Space, Lit ''MB'', Plus Space, Lit ''Max Memory Used:'',
      Star Space, CapPlus ''maxmem'' Digit, Star Space, Lit ''MB'']"

definition init_regex :: "item list" where
  "init_regex =
     [OptCap ''billed'' ''Billed '', Lit ''Init Duration:'', Star Space,
      CapPlus ''init'' DigitDot, Star Space, Lit ''ms'']"

definition restore_regex :: "item list" where
  "restore_regex =
     [OptCap ''billed'' ''Billed '', Lit ''Restore Duration:'', Star Space,
      CapPlus ''restore'' DigitDot, Star Space, Lit ''ms'']"

text \<open>\<open>Regex::captures\<close> and \<open>Regex::captures_iter\<close> of the crate.\<close>

record regex_engine =
  rx_captures :: "item list \<Rightarrow> string \<Rightarrow> captures option"
  rx_captures_iter :: "item list \<Rightarrow> string \<Rightarrow> captures list"

section \<open>Numbers\<close>

definition read_decimal :: "string \<Rightarrow> rat option" where
  "read_decimal s =
     (case split_on (CHR ''.'') s of
        [a] \<Rightarrow> if a \<noteq> [] \<and> list_all is_digit a then Some (of_nat (read_nat a)) else None
      | [a, b] \<Rightarrow>
          if a @ b \<noteq> [] \<and> list_all is_digit (a @ b)
          then Some (of_nat (read_nat (a @ b)) / 10 ^ length b) else None
      | _ \<Rightarrow> None)"

text \<open>\<open>parse::<f64>\<close> of a run of digits and dots, \<open>parse::<i64>\<close> of a run of digits.\<close>

definition parse_f64 :: "string \<Rightarrow> err + rat" where
  "parse_f64 s = ok_or (BadNumber ''f64'' s) (read_decimal s)"

definition parse_i64 :: "string \<Rightarrow> err + int" where
  "parse_i64 s =
     (if s \<noteq> [] \<and> list_all is_digit s \<and> read_nat s < 2 ^ 63 then Inr (int (read_nat s))
      else Inl (BadNumber ''i64'' s))"

section \<open>The report\<close>

record report =
  request_id :: string
  duration_ms :: rat
  billed_ms :: rat
  memory_size_mb :: int
  max_memory_used_mb :: int
  init_ms :: "rat option"
  restore_ms :: "rat option"

definition is_cold :: "report \<Rightarrow> bool" where
  "is_cold r \<longleftrightarrow> init_ms r \<noteq> None \<or> restore_ms r \<noteq> None"

text \<open>The first match without the billed prefix, its value parsed when there is one.\<close>

definition cold_marker ::
    "regex_engine \<Rightarrow> item list \<Rightarrow> string \<Rightarrow> string \<Rightarrow> err + rat option" where
  "cold_marker rx re nm line =
     (case Option.bind (List.find (\<lambda>c. c ''billed'' = None) (rx_captures_iter rx re line))
             (\<lambda>c. c nm) of
        Some s \<Rightarrow> res_bind (parse_f64 s) (\<lambda>v. Inr (Some v))
      | None \<Rightarrow> Inr None)"

definition parse_report_line :: "regex_engine \<Rightarrow> string \<Rightarrow> err + report" where
  "parse_report_line rx line =
     res_bind (ok_or (ReportMismatch line) (rx_captures rx report_regex line)) (\<lambda>caps.
       let f = (\<lambda>nm. res_bind (ok_or (MissingField nm) (caps nm)) parse_f64);
           i = (\<lambda>nm. res_bind (ok_or (MissingField nm) (caps nm)) parse_i64)
       in res_bind (cold_marker rx init_regex ''init'' line) (\<lambda>init.
          res_bind (cold_marker rx restore_regex ''restore'' line) (\<lambda>restore.
          res_bind (ok_or (MissingField ''rid'') (caps ''rid'')) (\<lambda>rid.
          res_bind (f ''dur'') (\<lambda>dur.
          res_bind (f ''billed'') (\<lambda>billed.
          res_bind (i ''memsize'') (\<lambda>memsize.
          res_bind (i ''maxmem'') (\<lambda>maxmem.
            Inr \<lparr>request_id = rid, duration_ms = dur, billed_ms = billed,
                 memory_size_mb = memsize, max_memory_used_mb = maxmem,
                 init_ms = init, restore_ms = restore\<rparr>))))))))"

definition parse_report :: "regex_engine \<Rightarrow> string \<Rightarrow> err + report" where
  "parse_report rx log_tail =
     res_bind
       (ok_or (NoReportLine log_tail)
         (List.find (contains_str ''REPORT RequestId:'') (rev (rust_lines log_tail))))
       (parse_report_line rx)"

definition cpu_candidates :: "string \<Rightarrow> string list" where
  "cpu_candidates log_tail =
     List.map_filter
       (\<lambda>l. map_option (\<lambda>(_, cpu). trim cpu) (split_once_str ''LAMBDABENCH_CPU '' l))
       (rust_lines log_tail)"

definition parse_host_cpu :: "string \<Rightarrow> string option" where
  "parse_host_cpu log_tail = List.find (\<lambda>cpu. cpu \<noteq> []) (rev (cpu_candidates log_tail))"

section \<open>The documented search\<close>

fun first_some :: "('a \<Rightarrow> 'b option) \<Rightarrow> 'a list \<Rightarrow> 'b option" where
  "first_some f [] = None"
| "first_some f (x # xs) = (case f x of None \<Rightarrow> first_some f xs | Some y \<Rightarrow> Some y)"

definition run_length :: "cls \<Rightarrow> string \<Rightarrow> nat" where
  "run_length k s = length (takeWhile (in_cls k) s)"

text \<open>The captures and the rest of the text after a match at the start of \<open>s\<close>.\<close>

fun match_here :: "item list \<Rightarrow> string \<Rightarrow> (captures \<times> string) option" where
  "match_here [] s = Some (Map.empty, s)"
| "match_here (Lit l # is) s =
     (if prefix l s then match_here is (drop (length l) s) else None)"
| "match_here (Star k # is) s =
     first_some (\<lambda>n. match_here is (drop n s)) (rev [0..<Suc (run_length k s)])"
| "match_here (Plus k # is) s =
     first_some (\<lambda>n. match_here is (drop n s)) (rev [1..<Suc (run_length k s)])"
| "match_here (LazyStar k # is) s =
     first_some (\<lambda>n. match_here is (drop n s)) [0..<Suc (run_length k s)]"
| "match_here (CapPlus nm k # is) s =
     first_some
       (\<lambda>n. map_option (\<lambda>(c, r). (c(nm \<mapsto> take n s), r)) (match_here is (drop n s)))
       (rev [1..<Suc (run_length k s)])"
| "match_here (OptCap nm l # is) s =
     (case (if prefix l s
            then map_option (\<lambda>(c, r). (c(nm \<mapsto> l), r)) (match_here is (drop (length l) s))
            else None) of
        Some m \<Rightarrow> Some m
      | None \<Rightarrow> match_here is s)"

text \<open>The leftmost match, and the matches one after the other (no pattern matches empty).\<close>

fun search :: "item list \<Rightarrow> string \<Rightarrow> (captures \<times> string) option" where
  "search is [] = match_here is []"
| "search is (c # s) =
     (case match_here is (c # s) of Some m \<Rightarrow> Some m | None \<Rightarrow> search is s)"

fun search_all :: "nat \<Rightarrow> item list \<Rightarrow> string \<Rightarrow> captures list" where
  "search_all 0 is s = []"
| "search_all (Suc n) is s =
     (case search is s of
        None \<Rightarrow> []
      | Some (c, r) \<Rightarrow> c # search_all n is r)"

definition leftmost_first :: regex_engine where
  "leftmost_first =
     \<lparr>rx_captures = (\<lambda>is s. map_option fst (search is s)),
      rx_captures_iter = (\<lambda>is s. search_all (length s) is s)\<rparr>"

section \<open>Which line is parsed\<close>

lemma split_on_append: "split_on c (a @ c # b) = split_on c a @ split_on c b"
proof (induction a)
  case (Cons x xs)
  obtain y ys where "split_on c xs = y # ys" by (cases "split_on c xs") auto
  with Cons show ?case by auto
qed simp

lemma rust_lines_append:
  "rust_lines (a @ nl # b) = map strip_cr (split_on nl a) @ rust_lines b"
  by (simp add: rust_lines_def split_on_append Let_def butlast_append)

lemma rust_lines_last_line:
  "nl \<notin> set l \<Longrightarrow> rust_lines (a @ nl # l @ nl # b) = map strip_cr (split_on nl a) @ strip_cr l # rust_lines b"
  by (simp add: rust_lines_append split_on_free)

lemma find_append_none: "List.find P xs = None \<Longrightarrow> List.find P (xs @ ys) = List.find P ys"
  by (induction xs) (auto split: if_splits)

text \<open>
  C13. The last line that contains \<open>REPORT RequestId:\<close> is the one parsed, whatever a handler
  printed before it; a log tail without such a line is an error.
\<close>

theorem last_report_line_parsed:
  assumes "contains_str ''REPORT RequestId:'' (strip_cr l)" "nl \<notin> set l"
    and "list_all (\<lambda>x. \<not> contains_str ''REPORT RequestId:'' x) (rust_lines b)"
  shows "parse_report rx (a @ nl # l @ nl # b) = parse_report_line rx (strip_cr l) \<and>
    parse_report rx b = Inl (NoReportLine b)"
proof -
  let ?P = "contains_str ''REPORT RequestId:''"
  have none: "List.find ?P (rev (rust_lines b)) = None"
    using assms(3) by (simp add: find_None_iff list.pred_set)
  then have "List.find ?P (rev (rust_lines (a @ nl # l @ nl # b))) = Some (strip_cr l)"
    using assms(1,2) by (simp add: rust_lines_last_line find_append_none)
  with none show ?thesis by (simp add: parse_report_def)
qed


definition sample_tail :: string where
  "sample_tail =
     ''REPORT RequestId: spoof'' @ [nl] @
     ''REPORT RequestId: 12ab-cd'' @ [CHR 0x09] @ ''Duration: 12.50 ms'' @ [CHR 0x09] @
     ''Billed Duration: 13 ms'' @ [CHR 0x09] @ ''Memory Size: 128 MB'' @ [CHR 0x09] @
     ''Max Memory Used: 60 MB'' @ [CHR 0x09] @ ''Billed Restore Duration: 99 ms'' @ [CHR 0x09] @
     ''Restore Duration: 301.25 ms'' @ [nl]"

definition sample_report :: report where
  "sample_report =
     \<lparr>request_id = ''12ab-cd'', duration_ms = 25 / 2, billed_ms = 13, memory_size_mb = 128,
      max_memory_used_mb = 60, init_ms = None, restore_ms = Some (1205 / 4)\<rparr>"

definition sample_line :: string where
  "sample_line = hd (tl (rust_lines sample_tail))"

lemma sample_line_parsed: "parse_report_line leftmost_first sample_line = Inr sample_report"
  by code_simp

theorem last_report_line_parsed_witness:
  "parse_report leftmost_first (''REPORT RequestId: spoof'' @ nl # sample_line @ nl # ''END'') =
     Inr sample_report"
proof -
  have "contains_str ''REPORT RequestId:'' (strip_cr sample_line)" "nl \<notin> set sample_line"
    "strip_cr sample_line = sample_line" by code_simp+
  moreover have "list_all (\<lambda>x. \<not> contains_str ''REPORT RequestId:'' x) (rust_lines ''END'')"
    by code_simp
  ultimately show ?thesis
    using last_report_line_parsed [of sample_line "''END''" leftmost_first
        "''REPORT RequestId: spoof''"] sample_line_parsed
    by simp
qed


end
