(* ===== verification/Interfaces.thy ===== *)
theory Interfaces
  imports Rust_Str
begin

text \<open>
  The interfaces the components rely on, as locales: enumerations with a printed name that a
  command line is matched against (\<open>tag_enum\<close>), names that key a map of resources
  (\<open>name_space\<close>), step relations with an invariant (\<open>step_system\<close>) and those that refine an
  abstract one (\<open>step_refinement\<close>). Each is
  interpreted on the model's own definitions in the theory of the component that provides it.
\<close>

section \<open>Enumerations matched by name\<close>

text \<open>
  \<open>ALL.into_iter().find(|x| x.as_str() == s.trim())\<close>: what the code needs of \<open>ALL\<close> and
  \<open>as_str\<close> so that a printed name is read back as the variant it names and nothing else is
  accepted.
\<close>

locale tag_enum =
  fixes elems :: "'a list"
    and as_str :: "'a \<Rightarrow> string"
  assumes elems_complete: "x \<in> set elems"
    and as_str_inj: "as_str x = as_str y \<Longrightarrow> x = y"
    and as_str_no_ws: "list_all (\<lambda>c. \<not> is_ws c) (as_str x)"
begin

lemma find_as_str: "List.find (\<lambda>y. as_str y = as_str x) elems = Some x"
  by (rule find_unique) (auto simp: elems_complete dest: as_str_inj)

lemma find_padded:
  assumes "list_all is_ws us" "list_all is_ws vs"
  shows "List.find (\<lambda>y. as_str y = trim (us @ as_str x @ vs)) elems = Some x"
  using assms by (simp add: trim_padded as_str_no_ws find_as_str)

lemma find_accepts: "List.find (\<lambda>y. as_str y = t) elems = Some x \<longleftrightarrow> as_str x = t"
proof
  assume "List.find (\<lambda>y. as_str y = t) elems = Some x"
  then show "as_str x = t" by (blast dest: find_Some_mem)
next
  assume "as_str x = t"
  then show "List.find (\<lambda>y. as_str y = t) elems = Some x" using find_as_str by auto
qed

lemma find_rejects: "List.find (\<lambda>y. as_str y = t) elems = None \<longleftrightarrow> t \<notin> range as_str"
  by (auto simp: find_None_iff elems_complete)

end

section \<open>Names that key resources\<close>

text \<open>
  Everything the driver creates or looks up is keyed by a name derived from a configuration
  value. The provider promises that, on the values it is used for (\<open>ok\<close>), the name
  determines the value; the client then knows that a map filled under the names has one
  entry per value and that a lookup finds the value's own entry.
\<close>

locale name_space =
  fixes ok :: "'a \<Rightarrow> bool"
    and name :: "'a \<Rightarrow> 'n"
  assumes name_inj: "ok x \<Longrightarrow> ok y \<Longrightarrow> name x = name y \<Longrightarrow> x = y"
begin

lemma inj_on_name: "(\<And>x. x \<in> A \<Longrightarrow> ok x) \<Longrightarrow> inj_on name A"
  by (auto simp: inj_on_def dest: name_inj)

lemma distinct_names:
  "distinct xs \<Longrightarrow> (\<And>x. x \<in> set xs \<Longrightarrow> ok x) \<Longrightarrow> distinct (map name xs)"
  by (simp add: distinct_map inj_on_name)

lemma card_names: "(\<And>x. x \<in> A \<Longrightarrow> ok x) \<Longrightarrow> card (name ` A) = card A"
  by (simp add: card_image inj_on_name)

lemma fill_lookup:
  assumes "\<And>x. x \<in> set xs \<Longrightarrow> ok x" "x \<in> set xs"
  shows "foldl (\<lambda>m y. m(name y \<mapsto> f y)) m xs (name x) = Some (f x)"
  using assms
proof (induction xs arbitrary: m x rule: rev_induct)
  case Nil
  then show ?case by simp
next
  case (snoc y ys)
  show ?case
  proof (cases "name x = name y")
    case True
    with snoc.prems have "x = y" by (auto intro: name_inj)
    then show ?thesis by simp
  next
    case False
    with snoc.prems have "x \<in> set ys" by auto
    with snoc.IH snoc.prems(1) False show ?thesis by simp
  qed
qed

lemma fill_dom: "dom (foldl (\<lambda>m y. m(name y \<mapsto> f y)) m xs) = dom m \<union> name ` set xs"
  by (induction xs arbitrary: m) auto

end

section \<open>Step relations with an invariant\<close>

text \<open>
  A component that moves in steps it does not control (concurrent tasks, interleaved
  callers) promises an invariant that holds at the start and that every step keeps; a client
  may then assume it of every reachable state.
\<close>

locale step_system =
  fixes start :: "'s \<Rightarrow> bool"
    and step :: "'s \<Rightarrow> 's \<Rightarrow> bool"
    and inv :: "'s \<Rightarrow> bool"
  assumes inv_start: "start s \<Longrightarrow> inv s"
    and inv_step: "step s t \<Longrightarrow> inv s \<Longrightarrow> inv t"
begin

lemma inv_steps: "step\<^sup>*\<^sup>* s t \<Longrightarrow> inv s \<Longrightarrow> inv t"
  by (induction rule: rtranclp_induct) (auto intro: inv_step)

lemma inv_reachable: "start s \<Longrightarrow> step\<^sup>*\<^sup>* s t \<Longrightarrow> inv t"
  by (blast intro: inv_steps inv_start)

end

section \<open>Refinement of a step relation\<close>

text \<open>
  A component in steps that implements an abstract one: under its invariant every step is, through
  the abstraction, a step of the specification or none.
\<close>

locale step_refinement = step_system start step inv
  for start :: "'s \<Rightarrow> bool" and step :: "'s \<Rightarrow> 's \<Rightarrow> bool" and inv :: "'s \<Rightarrow> bool" +
  fixes abs :: "'s \<Rightarrow> 'a"
    and astep :: "'a \<Rightarrow> 'a \<Rightarrow> bool"
  assumes step_abs: "step s t \<Longrightarrow> inv s \<Longrightarrow> abs t = abs s \<or> astep (abs s) (abs t)"
begin

lemma abs_steps: "step\<^sup>*\<^sup>* s t \<Longrightarrow> inv s \<Longrightarrow> astep\<^sup>*\<^sup>* (abs s) (abs t)"
proof (induction rule: rtranclp_induct)
  case base
  then show ?case by simp
next
  case (step t u)
  from step_abs [OF step.hyps(2) inv_steps [OF step.hyps(1) step.prems]] step.IH [OF step.prems]
  show ?case by (metis rtranclp.rtrancl_into_rtrancl)
qed

lemma abs_reachable: "start s \<Longrightarrow> step\<^sup>*\<^sup>* s t \<Longrightarrow> astep\<^sup>*\<^sup>* (abs s) (abs t)"
  by (blast intro: abs_steps inv_start)

end

end
