(* ===== verification/Rate_Limiter.thy ===== *)
theory Rate_Limiter
  imports Interfaces
begin

text \<open>
  \<open>bencher/src/aws/rate_limiter.rs\<close>: the limiter that spaces control-plane requests. Instants
  and durations are nanoseconds. \<open>reserve\<close> is the critical section of \<open>acquire\<close>; callers that
  run concurrently pass it one after the other, in any order and with any clock readings, so
  a run of the limiter is the list of the clock readings in the order the lock was taken.
\<close>

record limiter =
  interval :: nat
  slot :: nat

text \<open>\<open>RateLimiter::per_second\<close>: the assertion on \<open>max_tps\<close> is the \<open>None\<close> branch, and the
  division of the \<open>Duration\<close> truncates to whole nanoseconds.\<close>

definition per_second :: "nat \<Rightarrow> nat \<Rightarrow> limiter option" where
  "per_second max_tps now =
     (if 0 < max_tps then Some \<lparr>interval = 1000000000 div max_tps, slot = now\<rparr> else None)"

definition reserve :: "limiter \<Rightarrow> nat \<Rightarrow> nat \<times> limiter" where
  "reserve l now = (let start = max (slot l) now in (start, l\<lparr>slot := start + interval l\<rparr>))"

fun reserve_all :: "limiter \<Rightarrow> nat list \<Rightarrow> nat list" where
  "reserve_all l [] = []"
| "reserve_all l (now # nows) = (case reserve l now of (start, l') \<Rightarrow> start # reserve_all l' nows)"

definition CONTROL_PLANE_TPS :: nat where "CONTROL_PLANE_TPS = 12"
definition LOG_GROUP_DELETE_TPS :: nat where "LOG_GROUP_DELETE_TPS = 8"

section \<open>Spacing\<close>

lemma reserve_simps [simp]:
  "fst (reserve l now) = max (slot l) now"
  "slot (snd (reserve l now)) = max (slot l) now + interval l"
  "interval (snd (reserve l now)) = interval l"
  by (simp_all add: reserve_def Let_def)

lemma reserve_all_Cons [simp]:
  "reserve_all l (now # nows) = max (slot l) now # reserve_all (snd (reserve l now)) nows"
  by (simp add: reserve_def Let_def)

declare reserve_all.simps(2) [simp del]

lemma length_reserve_all [simp]: "length (reserve_all l nows) = length nows"
  by (induction nows arbitrary: l) simp_all

lemma reserve_all_ge_slot: "x \<in> set (reserve_all l nows) \<Longrightarrow> slot l \<le> x"
proof (induction nows arbitrary: l)
  case Nil
  then show ?case by simp
next
  case (Cons now nows)
  then show ?case using Cons.IH [of "snd (reserve l now)"] by fastforce
qed

text \<open>Consecutive elements at least \<open>d\<close> apart.\<close>

fun spaced :: "nat \<Rightarrow> nat list \<Rightarrow> bool" where
  "spaced d [] = True"
| "spaced d [x] = True"
| "spaced d (x # y # ys) = (x + d \<le> y \<and> spaced d (y # ys))"

lemma spaced_Cons: "spaced d (x # xs) \<longleftrightarrow> spaced d xs \<and> (\<forall>y \<in> set xs. x + d \<le> y)"
  by (induction d xs arbitrary: x rule: spaced.induct) force+

lemma spaced_filter: "spaced d xs \<Longrightarrow> spaced d (filter P xs)"
  by (induction xs) (auto simp: spaced_Cons)

lemma reserve_all_spaced: "spaced (interval l) (reserve_all l nows)"
proof (induction nows arbitrary: l)
  case Nil
  show ?case by simp
next
  case (Cons now nows)
  show ?case
    using Cons.IH [of "snd (reserve l now)"]
      reserve_all_ge_slot [of _ "snd (reserve l now)" nows]
    by (auto simp: spaced_Cons)
qed

lemma spaced_nth: "spaced d xs \<Longrightarrow> i \<le> j \<Longrightarrow> j < length xs \<Longrightarrow> xs ! i + (j - i) * d \<le> xs ! j"
proof (induction xs arbitrary: i j)
  case Nil
  then show ?case by simp
next
  case (Cons x xs)
  show ?case
  proof (cases j)
    case 0
    with Cons.prems show ?thesis by simp
  next
    case (Suc j')
    show ?thesis
    proof (cases i)
      case (Suc i')
      with Cons.prems \<open>j = Suc j'\<close> Cons.IH [of i' j'] show ?thesis by (simp add: spaced_Cons)
    next
      case 0
      have "x + d \<le> xs ! 0" using Cons.prems Suc by (cases xs) auto
      moreover have "xs ! 0 + j' * d \<le> xs ! j'"
        using Cons.IH [of 0 j'] Cons.prems Suc by (simp add: spaced_Cons)
      ultimately show ?thesis using Suc 0 by simp
    qed
  qed
qed

lemma spaced_span:
  assumes "spaced d xs" "xs \<noteq> []" "\<And>x. x \<in> set xs \<Longrightarrow> a \<le> x \<and> x < a + w" "0 < d"
  shows "length xs \<le> (w - 1) div d + 1"
proof -
  let ?n = "length xs - 1"
  have "xs ! 0 + ?n * d \<le> xs ! ?n"
    using spaced_nth [OF assms(1), of 0 ?n] assms(2) by simp
  moreover have "a \<le> xs ! 0" "xs ! ?n < a + w"
    using assms(2,3) by (simp_all add: nth_mem)
  ultimately have "?n * d \<le> w - 1" by linarith
  then have "?n \<le> (w - 1) div d" using assms(4) by (simp add: less_eq_div_iff_mult_less_eq)
  then show ?thesis by linarith
qed

lemma reserve_all_ge_now:
  "i < length nows \<Longrightarrow> nows ! i \<le> reserve_all l nows ! i"
  by (induction nows arbitrary: l i) (auto simp: nth_Cons split: nat.splits)

lemma reserve_all_le:
  "(\<And>t. t \<in> set nows \<Longrightarrow> t \<le> m) \<Longrightarrow> i < length nows \<Longrightarrow>
    reserve_all l nows ! i \<le> max (slot l) m + i * interval l"
proof (induction nows arbitrary: l i)
  case Nil
  then show ?case by simp
next
  case (Cons t nows)
  show ?case
  proof (cases i)
    case 0
    with Cons.prems(1) [of t] show ?thesis by simp
  next
    case (Suc j)
    let ?l = "snd (reserve l t)"
    have "reserve_all ?l nows ! j \<le> max (slot ?l) m + j * interval l"
      using Cons.IH [of j ?l] Cons.prems Suc by simp
    moreover have "max (slot ?l) m \<le> max (slot l) m + interval l"
      using Cons.prems(1) [of t] by (auto simp: max_def)
    ultimately have "reserve_all ?l nows ! j \<le> (max (slot l) m + interval l) + j * interval l"
      by linarith
    then show ?thesis using Suc by (simp only: reserve_all_Cons nth_Cons_Suc) simp
  qed
qed

lemma thirteen: "replicate 13 x = [x, x, x, x, x, x, x, x, x, x, x, x, x]"
  by (simp add: numeral_eq_Suc)

section \<open>Properties\<close>

text \<open>
  C29. Whatever the order and the clock readings of concurrent callers, the reserved slots are
  in order and a full interval apart, none lies before the caller's own reading, and no
  caller waits longer than one interval for each caller served before it beyond the latest
  reading: no burst, no lost slot, no starvation.
\<close>

theorem limiter_spacing:
  assumes "i < j" "j < length nows"
  shows "reserve_all l nows ! i + (j - i) * interval l \<le> reserve_all l nows ! j \<and>
    nows ! j \<le> reserve_all l nows ! j \<and>
    reserve_all l nows ! j \<le> max (slot l) (Max (set nows)) + j * interval l"
proof (intro conjI)
  show "reserve_all l nows ! i + (j - i) * interval l \<le> reserve_all l nows ! j"
    using spaced_nth [OF reserve_all_spaced [of l nows], of i j] assms by simp
  show "nows ! j \<le> reserve_all l nows ! j" by (rule reserve_all_ge_now) (rule assms(2))
  show "reserve_all l nows ! j \<le> max (slot l) (Max (set nows)) + j * interval l"
    using assms(2) by (intro reserve_all_le) auto
qed

theorem limiter_spacing_witness:
  "reserve_all \<lparr>interval = 100, slot = 0\<rparr> [0, 0, 750, 10] = [0, 100, 750, 850] \<and>
   0 + (3 - 0) * 100 \<le> (850 :: nat)"
  using limiter_spacing [where i = 0 and j = 3 and nows = "[0, 0, 750, 10]"
      and l = "\<lparr>interval = 100, slot = 0\<rparr>"]
  by (simp add: reserve_def)

text \<open>
  C31. A limiter made by \<open>per_second\<close> for the control plane (12 per second) starts at most 13
  requests in any second, under Lambda's quota of 15, and the one for log groups (8 per
  second) at most 8, under the cap of 10. The thirteenth is possible: the interval is
  truncated to 83333333 ns, twelve of which are less than a second.
\<close>

theorem limiter_window:
  assumes "per_second tps t0 = Some l" "tps = CONTROL_PLANE_TPS \<or> tps = LOG_GROUP_DELETE_TPS"
  shows "length (filter (\<lambda>x. a \<le> x \<and> x < a + 1000000000) (reserve_all l nows))
      \<le> (if tps = CONTROL_PLANE_TPS then 13 else 8) \<and>
    length (filter (\<lambda>x. 0 \<le> x \<and> x < 1000000000)
      (reserve_all \<lparr>interval = 1000000000 div CONTROL_PLANE_TPS, slot = 0\<rparr> (replicate 13 0))) = 13"
proof
  let ?xs = "filter (\<lambda>x. a \<le> x \<and> x < a + 1000000000) (reserve_all l nows)"
  have i: "interval l = 1000000000 div tps"
    using assms(1) by (auto simp: per_second_def split: if_splits)
  have sp: "spaced (interval l) ?xs" by (rule spaced_filter [OF reserve_all_spaced])
  have pos: "0 < interval l"
    using assms(2) i by (auto simp: CONTROL_PLANE_TPS_def LOG_GROUP_DELETE_TPS_def)
  show "length ?xs \<le> (if tps = CONTROL_PLANE_TPS then 13 else 8)"
  proof (cases "?xs = []")
    case False
    have "length ?xs \<le> (1000000000 - 1) div interval l + 1"
      by (rule spaced_span [OF sp False _ pos]) auto
    then show ?thesis
      using assms(2) i by (auto simp: CONTROL_PLANE_TPS_def LOG_GROUP_DELETE_TPS_def)
  qed simp
  show "length (filter (\<lambda>x. 0 \<le> x \<and> x < 1000000000)
      (reserve_all \<lparr>interval = 1000000000 div CONTROL_PLANE_TPS, slot = 0\<rparr> (replicate 13 0))) = 13"
    by (simp add: thirteen CONTROL_PLANE_TPS_def reserve_def)
qed

theorem limiter_window_witness:
  "length (filter (\<lambda>x. 5 \<le> x \<and> x < 5 + 1000000000)
     (reserve_all \<lparr>interval = 125000000, slot = 5\<rparr> [5, 5, 5])) \<le> 8"
proof -
  have "per_second LOG_GROUP_DELETE_TPS 5 = Some \<lparr>interval = 125000000, slot = 5\<rparr>"
    by (simp add: per_second_def LOG_GROUP_DELETE_TPS_def)
  from conjunct1 [OF limiter_window [OF this disjI2 [OF refl], of 5 "[5, 5, 5]"]]
  show ?thesis by (simp only: CONTROL_PLANE_TPS_def LOG_GROUP_DELETE_TPS_def) simp
qed

end
