(* ===== verification/Config.thy ===== *)
theory Config
  imports Interfaces "HOL-Library.Char_ord" "HOL-Library.List_Lexorder"
begin

text \<open>
  \<open>bencher/src/config.rs\<close>: the benchmark matrix (languages, scenarios, architectures, memory
  tiers, the Rust and Java dimensions), the iteration counts, and every name derived from a
  cell: function names, artifact labels, handlers, log groups. The 32-bit memory sizes are
  \<open>int\<close> and the unsigned counts are \<open>nat\<close>: they come from the fixed tables below.
\<close>

section \<open>Resource names\<close>

definition REGION :: string where "REGION = ''eu-central-1''"
definition PREFIX :: string where "PREFIX = ''lambdabench''"
definition RESOURCE_PREFIX :: string where "RESOURCE_PREFIX = ''lambdabench-''"
definition ROLE_NAME :: string where "ROLE_NAME = ''lambdabench-lambda-exec''"
definition INLINE_POLICY_NAME :: string where "INLINE_POLICY_NAME = ''lambdabench-scenario-access''"
definition TABLE_NAME :: string where "TABLE_NAME = ''lambdabench-table''"
definition TABLE_PK :: string where "TABLE_PK = ''pk''"
definition SEED_KEY :: string where "SEED_KEY = ''lambdabench-item''"
definition SEED_PAYLOAD :: string where "SEED_PAYLOAD = ''lambdabench-seeded-payload-value''"
definition SEED_VERSION_META_KEY :: string where
  "SEED_VERSION_META_KEY = ''lambdabench-seed-version''"
definition KMS_ALIAS :: string where "KMS_ALIAS = ''alias/lambdabench-key''"
definition KMS_TAG_KEY :: string where "KMS_TAG_KEY = ''lambdabench-managed-kms-key''"
definition KMS_TAG_VALUE :: string where "KMS_TAG_VALUE = ''true''"
definition S3_BUCKET_SUFFIX :: string where "S3_BUCKET_SUFFIX = PREFIX"
definition S3_OBJECT_KEY :: string where "S3_OBJECT_KEY = ''lambdabench-object''"
definition S3_OBJECT_BODY :: string where "S3_OBJECT_BODY = ''lambdabench-seeded-s3-object-body''"
definition S3_LETTERCOUNT_KEY :: string where
  "S3_LETTERCOUNT_KEY = ''lambdabench-lettercount.json''"
definition S3_LETTERCOUNT_PAYLOAD_BYTES :: nat where "S3_LETTERCOUNT_PAYLOAD_BYTES = 1000000"
definition S3_BATCH_KEY :: string where "S3_BATCH_KEY = ''lambdabench-batch.json''"
definition S3_BATCH_PAYLOAD_BYTES :: nat where "S3_BATCH_PAYLOAD_BYTES = 16000000"
definition S3_BATCH_KEY_CARDINALITY :: nat where "S3_BATCH_KEY_CARDINALITY = 1000"
definition LAMBDA_LOG_GROUP_PREFIX :: string where "LAMBDA_LOG_GROUP_PREFIX = ''/aws/lambda/''"
definition SYNTH_DEFAULT_SIZES_MB :: "nat list" where
  "SYNTH_DEFAULT_SIZES_MB = [1, 10, 50, 100, 200]"
definition SYNTH_ZIP_FAMILIES :: "string list" where "SYNTH_ZIP_FAMILIES = [''python'', ''rust'']"
definition SYNTH_IMAGE_FAMILIES :: "string list" where
  "SYNTH_IMAGE_FAMILIES = [''image-untouched'', ''image-touched'']"
definition ECR_REPO :: string where "ECR_REPO = ''lambdabench-synthdl''"
definition PREWARM_NONEXISTENT_FN :: string where
  "PREWARM_NONEXISTENT_FN = ''lambdabench-probe-prewarm-nonexistent''"
definition ORDER_PK :: string where "ORDER_PK = ''lambdabench-order''"
definition S3_RECEIPT_KEY :: string where "S3_RECEIPT_KEY = ''lambdabench-receipt''"
definition DEFAULT_POOL :: nat where "DEFAULT_POOL = 32"

definition synth_function_name :: "string \<Rightarrow> nat \<Rightarrow> string" where
  "synth_function_name family size_mb =
     RESOURCE_PREFIX @ ''synthdl-'' @ family @ ''-'' @ show_nat size_mb @ ''mb''"

section \<open>Languages, scenarios, architectures\<close>

datatype lang = Rust | Node | Java | Python | Go

datatype scenario =
    Hello | Smithy | OneClient | ThreeClient | SmithyFull | LetterCount | Authz | Batch | Cache

datatype arch = Arm64 | X86_64

definition Lang_ALL :: "lang list" where "Lang_ALL = [Rust, Node, Java, Python, Go]"

fun lang_as_str :: "lang \<Rightarrow> string" where
  "lang_as_str Rust = ''rust''"
| "lang_as_str Node = ''node''"
| "lang_as_str Java = ''java''"
| "lang_as_str Python = ''python''"
| "lang_as_str Go = ''go''"

text \<open>The error text of the three \<open>parse\<close> functions.\<close>

definition unknown_name :: "string \<Rightarrow> string \<Rightarrow> string list \<Rightarrow> string" where
  "unknown_name kind s names =
     ''unknown '' @ kind @ '' '' @ [CHR 0x27] @ s @ [CHR 0x27] @ '' (valid: '' @
     join_with '', '' names @ '')''"

definition lang_parse :: "string \<Rightarrow> string + lang" where
  "lang_parse s =
     ok_or (unknown_name ''lang'' s (map lang_as_str Lang_ALL))
       (List.find (\<lambda>l. lang_as_str l = trim s) Lang_ALL)"

fun runtime :: "lang \<Rightarrow> string" where
  "runtime Rust = ''provided.al2023''"
| "runtime Node = ''nodejs24.x''"
| "runtime Java = ''java25''"
| "runtime Python = ''python3.14''"
| "runtime Go = ''provided.al2023''"

definition supports :: "lang \<Rightarrow> scenario \<Rightarrow> bool" where
  "supports l s =
     (case l of
        Python \<Rightarrow> \<not> (s = Smithy \<or> s = SmithyFull)
      | Go \<Rightarrow> \<not> (s = Smithy \<or> s = SmithyFull)
      | _ \<Rightarrow> True)"

definition Scenario_ALL :: "scenario list" where
  "Scenario_ALL =
     [Hello, Smithy, OneClient, ThreeClient, SmithyFull, LetterCount, Authz, Batch, Cache]"

fun scenario_as_str :: "scenario \<Rightarrow> string" where
  "scenario_as_str Hello = ''hello''"
| "scenario_as_str Smithy = ''smithy''"
| "scenario_as_str OneClient = ''oneclient''"
| "scenario_as_str ThreeClient = ''threeclient''"
| "scenario_as_str SmithyFull = ''smithyfull''"
| "scenario_as_str LetterCount = ''lettercount''"
| "scenario_as_str Authz = ''authz''"
| "scenario_as_str Batch = ''batch''"
| "scenario_as_str Cache = ''cache''"

definition scenario_parse :: "string \<Rightarrow> string + scenario" where
  "scenario_parse s =
     ok_or (unknown_name ''scenario'' s (map scenario_as_str Scenario_ALL))
       (List.find (\<lambda>sc. scenario_as_str sc = trim s) Scenario_ALL)"

definition min_memory_mb :: "scenario \<Rightarrow> lang \<Rightarrow> bool \<Rightarrow> int" where
  "min_memory_mb s l snap =
     (case (s, l) of
        (Batch, Java) \<Rightarrow> if snap then 1024 else 512
      | (Batch, _) \<Rightarrow> 256
      | (SmithyFull, Java) \<Rightarrow> if snap then 256 else 128
      | (LetterCount, Java) \<Rightarrow> 512
      | (Cache, _) \<Rightarrow> 512
      | _ \<Rightarrow> 128)"

definition is_http_fronted :: "scenario \<Rightarrow> bool" where
  "is_http_fronted s = (s = Smithy \<or> s = SmithyFull)"

definition needs_ddb :: "scenario \<Rightarrow> bool" where
  "needs_ddb s = (s = OneClient \<or> s = ThreeClient \<or> s = SmithyFull)"

definition needs_kms_s3 :: "scenario \<Rightarrow> bool" where
  "needs_kms_s3 s = (s = ThreeClient \<or> s = SmithyFull)"

definition needs_s3 :: "scenario \<Rightarrow> bool" where
  "needs_s3 s = (needs_kms_s3 s \<or> s = LetterCount \<or> s = Batch)"

definition FULL_LIGHT_COUNTS :: "nat \<times> nat" where "FULL_LIGHT_COUNTS = (50, 50)"
definition SMOKE_COUNTS :: "nat \<times> nat" where "SMOKE_COUNTS = (2, 2)"
definition SNAPSTART_COLD_CYCLES :: nat where "SNAPSTART_COLD_CYCLES = 10"

definition full_base_counts :: "scenario \<Rightarrow> lang \<Rightarrow> int \<Rightarrow> nat \<times> nat" where
  "full_base_counts s l memory =
     (let starved_python = (l = Python \<and> memory \<le> 256)
      in case s of
           LetterCount \<Rightarrow> if starved_python then (5, 300) else (5, 1500)
         | Cache \<Rightarrow> (5, 1500)
         | Authz \<Rightarrow> (5, 1500)
         | Batch \<Rightarrow> if starved_python then (5, 200) else (15, 200)
         | _ \<Rightarrow> FULL_LIGHT_COUNTS)"

definition Arch_ALL :: "arch list" where "Arch_ALL = [Arm64, X86_64]"

fun arch_as_str :: "arch \<Rightarrow> string" where
  "arch_as_str Arm64 = ''arm64''"
| "arch_as_str X86_64 = ''x86_64''"

definition arch_parse :: "string \<Rightarrow> string + arch" where
  "arch_parse s =
     ok_or (unknown_name ''arch'' s (map arch_as_str Arch_ALL))
       (List.find (\<lambda>a. arch_as_str a = trim s) Arch_ALL)"

fun lambda_arch :: "arch \<Rightarrow> string" where
  "lambda_arch Arm64 = ''arm64''"
| "lambda_arch X86_64 = ''x86_64''"

fun oci_arch :: "arch \<Rightarrow> string" where
  "oci_arch Arm64 = ''arm64''"
| "oci_arch X86_64 = ''amd64''"

definition MEMORY_MB :: "int list" where "MEMORY_MB = [128, 256, 512, 1024, 2048, 3008]"

definition bad_memory :: "int \<Rightarrow> string" where
  "bad_memory m =
     ''--memory '' @ show_int m @ '' is not a swept tier (valid: '' @
     join_with '', '' (map show_int MEMORY_MB) @ '')''"

fun validate_memory_tiers :: "int list \<Rightarrow> string + unit" where
  "validate_memory_tiers [] = Inr ()"
| "validate_memory_tiers (m # ms) =
     (if m \<notin> set MEMORY_MB then Inl (bad_memory m) else validate_memory_tiers ms)"

section \<open>Cells\<close>

datatype profile = Full | Smoke

datatype opt = O3 | Oz

definition Opt_ALL :: "opt list" where "Opt_ALL = [O3, Oz]"

fun opt_as_str :: "opt \<Rightarrow> string" where
  "opt_as_str O3 = ''o3''"
| "opt_as_str Oz = ''oz''"

fun cargo_opt_level :: "opt \<Rightarrow> string" where
  "cargo_opt_level O3 = ''3''"
| "cargo_opt_level Oz = ''z''"

datatype jitter = On | Off

fun jitter_as_str :: "jitter \<Rightarrow> string" where
  "jitter_as_str On = ''on''"
| "jitter_as_str Off = ''off''"

definition JITTER_AB_SCENARIOS :: "scenario list" where
  "JITTER_AB_SCENARIOS = [OneClient, LetterCount]"

record cell =
  lang :: lang
  scenario :: scenario
  arch :: arch
  memory_mb :: int
  opt :: "opt option"
  snapstart :: bool
  jitter :: "jitter option"

definition is_jitter_ab :: "cell \<Rightarrow> bool" where
  "is_jitter_ab c \<longleftrightarrow>
     lang c = Rust \<and> opt c = Some O3 \<and> scenario c \<in> set JITTER_AB_SCENARIOS"

text \<open>The conjunction of the debug assertions of \<open>Cell::assert_valid\<close>.\<close>

definition assert_valid :: "cell \<Rightarrow> bool" where
  "assert_valid c \<longleftrightarrow>
     (opt c \<noteq> None \<longleftrightarrow> lang c = Rust) \<and>
     (jitter c \<noteq> None \<longleftrightarrow> lang c = Rust) \<and>
     (snapstart c \<longrightarrow> lang c = Java) \<and>
     \<not> (snapstart c \<and> jitter c = Some On) \<and>
     (jitter c = Some On \<longrightarrow> is_jitter_ab c)"

definition iterations :: "cell \<Rightarrow> profile \<Rightarrow> nat \<times> nat" where
  "iterations c p =
     (let (cold, warm) =
            (case p of
               Smoke \<Rightarrow> SMOKE_COUNTS
             | Full \<Rightarrow>
                 if is_jitter_ab c then FULL_LIGHT_COUNTS
                 else full_base_counts (scenario c) (lang c) (memory_mb c))
      in if snapstart c then (min cold SNAPSTART_COLD_CYCLES, warm) else (cold, warm))"

definition name_parts :: "cell \<Rightarrow> string list" where
  "name_parts c =
     [PREFIX, lang_as_str (lang c), scenario_as_str (scenario c), arch_as_str (arch c)] @
     (case opt c of Some o' \<Rightarrow> [opt_as_str o'] | None \<Rightarrow> []) @
     (if snapstart c then [''snap''] else []) @
     (if jitter c = Some On then [''jitter''] else []) @
     [show_int (memory_mb c)]"

definition function_name :: "cell \<Rightarrow> string" where
  "function_name c = join_with ''-'' (name_parts c)"

fun scenario_class :: "scenario \<Rightarrow> string" where
  "scenario_class Hello = ''Hello''"
| "scenario_class Smithy = ''Smithy''"
| "scenario_class OneClient = ''OneClient''"
| "scenario_class ThreeClient = ''ThreeClient''"
| "scenario_class SmithyFull = ''SmithyFull''"
| "scenario_class LetterCount = ''LetterCount''"
| "scenario_class Authz = ''Authz''"
| "scenario_class Batch = ''Batch''"
| "scenario_class Cache = ''Cache''"

definition handler :: "cell \<Rightarrow> string" where
  "handler c =
     (case lang c of
        Rust \<Rightarrow> ''bootstrap''
      | Go \<Rightarrow> ''bootstrap''
      | Node \<Rightarrow> ''index.handler''
      | Java \<Rightarrow>
          (if scenario c = Smithy \<or> scenario c = SmithyFull
           then ''software.amazon.smithy.java.aws.integrations.lambda.LambdaEndpoint::handleRequest''
           else ''lambdabench.'' @ scenario_class (scenario c) @ ''Handler::handleRequest'')
      | Python \<Rightarrow> ''handler.handler'')"

section \<open>Artifacts\<close>

definition arch_significant :: "lang \<Rightarrow> scenario \<Rightarrow> bool" where
  "arch_significant l s =
     (case l of
        Rust \<Rightarrow> True
      | Go \<Rightarrow> True
      | Python \<Rightarrow> s = Authz
      | Node \<Rightarrow> False
      | Java \<Rightarrow> False)"

record artifact_key =
  key_lang :: lang
  key_scenario :: scenario
  key_arch :: arch
  key_opt :: "opt option"
  key_jitter :: "jitter option"

definition artifact_key_of :: "cell \<Rightarrow> artifact_key" where
  "artifact_key_of c =
     \<lparr>key_lang = lang c, key_scenario = scenario c,
      key_arch = (if arch_significant (lang c) (scenario c) then arch c else Arm64),
      key_opt = opt c, key_jitter = jitter c\<rparr>"

definition label_of :: "artifact_key \<Rightarrow> string" where
  "label_of k =
     (let sc = scenario_as_str (key_scenario k); ar = arch_as_str (key_arch k)
      in case key_lang k of
           Rust \<Rightarrow>
             (let base = ''rust-'' @ sc @ ''-'' @ ar @ ''-'' @
                         (case key_opt k of Some o' \<Rightarrow> opt_as_str o' | None \<Rightarrow> ''o3'')
              in if key_jitter k = Some On then base @ ''-jitter'' else base)
         | Node \<Rightarrow> ''node-'' @ sc
         | Java \<Rightarrow> ''java-'' @ sc
         | Go \<Rightarrow> ''go-'' @ sc @ ''-'' @ ar
         | Python \<Rightarrow>
             if arch_significant Python (key_scenario k) then ''python-'' @ sc @ ''-'' @ ar
             else ''python-'' @ sc)"

section \<open>The matrix\<close>

text \<open>The innermost body of \<open>all_cells\<close>: the cells pushed for one arch and memory tier.\<close>

definition cells_at :: "lang \<Rightarrow> scenario \<Rightarrow> arch \<Rightarrow> int \<Rightarrow> cell list" where
  "cells_at l s a m =
     (let below_floor = (\<lambda>snap. m < min_memory_mb s l snap);
          mk = (\<lambda>o' snap j. \<lparr>lang = l, scenario = s, arch = a, memory_mb = m,
                             opt = o', snapstart = snap, jitter = j\<rparr>)
      in case l of
           Rust \<Rightarrow>
             (if below_floor False then []
              else map (\<lambda>o'. mk (Some o') False (Some Off)) Opt_ALL @
                   (if s \<in> set JITTER_AB_SCENARIOS then [mk (Some O3) False (Some On)] else []))
         | Java \<Rightarrow>
             concat (map (\<lambda>snap. if below_floor snap then [] else [mk None snap None])
               [False, True])
         | _ \<Rightarrow> (if below_floor False then [] else [mk None False None]))"

definition all_cells :: "cell list" where
  "all_cells =
     concat (map (\<lambda>l.
       concat (map (\<lambda>s.
         if \<not> supports l s then []
         else concat (map (\<lambda>a. concat (map (cells_at l s a) MEMORY_MB)) Arch_ALL))
       Scenario_ALL))
     Lang_ALL)"

definition synth_names :: "string list" where
  "synth_names =
     concat (map (\<lambda>family. map (synth_function_name family) SYNTH_DEFAULT_SIZES_MB)
       (SYNTH_ZIP_FAMILIES @ SYNTH_IMAGE_FAMILIES))"

text \<open>\<open>sort_unstable\<close> then \<open>dedup\<close> of consecutive equal names (byte order).\<close>

definition all_managed_function_names :: "string list" where
  "all_managed_function_names = remdups_adj (sort (map function_name all_cells @ synth_names))"

definition all_managed_log_group_names :: "string list" where
  "all_managed_log_group_names =
     map (\<lambda>name. LAMBDA_LOG_GROUP_PREFIX @ name) all_managed_function_names"

definition cells_for_langs :: "lang list \<Rightarrow> cell list" where
  "cells_for_langs langs = filter (\<lambda>c. langs = [] \<or> lang c \<in> set langs) all_cells"

definition unique_artifacts :: "cell list \<Rightarrow> artifact_key list" where
  "unique_artifacts cells = dedup_first (map artifact_key_of cells)"

section \<open>Enumerations\<close>

interpretation langs: tag_enum Lang_ALL lang_as_str
proof unfold_locales
  show "x \<in> set Lang_ALL" for x by (cases x) (simp_all add: Lang_ALL_def)
  show "lang_as_str x = lang_as_str y \<Longrightarrow> x = y" for x y by (cases x; cases y) simp_all
  show "list_all (\<lambda>c. \<not> is_ws c) (lang_as_str x)" for x by (cases x) (simp_all add: is_ws_def)
qed

interpretation scenarios: tag_enum Scenario_ALL scenario_as_str
proof unfold_locales
  show "x \<in> set Scenario_ALL" for x by (cases x) (simp_all add: Scenario_ALL_def)
  show "scenario_as_str x = scenario_as_str y \<Longrightarrow> x = y" for x y by (cases x; cases y) simp_all
  show "list_all (\<lambda>c. \<not> is_ws c) (scenario_as_str x)" for x
    by (cases x) (simp_all add: is_ws_def)
qed

interpretation archs: tag_enum Arch_ALL arch_as_str
proof unfold_locales
  show "x \<in> set Arch_ALL" for x by (cases x) (simp_all add: Arch_ALL_def)
  show "arch_as_str x = arch_as_str y \<Longrightarrow> x = y" for x y by (cases x; cases y) simp_all
  show "list_all (\<lambda>c. \<not> is_ws c) (arch_as_str x)" for x by (cases x) (simp_all add: is_ws_def)
qed

lemma lang_parse_Inr: "lang_parse s = Inr l \<longleftrightarrow> trim s = lang_as_str l"
  using langs.find_accepts [of "trim s" l] by (auto simp: lang_parse_def)

lemma scenario_parse_Inr: "scenario_parse s = Inr sc \<longleftrightarrow> trim s = scenario_as_str sc"
  using scenarios.find_accepts [of "trim s" sc] by (auto simp: scenario_parse_def)

lemma arch_parse_Inr: "arch_parse s = Inr a \<longleftrightarrow> trim s = arch_as_str a"
  using archs.find_accepts [of "trim s" a] by (auto simp: arch_parse_def)

section \<open>The matrix as a set\<close>

definition in_matrix :: "cell \<Rightarrow> bool" where
  "in_matrix c \<longleftrightarrow>
     supports (lang c) (scenario c) \<and> memory_mb c \<in> set MEMORY_MB \<and>
     min_memory_mb (scenario c) (lang c) (snapstart c) \<le> memory_mb c \<and> assert_valid c"

lemma opt_mem [simp]: "x \<in> set Opt_ALL"
  by (cases x) (simp_all add: Opt_ALL_def)

lemma jitter_not_On: "j \<noteq> On \<longleftrightarrow> j = Off"
  by (cases j) simp_all

lemma cell_eq_iff:
  "(c :: cell) = d \<longleftrightarrow> lang c = lang d \<and> scenario c = scenario d \<and> arch c = arch d \<and>
     memory_mb c = memory_mb d \<and> opt c = opt d \<and> snapstart c = snapstart d \<and> jitter c = jitter d"
  by (cases c; cases d) simp

lemma mem_cells_at:
  "c \<in> set (cells_at l s a m) \<longleftrightarrow>
     lang c = l \<and> scenario c = s \<and> arch c = a \<and> memory_mb c = m \<and>
     min_memory_mb s l (snapstart c) \<le> m \<and> assert_valid c"
proof (cases l)
  case Rust
  then show ?thesis
    by (cases "opt c"; cases "jitter c"; cases "snapstart c")
       (auto simp: cell_eq_iff cells_at_def Let_def assert_valid_def is_jitter_ab_def jitter_not_On)
next
  case Java
  then show ?thesis
    by (cases "opt c"; cases "jitter c"; cases "snapstart c")
       (auto simp: cell_eq_iff cells_at_def Let_def assert_valid_def)
qed (cases "opt c"; cases "jitter c"; cases "snapstart c";
     auto simp: cell_eq_iff cells_at_def Let_def assert_valid_def)+

lemma mem_all_cells: "c \<in> set all_cells \<longleftrightarrow> in_matrix c"
  by (auto simp: all_cells_def in_matrix_def mem_cells_at langs.elems_complete
        scenarios.elems_complete archs.elems_complete)

lemma distinct_cells_at: "distinct (cells_at l s a m)"
  by (cases l) (auto simp: cells_at_def Let_def Opt_ALL_def)

lemma distinct_cells_mem: "distinct (concat (map (cells_at l s a) MEMORY_MB))"
  by (rule distinct_concat_key [where g = memory_mb])
     (simp_all add: MEMORY_MB_def distinct_cells_at mem_cells_at)

lemma mem_cells_mem:
  "c \<in> set (concat (map (cells_at l s a) MEMORY_MB)) \<Longrightarrow> lang c = l \<and> scenario c = s \<and> arch c = a"
  by (auto simp: mem_cells_at)

lemma distinct_cells_arch:
  "distinct (concat (map (\<lambda>a. concat (map (cells_at l s a) MEMORY_MB)) Arch_ALL))"
proof (rule distinct_concat_key [where g = arch])
  show "distinct Arch_ALL" by (simp add: Arch_ALL_def)
  show "distinct (concat (map (cells_at l s a) MEMORY_MB))" for a by (rule distinct_cells_mem)
  show "c \<in> set (concat (map (cells_at l s a) MEMORY_MB)) \<Longrightarrow> arch c = a" for a c
    using mem_cells_mem by blast
qed

definition cells_of :: "lang \<Rightarrow> scenario \<Rightarrow> cell list" where
  "cells_of l s =
     (if \<not> supports l s then []
      else concat (map (\<lambda>a. concat (map (cells_at l s a) MEMORY_MB)) Arch_ALL))"

lemma distinct_cells_of: "distinct (cells_of l s)"
  by (simp add: cells_of_def distinct_cells_arch del: set_concat)

lemma mem_cells_of: "c \<in> set (cells_of l s) \<Longrightarrow> lang c = l \<and> scenario c = s"
  by (auto simp: cells_of_def mem_cells_at split: if_splits)

lemma distinct_all_cells: "distinct all_cells"
  unfolding all_cells_def cells_of_def [symmetric]
proof (rule distinct_concat_key [where g = lang])
  show "distinct Lang_ALL" by (simp add: Lang_ALL_def)
  show "distinct (concat (map (cells_of l) Scenario_ALL))" for l
    by (rule distinct_concat_key [where g = scenario])
       (use mem_cells_of in \<open>simp_all add: Scenario_ALL_def distinct_cells_of\<close>)
  show "c \<in> set (concat (map (cells_of l) Scenario_ALL)) \<Longrightarrow> lang c = l" for l c
    by (auto dest: mem_cells_of)
qed

section \<open>Names\<close>

lemma lang_no_hyphen: "CHR ''-'' \<notin> set (lang_as_str l)"
  by (cases l) simp_all

lemma scenario_no_hyphen: "CHR ''-'' \<notin> set (scenario_as_str s)"
  by (cases s) simp_all

lemma arch_no_hyphen: "CHR ''-'' \<notin> set (arch_as_str a)"
  by (cases a) simp_all

lemma opt_no_hyphen: "CHR ''-'' \<notin> set (opt_as_str x)"
  by (cases x) simp_all

lemmas no_hyphen = lang_no_hyphen scenario_no_hyphen arch_no_hyphen opt_no_hyphen

lemma name_parts_no_hyphen:
  "0 \<le> memory_mb c \<Longrightarrow> p \<in> set (name_parts c) \<Longrightarrow> CHR ''-'' \<notin> set p"
  by (auto simp: name_parts_def PREFIX_def no_hyphen show_int_no_minus
        split: option.splits if_splits)

definition nameable :: "cell \<Rightarrow> bool" where
  "nameable c \<longleftrightarrow> assert_valid c \<and> 0 \<le> memory_mb c"

lemma in_matrix_nameable: "in_matrix c \<Longrightarrow> nameable c"
  by (auto simp: in_matrix_def nameable_def MEMORY_MB_def)

lemma opt_as_str_inj: "opt_as_str x = opt_as_str y \<longleftrightarrow> x = y"
  by (cases x; cases y) simp_all

lemma name_parts_inj:
  assumes "nameable c" "nameable d" "name_parts c = name_parts d"
  shows "c = d"
proof -
  have hd: "lang c = lang d" "scenario c = scenario d" "arch c = arch d"
    using assms(3)
    by (auto simp: name_parts_def dest: langs.as_str_inj scenarios.as_str_inj archs.as_str_inj)
  have mem: "memory_mb c = memory_mb d"
    using arg_cong [OF assms(3), of last] by (simp add: name_parts_def)
  have len: "length (name_parts c) = length (name_parts d)" using assms(3) by simp
  have rest: "opt c = opt d \<and> snapstart c = snapstart d \<and> jitter c = jitter d"
    using assms hd mem len
    by (cases "opt c"; cases "opt d"; cases "jitter c"; cases "jitter d";
        auto simp: nameable_def assert_valid_def name_parts_def opt_as_str_inj jitter_not_On
          split: if_splits)
  from hd mem rest show ?thesis by (simp add: cell.equality)
qed

lemma function_name_inj:
  assumes "nameable c" "nameable d" "function_name c = function_name d"
  shows "c = d"
proof -
  have "name_parts c \<noteq> []" "name_parts d \<noteq> []" by (simp_all add: name_parts_def)
  then have "name_parts c = name_parts d"
    using assms name_parts_no_hyphen
    by (intro join_with_inj [of _ _ "CHR ''-''"]) (auto simp: function_name_def nameable_def)
  with assms(1,2) show ?thesis by (rule name_parts_inj)
qed

interpretation fns: name_space nameable function_name
  by unfold_locales (rule function_name_inj)

definition valid_key :: "artifact_key \<Rightarrow> bool" where
  "valid_key k \<longleftrightarrow>
     (key_opt k \<noteq> None \<longleftrightarrow> key_lang k = Rust) \<and> (key_jitter k \<noteq> None \<longleftrightarrow> key_lang k = Rust) \<and>
     (\<not> arch_significant (key_lang k) (key_scenario k) \<longrightarrow> key_arch k = Arm64)"

lemma valid_key_of: "assert_valid c \<Longrightarrow> valid_key (artifact_key_of c)"
  by (simp add: valid_key_def assert_valid_def artifact_key_of_def)

definition label_parts :: "artifact_key \<Rightarrow> string list" where
  "label_parts k =
     [lang_as_str (key_lang k), scenario_as_str (key_scenario k)] @
     (if arch_significant (key_lang k) (key_scenario k) then [arch_as_str (key_arch k)] else []) @
     (if key_lang k = Rust
      then [case key_opt k of Some o' \<Rightarrow> opt_as_str o' | None \<Rightarrow> ''o3''] @
        (if key_jitter k = Some On then [''jitter''] else [])
      else [])"

lemma label_of_parts: "label_of k = join_with ''-'' (label_parts k)"
  by (cases "key_lang k") (simp_all add: label_of_def label_parts_def arch_significant_def Let_def)

lemma label_parts_no_hyphen: "p \<in> set (label_parts k) \<Longrightarrow> CHR ''-'' \<notin> set p"
  by (auto simp: label_parts_def no_hyphen split: option.splits if_splits)

lemma label_of_inj:
  assumes "valid_key k" "valid_key k'" "label_of k = label_of k'"
  shows "k = k'"
proof -
  have "label_parts k \<noteq> []" "label_parts k' \<noteq> []" by (simp_all add: label_parts_def)
  then have p: "label_parts k = label_parts k'"
    using assms(3) label_parts_no_hyphen
    by (intro join_with_inj [of _ _ "CHR ''-''"]) (auto simp: label_of_parts)
  then have l: "key_lang k = key_lang k'" "key_scenario k = key_scenario k'"
    by (auto simp: label_parts_def dest: langs.as_str_inj scenarios.as_str_inj)
  have a: "key_arch k = key_arch k'"
    using p l assms(1,2)
    by (cases "arch_significant (key_lang k) (key_scenario k)")
       (auto simp: label_parts_def valid_key_def dest: archs.as_str_inj)
  have len: "length (label_parts k) = length (label_parts k')" using p by simp
  have r: "key_opt k = key_opt k' \<and> key_jitter k = key_jitter k'"
    using p l a len assms(1,2)
    by (cases "key_opt k"; cases "key_opt k'"; cases "key_jitter k"; cases "key_jitter k'";
        auto simp: valid_key_def label_parts_def opt_as_str_inj jitter_not_On
          split: if_splits)
  from l a r show ?thesis by (simp add: artifact_key.equality)
qed

interpretation labels: name_space valid_key label_of
  by unfold_locales (rule label_of_inj)

section \<open>The managed names\<close>

lemma function_name_lang_segment:
  assumes "nameable c"
  shows "split_on (CHR ''-'') (function_name c) ! 1 = lang_as_str (lang c)"
proof -
  have "split_on (CHR ''-'') (function_name c) = name_parts c"
    unfolding function_name_def
    by (rule split_on_join) (use assms name_parts_no_hyphen in \<open>auto simp: name_parts_def nameable_def\<close>)
  then show ?thesis by (simp add: name_parts_def)
qed

lemma synth_name_segment:
  "n \<in> set synth_names \<Longrightarrow> split_on (CHR ''-'') n ! 1 = ''synthdl''"
  by (auto simp: synth_names_def synth_function_name_def RESOURCE_PREFIX_def)

lemma synth_not_matrix:
  assumes "n \<in> set synth_names" "nameable c"
  shows "n \<noteq> function_name c"
proof
  assume "n = function_name c"
  then have "lang_as_str (lang c) = ''synthdl''"
    using synth_name_segment [OF assms(1)] function_name_lang_segment [OF assms(2)] by simp
  then show False by (cases "lang c") simp_all
qed

lemma set_managed_names:
  "set all_managed_function_names = function_name ` set all_cells \<union> set synth_names"
  by (simp add: all_managed_function_names_def)

lemma distinct_managed_names: "distinct all_managed_function_names"
  by (simp add: all_managed_function_names_def distinct_remdups_adj_sorted)

lemma distinct_synth_names: "distinct synth_names" "length synth_names = 20"
  by code_simp+

lemma length_all_cells: "length all_cells = 674"
  by code_simp

lemma length_managed_names: "length all_managed_function_names = 694"
proof -
  have "card (function_name ` set all_cells) = 674"
    using fns.card_names [of "set all_cells"] distinct_card [OF distinct_all_cells]
    by (simp add: mem_all_cells in_matrix_nameable length_all_cells)
  moreover have "card (set synth_names) = 20"
    using distinct_card [OF distinct_synth_names(1)] distinct_synth_names(2) by simp
  moreover have "function_name ` set all_cells \<inter> set synth_names = {}"
    using synth_not_matrix in_matrix_nameable by (fastforce simp: mem_all_cells)
  ultimately have "card (set all_managed_function_names) = 694"
    by (simp add: set_managed_names card_Un_disjoint)
  then show ?thesis using distinct_card [OF distinct_managed_names] by simp
qed

lemma managed_name_prefix:
  "n \<in> set all_managed_function_names \<Longrightarrow> prefix RESOURCE_PREFIX n"
  by (auto simp: set_managed_names function_name_def name_parts_def PREFIX_def
        RESOURCE_PREFIX_def synth_names_def synth_function_name_def split: option.splits)

section \<open>Properties\<close>

text \<open>
  C33. The matrix is exactly the set of cells whose language hosts the scenario, whose memory is
  a swept tier at or above the floor of its variant, and that satisfy the structural invariant
  of \<open>assert_valid\<close>; each such cell occurs once, and there are 674 of them.
\<close>

theorem all_cells_exact:
  "(\<forall>c. c \<in> set all_cells \<longleftrightarrow>
      supports (lang c) (scenario c) \<and> memory_mb c \<in> set MEMORY_MB \<and>
      min_memory_mb (scenario c) (lang c) (snapstart c) \<le> memory_mb c \<and> assert_valid c) \<and>
   distinct all_cells \<and> length all_cells = 674"
  by (simp add: mem_all_cells in_matrix_def distinct_all_cells length_all_cells)

text \<open>
  C32. The function names teardown and the log sweep use: no two cells of the matrix share a
  name, the names of the matrix and of the synthetic probes are all there, each once (694), no
  synthetic name is a matrix name, and every one carries the project's prefix.
\<close>

theorem managed_names_exact:
  "inj_on function_name (set all_cells) \<and>
   function_name ` set all_cells \<inter> set synth_names = {} \<and>
   set all_managed_function_names = function_name ` set all_cells \<union> set synth_names \<and>
   distinct all_managed_function_names \<and> length all_managed_function_names = 694 \<and>
   list_all (prefix RESOURCE_PREFIX) all_managed_function_names \<and>
   list_all (prefix (LAMBDA_LOG_GROUP_PREFIX @ RESOURCE_PREFIX)) all_managed_log_group_names"
proof -
  have "inj_on function_name (set all_cells)"
    by (rule fns.inj_on_name) (simp add: mem_all_cells in_matrix_nameable)
  moreover have "function_name ` set all_cells \<inter> set synth_names = {}"
    using synth_not_matrix in_matrix_nameable by (fastforce simp: mem_all_cells)
  ultimately show ?thesis
    by (simp add: set_managed_names distinct_managed_names length_managed_names
          list.pred_set managed_name_prefix all_managed_log_group_names_def
          flip: set_managed_names)
qed

lemma set_unique_artifacts: "set (unique_artifacts cs) = artifact_key_of ` set cs"
  by (simp add: unique_artifacts_def)

lemma matrix_keys_valid: "c \<in> set all_cells \<Longrightarrow> valid_key (artifact_key_of c)"
  by (simp add: mem_all_cells in_matrix_def valid_key_of)

text \<open>
  C34. The artifacts of any part of the matrix: every cell's artifact is in the list, once, in
  the order of first use, and the labels that name the artifact files and key the size map
  are pairwise different, so no artifact overwrites another.
\<close>

theorem unique_artifacts_labels:
  assumes "set cs \<subseteq> set all_cells" "c \<in> set cs"
  shows "set (unique_artifacts cs) = artifact_key_of ` set cs \<and>
    distinct (map label_of (unique_artifacts cs)) \<and>
    foldl (\<lambda>m k. m(label_of k \<mapsto> f k)) Map.empty (unique_artifacts cs)
      (label_of (artifact_key_of c)) = Some (f (artifact_key_of c))"
proof (intro conjI)
  have ok: "valid_key k" if "k \<in> set (unique_artifacts cs)" for k
    using that assms(1) by (auto simp: set_unique_artifacts matrix_keys_valid)
  show "set (unique_artifacts cs) = artifact_key_of ` set cs" by (rule set_unique_artifacts)
  show "distinct (map label_of (unique_artifacts cs))"
    by (rule labels.distinct_names) (simp_all add: ok, simp add: unique_artifacts_def)
  show "foldl (\<lambda>m k. m(label_of k \<mapsto> f k)) Map.empty (unique_artifacts cs)
      (label_of (artifact_key_of c)) = Some (f (artifact_key_of c))"
    by (rule labels.fill_lookup) (use assms(2) ok in \<open>auto simp: set_unique_artifacts\<close>)
qed

definition python_authz_x86 :: cell where
  "python_authz_x86 =
     \<lparr>lang = Python, scenario = Authz, arch = X86_64, memory_mb = 128, opt = None,
      snapstart = False, jitter = None\<rparr>"

definition rust_oneclient_jitter :: cell where
  "rust_oneclient_jitter =
     \<lparr>lang = Rust, scenario = OneClient, arch = Arm64, memory_mb = 1024, opt = Some O3,
      snapstart = False, jitter = Some On\<rparr>"

lemma sample_cells_in_matrix:
  "python_authz_x86 \<in> set all_cells" "rust_oneclient_jitter \<in> set all_cells"
  by (simp_all add: mem_all_cells in_matrix_def python_authz_x86_def rust_oneclient_jitter_def
        supports_def MEMORY_MB_def min_memory_mb_def assert_valid_def is_jitter_ab_def
        JITTER_AB_SCENARIOS_def)

theorem unique_artifacts_labels_witness:
  "foldl (\<lambda>m k. m(label_of k \<mapsto> key_lang k)) Map.empty
     (unique_artifacts [python_authz_x86, rust_oneclient_jitter]) ''python-authz-x86_64'' = Some Python"
proof -
  have l: "label_of (artifact_key_of python_authz_x86) = ''python-authz-x86_64''" by code_simp
  show ?thesis
    using unique_artifacts_labels [of "[python_authz_x86, rust_oneclient_jitter]"
        python_authz_x86 key_lang] sample_cells_in_matrix l
    by (simp add: artifact_key_of_def python_authz_x86_def)
qed

text \<open>
  A language, scenario or architecture is read back from its printed name, with white
  space around it, and \<open>parse\<close> accepts nothing else: the error names the text and the
  valid values.
\<close>

theorem parse_names:
  assumes "list_all is_ws us" "list_all is_ws vs"
  shows "lang_parse (us @ lang_as_str l @ vs) = Inr l \<and>
    scenario_parse (us @ scenario_as_str sc @ vs) = Inr sc \<and>
    arch_parse (us @ arch_as_str a @ vs) = Inr a \<and>
    (trim t \<notin> range lang_as_str \<longrightarrow>
       lang_parse t = Inl (''unknown lang '' @ [CHR 0x27] @ t @ [CHR 0x27] @
         '' (valid: rust, node, java, python, go)'')) \<and>
    (lang_parse t = Inr l \<longrightarrow> trim t = lang_as_str l)"
proof (intro conjI impI)
  show "lang_parse (us @ lang_as_str l @ vs) = Inr l"
    using assms by (simp add: lang_parse_def langs.find_padded)
  show "scenario_parse (us @ scenario_as_str sc @ vs) = Inr sc"
    using assms by (simp add: scenario_parse_def scenarios.find_padded)
  show "arch_parse (us @ arch_as_str a @ vs) = Inr a"
    using assms by (simp add: arch_parse_def archs.find_padded)
  show "lang_parse t = Inl (''unknown lang '' @ [CHR 0x27] @ t @ [CHR 0x27] @
         '' (valid: rust, node, java, python, go)'')" if "trim t \<notin> range lang_as_str"
    using that langs.find_rejects [of "trim t"]
    by (simp add: lang_parse_def unknown_name_def Lang_ALL_def)
  show "trim t = lang_as_str l" if "lang_parse t = Inr l"
    using that by (simp add: lang_parse_Inr)
qed

theorem parse_names_witness:
  "lang_parse '' java '' = Inr Java \<and> scenario_parse '' cache '' = Inr Cache \<and>
   arch_parse '' x86_64 '' = Inr X86_64"
  using parse_names [of "'' ''" "'' ''" Java Cache X86_64] by (simp add: is_ws_def)

text \<open>
  The iteration counts of a cell of the matrix: at least two cold cycles and two warm
  invokes under either profile, at most 50 cold cycles and 1500 warm invokes, at most 10 cold
  cycles for a SnapStart cell, and the same counts for the two sides of the jitter comparison.
\<close>

theorem iterations_bounds:
  assumes "iterations c p = (cold, warm)"
  shows "2 \<le> cold \<and> cold \<le> 50 \<and> 2 \<le> warm \<and> warm \<le> 1500 \<and>
    (snapstart c \<longrightarrow> cold \<le> SNAPSTART_COLD_CYCLES) \<and>
    iterations (c\<lparr>jitter := j\<rparr>) p = (cold, warm) \<and>
    (is_jitter_ab c \<and> \<not> snapstart c \<and> p = Full \<longrightarrow> (cold, warm) = FULL_LIGHT_COUNTS)"
  using assms
  by (cases "scenario c"; cases p)
     (auto simp: iterations_def is_jitter_ab_def SMOKE_COUNTS_def FULL_LIGHT_COUNTS_def
       full_base_counts_def SNAPSTART_COLD_CYCLES_def Let_def JITTER_AB_SCENARIOS_def
       split: if_splits)

theorem iterations_bounds_witness:
  "iterations rust_oneclient_jitter Full = (50, 50) \<and> (2::nat) \<le> 50"
proof -
  have i: "iterations rust_oneclient_jitter Full = (50, 50)" by code_simp
  with iterations_bounds [OF i] show ?thesis by simp
qed

end
