(* ===== verification/Services.thy ===== *)
theory Services
  imports Effects Report Rate_Limiter Config
begin

text \<open>
  What the driver calls and does not define: the AWS services, the clock, random identifiers,
  sleeping, the JSON, base64 and regex libraries, as one record of functions over the outside
  world. Nothing is assumed about them, unless a theorem says so: a call may answer anything,
  fail, or change the world in any way. Requests carry the fields the driver sets, answers
  the fields it reads. The limiter's \<open>acquire\<close> (\<open>bencher/src/aws/rate_limiter.rs\<close>) and
  \<open>not_found_as_none\<close> (\<open>bencher/src/aws.rs\<close>) are modelled here over them.
\<close>

section \<open>Requests and answers\<close>

datatype fn_state = StActive | StFailed | StOther
datatype upd_status = UpSuccessful | UpFailed | UpOther
datatype snap_status = SnapOn | SnapOff

record fn_config =
  revision_id :: "string option"
  variables :: "(string \<Rightarrow> string option) option"
  fstate :: "fn_state option"
  state_reason :: "string option"
  last_update_status :: "upd_status option"
  last_update_reason :: "string option"
  optimization_status :: "snap_status option"

datatype code =
    CodeS3 (code_bucket: string) (code_key: string)
  | CodeZip (code_bytes: string)
  | CodeImage (code_uri: string)

datatype apply_on = ApplyPublishedVersions | ApplyNone

record create_req =
  cr_name :: string
  cr_runtime :: "string option"
  cr_role :: string
  cr_handler :: "string option"
  cr_code :: code
  cr_arch :: string
  cr_memory :: int
  cr_timeout :: nat
  cr_env :: "(string \<Rightarrow> string option) option"
  cr_snap :: "apply_on option"
  cr_publish :: bool
  cr_image :: bool

record config_req =
  cf_name :: string
  cf_runtime :: "string option"
  cf_memory :: "int option"
  cf_timeout :: "nat option"
  cf_env :: "string \<Rightarrow> string option"
  cf_snap :: "apply_on option"

datatype client = Driver | Retryless

record invoke_req =
  iv_client :: client
  iv_name :: string
  iv_tail :: bool
  iv_payload :: string
  iv_qualifier :: "string option"
  iv_context :: "string option"

record invoke_out =
  out_status :: int
  out_error :: "string option"
  out_payload :: "string option"
  out_log :: "string option"

datatype json =
    JNull
  | JBool bool
  | JInt int
  | JFloat rat
  | JStr string
  | JArr "json list"
  | JObj "(string \<times> json) list"

text \<open>\<open>Value::get\<close> with a string key, and \<open>Value::as_i64\<close>.\<close>

fun json_get :: "string \<Rightarrow> json \<Rightarrow> json option" where
  "json_get k (JObj kvs) = map_of kvs k"
| "json_get k _ = None"

fun as_i64 :: "json \<Rightarrow> int option" where
  "as_i64 (JInt i) = (if - (2 ^ 63) \<le> i \<and> i < 2 ^ 63 then Some i else None)"
| "as_i64 _ = None"

section \<open>The parameters\<close>

record 'x aws =
  account_id :: string
  regex :: regex_engine
  json_from_str :: "string \<Rightarrow> json option"
  b64_decode :: "string \<Rightarrow> string option"
  b64_encode :: "string \<Rightarrow> string"
  utf8_lossy :: "string \<Rightarrow> string"
  authz_token :: string
  sleep_ms :: "nat \<Rightarrow> 'x \<Rightarrow> unit \<times> 'x"
  sleep_until :: "nat \<Rightarrow> 'x \<Rightarrow> unit \<times> 'x"
  now_ns :: "'x \<Rightarrow> nat \<times> 'x"
  unix_ms :: "'x \<Rightarrow> nat \<times> 'x"
  new_uuid :: "'x \<Rightarrow> string \<times> 'x"
  get_function ::
    "string \<Rightarrow> string option \<Rightarrow> 'x \<Rightarrow> (sdk_error + fn_config option) \<times> 'x"
  update_function_code :: "string \<Rightarrow> string \<Rightarrow> code \<Rightarrow> 'x \<Rightarrow> (sdk_error + unit) \<times> 'x"
  update_function_configuration :: "config_req \<Rightarrow> 'x \<Rightarrow> (sdk_error + unit) \<times> 'x"
  create_function :: "create_req \<Rightarrow> 'x \<Rightarrow> (sdk_error + unit) \<times> 'x"
  publish_version :: "string \<Rightarrow> 'x \<Rightarrow> (sdk_error + string option) \<times> 'x"
  lambda_delete :: "string \<Rightarrow> string option \<Rightarrow> 'x \<Rightarrow> (sdk_error + unit) \<times> 'x"
  invoke :: "invoke_req \<Rightarrow> 'x \<Rightarrow> (sdk_error + invoke_out) \<times> 'x"
  s3_put :: "string \<Rightarrow> string \<Rightarrow> string \<Rightarrow> (string \<Rightarrow> string option) \<Rightarrow> 'x \<Rightarrow> (sdk_error + unit) \<times> 'x"
  s3_delete :: "string \<Rightarrow> string \<Rightarrow> 'x \<Rightarrow> (sdk_error + unit) \<times> 'x"

section \<open>Shared operations\<close>

text \<open>\<open>tokio::time::sleep\<close>.\<close>

definition sleep :: "'x aws \<Rightarrow> nat \<Rightarrow> ('x, unit) eff" where
  "sleep aws ms = call (EvSleep ms) (sleep_ms aws ms)"

text \<open>The control-plane limiter of the bundle: its slot is reserved and advanced first, then
  the caller sleeps until the slot is due.\<close>

definition acquire :: "'x aws \<Rightarrow> ('x, unit) eff" where
  "acquire aws =
     bindE (peek (now_ns aws)) (\<lambda>now s.
       case reserve \<lparr>interval = 1000000000 div CONTROL_PLANE_TPS, slot = next_slot s\<rparr> now of
         (start, l) \<Rightarrow>
           call (EvSlot start) (sleep_until aws start) (s\<lparr>next_slot := slot l\<rparr>))"

text \<open>A not-found answer is \<open>None\<close>, any other error is surfaced.\<close>

definition not_found_as_none :: "(sdk_error \<Rightarrow> bool) \<Rightarrow> sdk_error \<Rightarrow> err + unit option" where
  "not_found_as_none is_not_found e = (if is_not_found e then Inr None else Inl (Sdk e))"

text \<open>\<open>is_resource_not_found_exception\<close> and its like, and \<open>ErrorMetadata::message\<close>.\<close>

definition has_code :: "string \<Rightarrow> sdk_error \<Rightarrow> bool" where
  "has_code c e = (case e of ServiceError c' _ \<Rightarrow> c = c' | DispatchError _ \<Rightarrow> False)"

definition message_of :: "sdk_error \<Rightarrow> string" where
  "message_of e =
     (case e of ServiceError _ (Some m) \<Rightarrow> m | ServiceError _ None \<Rightarrow> [] | DispatchError _ \<Rightarrow> [])"

text \<open>\<open>match op.send().await { Ok(_) => Ok(()), Err(err) => not_found_as_none(..).map(|_| ()) }\<close>:
  an idempotent deletion.\<close>

definition send_idempotent ::
    "(sdk_error \<Rightarrow> bool) \<Rightarrow> event \<Rightarrow> ('x \<Rightarrow> (sdk_error + 'a) \<times> 'x) \<Rightarrow> ('x, unit) eff" where
  "send_idempotent gone ev f =
     bindE (call ev f) (\<lambda>r.
       case r of
         Inr _ \<Rightarrow> ret ()
       | Inl e \<Rightarrow> bindE (of_result (not_found_as_none gone e)) (\<lambda>_. ret ()))"

definition bucket_name :: "'x aws \<Rightarrow> string" where
  "bucket_name aws = S3_BUCKET_SUFFIX @ ''-'' @ REGION @ ''-'' @ account_id aws"

section \<open>Weights and state of the shared operations\<close>

lemma costs_sleep: "costs f (f (EvSleep ms)) (sleep aws ms)"
  unfolding sleep_def by (rule costs_call)

lemma costs_acquire:
  assumes "\<And>n. f (EvSlot n) = 0"
  shows "costs f 0 (acquire aws)"
proof -
  have "costs f (0 + 0) (acquire aws)"
    unfolding acquire_def
    by (rule costs_bind [OF costs_peek])
       (simp add: costs_def call_def weight_def reserve_def Let_def assms split: prod.splits)
  then show ?thesis by simp
qed

section \<open>What measuring a function may do\<close>

text \<open>
  The calls the run loop makes for the function \<open>nm\<close>. Those that bring about a cold start are
  waiting, reads, configuration updates and the publishing of versions; measuring adds
  invokes and the deletion of versions. A state property that such calls and the limiter keep
  is kept by every operation of the run loop on that function: the client lemmas are proved
  once from this contract.
\<close>

definition cold_event :: "string \<Rightarrow> event \<Rightarrow> bool" where
  "cold_event nm ev =
     (case ev of
        EvSleep _ \<Rightarrow> True
      | EvSlot _ \<Rightarrow> True
      | EvGetFunction n _ \<Rightarrow> n = nm
      | EvUpdateConfig n \<Rightarrow> n = nm
      | EvPublish n \<Rightarrow> n = nm
      | _ \<Rightarrow> False)"

definition run_event :: "string \<Rightarrow> event \<Rightarrow> bool" where
  "run_event nm ev =
     (case ev of
        EvDeleteFunction n q \<Rightarrow> n = nm \<and> q \<noteq> None
      | EvInvoke n _ _ _ \<Rightarrow> n = nm
      | _ \<Rightarrow> cold_event nm ev)"

locale cold_invariant =
  fixes nm :: string
    and P :: "'x drv \<Rightarrow> bool"
  assumes P_call: "cold_event nm ev \<Longrightarrow> P s \<Longrightarrow> P (s\<lparr>ext := x, calls := calls s @ [ev]\<rparr>)"
    and P_ext: "P s \<Longrightarrow> P (s\<lparr>ext := x\<rparr>)"
    and P_slot: "P s \<Longrightarrow> P (s\<lparr>next_slot := n\<rparr>)"
begin

lemma keeps_call: "cold_event nm ev \<Longrightarrow> keeps P (call ev f)"
  by (simp add: keeps_def call_def P_call split: prod.splits)

lemma keeps_peek: "keeps P (peek f)"
  by (simp add: keeps_def peek_def P_ext split: prod.splits)

lemma keeps_send: "cold_event nm ev \<Longrightarrow> keeps P (send ev f)"
  unfolding send_def sdk_ok_def by (intro keeps_bind keeps_call keeps_ret)

lemma keeps_sleep: "keeps P (sleep aws ms)"
  unfolding sleep_def by (rule keeps_call) (simp add: cold_event_def)

lemma keeps_acquire: "keeps P (acquire aws)"
  unfolding acquire_def
proof (rule keeps_bind [OF keeps_peek])
  fix now
  have c: "keeps P (call (EvSlot n) f)" for n f
    by (rule keeps_call) (simp add: cold_event_def)
  show "keeps P (\<lambda>s. case reserve \<lparr>interval = 1000000000 div CONTROL_PLANE_TPS, slot = next_slot s\<rparr> now of
         (start, l) \<Rightarrow> call (EvSlot start) (sleep_until aws start) (s\<lparr>next_slot := slot l\<rparr>))"
    unfolding keeps_def reserve_def Let_def prod.case
    using c P_slot unfolding keeps_def by blast
qed

end

locale run_invariant = cold_invariant nm P
  for nm :: string and P :: "'x drv \<Rightarrow> bool" +
  assumes P_invoke: "P s \<Longrightarrow> P (s\<lparr>ext := x, calls := calls s @ [EvInvoke nm pl q ctx]\<rparr>)"
    and P_delete: "P s \<Longrightarrow> P (s\<lparr>ext := x, calls := calls s @ [EvDeleteFunction nm (Some v)]\<rparr>)"
begin

lemma keeps_send_invoke: "keeps P (send (EvInvoke nm pl q ctx) f)"
  unfolding send_def sdk_ok_def
  by (intro keeps_bind keeps_ret) (simp add: keeps_def call_def P_invoke split: prod.splits)

lemma keeps_send_delete: "keeps P (send (EvDeleteFunction nm (Some v)) f)"
  unfolding send_def sdk_ok_def
  by (intro keeps_bind keeps_ret) (simp add: keeps_def call_def P_delete split: prod.splits)

end

end
