(* ===== verification/Lambda_Api.thy ===== *)
theory Lambda_Api
  imports Services
begin

text \<open>
  \<open>bencher/src/aws/lambda.rs\<close>: the lifecycle of a Lambda function. Creation and update,
  the forced cold start through a bump of \<open>COLD_NONCE\<close>, published versions for SnapStart,
  the two readiness polls, invokes with and without the log tail, deletion, and the payloads.
\<close>

record invoke_result =
  status_code :: int
  function_error :: "string option"
  log_tail :: string
  payload :: "string option"

record synthetic_fn =
  fn_name :: string
  fn_runtime :: string
  fn_handler :: string
  fn_memory_mb :: int
  fn_arch :: string

definition INLINE_ZIP_LIMIT :: nat where "INLINE_ZIP_LIMIT = 45 * 1024 * 1024"
definition POLL_MAX_ATTEMPTS :: nat where "POLL_MAX_ATTEMPTS = 600"
definition POLL_INTERVAL_MS :: nat where "POLL_INTERVAL_MS = 500"
definition ROLE_PROPAGATION_MAX_ATTEMPTS :: nat where "ROLE_PROPAGATION_MAX_ATTEMPTS = 30"

section \<open>Environment and payloads\<close>

text \<open>The variables of a function; the KMS key id is a field of the driver's state.\<close>

definition environment_vars ::
    "'x aws \<Rightarrow> string option \<Rightarrow> cell \<Rightarrow> err + (string \<Rightarrow> string option)" where
  "environment_vars aws key_id c =
     (let s = scenario c;
          v0 = Map.empty;
          v1 = (if needs_ddb s
                then v0(''LAMBDABENCH_TABLE'' \<mapsto> TABLE_NAME, ''LAMBDABENCH_KEY'' \<mapsto> SEED_KEY)
                else v0);
          v2 = (if needs_s3 s then v1(''LAMBDABENCH_BUCKET'' \<mapsto> bucket_name aws) else v1);
          v3 = (if s = LetterCount
                then v2(''LAMBDABENCH_LETTERCOUNT_KEY'' \<mapsto> S3_LETTERCOUNT_KEY) else v2);
          v4 = (if s = Batch then v3(''LAMBDABENCH_BATCH_KEY'' \<mapsto> S3_BATCH_KEY) else v3)
      in res_bind
           (if needs_kms_s3 s
            then res_bind (ok_or (KmsKeyUnset (function_name c)) key_id) (\<lambda>k.
              Inr (v4(''LAMBDABENCH_KMS_KEY_ID'' \<mapsto> k,
                      ''LAMBDABENCH_OBJECT_KEY'' \<mapsto> S3_OBJECT_KEY,
                      ''LAMBDABENCH_ORDER_PK'' \<mapsto> ORDER_PK @ ''-'' @ function_name c,
                      ''LAMBDABENCH_RECEIPT_KEY'' \<mapsto> function_name c @ ''/'' @ S3_RECEIPT_KEY)))
            else Inr v4)
           (\<lambda>v. Inr (v(''RUST_LOG'' \<mapsto> ''error''))))"

definition environment :: "'x aws \<Rightarrow> cell \<Rightarrow> ('x, string \<Rightarrow> string option) eff" where
  "environment aws c s = of_result (environment_vars aws (kms_key_id s) c) s"

definition snap_start_for :: "cell \<Rightarrow> apply_on" where
  "snap_start_for c = (if snapstart c then ApplyPublishedVersions else ApplyNone)"

definition quote :: "string \<Rightarrow> string" where
  "quote s = [CHR 0x22] @ s @ [CHR 0x22]"

definition HOST_CPU_CLIENT_CONTEXT :: string where
  "HOST_CPU_CLIENT_CONTEXT =
     ''{'' @ quote ''custom'' @ '':{'' @ quote ''lambdabench'' @ '':'' @ quote ''cpu'' @ ''}}''"

definition SMITHY_HOST_CPU_ORDER_ID :: string where
  "SMITHY_HOST_CPU_ORDER_ID = ''00000000-0000-0000-0000-000000000000''"

text \<open>The JSON texts keep the line breaks and indentation of the raw strings.\<close>

definition json_lines :: "string list \<Rightarrow> string" where
  "json_lines ls = ''{'' @ [nl] @ join_with ('','' @ [nl]) (map (\<lambda>l. ''  '' @ l) ls) @ [nl] @ ''}''"

definition field :: "string \<Rightarrow> string \<Rightarrow> string" where
  "field k v = quote k @ '': '' @ v"

definition latte_body :: string where
  "latte_body =
     quote ([CHR 0x7B, CHR 0x5C, CHR 0x22] @ ''coffeeType'' @ [CHR 0x5C, CHR 0x22] @ '':'' @
       [CHR 0x5C, CHR 0x22] @ ''LATTE'' @ [CHR 0x5C, CHR 0x22, CHR 0x7D])"

definition json_array :: "string \<Rightarrow> string" where
  "json_array v = ''['' @ quote v @ '']''"

definition http_context :: "string \<Rightarrow> string \<Rightarrow> string" where
  "http_context verb path =
     ''{'' @ [nl] @ ''    '' @
     field ''http'' (''{ '' @ field ''method'' (quote verb) @ '', '' @ field ''path'' (quote path) @
       '', '' @ field ''protocol'' (quote ''HTTP/1.1'') @ '', '' @
       field ''sourceIp'' (quote ''127.0.0.1'') @ '' }'') @ [nl] @ ''  }''"

definition invoke_payload :: "'x aws \<Rightarrow> cell \<Rightarrow> string" where
  "invoke_payload aws c =
     (case (scenario c, lang c) of
        (Smithy, Java) \<Rightarrow>
          json_lines [field ''path'' (quote ''/menu''), field ''httpMethod'' (quote ''GET''),
            field ''multiValueHeaders''
              (''{ '' @ field ''accept'' (json_array ''application/json'') @ '' }''),
            field ''isBase64Encoded'' ''false'']
      | (SmithyFull, Java) \<Rightarrow>
          json_lines [field ''path'' (quote ''/order''), field ''httpMethod'' (quote ''POST''),
            field ''multiValueHeaders''
              (''{ '' @ field ''content-type'' (json_array ''application/json'') @ '', '' @
                field ''accept'' (json_array ''application/json'') @ '' }''),
            field ''body'' latte_body, field ''isBase64Encoded'' ''false'']
      | (Smithy, _) \<Rightarrow>
          json_lines [field ''version'' (quote ''2.0''), field ''routeKey'' (quote ''GET /menu''),
            field ''rawPath'' (quote ''/menu''), field ''rawQueryString'' (quote ''''),
            field ''headers'' (''{ '' @ field ''accept'' (quote ''application/json'') @ '' }''),
            field ''requestContext'' (http_context ''GET'' ''/menu''),
            field ''isBase64Encoded'' ''false'']
      | (SmithyFull, _) \<Rightarrow>
          json_lines [field ''version'' (quote ''2.0''), field ''routeKey'' (quote ''POST /order''),
            field ''rawPath'' (quote ''/order''), field ''rawQueryString'' (quote ''''),
            field ''headers''
              (''{ '' @ field ''content-type'' (quote ''application/json'') @ '', '' @
                field ''accept'' (quote ''application/json'') @ '' }''),
            field ''requestContext'' (http_context ''POST'' ''/order''),
            field ''body'' latte_body, field ''isBase64Encoded'' ''false'']
      | (Authz, _) \<Rightarrow> ''{'' @ quote ''token'' @ '':'' @ quote (trim (authz_token aws)) @ ''}''
      | _ \<Rightarrow> ''{}'')"

definition host_cpu_payload :: "'x aws \<Rightarrow> cell \<Rightarrow> string" where
  "host_cpu_payload aws c =
     (if (scenario c = Smithy \<or> scenario c = SmithyFull) \<and> lang c = Java
      then json_lines [field ''path'' (quote (''/order/'' @ SMITHY_HOST_CPU_ORDER_ID)),
        field ''httpMethod'' (quote ''GET''),
        field ''multiValueHeaders''
          (''{ '' @ field ''accept'' (json_array ''application/json'') @ '' }''),
        field ''isBase64Encoded'' ''false'']
      else invoke_payload aws c)"

section \<open>Readiness polls\<close>

definition get_fn :: "'x aws \<Rightarrow> string \<Rightarrow> string option \<Rightarrow> ('x, fn_config option) eff" where
  "get_fn aws name q = send (EvGetFunction name q) (get_function aws name q)"

definition current_revision :: "'x aws \<Rightarrow> string \<Rightarrow> ('x, string option) eff" where
  "current_revision aws name =
     bindE (get_fn aws name None) (\<lambda>cfg. ret (Option.bind cfg revision_id))"

text \<open>What one poll of \<open>wait_ready\<close> sees: a failed update, readiness, or neither.\<close>

definition is_ready :: "string option \<Rightarrow> fn_config \<Rightarrow> bool" where
  "is_ready prev cfg \<longleftrightarrow>
     fstate cfg = Some StActive \<and>
     (last_update_status cfg = Some UpSuccessful \<or> (prev = None \<and> last_update_status cfg = None)) \<and>
     (case prev of Some p \<Rightarrow> revision_id cfg \<noteq> Some p | None \<Rightarrow> True)"

fun wait_ready_loop :: "'x aws \<Rightarrow> string \<Rightarrow> string option \<Rightarrow> nat \<Rightarrow> ('x, unit) eff" where
  "wait_ready_loop aws name prev 0 = fail (NotReady name)"
| "wait_ready_loop aws name prev (Suc n) =
     bindE (get_fn aws name None) (\<lambda>out.
     bindE (of_result (ok_or (NoConfiguration name) out)) (\<lambda>cfg.
       if last_update_status cfg = Some UpFailed then fail (UpdateFailed name)
       else if is_ready prev cfg then ret ()
       else thenE (sleep aws POLL_INTERVAL_MS) (wait_ready_loop aws name prev n)))"

definition wait_ready :: "'x aws \<Rightarrow> string \<Rightarrow> string option \<Rightarrow> ('x, unit) eff" where
  "wait_ready aws name prev = wait_ready_loop aws name prev POLL_MAX_ATTEMPTS"

fun wait_version_loop :: "'x aws \<Rightarrow> string \<Rightarrow> string \<Rightarrow> nat \<Rightarrow> ('x, unit) eff" where
  "wait_version_loop aws name v 0 = fail (VersionNotActive name v)"
| "wait_version_loop aws name v (Suc n) =
     bindE (get_fn aws name (Some v)) (\<lambda>out.
     bindE (of_result (ok_or (NoConfiguration name) out)) (\<lambda>cfg.
       case fstate cfg of
         Some StActive \<Rightarrow>
           if optimization_status cfg \<noteq> Some SnapOn then fail (NotSnapStarted name v) else ret ()
       | Some StFailed \<Rightarrow> fail (VersionFailed name v)
       | _ \<Rightarrow> thenE (sleep aws POLL_INTERVAL_MS) (wait_version_loop aws name v n)))"

definition wait_version_active :: "'x aws \<Rightarrow> string \<Rightarrow> string \<Rightarrow> ('x, unit) eff" where
  "wait_version_active aws name v = wait_version_loop aws name v POLL_MAX_ATTEMPTS"

section \<open>Forcing a cold start\<close>

definition bump_cold_nonce :: "'x aws \<Rightarrow> string \<Rightarrow> string \<Rightarrow> ('x, unit) eff" where
  "bump_cold_nonce aws name nonce =
     bindE (get_fn aws name None) (\<lambda>out.
     bindE (of_result (ok_or (NoConfiguration name) out)) (\<lambda>cfg.
       let pre = revision_id cfg;
           vars = (case variables cfg of None \<Rightarrow> Map.empty | Some m \<Rightarrow> m)(''COLD_NONCE'' \<mapsto> nonce)
       in thenE (acquire aws)
         (thenE (send (EvUpdateConfig name)
             (update_function_configuration aws
               \<lparr>cf_name = name, cf_runtime = None, cf_memory = None, cf_timeout = None,
                cf_env = vars, cf_snap = None\<rparr>))
           (wait_ready aws name pre))))"

definition force_cold_by_name :: "'x aws \<Rightarrow> string \<Rightarrow> string \<Rightarrow> ('x, unit) eff" where
  "force_cold_by_name aws name nonce = bump_cold_nonce aws name nonce"

definition force_cold :: "'x aws \<Rightarrow> cell \<Rightarrow> string \<Rightarrow> ('x, unit) eff" where
  "force_cold aws c nonce = force_cold_by_name aws (function_name c) nonce"

definition publish_cold_version :: "'x aws \<Rightarrow> cell \<Rightarrow> string \<Rightarrow> ('x, string) eff" where
  "publish_cold_version aws c nonce =
     (let name = function_name c
      in thenE (bump_cold_nonce aws name nonce)
        (thenE (acquire aws)
          (bindE (send (EvPublish name) (publish_version aws name)) (\<lambda>published.
           bindE (of_result (ok_or (NoNumericVersion name)
               (case published of
                  Some v \<Rightarrow> if v \<noteq> ''$LATEST'' then Some v else None
                | None \<Rightarrow> None))) (\<lambda>v.
             thenE (wait_version_active aws name v) (ret v))))))"

definition delete_version :: "'x aws \<Rightarrow> string \<Rightarrow> string \<Rightarrow> ('x, unit) eff" where
  "delete_version aws name v =
     thenE (acquire aws) (send (EvDeleteFunction name (Some v)) (lambda_delete aws name (Some v)))"

section \<open>Invokes\<close>

text \<open>The wall clock around the send only; both readings are of the monotonic clock.\<close>

definition timed_invoke :: "'x aws \<Rightarrow> invoke_req \<Rightarrow> ('x, invoke_out \<times> nat) eff" where
  "timed_invoke aws r =
     bindE (peek (now_ns aws)) (\<lambda>start.
     bindE (send (EvInvoke (iv_name r) (iv_payload r) (iv_qualifier r) (iv_context r))
         (invoke aws r)) (\<lambda>out.
     bindE (peek (now_ns aws)) (\<lambda>stop. ret (out, stop - start))))"

definition decode_tail :: "'x aws \<Rightarrow> string \<Rightarrow> invoke_out \<Rightarrow> err + string" where
  "decode_tail aws name out =
     (case out_log out of
        Some b64 \<Rightarrow>
          (case b64_decode aws b64 of
             None \<Rightarrow> Inl BadBase64
           | Some bytes \<Rightarrow> Inr (utf8_lossy aws bytes))
      | None \<Rightarrow> Inl (NoLogResult name (out_error out) (out_status out)))"

definition invoke_tail_core ::
    "'x aws \<Rightarrow> client \<Rightarrow> string \<Rightarrow> string \<Rightarrow> string option \<Rightarrow> string option \<Rightarrow>
     ('x, invoke_result \<times> nat) eff" where
  "invoke_tail_core aws client name pl qualifier ctx =
     bindE (timed_invoke aws
       \<lparr>iv_client = client, iv_name = name, iv_tail = True, iv_payload = pl,
        iv_qualifier = qualifier, iv_context = ctx\<rparr>) (\<lambda>(out, elapsed).
     bindE (of_result (decode_tail aws name out)) (\<lambda>tail.
       ret (\<lparr>status_code = out_status out, function_error = out_error out, log_tail = tail,
             payload = map_option (utf8_lossy aws) (out_payload out)\<rparr>, elapsed)))"

definition invoke_tail_timed_by_name ::
    "'x aws \<Rightarrow> client \<Rightarrow> string \<Rightarrow> string \<Rightarrow> string option \<Rightarrow> ('x, invoke_result \<times> nat) eff" where
  "invoke_tail_timed_by_name aws client name pl q = invoke_tail_core aws client name pl q None"

definition invoke_tail_timed_with ::
    "'x aws \<Rightarrow> client \<Rightarrow> cell \<Rightarrow> string option \<Rightarrow> ('x, invoke_result \<times> nat) eff" where
  "invoke_tail_timed_with aws client c q =
     invoke_tail_timed_by_name aws client (function_name c) (invoke_payload aws c) q"

definition invoke_tail_timed ::
    "'x aws \<Rightarrow> cell \<Rightarrow> string option \<Rightarrow> ('x, invoke_result \<times> nat) eff" where
  "invoke_tail_timed aws c q = invoke_tail_timed_with aws Driver c q"

definition invoke_tail :: "'x aws \<Rightarrow> cell \<Rightarrow> string option \<Rightarrow> ('x, invoke_result) eff" where
  "invoke_tail aws c q = bindE (invoke_tail_timed aws c q) (\<lambda>(r, _). ret r)"

definition invoke_no_tail_timed_by_name ::
    "'x aws \<Rightarrow> client \<Rightarrow> string \<Rightarrow> string \<Rightarrow> ('x, invoke_result \<times> nat) eff" where
  "invoke_no_tail_timed_by_name aws client name pl =
     bindE (timed_invoke aws
       \<lparr>iv_client = client, iv_name = name, iv_tail = False, iv_payload = pl,
        iv_qualifier = None, iv_context = None\<rparr>) (\<lambda>(out, elapsed).
       ret (\<lparr>status_code = out_status out, function_error = out_error out, log_tail = [],
             payload = map_option (utf8_lossy aws) (out_payload out)\<rparr>, elapsed))"

definition invoke_host_cpu :: "'x aws \<Rightarrow> cell \<Rightarrow> string option \<Rightarrow> ('x, invoke_result) eff" where
  "invoke_host_cpu aws c q =
     bindE (invoke_tail_core aws Driver (function_name c) (host_cpu_payload aws c) q
         (Some (b64_encode aws HOST_CPU_CLIENT_CONTEXT))) (\<lambda>(r, _). ret r)"

section \<open>Creation, update, deletion\<close>

definition function_exists :: "'x aws \<Rightarrow> string \<Rightarrow> ('x, bool) eff" where
  "function_exists aws name =
     bindE (call (EvGetFunction name None) (get_function aws name None)) (\<lambda>r.
       case r of
         Inr _ \<Rightarrow> ret True
       | Inl e \<Rightarrow>
           bindE (of_result (not_found_as_none (has_code ''ResourceNotFoundException'') e))
             (\<lambda>x. ret (x \<noteq> None)))"

definition delete_function :: "'x aws \<Rightarrow> string \<Rightarrow> ('x, unit) eff" where
  "delete_function aws name =
     send_idempotent (has_code ''ResourceNotFoundException'') (EvDeleteFunction name None)
       (lambda_delete aws name None)"

text \<open>The two shapes of a role that has not propagated yet.\<close>

definition role_not_ready :: "sdk_error \<Rightarrow> bool" where
  "role_not_ready e \<longleftrightarrow>
     has_code ''InvalidParameterValueException'' e \<and>
     (contains_str ''cannot be assumed by Lambda'' (message_of e) \<or>
      contains_str ''KMS key is invalid for CreateGrant'' (message_of e) \<and>
      contains_str ''does not refer to a valid principal'' (message_of e))"

text \<open>The loop with \<open>left\<close> attempts after the current one.\<close>

fun create_loop :: "'x aws \<Rightarrow> create_req \<Rightarrow> nat \<Rightarrow> ('x, unit) eff" where
  "create_loop aws req left =
     bindE (call (EvCreateFunction (cr_name req)) (create_function aws req)) (\<lambda>r.
       case r of
         Inr _ \<Rightarrow> ret ()
       | Inl e \<Rightarrow>
           (case left of
              0 \<Rightarrow> fail (Sdk e)
            | Suc n \<Rightarrow>
                if role_not_ready e then thenE (sleep aws 1000) (create_loop aws req n)
                else fail (Sdk e)))"

declare create_loop.simps [simp del]

definition retry_create_role_propagation :: "'x aws \<Rightarrow> create_req \<Rightarrow> ('x, unit) eff" where
  "retry_create_role_propagation aws req =
     create_loop aws req (ROLE_PROPAGATION_MAX_ATTEMPTS - 1)"

definition stage_code_in_s3 :: "'x aws \<Rightarrow> string \<Rightarrow> string \<Rightarrow> ('x, string) eff" where
  "stage_code_in_s3 aws name bytes =
     (let key = ''lambda-code/'' @ name @ ''.zip''
      in thenE (send (EvService ''s3.PutObject'' key)
                 (s3_put aws (bucket_name aws) key bytes Map.empty))
           (ret key))"

definition delete_s3_object :: "'x aws \<Rightarrow> string \<Rightarrow> ('x, unit) eff" where
  "delete_s3_object aws key =
     send_idempotent (has_code ''NoSuchBucket'') (EvService ''s3.DeleteObject'' key)
       (s3_delete aws (bucket_name aws) key)"

definition cleanup_staged_zip :: "'x aws \<Rightarrow> string \<Rightarrow> ('x, unit) eff" where
  "cleanup_staged_zip aws key = bindE (attempt (delete_s3_object aws key)) (\<lambda>_. ret ())"

definition ensure_function :: "'x aws \<Rightarrow> cell \<Rightarrow> string \<Rightarrow> string \<Rightarrow> ('x, unit) eff" where
  "ensure_function aws c role_arn bytes =
     (let name = function_name c
      in bindE
           (if INLINE_ZIP_LIMIT \<le> length bytes
            then bindE (stage_code_in_s3 aws name bytes) (\<lambda>key.
              ret (CodeS3 (bucket_name aws) key))
            else ret (CodeZip bytes)) (\<lambda>code_source.
         bindE (function_exists aws name) (\<lambda>exists.
           if exists then
             bindE (current_revision aws name) (\<lambda>pre_code.
             thenE (send (EvUpdateCode name)
                 (update_function_code aws name (lambda_arch (arch c)) code_source))
             (thenE (wait_ready aws name pre_code)
             (bindE (current_revision aws name) (\<lambda>pre_cfg.
              bindE (environment aws c) (\<lambda>env.
              thenE (send (EvUpdateConfig name)
                  (update_function_configuration aws
                    \<lparr>cf_name = name, cf_runtime = Some (runtime (lang c)),
                     cf_memory = Some (memory_mb c), cf_timeout = Some 30,
                     cf_env = env, cf_snap = Some (snap_start_for c)\<rparr>))
                (wait_ready aws name pre_cfg))))))
           else
             bindE (environment aws c) (\<lambda>env.
             thenE (retry_create_role_propagation aws
                 \<lparr>cr_name = name, cr_runtime = Some (runtime (lang c)), cr_role = role_arn,
                  cr_handler = Some (handler c), cr_code = code_source,
                  cr_arch = lambda_arch (arch c), cr_memory = memory_mb c, cr_timeout = 30,
                  cr_env = Some env, cr_snap = Some (snap_start_for c), cr_publish = True,
                  cr_image = False\<rparr>)
               (wait_ready aws name None)))))"

definition create_function_from_zip ::
    "'x aws \<Rightarrow> synthetic_fn \<Rightarrow> string \<Rightarrow> string \<Rightarrow> ('x, string) eff" where
  "create_function_from_zip aws fn role_arn bytes =
     bindE (stage_code_in_s3 aws (fn_name fn) bytes) (\<lambda>key.
     bindE (attempt (retry_create_role_propagation aws
       \<lparr>cr_name = fn_name fn, cr_runtime = Some (fn_runtime fn), cr_role = role_arn,
        cr_handler = Some (fn_handler fn), cr_code = CodeS3 (bucket_name aws) key,
        cr_arch = fn_arch fn, cr_memory = fn_memory_mb fn, cr_timeout = 30,
        cr_env = None, cr_snap = None, cr_publish = False, cr_image = False\<rparr>)) (\<lambda>created.
       case created of
         Inl e \<Rightarrow> thenE (cleanup_staged_zip aws key) (fail e)
       | Inr _ \<Rightarrow>
           bindE (attempt (wait_ready aws (fn_name fn) None)) (\<lambda>ready.
             case ready of
               Inl wait_err \<Rightarrow>
                 thenE (attempt (delete_function aws (fn_name fn)))
                   (thenE (cleanup_staged_zip aws key) (fail wait_err))
             | Inr _ \<Rightarrow> ret key)))"

definition create_function_from_image ::
    "'x aws \<Rightarrow> string \<Rightarrow> string \<Rightarrow> string \<Rightarrow> int \<Rightarrow> string \<Rightarrow> bool \<Rightarrow> ('x, unit) eff" where
  "create_function_from_image aws name role_arn image_uri memory architecture touch =
     thenE (retry_create_role_propagation aws
       \<lparr>cr_name = name, cr_runtime = None, cr_role = role_arn, cr_handler = None,
        cr_code = CodeImage image_uri, cr_arch = architecture, cr_memory = memory,
        cr_timeout = 30,
        cr_env = (if touch then Some [''LAMBDABENCH_TOUCH'' \<mapsto> ''1''] else None),
        cr_snap = None, cr_publish = False, cr_image = True\<rparr>)
     (bindE (attempt (wait_ready aws name None)) (\<lambda>ready.
        case ready of
          Inl wait_err \<Rightarrow> thenE (attempt (delete_function aws name)) (fail wait_err)
        | Inr _ \<Rightarrow> ret ()))"

section \<open>What the run-time operations keep\<close>

context cold_invariant
begin

lemma keeps_get_fn: "keeps P (get_fn aws nm q)"
  unfolding get_fn_def by (rule keeps_send) (simp add: cold_event_def)

lemma keeps_wait_ready_loop: "keeps P (wait_ready_loop aws nm prev n)"
proof (induction n)
  case 0
  show ?case by (simp add: keeps_ret)
next
  case (Suc n)
  then show ?case
    by (auto intro!: keeps_bind keeps_then keeps_get_fn keeps_ret keeps_sleep)
qed

lemma keeps_wait_version_loop: "keeps P (wait_version_loop aws nm v n)"
proof (induction n)
  case 0
  show ?case by (simp add: keeps_ret)
next
  case (Suc n)
  then show ?case
    by (auto intro!: keeps_bind keeps_then keeps_get_fn keeps_ret keeps_sleep
        split: option.splits fn_state.splits)
qed

lemma keeps_bump_cold_nonce: "keeps P (bump_cold_nonce aws nm nonce)"
  unfolding bump_cold_nonce_def wait_ready_def Let_def
  by (intro keeps_bind keeps_then keeps_get_fn keeps_ret keeps_acquire keeps_send
        keeps_wait_ready_loop) (simp add: cold_event_def)

lemma keeps_force_cold:
  assumes c: "function_name c = nm"
  shows "keeps P (force_cold aws c nonce)"
  unfolding force_cold_def force_cold_by_name_def c by (rule keeps_bump_cold_nonce)

lemma keeps_publish_cold_version:
  assumes c: "function_name c = nm"
  shows "keeps P (publish_cold_version aws c nonce)"
  unfolding publish_cold_version_def wait_version_active_def Let_def c
  by (intro keeps_bind keeps_then keeps_bump_cold_nonce keeps_acquire
        keeps_send keeps_ret keeps_wait_version_loop) (simp add: cold_event_def)

end

context run_invariant
begin

lemma keeps_delete_version: "keeps P (delete_version aws nm v)"
  unfolding delete_version_def
  by (intro keeps_then keeps_acquire keeps_send_delete)

lemma keeps_invoke_tail_core: "keeps P (invoke_tail_core aws cl nm pl q ctx)"
  unfolding invoke_tail_core_def timed_invoke_def
  by (auto intro!: keeps_bind keeps_peek keeps_send_invoke keeps_ret split: prod.splits)

lemma keeps_invoke_tail:
  assumes c: "function_name c = nm"
  shows "keeps P (invoke_tail aws c q)"
  unfolding invoke_tail_def invoke_tail_timed_def invoke_tail_timed_with_def
    invoke_tail_timed_by_name_def c
  by (auto intro!: keeps_bind keeps_invoke_tail_core keeps_ret split: prod.splits)

lemma keeps_invoke_host_cpu:
  assumes c: "function_name c = nm"
  shows "keeps P (invoke_host_cpu aws c q)"
  unfolding invoke_host_cpu_def c
  by (auto intro!: keeps_bind keeps_invoke_tail_core keeps_ret split: prod.splits)

end

end
