(* ===== verification/Writer.thy ===== *)
theory Writer
  imports Effects Config
begin

text \<open>
  \<open>bencher/src/record.rs\<close>: the invocation row and the results writer. The JSON serializer and
  the compressed file are parameters: what is modelled is which lines are handed to the
  stream, in which order, when it is flushed and what the rows counter says. Every line is
  followed by its own line feed write, as in the code.
\<close>

record row =
  row_run_id :: string
  row_ts_unix_ms :: nat
  row_lang :: string
  row_scenario :: string
  row_memory_mb :: int
  row_arch :: string
  row_opt :: "string option"
  row_snapstart :: bool
  row_jitter :: "string option"
  row_runtime_id :: string
  row_function_name :: string
  row_zip_bytes :: nat
  row_unzipped_bytes :: nat
  row_cycle :: nat
  row_idx :: nat
  row_is_cold :: bool
  row_cold_nonce :: string
  row_request_id :: string
  row_invoke_status :: int
  row_function_error :: "string option"
  row_init_ms :: "rat option"
  row_restore_ms :: "rat option"
  row_duration_ms :: rat
  row_billed_ms :: rat
  row_memory_size_mb :: int
  row_max_memory_used_mb :: int
  row_host_cpu :: "string option"

record 'x writer =
  row_to_json :: "row \<Rightarrow> string option"
  stream_write :: "string \<Rightarrow> 'x \<Rightarrow> (string + unit) \<times> 'x"
  stream_flush :: "'x \<Rightarrow> (string + unit) \<times> 'x"

definition io_ok :: "string + 'a \<Rightarrow> ('x, 'a) eff" where
  "io_ok r = of_result (case r of Inl e \<Rightarrow> Inl (IoError e) | Inr x \<Rightarrow> Inr x)"

definition serialize_rows :: "'x writer \<Rightarrow> row list \<Rightarrow> err + string list" where
  "serialize_rows w rows =
     collect_results (\<lambda>r. ok_or (SerializeError (row_function_name r)) (row_to_json w r)) rows"

definition write_line :: "'x writer \<Rightarrow> string \<Rightarrow> ('x, unit) eff" where
  "write_line w line =
     thenE (bindE (call (EvWrite line) (stream_write w line)) io_ok)
       (bindE (call (EvWrite [nl]) (stream_write w [nl])) io_ok)"

definition write_cell :: "'x writer \<Rightarrow> row list \<Rightarrow> ('x, unit) eff" where
  "write_cell w rows =
     bindE (of_result (serialize_rows w rows)) (\<lambda>lines.
     thenE (for_each (write_line w) lines)
     (thenE (bindE (call EvFlush (stream_flush w)) io_ok)
       (\<lambda>s. ret () (s\<lparr>rows_count := rows_count s + length lines\<rparr>))))"

definition rows_written :: "('x, nat) eff" where
  "rows_written s = ret (rows_count s) s"

section \<open>What a write does\<close>

definition written :: "event list \<Rightarrow> string list" where
  "written evs = List.map_filter (\<lambda>e. case e of EvWrite l \<Rightarrow> Some l | _ \<Rightarrow> None) evs"

lemma written_append [simp]: "written (xs @ ys) = written xs @ written ys"
  by (simp add: written_def List.map_filter_def)

lemma written_simps [simp]: "written [] = []" "written (EvWrite l # es) = l # written es"
  "written (EvFlush # es) = written es"
  by (simp_all add: written_def List.map_filter_def)

text \<open>A successful call that only appends to the log.\<close>

lemma io_call_Inr:
  "bindE (call ev f) io_ok s = (Inr x, t) \<Longrightarrow>
     calls t = calls s @ [ev] \<and> rows_count t = rows_count s \<and>
     next_slot t = next_slot s \<and> leaked_versions t = leaked_versions s"
  by (auto simp: bindE_def call_def io_ok_def of_result_def split: prod.splits sum.splits)

lemma write_line_Inr:
  "write_line w l s = (Inr u, t) \<Longrightarrow>
     calls t = calls s @ [EvWrite l, EvWrite [nl]] \<and> rows_count t = rows_count s"
  unfolding write_line_def by (erule thenE_InrE) (drule io_call_Inr, drule io_call_Inr, simp)

lemma for_each_write_Inr:
  "for_each (write_line w) ls s = (Inr u, t) \<Longrightarrow>
     calls t = calls s @ concat (map (\<lambda>l. [EvWrite l, EvWrite [nl]]) ls) \<and>
     rows_count t = rows_count s"
proof (induction ls arbitrary: s)
  case Nil
  then show ?case by (simp add: ret_def)
next
  case (Cons l ls)
  then obtain v m where "write_line w l s = (Inr v, m)" "for_each (write_line w) ls m = (Inr u, t)"
    by (auto simp: thenE_def bindE_Inr)
  with Cons.IH [of m] write_line_Inr [of w l s v m] show ?case by simp
qed

lemma write_cell_Inr:
  assumes "write_cell w rows s = (Inr u, t)"
  obtains ls where "map (row_to_json w) rows = map Some ls"
    "calls t = calls s @ concat (map (\<lambda>l. [EvWrite l, EvWrite [nl]]) ls) @ [EvFlush]"
    "rows_count t = rows_count s + length rows"
proof -
  from assms obtain ls s1 where
    ls: "of_result (serialize_rows w rows) s = (Inr ls, s1)" and
    r1: "thenE (for_each (write_line w) ls) (thenE (bindE (call EvFlush (stream_flush w)) io_ok)
       (\<lambda>s. ret () (s\<lparr>rows_count := rows_count s + length ls\<rparr>))) s1 = (Inr u, t)"
    unfolding write_cell_def by (rule bindE_InrE)
  from r1 obtain v s2 where fe: "for_each (write_line w) ls s1 = (Inr v, s2)" and
    r2: "thenE (bindE (call EvFlush (stream_flush w)) io_ok)
       (\<lambda>s. ret () (s\<lparr>rows_count := rows_count s + length ls\<rparr>)) s2 = (Inr u, t)"
    by (rule thenE_InrE)
  from r2 obtain x s3 where fl: "bindE (call EvFlush (stream_flush w)) io_ok s2 = (Inr x, s3)" and
    n: "t = s3\<lparr>rows_count := rows_count s3 + length ls\<rparr>"
    by (rule thenE_InrE) (simp add: ret_Inr)
  from ls have ls: "serialize_rows w rows = Inr ls" and s1: "s1 = s"
    by (simp_all add: of_result_Inr)
  have len: "list_all2 (\<lambda>r l. row_to_json w r = Some l) rows ls"
    using ls by (simp add: serialize_rows_def collect_results_Inr)
  then have "map (row_to_json w) rows = map Some ls"
    by (induction rule: list_all2_induct) simp_all
  moreover have "length ls = length rows" using len by (simp add: list_all2_lengthD)
  ultimately show ?thesis
    using that [of ls] for_each_write_Inr [OF fe] io_call_Inr [OF fl] n s1 by simp
qed

end
