(* ===== verification/Sim.thy ===== *)
theory Sim
  imports Services Writer
begin

text \<open>
  A small healthy world to run the model in: it shows that the hypotheses of the properties
  can hold. Its state is the revision of the one function, whether the next invoke lands
  cold, and a clock that advances by one at each reading. Every call succeeds, an update or
  a publish makes the next invoke cold, invokes answer a short \<open>REPORT\<close> line that the world's
  regex engine reads, with a restore on a version qualifier, and the host CPU when asked.
\<close>

type_synonym world = "nat \<times> bool \<times> nat"

definition sim_line :: "bool \<Rightarrow> bool \<Rightarrow> string" where
  "sim_line cold restored =
     ''REPORT RequestId: '' @ (if cold then (if restored then ''R'' else ''I'') else ''W'')"

text \<open>An engine for these short lines: fixed captures, and a marker by the last letter.\<close>

definition sim_regex :: regex_engine where
  "sim_regex =
     \<lparr>rx_captures = (\<lambda>is l. Some [''rid'' \<mapsto> ''0a-1'', ''dur'' \<mapsto> ''1.5'', ''billed'' \<mapsto> ''2'',
        ''memsize'' \<mapsto> ''128'', ''maxmem'' \<mapsto> ''30'']),
      rx_captures_iter = (\<lambda>is l.
        if last l = CHR ''I'' \<and> is = init_regex then [[''init'' \<mapsto> ''90.25'']]
        else if last l = CHR ''R'' \<and> is = restore_regex then [[''restore'' \<mapsto> ''90.25'']]
        else [])\<rparr>"

definition sim_invoke :: "invoke_req \<Rightarrow> world \<Rightarrow> (sdk_error + invoke_out) \<times> world" where
  "sim_invoke r x =
     (case x of (n, cold, t) \<Rightarrow>
        (Inr \<lparr>out_status = 200, out_error = None,
              out_payload = Some ''{}'',
              out_log = Some ((if iv_context r \<noteq> None then ''LAMBDABENCH_CPU sim'' @ [nl] else []) @
                sim_line cold (iv_qualifier r \<noteq> None))\<rparr>,
         (n, False, t)))"

definition sim_config :: "world \<Rightarrow> fn_config" where
  "sim_config x =
     \<lparr>revision_id = Some (show_nat (fst x)), variables = None, fstate = Some StActive,
      state_reason = None, last_update_status = Some UpSuccessful, last_update_reason = None,
      optimization_status = Some SnapOn\<rparr>"

definition bump :: "'a \<Rightarrow> world \<Rightarrow> (sdk_error + 'a) \<times> world" where
  "bump r x = (case x of (n, cold, t) \<Rightarrow> (Inr r, (Suc n, True, t)))"

definition done_ok :: "'a \<Rightarrow> world \<Rightarrow> (sdk_error + 'a) \<times> world" where
  "done_ok r x = (Inr r, x)"

definition tick :: "world \<Rightarrow> nat \<times> world" where
  "tick x = (case x of (n, cold, t) \<Rightarrow> (t, (n, cold, Suc t)))"

definition sim :: "world aws" where
  "sim =
     \<lparr>account_id = ''123456789012'', regex = sim_regex,
      json_from_str = (\<lambda>s. if s = ''{}'' then Some (JObj [(''statusCode'', JInt 200)]) else None),
      b64_decode = Some, b64_encode = id, utf8_lossy = id, authz_token = ''t'',
      sleep_ms = (\<lambda>n x. ((), x)), sleep_until = (\<lambda>n x. ((), x)),
      now_ns = tick, unix_ms = tick, new_uuid = (\<lambda>x. (''nonce'', x)),
      get_function = (\<lambda>name q x. (Inr (Some (sim_config x)), x)),
      update_function_code = (\<lambda>name a co. bump ()),
      update_function_configuration = (\<lambda>req. bump ()),
      create_function = (\<lambda>req. bump ()),
      publish_version = (\<lambda>name. bump (Some ''1'')),
      lambda_delete = (\<lambda>name q. done_ok ()),
      invoke = sim_invoke,
      s3_put = (\<lambda>b k body m. done_ok ()),
      s3_delete = (\<lambda>b k. done_ok ())\<rparr>"

definition sim_writer :: "world writer" where
  "sim_writer =
     \<lparr>row_to_json = (\<lambda>r. Some (''{'' @ row_function_name r @ ''}'')),
      stream_write = (\<lambda>l x. (Inr (), x)), stream_flush = (\<lambda>x. (Inr (), x))\<rparr>"

definition sim_start :: "world drv" where
  "sim_start =
     \<lparr>ext = (0, False, 0), kms_key_id = None, next_slot = 0, leaked_versions = [],
      rows_count = 0, calls = []\<rparr>"

end
