(* ===== verification/Run_Loop.thy ===== *)
theory Run_Loop
  imports Lambda_Api Sim
begin

text \<open>
  \<open>bencher/src/run.rs\<close>: how one cell is measured. The forced cold invoke with its retries,
  the warm tail, the SnapStart cycle on a fresh version, the host-CPU invoke, the three retry
  loops (cold force, cycle, cell), the checks of an invoke, and the rows. Durations are
  milliseconds. \<open>&mut\<close> parameters are returned; the rows a failed cycle has collected are
  dropped with it, as in the code.
\<close>

definition MAX_COLD_FORCE_ATTEMPTS :: nat where "MAX_COLD_FORCE_ATTEMPTS = 6"
definition COLD_FORCE_RETRY_BACKOFF_BASE_MS :: nat where "COLD_FORCE_RETRY_BACKOFF_BASE_MS = 1500"
definition COLD_FORCE_RETRY_BACKOFF_CAP_MS :: nat where "COLD_FORCE_RETRY_BACKOFF_CAP_MS = 12000"
definition MAX_CYCLE_ATTEMPTS :: nat where "MAX_CYCLE_ATTEMPTS = 4"
definition CYCLE_RETRY_BACKOFF_MS :: nat where "CYCLE_RETRY_BACKOFF_MS = 1000"
definition MAX_CELL_ATTEMPTS :: nat where "MAX_CELL_ATTEMPTS = 3"
definition CELL_RETRY_BACKOFF_MS :: nat where "CELL_RETRY_BACKOFF_MS = 5000"

record artifact_sizes =
  zip_size :: nat
  unzipped_size :: nat

record run_params =
  rp_profile :: profile
  rp_pool :: nat

record counts =
  cold_count :: nat
  warm_count :: nat

datatype host_cpu = Reported string | Recycled | NoLine string | HostFailed err

datatype cycle_outcome = Complete "row list" host_cpu | WarmRecycled nat

section \<open>Checks of an invoke\<close>

definition check_http_envelope_ok :: "'x aws \<Rightarrow> string \<Rightarrow> invoke_result \<Rightarrow> err + unit" where
  "check_http_envelope_ok aws name res =
     res_bind (ok_or (NoPayload name) (payload res)) (\<lambda>pl.
     res_bind (ok_or (NotJson name) (json_from_str aws pl)) (\<lambda>envelope.
     res_bind (ok_or (NoStatusCode name)
         (Option.bind (json_get ''statusCode'' envelope) as_i64)) (\<lambda>status.
       if \<not> (200 \<le> status \<and> status < 300) then Inl (HttpStatus name status) else Inr ())))"

definition check_platform_ok :: "'x aws \<Rightarrow> cell \<Rightarrow> invoke_result \<Rightarrow> err + unit" where
  "check_platform_ok aws c res =
     (if status_code res \<noteq> 200 then Inl (StatusNot200 (function_name c) (status_code res))
      else case function_error res of
        Some e \<Rightarrow> Inl (FunctionErrorReported (function_name c) e)
      | None \<Rightarrow>
          if is_http_fronted (scenario c) then check_http_envelope_ok aws (function_name c) res
          else Inr ())"

definition build_row ::
    "'x aws \<Rightarrow> cell \<Rightarrow> string \<Rightarrow> artifact_sizes \<Rightarrow> nat \<Rightarrow> nat \<Rightarrow> bool \<Rightarrow> string \<Rightarrow>
     invoke_result \<Rightarrow> report \<Rightarrow> ('x, row) eff" where
  "build_row aws c run_id sizes cycle idx cold nonce res rep =
     bindE (peek (unix_ms aws)) (\<lambda>ts.
       ret \<lparr>row_run_id = run_id, row_ts_unix_ms = ts,
            row_lang = lang_as_str (lang c), row_scenario = scenario_as_str (scenario c),
            row_memory_mb = memory_mb c, row_arch = arch_as_str (arch c),
            row_opt = map_option opt_as_str (opt c), row_snapstart = snapstart c,
            row_jitter = map_option jitter_as_str (jitter c),
            row_runtime_id = runtime (lang c), row_function_name = function_name c,
            row_zip_bytes = zip_size sizes, row_unzipped_bytes = unzipped_size sizes,
            row_cycle = cycle, row_idx = idx, row_is_cold = cold, row_cold_nonce = nonce,
            row_request_id = request_id rep, row_invoke_status = status_code res,
            row_function_error = function_error res,
            row_init_ms = init_ms rep, row_restore_ms = restore_ms rep,
            row_duration_ms = duration_ms rep, row_billed_ms = billed_ms rep,
            row_memory_size_mb = memory_size_mb rep,
            row_max_memory_used_mb = max_memory_used_mb rep, row_host_cpu = None\<rparr>)"

text \<open>\<open>check_platform_ok\<close> then \<open>parse_report\<close>, the validation every recorded invoke passes.\<close>

definition validated :: "'x aws \<Rightarrow> cell \<Rightarrow> invoke_result \<Rightarrow> err + report" where
  "validated aws c res =
     res_bind (check_platform_ok aws c res) (\<lambda>_. parse_report (regex aws) (log_tail res))"

section \<open>One cycle\<close>

text \<open>\<open>left\<close> attempts remain, \<open>k\<close> is the number of the current one.\<close>

fun force_cold_loop ::
    "'x aws \<Rightarrow> cell \<Rightarrow> string \<Rightarrow> artifact_sizes \<Rightarrow> nat \<Rightarrow> nat \<Rightarrow> nat \<Rightarrow>
     ('x, string \<times> row) eff" where
  "force_cold_loop aws c run_id sizes cycle k 0 =
     fail (ColdForceExhausted (function_name c) cycle)"
| "force_cold_loop aws c run_id sizes cycle k (Suc left) =
     bindE (peek (new_uuid aws)) (\<lambda>nonce.
     thenE (force_cold aws c nonce)
     (bindE (invoke_tail aws c None) (\<lambda>res.
      bindE (of_result (validated aws c res)) (\<lambda>rep.
        if is_cold rep then
          bindE (build_row aws c run_id sizes cycle 0 True nonce res rep) (\<lambda>row. ret (nonce, row))
        else
          thenE (sleep aws (min (COLD_FORCE_RETRY_BACKOFF_BASE_MS * k)
                                COLD_FORCE_RETRY_BACKOFF_CAP_MS))
            (force_cold_loop aws c run_id sizes cycle (Suc k) left)))))"

definition force_cold_invoke ::
    "'x aws \<Rightarrow> cell \<Rightarrow> string \<Rightarrow> artifact_sizes \<Rightarrow> nat \<Rightarrow> ('x, string \<times> row) eff" where
  "force_cold_invoke aws c run_id sizes cycle =
     force_cold_loop aws c run_id sizes cycle 1 MAX_COLD_FORCE_ATTEMPTS"

text \<open>The rows so far and, when a warm invoke landed cold, its index.\<close>

fun collect_warm_loop ::
    "'x aws \<Rightarrow> cell \<Rightarrow> string \<Rightarrow> artifact_sizes \<Rightarrow> nat \<Rightarrow> string \<Rightarrow> string option \<Rightarrow> nat \<Rightarrow> nat \<Rightarrow>
     row list \<Rightarrow> ('x, row list \<times> nat option) eff" where
  "collect_warm_loop aws c run_id sizes cycle nonce q idx 0 rows = ret (rows, None)"
| "collect_warm_loop aws c run_id sizes cycle nonce q idx (Suc left) rows =
     bindE (invoke_tail aws c q) (\<lambda>res.
     bindE (of_result (validated aws c res)) (\<lambda>rep.
       if is_cold rep then ret (rows, Some idx)
       else
         bindE (build_row aws c run_id sizes cycle idx False nonce res rep) (\<lambda>row.
           collect_warm_loop aws c run_id sizes cycle nonce q (Suc idx) left (rows @ [row]))))"

definition collect_warm_invokes ::
    "'x aws \<Rightarrow> cell \<Rightarrow> counts \<Rightarrow> string \<Rightarrow> artifact_sizes \<Rightarrow> nat \<Rightarrow> string \<Rightarrow> string option \<Rightarrow>
     row list \<Rightarrow> ('x, row list \<times> nat option) eff" where
  "collect_warm_invokes aws c n run_id sizes cycle nonce q rows =
     collect_warm_loop aws c run_id sizes cycle nonce q 1 (warm_count n) rows"

definition classify_host_cpu :: "'x aws \<Rightarrow> cell \<Rightarrow> err + invoke_result \<Rightarrow> host_cpu" where
  "classify_host_cpu aws c r =
     (case r of
        Inl e \<Rightarrow> HostFailed e
      | Inr res \<Rightarrow>
          (case validated aws c res of
             Inl e \<Rightarrow> HostFailed e
           | Inr rep \<Rightarrow>
               if is_cold rep then Recycled
               else (case parse_host_cpu (log_tail res) of
                       Some cpu \<Rightarrow> Reported cpu
                     | None \<Rightarrow> NoLine (log_tail res))))"

definition report_host_cpu ::
    "'x aws \<Rightarrow> cell \<Rightarrow> string option \<Rightarrow> row list \<Rightarrow> ('x, cycle_outcome) eff" where
  "report_host_cpu aws c q rows =
     bindE (attempt (invoke_host_cpu aws c q)) (\<lambda>r.
       ret (Complete rows (classify_host_cpu aws c r)))"

definition finish_cycle ::
    "'x aws \<Rightarrow> cell \<Rightarrow> string option \<Rightarrow> row list \<times> nat option \<Rightarrow> ('x, cycle_outcome) eff" where
  "finish_cycle aws c q w =
     (case w of
        (rows, Some idx) \<Rightarrow> ret (WarmRecycled idx)
      | (rows, None) \<Rightarrow> report_host_cpu aws c q rows)"

definition try_one_latest_cycle ::
    "'x aws \<Rightarrow> cell \<Rightarrow> counts \<Rightarrow> string \<Rightarrow> artifact_sizes \<Rightarrow> nat \<Rightarrow> ('x, cycle_outcome) eff" where
  "try_one_latest_cycle aws c n run_id sizes cycle =
     bindE (force_cold_invoke aws c run_id sizes cycle) (\<lambda>(nonce, cold_row).
     bindE (collect_warm_invokes aws c n run_id sizes cycle nonce None [cold_row])
       (finish_cycle aws c None))"

definition run_snapstart_invokes ::
    "'x aws \<Rightarrow> cell \<Rightarrow> counts \<Rightarrow> string \<Rightarrow> artifact_sizes \<Rightarrow> nat \<Rightarrow> string \<Rightarrow> string \<Rightarrow>
     ('x, cycle_outcome) eff" where
  "run_snapstart_invokes aws c n run_id sizes cycle nonce v =
     bindE (invoke_tail aws c (Some v)) (\<lambda>res.
     bindE (of_result (validated aws c res)) (\<lambda>rep.
       if restore_ms rep = None then fail (NoRestoreDuration (function_name c) cycle v)
       else
         bindE (build_row aws c run_id sizes cycle 0 True nonce res rep) (\<lambda>row.
         bindE (collect_warm_invokes aws c n run_id sizes cycle nonce (Some v) [row])
           (finish_cycle aws c (Some v)))))"

text \<open>The version is deleted, best effort, whatever the invokes returned. The drop guard only
  acts when the cycle is cancelled in between.\<close>

definition try_one_snapstart_cycle ::
    "'x aws \<Rightarrow> cell \<Rightarrow> counts \<Rightarrow> string \<Rightarrow> artifact_sizes \<Rightarrow> nat \<Rightarrow> ('x, cycle_outcome) eff" where
  "try_one_snapstart_cycle aws c n run_id sizes cycle =
     bindE (peek (new_uuid aws)) (\<lambda>nonce.
     bindE (publish_cold_version aws c nonce) (\<lambda>v.
     bindE (attempt (run_snapstart_invokes aws c n run_id sizes cycle nonce v)) (\<lambda>outcome.
     bindE (attempt (delete_version aws (function_name c) v)) (\<lambda>_.
       of_result outcome))))"

definition try_one_cycle ::
    "'x aws \<Rightarrow> cell \<Rightarrow> counts \<Rightarrow> string \<Rightarrow> artifact_sizes \<Rightarrow> nat \<Rightarrow> ('x, cycle_outcome) eff" where
  "try_one_cycle aws c n run_id sizes cycle =
     (if snapstart c then try_one_snapstart_cycle aws c n run_id sizes cycle
      else try_one_latest_cycle aws c n run_id sizes cycle)"

fun one_cycle_loop ::
    "'x aws \<Rightarrow> cell \<Rightarrow> counts \<Rightarrow> string \<Rightarrow> artifact_sizes \<Rightarrow> nat \<Rightarrow> nat \<Rightarrow>
     ('x, row list \<times> host_cpu) eff" where
  "one_cycle_loop aws c n run_id sizes cycle 0 = fail (CycleExhausted (function_name c) cycle)"
| "one_cycle_loop aws c n run_id sizes cycle (Suc left) =
     bindE (try_one_cycle aws c n run_id sizes cycle) (\<lambda>r.
       case r of
         Complete rows cpu \<Rightarrow> ret (rows, cpu)
       | WarmRecycled idx \<Rightarrow>
           thenE (sleep aws CYCLE_RETRY_BACKOFF_MS)
             (one_cycle_loop aws c n run_id sizes cycle left))"

definition run_one_cycle ::
    "'x aws \<Rightarrow> cell \<Rightarrow> counts \<Rightarrow> string \<Rightarrow> artifact_sizes \<Rightarrow> nat \<Rightarrow>
     ('x, row list \<times> host_cpu) eff" where
  "run_one_cycle aws c n run_id sizes cycle =
     one_cycle_loop aws c n run_id sizes cycle MAX_CYCLE_ATTEMPTS"

section \<open>One cell\<close>

definition apply_host_cpu :: "row list \<Rightarrow> host_cpu \<Rightarrow> bool \<Rightarrow> string \<Rightarrow> err + row list" where
  "apply_host_cpu rows cpu cpu_seen who =
     (case cpu of
        Reported t \<Rightarrow> Inr (map (\<lambda>r. r\<lparr>row_host_cpu := Some t\<rparr>) rows)
      | Recycled \<Rightarrow> Inr rows
      | NoLine t \<Rightarrow> if \<not> cpu_seen then Inl (NoHostCpuLine who t) else Inr rows
      | HostFailed e \<Rightarrow> if \<not> cpu_seen then Inl e else Inr rows)"

text \<open>The counter and the rows survive a failure: they are part of the value, with the error.\<close>

function run_cycles ::
    "'x aws \<Rightarrow> cell \<Rightarrow> counts \<Rightarrow> string \<Rightarrow> artifact_sizes \<Rightarrow> nat \<Rightarrow> row list \<Rightarrow>
     ('x, nat \<times> row list \<times> err option) eff" where
  "run_cycles aws c n run_id sizes cycle rows =
     (if cycle < cold_count n then
        bindE (attempt (run_one_cycle aws c n run_id sizes cycle)) (\<lambda>r.
          case r of
            Inl e \<Rightarrow> ret (cycle, rows, Some e)
          | Inr (cycle_rows, cpu) \<Rightarrow>
              (case apply_host_cpu cycle_rows cpu
                      (list_ex (\<lambda>r. row_host_cpu r \<noteq> None) rows) (function_name c) of
                 Inl e \<Rightarrow> ret (cycle, rows, Some e)
               | Inr stamped \<Rightarrow>
                   run_cycles aws c n run_id sizes (Suc cycle) (rows @ stamped)))
      else ret (cycle, rows, None))"
  by pat_completeness auto
termination by (relation "measure (\<lambda>(aws, c, n, run_id, sizes, cycle, rows). cold_count n - cycle)") auto

declare run_cycles.simps [simp del]

fun run_cell_loop ::
    "'x aws \<Rightarrow> 'x writer \<Rightarrow> cell \<Rightarrow> counts \<Rightarrow> string \<Rightarrow> artifact_sizes \<Rightarrow> nat \<Rightarrow> nat \<Rightarrow> nat \<Rightarrow>
     row list \<Rightarrow> err \<Rightarrow> ('x, unit) eff" where
  "run_cell_loop aws w c n run_id sizes k 0 cycle rows last_err = fail last_err"
| "run_cell_loop aws w c n run_id sizes k (Suc left) cycle rows last_err =
     bindE (run_cycles aws c n run_id sizes cycle rows) (\<lambda>(cycle', rows', r).
       case r of
         None \<Rightarrow> write_cell w rows'
       | Some e \<Rightarrow>
           thenE (if k < MAX_CELL_ATTEMPTS then sleep aws CELL_RETRY_BACKOFF_MS else ret ())
             (run_cell_loop aws w c n run_id sizes (Suc k) left cycle' rows' e))"

definition run_cell ::
    "'x aws \<Rightarrow> 'x writer \<Rightarrow> cell \<Rightarrow> run_params \<Rightarrow> string \<Rightarrow> artifact_sizes \<Rightarrow> ('x, unit) eff" where
  "run_cell aws w c params run_id sizes =
     (case iterations c (rp_profile params) of
        (cold, warm) \<Rightarrow>
          run_cell_loop aws w c \<lparr>cold_count = cold, warm_count = warm\<rparr> run_id sizes
            1 MAX_CELL_ATTEMPTS 0 [] (Message ''loop ran at least once''))"

section \<open>What a clean cycle returns\<close>

text \<open>The row at place \<open>i\<close> of cycle \<open>k\<close>: its position, its coldness, and that the platform
  confirmed both the invoke and the coldness.\<close>

definition measured ::
    "cell \<Rightarrow> string \<Rightarrow> artifact_sizes \<Rightarrow> nat \<Rightarrow> string \<Rightarrow> string option \<Rightarrow> nat \<Rightarrow> row \<Rightarrow> bool" where
  "measured c run_id sizes k nonce cpu i r \<longleftrightarrow>
     row_run_id r = run_id \<and> row_function_name r = function_name c \<and>
     row_lang r = lang_as_str (lang c) \<and> row_memory_mb r = memory_mb c \<and>
     row_zip_bytes r = zip_size sizes \<and> row_unzipped_bytes r = unzipped_size sizes \<and>
     row_cycle r = k \<and> row_idx r = i \<and> (row_is_cold r \<longleftrightarrow> i = 0) \<and>
     row_cold_nonce r = nonce \<and> row_host_cpu r = cpu \<and>
     row_invoke_status r = 200 \<and> row_function_error r = None \<and>
     (row_init_ms r \<noteq> None \<or> row_restore_ms r \<noteq> None \<longleftrightarrow> i = 0) \<and>
     (snapstart c \<and> i = 0 \<longrightarrow> row_restore_ms r \<noteq> None)"

definition rows_measured ::
    "cell \<Rightarrow> string \<Rightarrow> artifact_sizes \<Rightarrow> nat \<Rightarrow> string \<Rightarrow> string option \<Rightarrow> row list \<Rightarrow> bool" where
  "rows_measured c run_id sizes k nonce cpu rows \<longleftrightarrow>
     (\<forall>i < length rows. measured c run_id sizes k nonce cpu i (rows ! i))"

definition cycle_ok :: "cell \<Rightarrow> counts \<Rightarrow> string \<Rightarrow> artifact_sizes \<Rightarrow> nat \<Rightarrow> row list \<Rightarrow> bool" where
  "cycle_ok c n run_id sizes k rows \<longleftrightarrow>
     length rows = 1 + warm_count n \<and>
     (\<exists>nonce cpu. rows_measured c run_id sizes k nonce cpu rows)"

lemma rows_measured_snoc:
  "rows_measured c run_id sizes k nonce cpu (rows @ [r]) \<longleftrightarrow>
     rows_measured c run_id sizes k nonce cpu rows \<and>
     measured c run_id sizes k nonce cpu (length rows) r"
  by (auto simp: rows_measured_def nth_append less_Suc_eq)

lemma validated_Inr:
  "validated aws c res = Inr rep \<Longrightarrow>
     status_code res = 200 \<and> function_error res = None \<and>
     parse_report (regex aws) (log_tail res) = Inr rep"
  by (auto simp: validated_def res_bind_Inr check_platform_ok_def split: if_splits option.splits)

lemma returns_build_row:
  assumes "validated aws c res = Inr rep" "cold \<longleftrightarrow> i = 0" "is_cold rep \<longleftrightarrow> cold"
    "snapstart c \<and> cold \<Longrightarrow> restore_ms rep \<noteq> None"
  shows "returns (build_row aws c run_id sizes k i cold nonce res rep)
    (measured c run_id sizes k nonce None i)"
  unfolding build_row_def
  by (rule returns_bind_any, rule returns_ret)
     (use assms validated_Inr [OF assms(1)] in \<open>auto simp: measured_def is_cold_def\<close>)

lemma returns_validated: "returns (of_result (validated aws c res)) (\<lambda>rep. validated aws c res = Inr rep)"
  by (rule returns_of_result)

lemma returns_force_cold_loop:
  assumes "\<not> snapstart c"
  shows "returns (force_cold_loop aws c run_id sizes k a left)
    (\<lambda>(nonce, r). measured c run_id sizes k nonce None 0 r)"
proof (induction left arbitrary: a)
  case 0
  show ?case by (simp add: returns_fail)
next
  case (Suc left)
  show ?case
    unfolding force_cold_loop.simps
  proof (rule returns_bind_any, rule returns_then, rule returns_bind_any,
      rule returns_bind [OF returns_validated])
    fix nonce res rep
    assume v: "validated aws c res = Inr rep"
    show "returns (if is_cold rep
        then bindE (build_row aws c run_id sizes k 0 True nonce res rep) (\<lambda>row. ret (nonce, row))
        else thenE (sleep aws (min (COLD_FORCE_RETRY_BACKOFF_BASE_MS * a)
               COLD_FORCE_RETRY_BACKOFF_CAP_MS))
            (force_cold_loop aws c run_id sizes k (Suc a) left))
       (\<lambda>(nonce, r). measured c run_id sizes k nonce None 0 r)"
    proof (cases "is_cold rep")
      case True
      have "returns (build_row aws c run_id sizes k 0 True nonce res rep)
          (measured c run_id sizes k nonce None 0)"
        by (rule returns_build_row [OF v]) (use True assms in auto)
      with True show ?thesis by (auto intro!: returns_bind returns_ret)
    next
      case False
      with Suc.IH show ?thesis by (simp add: returns_then)
    qed
  qed
qed

lemma returns_collect_warm_loop:
  assumes "rows_measured c run_id sizes k nonce None rows" "length rows = idx" "0 < idx"
  shows "returns (collect_warm_loop aws c run_id sizes k nonce q idx left rows)
    (\<lambda>(rows', r). r = None \<longrightarrow>
       length rows' = idx + left \<and> rows_measured c run_id sizes k nonce None rows')"
  using assms
proof (induction left arbitrary: idx rows)
  case 0
  then show ?case by (simp add: returns_ret)
next
  case (Suc left)
  show ?case
    unfolding collect_warm_loop.simps
  proof (rule returns_bind_any, rule returns_bind [OF returns_validated])
    fix res rep
    assume v: "validated aws c res = Inr rep"
    show "returns (if is_cold rep then ret (rows, Some idx)
       else bindE (build_row aws c run_id sizes k idx False nonce res rep) (\<lambda>row.
           collect_warm_loop aws c run_id sizes k nonce q (Suc idx) left (rows @ [row])))
      (\<lambda>(rows', r). r = None \<longrightarrow>
         length rows' = idx + Suc left \<and> rows_measured c run_id sizes k nonce None rows')"
    proof (cases "is_cold rep")
      case True
      then show ?thesis by (simp add: returns_ret)
    next
      case False
      have b: "returns (build_row aws c run_id sizes k idx False nonce res rep)
          (measured c run_id sizes k nonce None idx)"
        by (rule returns_build_row [OF v]) (use False Suc.prems in auto)
      show ?thesis
        unfolding if_not_P [OF False]
      proof (rule returns_bind [OF b])
        fix r
        assume "measured c run_id sizes k nonce None idx r"
        with Suc.prems have "rows_measured c run_id sizes k nonce None (rows @ [r])"
          by (simp add: rows_measured_snoc)
        from Suc.IH [OF this, of "Suc idx"] Suc.prems
        show "returns (collect_warm_loop aws c run_id sizes k nonce q (Suc idx) left (rows @ [r]))
          (\<lambda>(rows', r). r = None \<longrightarrow>
             length rows' = idx + Suc left \<and> rows_measured c run_id sizes k nonce None rows')"
          by simp
      qed
    qed
  qed
qed

text \<open>A complete cycle carries a full series of measured rows, not stamped with a CPU yet.\<close>

definition outcome_ok :: "cell \<Rightarrow> counts \<Rightarrow> string \<Rightarrow> artifact_sizes \<Rightarrow> nat \<Rightarrow> cycle_outcome \<Rightarrow> bool" where
  "outcome_ok c n run_id sizes k r \<longleftrightarrow>
     (case r of
        WarmRecycled _ \<Rightarrow> True
      | Complete rows _ \<Rightarrow>
          length rows = 1 + warm_count n \<and>
          (\<exists>nonce. rows_measured c run_id sizes k nonce None rows))"

lemma returns_warm_and_finish:
  assumes "measured c run_id sizes k nonce None 0 r"
  shows "returns (bindE (collect_warm_invokes aws c n run_id sizes k nonce q [r]) (finish_cycle aws c q))
    (outcome_ok c n run_id sizes k)"
proof -
  have "rows_measured c run_id sizes k nonce None [r]"
    using assms by (simp add: rows_measured_def)
  from returns_collect_warm_loop [OF this, of 1 aws q "warm_count n"]
  have w: "returns (collect_warm_invokes aws c n run_id sizes k nonce q [r])
    (\<lambda>(rows', r). r = None \<longrightarrow>
       length rows' = 1 + warm_count n \<and> rows_measured c run_id sizes k nonce None rows')"
    by (simp add: collect_warm_invokes_def)
  show ?thesis
    by (rule returns_bind [OF w])
       (force simp: finish_cycle_def report_host_cpu_def outcome_ok_def
          intro!: returns_ret returns_bind_any split: option.splits)
qed

lemma returns_latest:
  assumes "\<not> snapstart c"
  shows "returns (try_one_latest_cycle aws c n run_id sizes k) (outcome_ok c n run_id sizes k)"
  unfolding try_one_latest_cycle_def force_cold_invoke_def
  by (rule returns_bind [OF returns_force_cold_loop [OF assms]])
     (auto intro: returns_warm_and_finish)

lemma returns_snapstart_invokes:
  "returns (run_snapstart_invokes aws c n run_id sizes k nonce v) (outcome_ok c n run_id sizes k)"
  unfolding run_snapstart_invokes_def
proof (rule returns_bind_any, rule returns_bind [OF returns_validated])
  fix res rep
  assume v: "validated aws c res = Inr rep"
  show "returns (if restore_ms rep = None then fail (NoRestoreDuration (function_name c) k v)
       else bindE (build_row aws c run_id sizes k 0 True nonce res rep) (\<lambda>row.
         bindE (collect_warm_invokes aws c n run_id sizes k nonce (Some v) [row])
           (finish_cycle aws c (Some v)))) (outcome_ok c n run_id sizes k)"
  proof (cases "restore_ms rep = None")
    case True
    then show ?thesis by (simp add: returns_fail)
  next
    case False
    have "returns (build_row aws c run_id sizes k 0 True nonce res rep)
        (measured c run_id sizes k nonce None 0)"
      by (rule returns_build_row [OF v]) (use False in \<open>auto simp: is_cold_def\<close>)
    with False show ?thesis by (auto intro!: returns_bind returns_warm_and_finish)
  qed
qed

lemma returns_attempt: "returns m Q \<Longrightarrow> returns (attempt m) (\<lambda>r. \<forall>x. r = Inr x \<longrightarrow> Q x)"
  by (auto simp: returns_def attempt_def split: prod.splits)

lemma returns_snapstart:
  "returns (try_one_snapstart_cycle aws c n run_id sizes k) (outcome_ok c n run_id sizes k)"
  unfolding try_one_snapstart_cycle_def
  by (rule returns_bind_any, rule returns_bind_any,
      rule returns_bind [OF returns_attempt [OF returns_snapstart_invokes]],
      rule returns_bind_any, rule returns_of_result) blast

lemma returns_try_one_cycle:
  "returns (try_one_cycle aws c n run_id sizes k) (outcome_ok c n run_id sizes k)"
  by (simp add: try_one_cycle_def returns_latest returns_snapstart)

lemma returns_one_cycle_loop:
  "returns (one_cycle_loop aws c n run_id sizes k left)
    (\<lambda>(rows, cpu). outcome_ok c n run_id sizes k (Complete rows cpu))"
proof (induction left)
  case 0
  show ?case by (simp add: returns_fail)
next
  case (Suc left)
  show ?case
    unfolding one_cycle_loop.simps
    by (rule returns_bind [OF returns_try_one_cycle])
       (auto intro!: returns_ret returns_then Suc.IH split: cycle_outcome.splits)
qed

lemma apply_host_cpu_ok:
  assumes "outcome_ok c n run_id sizes k (Complete rows cpu)"
    "apply_host_cpu rows cpu seen who = Inr stamped"
  shows "cycle_ok c n run_id sizes k stamped"
proof -
  obtain nonce where m: "length rows = 1 + warm_count n"
    "rows_measured c run_id sizes k nonce None rows"
    using assms(1) by (auto simp: outcome_ok_def)
  show ?thesis
  proof (cases cpu)
    case (Reported t)
    have "rows_measured c run_id sizes k nonce (Some t) (map (\<lambda>r. r\<lparr>row_host_cpu := Some t\<rparr>) rows)"
      using m by (simp add: rows_measured_def measured_def)
    with Reported assms(2) m show ?thesis
      by (auto simp: apply_host_cpu_def cycle_ok_def)
  qed (use assms(2) m in \<open>auto simp: apply_host_cpu_def cycle_ok_def split: if_splits\<close>)
qed

section \<open>The footprint of a cell\<close>

context run_invariant
begin

lemma keeps_build_row: "keeps P (build_row aws c run_id sizes k i cold nonce res rep)"
  unfolding build_row_def by (intro keeps_bind keeps_peek keeps_ret)

lemma keeps_force_cold_loop:
  assumes "function_name c = nm"
  shows "keeps P (force_cold_loop aws c run_id sizes k a left)"
proof (induction left arbitrary: a)
  case 0
  show ?case by (simp add: keeps_ret)
next
  case (Suc left)
  then show ?case
    using assms
    by (auto intro!: keeps_bind keeps_then keeps_peek keeps_force_cold keeps_invoke_tail keeps_ret
        keeps_build_row keeps_sleep)
qed

lemma keeps_collect_warm_loop:
  assumes "function_name c = nm"
  shows "keeps P (collect_warm_loop aws c run_id sizes k nonce q i left rows)"
proof (induction left arbitrary: i rows)
  case 0
  show ?case by (simp add: keeps_ret)
next
  case (Suc left)
  then show ?case
    using assms by (auto intro!: keeps_bind keeps_invoke_tail keeps_ret keeps_build_row)
qed

lemma keeps_finish_cycle:
  assumes "function_name c = nm"
  shows "keeps P (finish_cycle aws c q w)"
  unfolding finish_cycle_def report_host_cpu_def
  using assms
  by (auto intro!: keeps_bind keeps_attempt keeps_invoke_host_cpu keeps_ret
      split: prod.splits option.splits)

lemma keeps_try_one_cycle:
  assumes "function_name c = nm"
  shows "keeps P (try_one_cycle aws c n run_id sizes k)"
  unfolding try_one_cycle_def try_one_snapstart_cycle_def try_one_latest_cycle_def
    run_snapstart_invokes_def force_cold_invoke_def collect_warm_invokes_def assms
  by (auto intro!: keeps_bind keeps_attempt keeps_peek keeps_ret keeps_build_row assms
      keeps_force_cold_loop keeps_collect_warm_loop keeps_finish_cycle keeps_invoke_tail
      keeps_publish_cold_version keeps_delete_version split: prod.splits)

lemma keeps_one_cycle_loop:
  assumes "function_name c = nm"
  shows "keeps P (one_cycle_loop aws c n run_id sizes k left)"
proof (induction left)
  case 0
  show ?case by (simp add: keeps_ret)
next
  case (Suc left)
  then show ?case
    using assms
    by (auto intro!: keeps_bind keeps_then keeps_try_one_cycle keeps_ret keeps_sleep
        split: cycle_outcome.splits)
qed

lemma keeps_run_cycles:
  assumes "function_name c = nm"
  shows "keeps P (run_cycles aws c n run_id sizes k rows)"
proof (induction "cold_count n - k" arbitrary: k rows)
  case 0
  then show ?case by (subst run_cycles.simps) (simp add: keeps_ret)
next
  case (Suc m)
  then have "m = cold_count n - Suc k" by simp
  note IH = Suc.hyps(1) [OF this]
  have one: "keeps P (attempt (run_one_cycle aws c n run_id sizes k))"
    unfolding run_one_cycle_def by (intro keeps_attempt keeps_one_cycle_loop assms)
  show ?case
    by (subst run_cycles.simps)
       (auto intro!: keeps_bind [OF one] keeps_ret IH split: sum.splits prod.splits)
qed

end
text \<open>Everything but the run loop's own calls for \<open>nm\<close>: the other calls, the rows counter, the
  leaked versions, the KMS key.\<close>

definition footprint ::
    "string \<Rightarrow> event list \<Rightarrow> nat \<Rightarrow> (string \<times> string) list \<Rightarrow> string option \<Rightarrow> 'x drv \<Rightarrow> bool" where
  "footprint nm evs n lv key s \<longleftrightarrow>
     filter (\<lambda>e. \<not> run_event nm e) (calls s) = evs \<and> rows_count s = n \<and>
     leaked_versions s = lv \<and> kms_key_id s = key"

interpretation fp: run_invariant nm "footprint nm evs n lv key" for nm evs n lv key
  by unfold_locales (auto simp: footprint_def run_event_def cold_event_def split: event.splits)

section \<open>The rows of a cell\<close>

definition cell_rows ::
    "cell \<Rightarrow> counts \<Rightarrow> string \<Rightarrow> artifact_sizes \<Rightarrow> nat \<Rightarrow> row list \<Rightarrow> bool" where
  "cell_rows c n run_id sizes k rows \<longleftrightarrow>
     (\<exists>css. rows = concat css \<and> length css = k \<and>
        (\<forall>j < k. cycle_ok c n run_id sizes j (css ! j)))"

lemma cell_rows_Nil: "cell_rows c n run_id sizes 0 []"
  by (simp add: cell_rows_def)

lemma cell_rows_extend:
  assumes "cell_rows c n run_id sizes k rows" "cycle_ok c n run_id sizes k cs"
  shows "cell_rows c n run_id sizes (Suc k) (rows @ cs)"
proof -
  obtain css where "rows = concat css" "length css = k"
    "\<forall>j < k. cycle_ok c n run_id sizes j (css ! j)"
    using assms(1) by (auto simp: cell_rows_def)
  then have "rows @ cs = concat (css @ [cs]) \<and> length (css @ [cs]) = Suc k \<and>
      (\<forall>j < Suc k. cycle_ok c n run_id sizes j ((css @ [cs]) ! j))"
    using assms(2) by (auto simp: nth_append less_Suc_eq)
  then show ?thesis unfolding cell_rows_def by blast
qed

lemma length_cell_rows:
  assumes "cell_rows c n run_id sizes k rows"
  shows "length rows = k * (1 + warm_count n)"
proof -
  obtain css where css: "rows = concat css" "length css = k"
    "\<forall>j < k. cycle_ok c n run_id sizes j (css ! j)"
    using assms by (auto simp: cell_rows_def)
  then have "length cs = 1 + warm_count n" if "cs \<in> set css" for cs
    using that by (auto simp: in_set_conv_nth cycle_ok_def)
  from length_concat_const [of css, OF this] css show ?thesis by simp
qed

lemma returns_run_cycles:
  assumes "cell_rows c n run_id sizes k rows" "k \<le> cold_count n"
  shows "returns (run_cycles aws c n run_id sizes k rows) (\<lambda>(k', rows', r).
    cell_rows c n run_id sizes k' rows' \<and> k' \<le> cold_count n \<and> (r = None \<longrightarrow> k' = cold_count n))"
  using assms
proof (induction "cold_count n - k" arbitrary: k rows)
  case 0
  then show ?case by (subst run_cycles.simps) (simp add: returns_ret)
next
  case (Suc m)
  then have lt: "k < cold_count n" and m: "m = cold_count n - Suc k" by simp_all
  have one: "returns (attempt (run_one_cycle aws c n run_id sizes k))
    (\<lambda>r. \<forall>x. r = Inr x \<longrightarrow> (case x of (rows, cpu) \<Rightarrow> outcome_ok c n run_id sizes k (Complete rows cpu)))"
    unfolding run_one_cycle_def by (rule returns_attempt [OF returns_one_cycle_loop])
  have step: "returns (run_cycles aws c n run_id sizes (Suc k) (rows @ stamped)) (\<lambda>(k', rows', r).
      cell_rows c n run_id sizes k' rows' \<and> k' \<le> cold_count n \<and> (r = None \<longrightarrow> k' = cold_count n))"
    if "cycle_ok c n run_id sizes k stamped" for stamped
    by (rule Suc.hyps(1) [OF m]) (use that lt Suc.prems cell_rows_extend in auto)
  show ?case
    unfolding run_cycles.simps [of aws c n run_id sizes k rows] if_P [OF lt]
  proof (rule returns_bind [OF one], goal_cases)
    case (1 r)
    note r = this
    show ?case
    proof (cases r)
      case (Inl e)
      then show ?thesis using Suc.prems by (simp add: returns_ret)
    next
      case (Inr x)
      obtain cr cpu where x: "x = (cr, cpu)" by force
      show ?thesis
      proof (cases "apply_host_cpu cr cpu (list_ex (\<lambda>r. row_host_cpu r \<noteq> None) rows) (function_name c)")
        case (Inl e)
        then show ?thesis using Inr x Suc.prems by (simp add: returns_ret)
      next
        case (Inr stamped)
        have "outcome_ok c n run_id sizes k (Complete cr cpu)" using r \<open>r = Inr x\<close> x by simp
        then have "cycle_ok c n run_id sizes k stamped" by (rule apply_host_cpu_ok [OF _ Inr])
        from step [OF this] show ?thesis using Inr \<open>r = Inr x\<close> x by simp
      qed
    qed
  qed
qed

lemma run_cell_loop_Inr:
  assumes "run_cell_loop aws w c n run_id sizes a left k rows le s = (Inr u, t)"
    and "cell_rows c n run_id sizes k rows" "k \<le> cold_count n"
    and "footprint (function_name c) evs m lv key s"
  shows "\<exists>rows' s'. write_cell w rows' s' = (Inr u, t) \<and>
    cell_rows c n run_id sizes (cold_count n) rows' \<and> footprint (function_name c) evs m lv key s'"
  using assms
proof (induction left arbitrary: a k rows le s)
  case 0
  then show ?case by (simp add: fail_def)
next
  case (Suc left)
  from Suc.prems(1) obtain v s1 where
    v: "run_cycles aws c n run_id sizes k rows s = (Inr v, s1)" and
    rest: "(case v of (cycle', rows', r) \<Rightarrow> case r of None \<Rightarrow> write_cell w rows'
       | Some e \<Rightarrow> thenE (if a < MAX_CELL_ATTEMPTS then sleep aws CELL_RETRY_BACKOFF_MS else ret ())
             (run_cell_loop aws w c n run_id sizes (Suc a) left cycle' rows' e)) s1 = (Inr u, t)"
    unfolding run_cell_loop.simps by (rule bindE_InrE)
  obtain k' rows' r where vv: "v = (k', rows', r)" by (cases v) auto
  have inv: "cell_rows c n run_id sizes k' rows'" "k' \<le> cold_count n" "r = None \<Longrightarrow> k' = cold_count n"
    using returnsD [OF returns_run_cycles [OF Suc.prems(2,3)] v] vv by auto
  have f1: "footprint (function_name c) evs m lv key s1"
    using fp.keeps_run_cycles [OF refl] Suc.prems(4) v unfolding keeps_def by (metis snd_conv)
  show ?case
  proof (cases r)
    case None
    with rest vv inv f1 show ?thesis by auto
  next
    case (Some e)
    from rest vv Some obtain y s2 where
      s2: "(if a < MAX_CELL_ATTEMPTS then sleep aws CELL_RETRY_BACKOFF_MS else ret ()) s1 = (Inr y, s2)" and
      loop: "run_cell_loop aws w c n run_id sizes (Suc a) left k' rows' e s2 = (Inr u, t)"
      by (auto elim: thenE_InrE)
    have "keeps (footprint (function_name c) evs m lv key)
        (if a < MAX_CELL_ATTEMPTS then sleep aws CELL_RETRY_BACKOFF_MS else ret ())"
      by (simp add: fp.keeps_sleep keeps_ret)
    with f1 s2 have "footprint (function_name c) evs m lv key s2"
      unfolding keeps_def by (metis snd_conv)
    from Suc.IH [OF loop inv(1,2) this] show ?thesis .
  qed
qed

section \<open>Properties\<close>

text \<open>
  C1. Whatever AWS does, a cell that is reported done has recorded exactly its planned
  schedule: \<open>cold\<close> cycles of \<open>1 + warm\<close> rows in order, each a successful invoke, the first of
  a cycle confirmed cold by the platform (with a restore on SnapStart) and every other one
  confirmed warm, one nonce and one host CPU per cycle; the rows counter grows by that number,
  each row is written as one line, then the stream is flushed, and nothing else is touched.
\<close>

theorem run_cell_records_schedule:
  assumes "run_cell aws w c p run_id sizes s = (Inr u, t)"
    and "iterations c (rp_profile p) = (cold, warm)"
  shows "\<exists>css ls.
    length css = cold \<and>
    (\<forall>k < cold. length (css ! k) = 1 + warm \<and>
       (\<exists>nonce cpu. \<forall>i < 1 + warm. measured c run_id sizes k nonce cpu i (css ! k ! i))) \<and>
    rows_count t = rows_count s + cold * (1 + warm) \<and>
    map (row_to_json w) (concat css) = map Some ls \<and>
    filter (\<lambda>e. \<not> run_event (function_name c) e) (calls t) =
      filter (\<lambda>e. \<not> run_event (function_name c) e) (calls s) @
      concat (map (\<lambda>l. [EvWrite l, EvWrite [nl]]) ls) @ [EvFlush]"
proof -
  let ?n = "\<lparr>cold_count = cold, warm_count = warm\<rparr>"
  let ?evs = "filter (\<lambda>e. \<not> run_event (function_name c) e) (calls s)"
  have "footprint (function_name c) ?evs (rows_count s) (leaked_versions s) (kms_key_id s) s"
    by (simp add: footprint_def)
  with assms have "\<exists>rows s'. write_cell w rows s' = (Inr u, t) \<and>
    cell_rows c ?n run_id sizes (cold_count ?n) rows \<and>
    footprint (function_name c) ?evs (rows_count s) (leaked_versions s) (kms_key_id s) s'"
    by (intro run_cell_loop_Inr) (auto simp: run_cell_def cell_rows_Nil)
  then obtain rows s' where w: "write_cell w rows s' = (Inr u, t)" and
    rows: "cell_rows c ?n run_id sizes cold rows" and
    f: "footprint (function_name c) ?evs (rows_count s) (leaked_versions s) (kms_key_id s) s'"
    by auto
  obtain css where css: "rows = concat css" "length css = cold"
    "\<forall>k < cold. cycle_ok c ?n run_id sizes k (css ! k)"
    using rows by (auto simp: cell_rows_def)
  obtain ls where ls: "map (row_to_json w) rows = map Some ls"
    "calls t = calls s' @ concat (map (\<lambda>l. [EvWrite l, EvWrite [nl]]) ls) @ [EvFlush]"
    "rows_count t = rows_count s' + length rows"
    using write_cell_Inr [OF w] by blast
  have "filter (\<lambda>e. \<not> run_event (function_name c) e) (concat (map (\<lambda>l. [EvWrite l, EvWrite [nl]]) ls)) =
      concat (map (\<lambda>l. [EvWrite l, EvWrite [nl]]) ls)"
    by (auto simp: filter_id_conv run_event_def cold_event_def)
  then have calls: "filter (\<lambda>e. \<not> run_event (function_name c) e) (calls t) =
      ?evs @ concat (map (\<lambda>l. [EvWrite l, EvWrite [nl]]) ls) @ [EvFlush]"
    using ls(2) f by (simp add: footprint_def run_event_def cold_event_def)
  have "rows_count t = rows_count s + cold * (1 + warm)"
    using ls(3) f length_cell_rows [OF rows] by (simp add: footprint_def)
  moreover have "\<forall>k < cold. length (css ! k) = 1 + warm \<and>
       (\<exists>nonce cpu. \<forall>i < 1 + warm. measured c run_id sizes k nonce cpu i (css ! k ! i))"
    using css(3) by (simp add: cycle_ok_def rows_measured_def) metis
  ultimately show ?thesis using css ls(1) calls by blast
qed

end
