(* ===== verification/Sim_Run.thy ===== *)
theory Sim_Run
  imports Run_Loop
begin

text \<open>
  In the small healthy world of \<open>Sim\<close> every cell of the matrix runs to the end, under either
  profile and in both kinds of cycle: the run loop makes progress, and the properties of
  \<open>Run_Loop\<close> that speak of a finished cell have an instance.
\<close>

section \<open>The simulated world runs every cell to the end\<close>

abbreviation is_warm :: "world \<Rightarrow> bool" where "is_warm x \<equiv> \<not> fst (snd x)"
abbreviation is_fresh :: "world \<Rightarrow> bool" where "is_fresh x \<equiv> fst (snd x)"

definition sim_report :: "bool \<Rightarrow> bool \<Rightarrow> report" where
  "sim_report cold restored =
     \<lparr>request_id = ''0a-1'', duration_ms = 3 / 2, billed_ms = 2, memory_size_mb = 128,
      max_memory_used_mb = 30,
      init_ms = (if cold \<and> \<not> restored then Some (361 / 4) else None),
      restore_ms = (if cold \<and> restored then Some (361 / 4) else None)\<rparr>"

definition sim_tail :: "bool \<Rightarrow> bool \<Rightarrow> bool \<Rightarrow> string" where
  "sim_tail cpu cold restored =
     (if cpu then ''LAMBDABENCH_CPU sim'' @ [nl] else []) @ sim_line cold restored"

lemma sim_parse: "parse_report sim_regex (sim_tail cpu cold restored) = Inr (sim_report cold restored)"
  by (cases cpu; cases cold; cases restored; simp only:; code_simp)

lemma sim_parse_cpu: "parse_host_cpu (sim_tail True cold restored) = Some ''sim''"
  by (cases cold; cases restored; simp only:; code_simp)

definition sim_result :: "bool \<Rightarrow> bool \<Rightarrow> bool \<Rightarrow> invoke_result" where
  "sim_result cpu cold restored =
     \<lparr>status_code = 200, function_error = None, log_tail = sim_tail cpu cold restored,
      payload = Some ''{}''\<rparr>"

lemma sim_validated: "validated sim c (sim_result cpu cold restored) = Inr (sim_report cold restored)"
proof -
  have "regex sim = sim_regex" "json_from_str sim ''{}'' = Some (JObj [(''statusCode'', JInt 200)])"
    by (simp_all add: sim_def)
  then show ?thesis
    by (simp add: validated_def check_platform_ok_def sim_result_def check_http_envelope_ok_def
        sim_parse)
qed

lemma sim_fields:
  "now_ns sim = tick" "unix_ms sim = tick" "new_uuid sim = (\<lambda>x. (''nonce'', x))"
  "invoke sim = sim_invoke" "b64_decode sim = Some" "utf8_lossy sim = id"
  "sleep_until sim = (\<lambda>n x. ((), x))" "sleep_ms sim = (\<lambda>n x. ((), x))"
  "get_function sim = (\<lambda>name q x. (Inr (Some (sim_config x)), x))"
  "update_function_configuration sim = (\<lambda>req. bump ())"
  "publish_version sim = (\<lambda>name. bump (Some ''1''))"
  "lambda_delete sim = (\<lambda>name q. done_ok ())"
  by (simp_all add: sim_def)

lemmas sim_step = call_def peek_def send_def sdk_ok_def bindE_def thenE_def ret_def fail_def of_result_def
  attempt_def tick_def bump_def done_ok_def

lemma sim_invoke_core:
  "ext s = (n, b, t) \<Longrightarrow> \<exists>d s'. invoke_tail_core sim cl nm pl q ctx s =
     (Inr (sim_result (ctx \<noteq> None) b (q \<noteq> None), d), s') \<and> ext s' = (n, False, Suc (Suc t))"
  by (simp add: invoke_tail_core_def timed_invoke_def sim_fields sim_step sim_invoke_def
      decode_tail_def sim_result_def sim_tail_def)

lemma sim_invoke_tail:
  "runs (\<lambda>x. fst (snd x) = b) (invoke_tail sim c q)
     (\<lambda>r x. r = sim_result False b (q \<noteq> None) \<and> is_warm x)"
  unfolding runs_def
proof (intro allI impI)
  fix s :: "world drv"
  assume "fst (snd (ext s)) = b"
  then obtain n t where "ext s = (n, b, t)" by (cases "ext s") auto
  from sim_invoke_core [OF this, of Driver "function_name c" "invoke_payload sim c" q None]
  show "\<exists>v t. invoke_tail sim c q s = (Inr v, t) \<and> v = sim_result False b (q \<noteq> None) \<and> is_warm (ext t)"
    by (auto simp: invoke_tail_def invoke_tail_timed_def invoke_tail_timed_with_def
        invoke_tail_timed_by_name_def bindE_def ret_def)
qed

lemma sim_host_cpu:
  "runs is_warm (invoke_host_cpu sim c q)
     (\<lambda>r x. r = sim_result True False (q \<noteq> None) \<and> is_warm x)"
  unfolding runs_def
proof (intro allI impI)
  fix s :: "world drv"
  assume "is_warm (ext s)"
  then obtain n t where "ext s = (n, False, t)" by (cases "ext s") auto
  from sim_invoke_core [OF this, of Driver "function_name c" "host_cpu_payload sim c" q
      "Some (b64_encode sim HOST_CPU_CLIENT_CONTEXT)"]
  show "\<exists>v t. invoke_host_cpu sim c q s = (Inr v, t) \<and> v = sim_result True False (q \<noteq> None) \<and>
      is_warm (ext t)"
    by (auto simp: invoke_host_cpu_def bindE_def ret_def)
qed

lemma sim_wait_ready_loop:
  "ext s = (Suc n, b, t) \<Longrightarrow>
     \<exists>u. wait_ready_loop sim nm (Some (show_nat n)) (Suc m) s = (Inr (), u) \<and> ext u = ext s"
  by (simp add: get_fn_def sim_fields sim_step sim_config_def is_ready_def)

lemma sim_wait_ready:
  "ext s = (Suc n, b, t) \<Longrightarrow>
     \<exists>u. wait_ready sim nm (Some (show_nat n)) s = (Inr (), u) \<and> ext u = ext s"
  using sim_wait_ready_loop [of s n b t nm 599] by (simp add: wait_ready_def POLL_MAX_ATTEMPTS_def)

lemma sim_wait_version_loop:
  "\<exists>u. wait_version_loop sim nm v (Suc m) s = (Inr (), u) \<and> ext u = ext s"
  by (simp add: get_fn_def sim_fields sim_step sim_config_def)

lemma sim_wait_version:
  "runs P (wait_version_active sim nm v) (\<lambda>_. P)"
  using sim_wait_version_loop [of nm v 599]
  by (fastforce simp: runs_def wait_version_active_def POLL_MAX_ATTEMPTS_def)

lemma sim_bump:
  "runs (\<lambda>_. True) (bump_cold_nonce sim nm nonce) (\<lambda>_. is_fresh)"
  unfolding runs_def
proof (intro allI impI)
  fix s :: "world drv"
  obtain n b t where s: "ext s = (n, b, t)" by (cases "ext s") auto
  show "\<exists>v t. bump_cold_nonce sim nm nonce s = (Inr v, t) \<and> is_fresh (ext t)"
    using s sim_wait_ready [of "s\<lparr>next_slot := max (next_slot s) t + 1000000000 div CONTROL_PLANE_TPS,
        ext := (Suc n, True, Suc t), calls := calls s @ [EvGetFunction nm None,
        EvSlot (max (next_slot s) t), EvUpdateConfig nm]\<rparr>" n True "Suc t" nm]
    by (auto simp: bump_cold_nonce_def get_fn_def sim_fields sim_step acquire_def reserve_def
        sim_config_def Let_def)
qed

lemma sim_acquire: "runs P (acquire sim) (\<lambda>_ _. True)"
  by (auto simp: runs_def acquire_def sim_fields sim_step reserve_def Let_def split: prod.splits)

lemma sim_publish:
  "runs (\<lambda>_. True) (publish_cold_version sim c nonce) (\<lambda>v x. is_fresh x)"
proof -
  have p: "runs (\<lambda>_. True) (send (EvPublish nm) (publish_version sim nm)) (\<lambda>v x. v = Some ''1'' \<and> is_fresh x)"
    for nm
    by (rule runs_send) (auto simp: sim_fields bump_def split: prod.splits)
  have k: "runs (\<lambda>x. v = Some ''1'' \<and> is_fresh x)
      (bindE (of_result (ok_or (NoNumericVersion nm)
               (case v of
                  Some v \<Rightarrow> if v \<noteq> ''$LATEST'' then Some v else None
                | None \<Rightarrow> None))) (\<lambda>v.
             thenE (wait_version_active sim nm v) (ret v))) (\<lambda>v x. is_fresh x)" for nm v
    by (rule runs_pure) (auto intro!: runs_then [OF sim_wait_version] runs_ret)
  show ?thesis
    unfolding publish_cold_version_def Let_def
    by (rule runs_then [OF runs_conseq [OF sim_bump, where Q' = "\<lambda>_ _. True"]], simp, simp,
        rule runs_then [OF sim_acquire], rule runs_bind [OF p k])
qed

lemma sim_build_row:
  "runs P (build_row sim c run_id sizes k i cold nonce res rep) (\<lambda>_ x. \<exists>y. P y \<and> fst (snd x) = fst (snd y))"
  by (auto simp: runs_def build_row_def sim_fields sim_step split: prod.splits)

lemma sim_warm_loop:
  "runs is_warm (collect_warm_loop sim c run_id sizes k nonce q i left rows)
     (\<lambda>(_, r) x. r = None \<and> is_warm x)"
proof (induction left arbitrary: i rows)
  case 0
  show ?case by (auto intro: runs_ret)
next
  case (Suc left)
  have *: "runs is_warm (build_row sim c run_id sizes k i False nonce res rep) (\<lambda>_. is_warm)" for res rep
    by (rule runs_conseq [OF sim_build_row [where P = is_warm]]) auto
  have 1: "runs is_warm (invoke_tail sim c q)
      (\<lambda>r x. r = sim_result False False (q \<noteq> None) \<and> is_warm x)"
    using sim_invoke_tail [of False c q] by simp
  show ?case
    unfolding collect_warm_loop.simps
  proof (rule runs_bind [OF 1])
    fix res
    show "runs (\<lambda>x. res = sim_result False False (q \<noteq> None) \<and> is_warm x)
      (bindE (of_result (validated sim c res)) (\<lambda>rep.
       if is_cold rep then ret (rows, Some i)
       else bindE (build_row sim c run_id sizes k i False nonce res rep) (\<lambda>row.
           collect_warm_loop sim c run_id sizes k nonce q (Suc i) left (rows @ [row]))))
      (\<lambda>(_, r) x. r = None \<and> is_warm x)"
    proof (rule runs_pure)
      assume "res = sim_result False False (q \<noteq> None)"
      then have v: "validated sim c res = Inr (sim_report False (q \<noteq> None))"
        "\<not> is_cold (sim_report False (q \<noteq> None))"
        by (simp_all add: sim_validated is_cold_def sim_report_def)
      show "runs is_warm (bindE (of_result (validated sim c res)) (\<lambda>rep.
       if is_cold rep then ret (rows, Some i)
       else bindE (build_row sim c run_id sizes k i False nonce res rep) (\<lambda>row.
           collect_warm_loop sim c run_id sizes k nonce q (Suc i) left (rows @ [row]))))
        (\<lambda>(_, r) x. r = None \<and> is_warm x)"
        using v by (auto intro!: runs_bind [OF *] Suc.IH)
    qed
  qed
qed


lemma sim_finish:
  "runs is_warm (finish_cycle sim c q (rows, None)) (\<lambda>r _. r = Complete rows (Reported ''sim''))"
proof -
  have h: "classify_host_cpu sim c (Inr (sim_result True False (q \<noteq> None))) = Reported ''sim''"
    by (simp add: classify_host_cpu_def sim_validated is_cold_def sim_report_def)
       (simp add: sim_result_def sim_parse_cpu)
  have "runs (\<lambda>x. \<exists>v. r = Inr v \<and> v = sim_result True False (q \<noteq> None) \<and> is_warm x)
      (ret (Complete rows (classify_host_cpu sim c r))) (\<lambda>r _. r = Complete rows (Reported ''sim''))" for r
    by (rule runs_ret) (use h in auto)
  then show ?thesis
    unfolding finish_cycle_def report_host_cpu_def prod.case option.case
    by (rule runs_bind [OF runs_attempt [OF sim_host_cpu]])
qed

lemma sim_build_warm:
  "runs is_warm (build_row sim c run_id sizes k i cold nonce res rep) (\<lambda>_. is_warm)"
  by (rule runs_conseq [OF sim_build_row [where P = is_warm]]) auto

lemma sim_force_loop:
  "runs (\<lambda>_. True) (force_cold_loop sim c run_id sizes k a (Suc left)) (\<lambda>_. is_warm)"
proof -
  have c: "is_cold (sim_report True False)" by (simp add: is_cold_def sim_report_def)
  have 1: "runs (\<lambda>_. True) (peek (new_uuid sim)) (\<lambda>_ _. True)"
    by (rule runs_peek) simp
  have 2: "runs (\<lambda>_. True) (force_cold sim c nonce) (\<lambda>_. is_fresh)" for nonce
    by (simp add: force_cold_def force_cold_by_name_def sim_bump)
  have 3: "runs is_fresh (invoke_tail sim c None) (\<lambda>r x. r = sim_result False True False \<and> is_warm x)"
    using sim_invoke_tail [of True c None] by simp
  have 4: "runs (\<lambda>x. res = sim_result False True False \<and> is_warm x)
     (bindE (of_result (validated sim c res)) (\<lambda>rep.
        if is_cold rep then
          bindE (build_row sim c run_id sizes k 0 True nonce res rep) (\<lambda>row. ret (nonce, row))
        else
          thenE (sleep sim (min (COLD_FORCE_RETRY_BACKOFF_BASE_MS * a)
                                COLD_FORCE_RETRY_BACKOFF_CAP_MS))
            (force_cold_loop sim c run_id sizes k (Suc a) left)))
     (\<lambda>_. is_warm)" for nonce res
    by (rule runs_pure)
       (auto simp: sim_validated c intro!: runs_bind [OF sim_build_warm] runs_ret)
  show ?thesis
    unfolding force_cold_loop.simps
    by (rule runs_bind [OF 1], rule runs_then [OF 2], rule runs_bind [OF 3], rule 4)
qed

lemma sim_warm_and_finish:
  "runs is_warm (bindE (collect_warm_invokes sim c n run_id sizes k nonce q rows) (finish_cycle sim c q))
     (\<lambda>r _. \<exists>rows. r = Complete rows (Reported ''sim''))"
  unfolding collect_warm_invokes_def
proof (rule runs_bind [OF sim_warm_loop])
  fix v :: "row list \<times> nat option"
  obtain rows' r where v: "v = (rows', r)" by force
  show "runs (case v of (_, r) \<Rightarrow> \<lambda>x. r = None \<and> is_warm x) (finish_cycle sim c q v)
     (\<lambda>r _. \<exists>rows. r = Complete rows (Reported ''sim''))"
    unfolding v prod.case
    by (rule runs_pure) (auto intro: runs_conseq [OF sim_finish])
qed

lemma sim_latest:
  "runs (\<lambda>_. True) (try_one_latest_cycle sim c n run_id sizes k)
     (\<lambda>r _. \<exists>rows. r = Complete rows (Reported ''sim''))"
proof -
  have m: "MAX_COLD_FORCE_ATTEMPTS = Suc 5" by (simp add: MAX_COLD_FORCE_ATTEMPTS_def)
  show ?thesis
    unfolding try_one_latest_cycle_def force_cold_invoke_def m
    by (rule runs_bind [OF sim_force_loop]) (simp only: sim_warm_and_finish split: prod.split, simp)
qed

lemma sim_snapstart_invokes:
  "runs is_fresh (run_snapstart_invokes sim c n run_id sizes k nonce v)
     (\<lambda>r _. \<exists>rows. r = Complete rows (Reported ''sim''))"
proof -
  have 1: "runs is_fresh (invoke_tail sim c (Some v)) (\<lambda>r x. r = sim_result False True True \<and> is_warm x)"
    using sim_invoke_tail [of True c "Some v"] by simp
  have r: "restore_ms (sim_report True True) \<noteq> None" by (simp add: sim_report_def)
  show ?thesis
    unfolding run_snapstart_invokes_def
    by (rule runs_bind [OF 1], rule runs_pure)
       (use r in \<open>auto simp: sim_validated intro!: runs_bind [OF sim_build_warm] sim_warm_and_finish\<close>)
qed

lemma sim_delete_version: "runs (\<lambda>_. True) (delete_version sim nm v) (\<lambda>_ _. True)"
  unfolding delete_version_def
  by (rule runs_then [OF sim_acquire], rule runs_send) (simp add: sim_fields done_ok_def)

lemma sim_snapstart:
  "runs (\<lambda>_. True) (try_one_snapstart_cycle sim c n run_id sizes k)
     (\<lambda>r _. \<exists>rows. r = Complete rows (Reported ''sim''))"
proof -
  have 1: "runs (\<lambda>_. True) (peek (new_uuid sim)) (\<lambda>_ _. True)"
    by (rule runs_peek) simp
  have 2: "runs (\<lambda>x. \<exists>v. r = Inr v \<and> (\<exists>rows. v = Complete rows (Reported ''sim'')))
      (bindE (attempt (delete_version sim nm v)) (\<lambda>_. of_result r))
      (\<lambda>r _. \<exists>rows. r = Complete rows (Reported ''sim''))" for r nm v
  proof (cases "\<exists>rows. r = Inr (Complete rows (Reported ''sim''))")
    case True
    then show ?thesis
      by (auto intro!: runs_bind [OF runs_conseq [OF runs_attempt [OF sim_delete_version]]] runs_ret)
  next
    case False
    then show ?thesis by (auto simp: runs_def)
  qed
  show ?thesis
    unfolding try_one_snapstart_cycle_def
    by (rule runs_bind [OF 1], rule runs_bind [OF sim_publish],
        rule runs_bind [OF runs_attempt [OF sim_snapstart_invokes]], rule 2)
qed

lemma sim_try_one_cycle:
  "runs (\<lambda>_. True) (try_one_cycle sim c n run_id sizes k)
     (\<lambda>r _. \<exists>rows. r = Complete rows (Reported ''sim''))"
  by (simp add: try_one_cycle_def sim_latest sim_snapstart)

lemma sim_run_one_cycle:
  "runs (\<lambda>_. True) (run_one_cycle sim c n run_id sizes k) (\<lambda>r _. \<exists>rows. r = (rows, Reported ''sim''))"
proof -
  have "runs (\<lambda>x. \<exists>rows. r = Complete rows (Reported ''sim''))
      (case r of
         Complete rows cpu \<Rightarrow> ret (rows, cpu)
       | WarmRecycled idx \<Rightarrow>
           thenE (sleep sim CYCLE_RETRY_BACKOFF_MS) (one_cycle_loop sim c n run_id sizes k left))
      (\<lambda>r _. \<exists>rows. r = (rows, Reported ''sim''))" for r left
    by (cases r) (auto intro!: runs_ret simp: runs_def ret_def)
  then have "runs (\<lambda>_. True) (one_cycle_loop sim c n run_id sizes k (Suc left))
      (\<lambda>r _. \<exists>rows. r = (rows, Reported ''sim''))" for left
    unfolding one_cycle_loop.simps by (rule runs_bind [OF sim_try_one_cycle])
  from this [of 3] show ?thesis by (simp add: run_one_cycle_def MAX_CYCLE_ATTEMPTS_def)
qed

lemma sim_run_cycles:
  "runs (\<lambda>_. True) (run_cycles sim c n run_id sizes k rows) (\<lambda>(_, _, r) _. r = None)"
proof (induction "cold_count n - k" arbitrary: k rows)
  case 0
  then show ?case by (subst run_cycles.simps) (auto intro: runs_ret)
next
  case (Suc m)
  then have lt: "k < cold_count n" and m: "m = cold_count n - Suc k" by simp_all
  show ?case
    unfolding run_cycles.simps [of sim c n run_id sizes k rows] if_P [OF lt]
  proof (rule runs_bind [OF runs_attempt [OF sim_run_one_cycle]], goal_cases)
    case (1 r)
    show ?case
    proof (cases "\<exists>rows. r = Inr (rows, Reported ''sim'')")
      case True
      then obtain cr where r: "r = Inr (cr, Reported ''sim'')" by blast
      have "runs (\<lambda>_. True) (run_cycles sim c n run_id sizes (Suc k)
          (rows @ map (\<lambda>r. r\<lparr>row_host_cpu := Some ''sim''\<rparr>) cr)) (\<lambda>(_, _, r) _. r = None)"
        by (rule Suc.hyps(1) [OF m])
      then show ?thesis by (auto simp: r apply_host_cpu_def intro: runs_conseq)
    next
      case False
      then show ?thesis by (auto simp: runs_def)
    qed
  qed
qed

lemma sim_write_cell: "runs (\<lambda>_. True) (write_cell sim_writer rows) (\<lambda>_ _. True)"
proof -
  have "is_ok (serialize_rows sim_writer rows)"
    unfolding serialize_rows_def by (simp add: collect_results_is_ok sim_writer_def)
  then obtain ls where ls: "serialize_rows sim_writer rows = Inr ls" by (rule is_okE)
  have line: "runs (\<lambda>_. True) (write_line sim_writer l) (\<lambda>_ _. True)" for l
    by (simp add: runs_def write_line_def sim_writer_def sim_step io_ok_def)
  have "runs (\<lambda>_. True) (for_each (write_line sim_writer) ls) (\<lambda>_ _. True)"
    by (induction ls) (auto intro: runs_ret runs_then [OF line])
  moreover have "runs (\<lambda>_. True) (thenE (bindE (call EvFlush (stream_flush sim_writer)) io_ok)
       (\<lambda>s. ret () (s\<lparr>rows_count := rows_count s + length ls\<rparr>))) (\<lambda>_ _. True)"
    by (simp add: runs_def sim_writer_def sim_step io_ok_def)
  ultimately show ?thesis
    by (simp add: write_cell_def ls runs_then)
qed

lemma sim_run_cell: "\<exists>t. run_cell sim sim_writer c p run_id sizes s = (Inr (), t)"
proof -
  obtain cold warm where it: "iterations c (rp_profile p) = (cold, warm)" by force
  let ?n = "\<lparr>cold_count = cold, warm_count = warm\<rparr>"
  have "runs (case v of (_, _, r) \<Rightarrow> \<lambda>_. r = None)
      (case v of (cycle', rows', r) \<Rightarrow>
       (case r of
         None \<Rightarrow> write_cell sim_writer rows'
       | Some e \<Rightarrow>
           thenE (if 1 < MAX_CELL_ATTEMPTS then sleep sim CELL_RETRY_BACKOFF_MS else ret ())
             (run_cell_loop sim sim_writer c ?n run_id sizes (Suc 1) left cycle' rows' e)))
      (\<lambda>_ _. True)" for v left
    using sim_write_cell by (auto simp: runs_def split: prod.splits option.splits)
  then have "runs (\<lambda>_. True) (run_cell_loop sim sim_writer c ?n run_id sizes 1 (Suc left) 0 [] e)
      (\<lambda>_ _. True)" for left e
    unfolding run_cell_loop.simps
    by (rule runs_bind [OF sim_run_cycles])
  from runsD [OF this [of 2]] it show ?thesis
    by (auto simp: run_cell_def MAX_CELL_ATTEMPTS_def numeral_eq_Suc)
qed

definition sim_sizes :: artifact_sizes where
  "sim_sizes = \<lparr>zip_size = 1000, unzipped_size = 3000\<rparr>"

definition sim_params :: run_params where
  "sim_params = \<lparr>rp_profile = Smoke, rp_pool = 1\<rparr>"

theorem run_cell_records_schedule_witness:
  "\<exists>t. run_cell sim sim_writer rust_oneclient_jitter sim_params ''run'' sim_sizes sim_start = (Inr (), t) \<and>
     rows_count t = 6"
proof -
  obtain t where t:
    "run_cell sim sim_writer rust_oneclient_jitter sim_params ''run'' sim_sizes sim_start = (Inr (), t)"
    using sim_run_cell by blast
  have it: "iterations rust_oneclient_jitter (rp_profile sim_params) = (2, 2)"
    by (simp add: iterations_def sim_params_def SMOKE_COUNTS_def rust_oneclient_jitter_def)
  from run_cell_records_schedule [OF t it] t show ?thesis
    by (auto simp: sim_start_def)
qed

end
