(* ===== verification/Effort.thy ===== *)
theory Effort
  imports Sim_Run
begin

text \<open>
  How much a cell may cost, whatever AWS does: the sleeps and invokes of every operation of the
  run loop are bounded once, in the locale \<open>effort\<close>, over an abstract weight of calls; the
  locale is interpreted on the milliseconds slept, the number of invokes and the cell-retry
  backoffs. The life of a SnapStart version is here too: who deletes it, and when nobody does.
\<close>

section \<open>The cost rules\<close>

text \<open>
  A weight on calls under which only sleeps and invokes count, with bounds on the sleeps of
  the polls, of the cycle retry and of the cold-force retry (linear in the attempt).
\<close>

locale effort =
  fixes f :: "event \<Rightarrow> nat"
    and poll cyc bk inv :: nat
  assumes f_free: "f (EvSlot n) = 0" "f (EvGetFunction nm q) = 0" "f (EvUpdateConfig nm) = 0"
      "f (EvPublish nm) = 0" "f (EvDeleteFunction nm q) = 0"
    and f_poll: "f (EvSleep POLL_INTERVAL_MS) \<le> poll"
    and f_cycle: "f (EvSleep CYCLE_RETRY_BACKOFF_MS) \<le> cyc"
    and f_cold: "0 < k \<Longrightarrow> k \<le> MAX_COLD_FORCE_ATTEMPTS \<Longrightarrow>
      f (EvSleep (min (COLD_FORCE_RETRY_BACKOFF_BASE_MS * k) COLD_FORCE_RETRY_BACKOFF_CAP_MS)) \<le> bk * k"
    and f_invoke: "f (EvInvoke nm pl q ctx) \<le> inv"
begin

lemma costs_get_fn: "costs f 0 (get_fn aws nm q)"
  using costs_send [of f "EvGetFunction nm q"] by (simp add: get_fn_def f_free)

lemma costs_step: "costs f 0 m \<Longrightarrow> (\<And>x. costs f b (k x)) \<Longrightarrow> costs f b (bindE m k)"
  using costs_bind [of f 0 m b k] by simp

lemma costs_last: "costs f a m \<Longrightarrow> (\<And>x. costs f 0 (k x)) \<Longrightarrow> costs f a (bindE m k)"
  using costs_bind [of f a m 0 k] by simp

lemma costs_zero: "costs f b (ret x)" "costs f b (fail e)" "costs f b (of_result r)"
  by (rule costs_mono [OF costs_ret(1)] costs_mono [OF costs_ret(2)] costs_mono [OF costs_ret(3)], simp)+

lemma costs_poll: "costs f poll (sleep aws POLL_INTERVAL_MS)"
  by (rule costs_mono [OF costs_sleep [of f] f_poll])

lemma costs_send_invoke: "costs f inv (send (EvInvoke nm pl q ctx) g)"
  by (rule costs_mono [OF costs_send [of f] f_invoke])

lemma costs_wait_ready_loop: "costs f (n * poll) (wait_ready_loop aws nm prev n)"
proof (induction n)
  case 0
  show ?case by (simp add: costs_zero)
next
  case (Suc n)
  have "costs f (poll + n * poll) (thenE (sleep aws POLL_INTERVAL_MS) (wait_ready_loop aws nm prev n))"
    by (rule costs_then [OF costs_poll Suc])
  then show ?case
    by (auto intro!: costs_step [OF costs_get_fn] costs_step [OF costs_ret(3)] costs_zero)
qed

lemma costs_wait_version_loop: "costs f (n * poll) (wait_version_loop aws nm v n)"
proof (induction n)
  case 0
  show ?case by (simp add: costs_zero)
next
  case (Suc n)
  have "costs f (poll + n * poll) (thenE (sleep aws POLL_INTERVAL_MS) (wait_version_loop aws nm v n))"
    by (rule costs_then [OF costs_poll Suc])
  then show ?case
    by (auto intro!: costs_step [OF costs_get_fn] costs_step [OF costs_ret(3)] costs_zero
        split: option.splits fn_state.splits)
qed

lemma costs_thenz: "costs f 0 m \<Longrightarrow> costs f b k \<Longrightarrow> costs f b (thenE m k)"
  unfolding thenE_def by (rule costs_step)

lemma costs_acquire_free: "costs f 0 (acquire aws)"
  by (rule costs_acquire) (rule f_free)

lemma costs_bump: "costs f (600 * poll) (bump_cold_nonce aws nm nonce)"
  unfolding bump_cold_nonce_def Let_def
proof (intro costs_step [OF costs_get_fn] costs_step [OF costs_ret(3)]
    costs_thenz [OF costs_acquire_free] costs_thenz)
  show "costs f 0 (send (EvUpdateConfig nm) g)" for g :: "'a \<Rightarrow> (sdk_error + unit) \<times> 'a"
    using costs_send [of f "EvUpdateConfig nm" g] by (simp add: f_free)
  show "costs f (600 * poll) (wait_ready aws nm p)" for p
    using costs_wait_ready_loop [of 600] by (simp add: wait_ready_def POLL_MAX_ATTEMPTS_def)
qed

lemma costs_publish: "costs f (1200 * poll) (publish_cold_version aws c nonce)"
proof -
  have 1: "costs f 0 (send (EvPublish nm) g)" for nm and g :: "'a \<Rightarrow> (sdk_error + string option) \<times> 'a"
    using costs_send [of f "EvPublish nm" g] by (simp add: f_free)
  have 2: "costs f (600 * poll) (thenE (wait_version_active aws nm v) (ret v))" for nm v
    using costs_last [OF costs_wait_version_loop [of 600 aws nm v], of "\<lambda>_. ret v"]
    by (simp add: thenE_def wait_version_active_def POLL_MAX_ATTEMPTS_def costs_zero)
  have "costs f (600 * poll + 600 * poll) (publish_cold_version aws c nonce)"
    unfolding publish_cold_version_def Let_def
    by (intro costs_then [OF costs_bump] costs_thenz [OF costs_acquire_free] costs_step [OF 1]
          costs_step [OF costs_ret(3)] 2)
  then show ?thesis by simp
qed

lemma costs_delete_version: "costs f 0 (delete_version aws nm v)"
  unfolding delete_version_def
  using costs_send [of f "EvDeleteFunction nm (Some v)"]
  by (intro costs_thenz [OF costs_acquire_free]) (simp add: f_free)

lemma costs_invoke_core: "costs f inv (invoke_tail_core aws cl nm pl q ctx)"
  unfolding invoke_tail_core_def timed_invoke_def
  by (rule costs_last, rule costs_step [OF costs_peek], rule costs_last [OF costs_send_invoke])
     (auto intro!: costs_step [OF costs_peek] costs_step [OF costs_ret(3)] costs_zero
       simp: of_result_def [symmetric])

lemma costs_invoke_tail: "costs f inv (invoke_tail aws c q)"
  unfolding invoke_tail_def invoke_tail_timed_def invoke_tail_timed_with_def
    invoke_tail_timed_by_name_def
  by (rule costs_last [OF costs_invoke_core]) (auto intro: costs_zero)

lemma costs_host_cpu: "costs f inv (invoke_host_cpu aws c q)"
  unfolding invoke_host_cpu_def
  by (rule costs_last [OF costs_invoke_core]) (auto intro: costs_zero)

lemma costs_build_row: "costs f 0 (build_row aws c run_id sizes k i cold nonce res rep)"
  unfolding build_row_def by (intro costs_step [OF costs_peek] costs_zero)

lemma costs_cold_sleep:
  "0 < k \<Longrightarrow> k \<le> MAX_COLD_FORCE_ATTEMPTS \<Longrightarrow>
    costs f (bk * k) (sleep aws (min (COLD_FORCE_RETRY_BACKOFF_BASE_MS * k) COLD_FORCE_RETRY_BACKOFF_CAP_MS))"
  by (rule costs_mono [OF costs_sleep [of f] f_cold])

lemma costs_force_cold_loop:
  "0 < k \<Longrightarrow> k + left \<le> Suc MAX_COLD_FORCE_ATTEMPTS \<Longrightarrow>
    costs f (left * (600 * poll + inv) + bk * sum_list [k..<k + left])
      (force_cold_loop aws c run_id sizes cycle k left)"
proof (induction left arbitrary: k)
  case 0
  then show ?case by (simp add: costs_zero)
next
  case (Suc left)
  let ?r = "left * (600 * poll + inv) + bk * sum_list [Suc k..<Suc k + left]"
  have rec: "costs f (bk * k + ?r)
      (thenE (sleep aws (min (COLD_FORCE_RETRY_BACKOFF_BASE_MS * k) COLD_FORCE_RETRY_BACKOFF_CAP_MS))
        (force_cold_loop aws c run_id sizes cycle (Suc k) left))"
    by (rule costs_then [OF costs_cold_sleep Suc.IH]) (use Suc.prems in auto)
  have tail: "costs f b (bindE (of_result (validated aws c res)) (\<lambda>rep.
        if is_cold rep then
          bindE (build_row aws c run_id sizes cycle 0 True nonce res rep) (\<lambda>row. ret (nonce, row))
        else
          thenE (sleep aws (min (COLD_FORCE_RETRY_BACKOFF_BASE_MS * k)
                                COLD_FORCE_RETRY_BACKOFF_CAP_MS))
            (force_cold_loop aws c run_id sizes cycle (Suc k) left)))"
    if "costs f b (thenE (sleep aws (min (COLD_FORCE_RETRY_BACKOFF_BASE_MS * k)
          COLD_FORCE_RETRY_BACKOFF_CAP_MS))
        (force_cold_loop aws c run_id sizes cycle (Suc k) left))" for b nonce res
    by (rule costs_step [OF costs_ret(3)])
       (use that in \<open>auto intro!: costs_step [OF costs_build_row] costs_zero\<close>)
  have force: "costs f (600 * poll) (force_cold aws c nonce)" for nonce
    unfolding force_cold_def force_cold_by_name_def by (rule costs_bump)
  have "costs f (600 * poll + (inv + (bk * k + ?r))) (force_cold_loop aws c run_id sizes cycle k (Suc left))"
    unfolding force_cold_loop.simps
    by (rule costs_step [OF costs_peek], rule costs_then [OF force], rule costs_bind [OF costs_invoke_tail tail [OF rec]])
  moreover have "[k..<k + Suc left] = k # [Suc k..<Suc k + left]"
    by (simp add: upt_conv_Cons)
  ultimately show ?case by (simp add: algebra_simps)
qed

lemma costs_collect_warm_loop:
  "costs f (left * inv) (collect_warm_loop aws c run_id sizes k nonce q i left rows)"
proof (induction left arbitrary: i rows)
  case 0
  show ?case by (simp add: costs_zero)
next
  case (Suc left)
  have "costs f (left * inv) (bindE (of_result (validated aws c res)) (\<lambda>rep.
       if is_cold rep then ret (rows, Some i)
       else
         bindE (build_row aws c run_id sizes k i False nonce res rep) (\<lambda>row.
           collect_warm_loop aws c run_id sizes k nonce q (Suc i) left (rows @ [row]))))" for res
    by (rule costs_step [OF costs_ret(3)])
       (auto intro!: costs_zero costs_step [OF costs_build_row] Suc.IH)
  from costs_bind [OF costs_invoke_tail this] show ?case by simp
qed

lemma costs_finish: "costs f inv (finish_cycle aws c q w)"
  unfolding finish_cycle_def report_host_cpu_def
  by (auto intro!: costs_zero costs_last [OF costs_attempt [OF costs_host_cpu]]
      split: prod.splits option.splits)

lemma costs_warm_finish:
  "costs f ((warm_count n + 1) * inv)
     (bindE (collect_warm_invokes aws c n run_id sizes k nonce q rows) (finish_cycle aws c q))"
  using costs_bind [OF costs_collect_warm_loop costs_finish]
  by (simp add: collect_warm_invokes_def add.commute)

definition cycle_cost :: "nat \<Rightarrow> nat" where
  "cycle_cost warm = 3600 * poll + 21 * bk + (warm + 7) * inv"

lemma costs_try_one_cycle: "costs f (cycle_cost (warm_count n)) (try_one_cycle aws c n run_id sizes k)"
proof (cases "snapstart c")
  case False
  have "sum_list [1..<7] = (21 :: nat)" by (simp add: upt_rec)
  then have force: "costs f (6 * (600 * poll + inv) + bk * 21) (force_cold_invoke aws c run_id sizes k)"
    using costs_force_cold_loop [of 1 6 aws c run_id sizes k]
    by (simp add: force_cold_invoke_def MAX_COLD_FORCE_ATTEMPTS_def)
  have "costs f (6 * (600 * poll + inv) + bk * 21 + (warm_count n + 1) * inv)
      (try_one_latest_cycle aws c n run_id sizes k)"
    unfolding try_one_latest_cycle_def
    by (rule costs_bind [OF force]) (simp only: split_paired_all prod.case costs_warm_finish)
  with False show ?thesis
    by (simp add: try_one_cycle_def cycle_cost_def algebra_simps)
next
  case True
  have inner: "costs f b (bindE (of_result (validated aws c res)) (\<lambda>rep.
       if restore_ms rep = None then fail (NoRestoreDuration (function_name c) k v)
       else
         bindE (build_row aws c run_id sizes k 0 True nonce res rep) (\<lambda>row.
         bindE (collect_warm_invokes aws c n run_id sizes k nonce (Some v) [row])
           (finish_cycle aws c (Some v)))))"
    if "\<And>row. costs f b (bindE (collect_warm_invokes aws c n run_id sizes k nonce (Some v) [row])
           (finish_cycle aws c (Some v)))" for b nonce v res
    by (rule costs_step [OF costs_ret(3)])
       (use that in \<open>auto intro!: costs_zero costs_step [OF costs_build_row]\<close>)
  have invs: "costs f (inv + (warm_count n + 1) * inv) (run_snapstart_invokes aws c n run_id sizes k nonce v)"
    for nonce v
    unfolding run_snapstart_invokes_def by (rule costs_bind [OF costs_invoke_tail inner [OF costs_warm_finish]])
  have "costs f (1200 * poll + (inv + (warm_count n + 1) * inv)) (try_one_snapstart_cycle aws c n run_id sizes k)"
    unfolding try_one_snapstart_cycle_def
    by (rule costs_step [OF costs_peek], rule costs_bind [OF costs_publish],
        rule costs_last [OF costs_attempt [OF invs]],
        rule costs_step [OF costs_attempt [OF costs_delete_version]]) (rule costs_zero)
  then have "costs f (cycle_cost (warm_count n)) (try_one_snapstart_cycle aws c n run_id sizes k)"
    by (rule costs_mono) (simp add: cycle_cost_def algebra_simps)
  with True show ?thesis by (simp add: try_one_cycle_def)
qed

lemma costs_one_cycle_loop:
  "costs f (left * (cycle_cost (warm_count n) + cyc)) (one_cycle_loop aws c n run_id sizes k left)"
proof (induction left)
  case 0
  show ?case by (simp add: costs_zero)
next
  case (Suc left)
  let ?r = "left * (cycle_cost (warm_count n) + cyc)"
  have s: "costs f cyc (sleep aws CYCLE_RETRY_BACKOFF_MS)"
    by (rule costs_mono [OF costs_sleep [of f] f_cycle])
  have "costs f (cyc + ?r) (case r of
         Complete rows cpu \<Rightarrow> ret (rows, cpu)
       | WarmRecycled idx \<Rightarrow>
           thenE (sleep aws CYCLE_RETRY_BACKOFF_MS) (one_cycle_loop aws c n run_id sizes k left))" for r
    by (cases r) (auto intro: costs_zero costs_then [OF s Suc.IH])
  from costs_bind [OF costs_try_one_cycle this] show ?case by (simp add: add.assoc)
qed

definition clean_cost :: "nat \<Rightarrow> nat" where
  "clean_cost warm = 4 * (cycle_cost warm + cyc)"

lemma costs_run_one_cycle: "costs f (clean_cost (warm_count n)) (run_one_cycle aws c n run_id sizes k)"
  using costs_one_cycle_loop [of 4 n]
  by (simp add: run_one_cycle_def MAX_CYCLE_ATTEMPTS_def clean_cost_def)

text \<open>The run of cycles pays for each cycle it completes, and for the failed one.\<close>

lemma run_cycles_weight:
  "run_cycles aws c n run_id sizes k rows s = (Inr (k', rows', r), t) \<Longrightarrow>
     k \<le> k' \<and> weight f t \<le> weight f s +
       (k' - k + (if r = None then 0 else 1)) * clean_cost (warm_count n)"
proof (induction "cold_count n - k" arbitrary: k rows s)
  case 0
  then show ?case by (simp add: run_cycles.simps [of aws c n] ret_def)
next
  case (Suc m)
  then have lt: "k < cold_count n" and m: "m = cold_count n - Suc k" by simp_all
  obtain r1 s1 where one: "run_one_cycle aws c n run_id sizes k s = (r1, s1)" by force
  have w1: "weight f s1 \<le> weight f s + clean_cost (warm_count n)"
    using costsD [OF costs_run_one_cycle one] .
  have unf: "run_cycles aws c n run_id sizes k rows s =
     (case r1 of
            Inl e \<Rightarrow> ret (k, rows, Some e)
          | Inr (cycle_rows, cpu) \<Rightarrow>
              (case apply_host_cpu cycle_rows cpu
                      (list_ex (\<lambda>r. row_host_cpu r \<noteq> None) rows) (function_name c) of
                 Inl e \<Rightarrow> ret (k, rows, Some e)
               | Inr stamped \<Rightarrow>
                   run_cycles aws c n run_id sizes (Suc k) (rows @ stamped))) s1"
    using lt one by (subst run_cycles.simps) (simp add: bindE_def attempt_def del: not_None_eq)
  show ?case
  proof (cases "\<exists>stamped. run_cycles aws c n run_id sizes k rows s =
      run_cycles aws c n run_id sizes (Suc k) (rows @ stamped) s1")
    case True
    then obtain stamped where
      "run_cycles aws c n run_id sizes (Suc k) (rows @ stamped) s1 = (Inr (k', rows', r), t)"
      using Suc.prems by auto
    from Suc.hyps(1) [OF m this] have IH: "Suc k \<le> k'" "weight f t \<le> weight f s1 +
        (k' - Suc k + (if r = None then 0 else 1)) * clean_cost (warm_count n)" by blast+
    then obtain j where j: "k' = Suc k + j" using le_Suc_ex by blast
    with IH(2) w1 show ?thesis by (cases r) (simp_all add: algebra_simps)
  next
    case False
    then have "\<exists>e. run_cycles aws c n run_id sizes k rows s = ret (k, rows, Some e) s1"
      unfolding unf by (auto split: sum.splits prod.splits)
    with Suc.prems w1 show ?thesis by (auto simp: ret_def)
  qed
qed

lemma weight_write_cell:
  assumes "\<And>l. f (EvWrite l) = 0" "f EvFlush = 0"
  shows "costs f 0 (write_cell w rows)"
proof -
  have io: "costs f 0 (bindE (call ev g) io_ok)" if "f ev = 0" for ev and g :: "'a \<Rightarrow> (string + unit) \<times> 'a"
    using costs_bind [OF costs_call [of f ev g], of 0 io_ok] that
    by (simp add: io_ok_def costs_ret)
  have line: "costs f 0 (write_line w l)" for l
    unfolding write_line_def by (intro costs_thenz io) (simp_all add: assms)
  have all: "costs f 0 (for_each (write_line w) ls)" for ls
    by (induction ls) (auto intro: costs_zero costs_thenz line)
  have last: "costs f 0 (\<lambda>s. ret () (s\<lparr>rows_count := rows_count s + m\<rparr>))" for m
    by (simp add: costs_def ret_def weight_def)
  show ?thesis
    unfolding write_cell_def
    by (intro costs_step [OF costs_ret(3)] costs_thenz [OF all] costs_thenz [OF io] last)
       (simp add: assms)
qed

lemma run_cell_loop_weight:
  assumes "\<And>l. f (EvWrite l) = 0" "f EvFlush = 0"
    and "run_cell_loop aws w c n run_id sizes a left k rows le s = (res, t)"
    and "k \<le> cold_count n" "cell_rows c n run_id sizes k rows" "a + left = Suc MAX_CELL_ATTEMPTS"
  shows "weight f t \<le> weight f s + (cold_count n - k + left) * clean_cost (warm_count n) +
    (left - 1) * f (EvSleep CELL_RETRY_BACKOFF_MS)"
  using assms(3-)
proof (induction left arbitrary: a k rows le s)
  case 0
  then show ?case by (simp add: fail_def)
next
  case (Suc left)
  let ?C = "clean_cost (warm_count n)"
  obtain v s1 where v: "run_cycles aws c n run_id sizes k rows s = (v, s1)" by force
  have "\<exists>x. v = Inr x"
    using v
  proof (induction "cold_count n - k" arbitrary: k rows s)
    case 0
    then show ?case by (auto simp: run_cycles.simps [of aws c n] ret_def)
  next
    case (Suc m)
    then have "k < cold_count n" "m = cold_count n - Suc k" by simp_all
    then show ?case
      using Suc.hyps(1) [of "Suc k"] Suc.prems
      by (subst (asm) (2) run_cycles.simps)
         (auto simp: bindE_def attempt_def ret_def split: prod.splits sum.splits)
  qed
  then obtain k' rows' r where x: "v = Inr (k', rows', r)" by (metis prod_cases3)
  have cyc: "k \<le> k'" "weight f s1 \<le> weight f s + (k' - k + (if r = None then 0 else 1)) * ?C"
    using run_cycles_weight v x by blast+
  have k': "k' \<le> cold_count n" "cell_rows c n run_id sizes k' rows'"
    using returnsD [OF returns_run_cycles [OF Suc.prems(3,2), of aws], of s "(k', rows', r)" s1] v x
    by simp_all
  show ?case
  proof (cases r)
    case None
    then have "write_cell w rows' s1 = (res, t)"
      using Suc.prems(1) v x by (simp add: bindE_def)
    from costsD [OF weight_write_cell this] assms(1,2) have "weight f t \<le> weight f s1" by simp
    moreover have "(k' - k) * ?C \<le> (cold_count n - k + Suc left) * ?C"
      by (rule mult_right_mono) (use k'(1) in auto)
    ultimately show ?thesis using cyc None by simp
  next
    case (Some e)
    obtain y s2 where s2: "(if a < MAX_CELL_ATTEMPTS then sleep aws CELL_RETRY_BACKOFF_MS else ret ()) s1 = (y, s2)"
      by force
    have y: "\<exists>u. y = Inr u" using s2 by (auto simp: sleep_def call_def ret_def split: if_splits prod.splits)
    have loop: "run_cell_loop aws w c n run_id sizes (Suc a) left k' rows' e s2 = (res, t)"
      using Suc.prems(1) v x Some s2 y by (auto simp: bindE_def thenE_def)
    from Suc.IH [OF this k'] Suc.prems(4)
    have IH: "weight f t \<le> weight f s2 + (cold_count n - k' + left) * ?C +
        (left - 1) * f (EvSleep CELL_RETRY_BACKOFF_MS)" by simp
    have "a < MAX_CELL_ATTEMPTS \<longleftrightarrow> left \<noteq> 0" using Suc.prems(4) by auto
    then have w2: "weight f s2 \<le> weight f s1 + (if left = 0 then 0 else f (EvSleep CELL_RETRY_BACKOFF_MS))"
      using s2 costsD [OF costs_sleep [of f], of aws CELL_RETRY_BACKOFF_MS s1 y s2]
      by (auto simp: ret_def split: if_splits)
    obtain d where d: "k' = k + d" using cyc(1) le_Suc_ex by blast
    obtain q where q: "cold_count n = k' + q" using k'(1) le_Suc_ex by blast
    have "(d + 1) * ?C + (q + left) * ?C = (cold_count n - k + Suc left) * ?C"
      by (simp add: d q algebra_simps)
    with IH w2 cyc(2) Some d q show ?thesis by (cases left) (simp_all add: algebra_simps)
  qed
qed

end

section \<open>Three weights\<close>

definition sleep_weight :: "event \<Rightarrow> nat" where
  "sleep_weight ev = (case ev of EvSleep n \<Rightarrow> n | _ \<Rightarrow> 0)"

definition invoke_weight :: "event \<Rightarrow> nat" where
  "invoke_weight ev = (case ev of EvInvoke _ _ _ _ \<Rightarrow> 1 | _ \<Rightarrow> 0)"

definition cell_backoff_weight :: "event \<Rightarrow> nat" where
  "cell_backoff_weight ev =
     (case ev of EvSleep n \<Rightarrow> if n = CELL_RETRY_BACKOFF_MS then n else 0 | _ \<Rightarrow> 0)"

interpretation sleeps: effort sleep_weight 500 1000 1500 0
  by unfold_locales
    (simp_all add: sleep_weight_def POLL_INTERVAL_MS_def CYCLE_RETRY_BACKOFF_MS_def
      COLD_FORCE_RETRY_BACKOFF_BASE_MS_def)

interpretation invokes: effort invoke_weight 0 0 0 "Suc 0"
  by unfold_locales (simp_all add: invoke_weight_def)

interpretation backoffs: effort cell_backoff_weight 0 0 0 0
proof unfold_locales
  fix k
  show "cell_backoff_weight (EvSleep (min (COLD_FORCE_RETRY_BACKOFF_BASE_MS * k)
      COLD_FORCE_RETRY_BACKOFF_CAP_MS)) \<le> 0 * k"
    by (simp add: cell_backoff_weight_def COLD_FORCE_RETRY_BACKOFF_BASE_MS_def
        COLD_FORCE_RETRY_BACKOFF_CAP_MS_def CELL_RETRY_BACKOFF_MS_def min_def) presburger
qed (simp_all add: cell_backoff_weight_def POLL_INTERVAL_MS_def CYCLE_RETRY_BACKOFF_MS_def
      CELL_RETRY_BACKOFF_MS_def)

section \<open>Properties\<close>



text \<open>The cap on the cold-force backoff is never reached within the attempts.\<close>

lemma cold_force_cap_unused:
  "k \<le> MAX_COLD_FORCE_ATTEMPTS \<Longrightarrow>
     min (COLD_FORCE_RETRY_BACKOFF_BASE_MS * k) COLD_FORCE_RETRY_BACKOFF_CAP_MS =
       COLD_FORCE_RETRY_BACKOFF_BASE_MS * k"
  by (simp add: MAX_COLD_FORCE_ATTEMPTS_def COLD_FORCE_RETRY_BACKOFF_BASE_MS_def
      COLD_FORCE_RETRY_BACKOFF_CAP_MS_def)

section \<open>A failed cell\<close>

lemma run_cycles_Inr: "\<exists>x t. run_cycles aws c n run_id sizes k rows s = (Inr x, t)"
proof (induction "cold_count n - k" arbitrary: k rows s)
  case 0
  then show ?case by (auto simp: run_cycles.simps [of aws c n] ret_def)
next
  case (Suc m)
  then have "k < cold_count n" "m = cold_count n - Suc k" by simp_all
  then show ?case
    using Suc.hyps(1) [of "Suc k"]
    by (subst run_cycles.simps)
       (auto simp: bindE_def attempt_def ret_def split: prod.splits sum.splits)
qed

lemma io_Inl: "bindE (call ev g) io_ok s = (Inl e, t) \<Longrightarrow> \<exists>m. e = IoError m"
  by (auto simp: bindE_def call_def io_ok_def of_result_def split: prod.splits sum.splits)

lemma write_line_Inl: "write_line w l s = (Inl e, t) \<Longrightarrow> \<exists>m. e = IoError m"
  unfolding write_line_def thenE_def bindE_def [of "bindE (call _ _) io_ok"]
  by (auto split: prod.splits sum.splits dest: io_Inl)

lemma for_each_write_Inl: "for_each (write_line w) ls s = (Inl e, t) \<Longrightarrow> \<exists>m. e = IoError m"
proof (induction ls arbitrary: s)
  case Nil
  then show ?case by (simp add: ret_def)
next
  case (Cons l ls)
  then show ?case
    by (auto simp: thenE_def bindE_def split: prod.splits sum.splits dest: write_line_Inl)
qed

lemma write_cell_Inl:
  assumes "write_cell w rows s = (Inl e, t)" "\<And>m. e \<noteq> IoError m"
  shows "t = s"
proof (cases "serialize_rows w rows")
  case (Inl e')
  with assms(1) show ?thesis by (simp add: write_cell_def fail_def)
next
  case (Inr ls)
  with assms show ?thesis
    by (auto simp: write_cell_def thenE_def bindE_def [of "for_each _ _"]
        bindE_def [of "bindE (call _ _) io_ok"] ret_def split: prod.splits sum.splits
        dest: for_each_write_Inl io_Inl)
qed

lemma run_cell_loop_Inl:
  assumes "run_cell_loop aws w c n run_id sizes a left k rows le s = (Inl e, t)"
    "\<And>m. e \<noteq> IoError m" "footprint (function_name c) evs m lv key s"
  shows "footprint (function_name c) evs m lv key t"
  using assms(1,3)
proof (induction left arbitrary: a k rows le s)
  case 0
  then show ?case by (simp add: fail_def)
next
  case (Suc left)
  obtain k' rows' r s1 where v: "run_cycles aws c n run_id sizes k rows s = (Inr (k', rows', r), s1)"
    using run_cycles_Inr [of aws c n run_id sizes k rows s] by (metis prod_cases3)
  have f1: "footprint (function_name c) evs m lv key s1"
    using fp.keeps_run_cycles [OF refl] Suc.prems(2) v unfolding keeps_def by (metis snd_conv)
  show ?case
  proof (cases r)
    case None
    with Suc.prems(1) v have "write_cell w rows' s1 = (Inl e, t)" by (simp add: bindE_def)
    with write_cell_Inl assms(2) f1 show ?thesis by blast
  next
    case (Some e')
    have "\<exists>y s2. (if a < MAX_CELL_ATTEMPTS then sleep aws CELL_RETRY_BACKOFF_MS else ret ()) s1 = (Inr y, s2)"
      by (simp add: sleep_def call_def ret_def split: prod.splits)
    then obtain y s2 where s2: "(if a < MAX_CELL_ATTEMPTS then sleep aws CELL_RETRY_BACKOFF_MS else ret ()) s1 = (Inr y, s2)"
      by blast
    have loop: "run_cell_loop aws w c n run_id sizes (Suc a) left k' rows' e' s2 = (Inl e, t)"
      using Suc.prems(1) v Some s2 by (auto simp: bindE_def thenE_def)
    have "keeps (footprint (function_name c) evs m lv key)
        (if a < MAX_CELL_ATTEMPTS then sleep aws CELL_RETRY_BACKOFF_MS else ret ())"
      by (simp add: fp.keeps_sleep keeps_ret)
    with f1 s2 have "footprint (function_name c) evs m lv key s2"
      unfolding keeps_def by (metis snd_conv)
    from Suc.IH [OF loop this] show ?thesis .
  qed
qed

text \<open>
  C2. A cell that fails for any reason but a failed write to the results file leaves no row
  behind: nothing is written or flushed, the rows counter is unchanged, and no call was made
  for anything but the cell's own function, whose unqualified name is never deleted.
\<close>

theorem failed_cell_records_nothing:
  assumes "run_cell aws w c p run_id sizes s = (Inl e, t)" "\<And>m. e \<noteq> IoError m"
  shows "rows_count t = rows_count s \<and> leaked_versions t = leaked_versions s \<and>
    filter (\<lambda>ev. \<not> run_event (function_name c) ev) (calls t) =
      filter (\<lambda>ev. \<not> run_event (function_name c) ev) (calls s)"
proof -
  obtain cold warm where it: "iterations c (rp_profile p) = (cold, warm)" by force
  from assms(1) it have run: "run_cell_loop aws w c \<lparr>cold_count = cold, warm_count = warm\<rparr> run_id sizes
      1 MAX_CELL_ATTEMPTS 0 [] (Message ''loop ran at least once'') s = (Inl e, t)"
    by (simp add: run_cell_def)
  have "footprint (function_name c) (filter (\<lambda>e. \<not> run_event (function_name c) e) (calls s))
      (rows_count s) (leaked_versions s) (kms_key_id s) s"
    by (simp add: footprint_def)
  from run_cell_loop_Inl [OF run assms(2) this] show ?thesis by (simp add: footprint_def)
qed

definition dead :: "world aws" where
  "dead = sim\<lparr>get_function := (\<lambda>name q x. (Inl (DispatchError ''down''), x))\<rparr>"

lemma dead_cycle: "fst (run_one_cycle dead c n run_id sizes k s) = Inl (Sdk (DispatchError ''down''))"
proof -
  have b: "\<exists>t. bump_cold_nonce dead nm nonce s = (Inl (Sdk (DispatchError ''down'')), t)" for nm nonce s
    by (simp add: bump_cold_nonce_def get_fn_def dead_def sim_step)
  have u: "peek (new_uuid dead) s = (Inr ''nonce'', s)" for s :: "world drv"
    by (simp add: dead_def sim_fields peek_def)
  have f: "\<exists>t. force_cold_loop dead c run_id sizes k a (Suc m) s =
      (Inl (Sdk (DispatchError ''down'')), t)" for a m s
    using b [of "function_name c" "''nonce''" s]
    by (auto simp: force_cold_def force_cold_by_name_def u bindE_def thenE_def)
  have p: "\<exists>t. publish_cold_version dead c nonce s = (Inl (Sdk (DispatchError ''down'')), t)" for nonce s
    using b [of "function_name c" nonce s]
    by (auto simp: publish_cold_version_def bindE_def thenE_def Let_def)
  have t: "\<exists>t. try_one_cycle dead c n run_id sizes k s = (Inl (Sdk (DispatchError ''down'')), t)" for s
    using f [of 1 5 s] p [of "''nonce''" s]
    by (auto simp: try_one_cycle_def try_one_snapstart_cycle_def try_one_latest_cycle_def
        force_cold_invoke_def MAX_COLD_FORCE_ATTEMPTS_def u bindE_def)
  have "\<exists>t. one_cycle_loop dead c n run_id sizes k (Suc m) s = (Inl (Sdk (DispatchError ''down'')), t)" for m s
    using t [of s] by (auto simp: bindE_def)
  from this [of 3 s] show ?thesis by (auto simp: run_one_cycle_def MAX_CYCLE_ATTEMPTS_def)
qed

theorem failed_cell_records_nothing_witness:
  "\<exists>t. run_cell dead sim_writer rust_oneclient_jitter sim_params ''run'' sim_sizes sim_start =
     (Inl (Sdk (DispatchError ''down'')), t) \<and> rows_count t = 0"
proof -
  have it: "iterations rust_oneclient_jitter (rp_profile sim_params) = (2, 2)"
    by (simp add: iterations_def sim_params_def SMOKE_COUNTS_def rust_oneclient_jitter_def)
  have cyc: "\<exists>t. run_cycles dead c \<lparr>cold_count = 2, warm_count = 2\<rparr> run_id sizes 0 rows s =
      (Inr (0, rows, Some (Sdk (DispatchError ''down''))), t)" for c run_id sizes rows s
    using dead_cycle [of c "\<lparr>cold_count = 2, warm_count = 2\<rparr>" run_id sizes 0 s]
    by (subst run_cycles.simps) (auto simp: bindE_def attempt_def ret_def split: prod.splits)
  have loop: "\<exists>t. run_cell_loop dead sim_writer c \<lparr>cold_count = 2, warm_count = 2\<rparr> run_id sizes a left
      0 rows (Sdk (DispatchError ''down'')) s = (Inl (Sdk (DispatchError ''down'')), t)"
    for c run_id sizes a left rows s
  proof (induction left arbitrary: a s)
    case 0
    show ?case by (simp add: fail_def)
  next
    case (Suc left)
    obtain t where "run_cycles dead c \<lparr>cold_count = 2, warm_count = 2\<rparr> run_id sizes 0 rows s =
      (Inr (0, rows, Some (Sdk (DispatchError ''down''))), t)" using cyc by blast
    then show ?case
      using Suc.IH by (auto simp: bindE_def thenE_def sleep_def call_def ret_def split: prod.splits)
  qed
  have "\<exists>t. run_cell_loop dead sim_writer c \<lparr>cold_count = 2, warm_count = 2\<rparr> run_id sizes a (Suc left)
      0 rows le s = (Inl (Sdk (DispatchError ''down'')), t)" for c run_id sizes a left rows le s
    using loop cyc [of c run_id sizes rows s]
    by (auto simp: bindE_def thenE_def sleep_def call_def ret_def split: prod.splits)
  from this [of rust_oneclient_jitter "''run''" sim_sizes 1 2 "[]" "Message ''loop ran at least once''" sim_start]
  have "\<exists>t. run_cell dead sim_writer rust_oneclient_jitter sim_params ''run'' sim_sizes sim_start =
      (Inl (Sdk (DispatchError ''down'')), t)"
    by (simp add: run_cell_def it MAX_CELL_ATTEMPTS_def)
  then obtain t where t: "run_cell dead sim_writer rust_oneclient_jitter sim_params ''run'' sim_sizes
      sim_start = (Inl (Sdk (DispatchError ''down'')), t)" by blast
  have "rows_count t = rows_count sim_start"
    using failed_cell_records_nothing [OF t] by simp
  with t show ?thesis by (simp add: sim_start_def)
qed

section \<open>The life of a SnapStart version\<close>

definition deletes :: "event list \<Rightarrow> event list" where
  "deletes evs = filter (\<lambda>ev. case ev of EvDeleteFunction _ _ \<Rightarrow> True | _ \<Rightarrow> False) evs"

definition no_new_delete :: "event list \<Rightarrow> (string \<times> string) list \<Rightarrow> 'x drv \<Rightarrow> bool" where
  "no_new_delete ds lv s \<longleftrightarrow> deletes (calls s) = ds \<and> leaked_versions s = lv"

interpretation nd: cold_invariant nm "no_new_delete ds lv" for nm ds lv
  by unfold_locales (auto simp: no_new_delete_def deletes_def cold_event_def split: event.splits)

lemma delete_version_logged:
  "\<exists>evs. calls (snd (delete_version aws nm v s)) = evs @ [EvDeleteFunction nm (Some v)]"
  by (auto simp: delete_version_def thenE_def bindE_def acquire_def peek_def call_def send_def
      sdk_ok_def of_result_def reserve_def Let_def split: prod.splits sum.splits)

text \<open>
  C4. The life of a SnapStart version. Once it is published and active, its deletion is the last
  call of the cycle, whatever the invokes did. But if \<open>publish_cold_version\<close> fails after the
  version was published (its activation fails, times out or SnapStart is off), the cycle
  returns that error without any deletion and without recording the version as leaked: the
  version stays behind.
\<close>

theorem snapstart_version_life:
  assumes "new_uuid aws (ext s) = (nonce, x)"
    and "publish_cold_version aws c nonce (s\<lparr>ext := x\<rparr>) = (r, s1)"
    and "try_one_snapstart_cycle aws c n run_id sizes k s = (res, t)"
  shows "case r of
      Inr v \<Rightarrow> \<exists>evs. calls t = evs @ [EvDeleteFunction (function_name c) (Some v)]
    | Inl e \<Rightarrow> res = Inl e \<and> t = s1 \<and> deletes (calls t) = deletes (calls s) \<and>
        leaked_versions t = leaked_versions s"
proof (cases r)
  case (Inl e)
  have "no_new_delete (deletes (calls s)) (leaked_versions s) (s\<lparr>ext := x\<rparr>)"
    by (simp add: no_new_delete_def)
  then have "no_new_delete (deletes (calls s)) (leaked_versions s) s1"
    using nd.keeps_publish_cold_version [OF refl] assms(2) unfolding keeps_def by (metis snd_conv)
  moreover have "res = Inl e \<and> t = s1"
    using assms Inl by (simp add: try_one_snapstart_cycle_def bindE_def peek_def)
  ultimately show ?thesis using Inl by (simp add: no_new_delete_def)
next
  case (Inr v)
  obtain o1 s2 where o: "run_snapstart_invokes aws c n run_id sizes k nonce v s1 = (o1, s2)" by force
  obtain d s3 where d: "delete_version aws (function_name c) v s2 = (d, s3)" by force
  have "t = s3"
    using assms Inr o d
    by (simp add: try_one_snapstart_cycle_def bindE_def peek_def attempt_def of_result_def)
  with delete_version_logged [of aws "function_name c" v s2] d Inr show ?thesis by simp
qed

text \<open>A world whose published versions fail to activate: the orphan.\<close>

definition no_activation :: "world aws" where
  "no_activation = sim\<lparr>get_function := (\<lambda>name q x.
     (Inr (Some (if q = None then sim_config x else (sim_config x)\<lparr>fstate := Some StFailed\<rparr>)), x))\<rparr>"

lemma orphan_publish:
  "\<exists>t. publish_cold_version no_activation c nonce s = (Inl (VersionFailed (function_name c) ''1''), t) \<and>
     EvPublish (function_name c) \<in> set (calls t)"
proof -
  obtain n b u where s: "ext s = (n, b, u)" by (cases "ext s") auto
  have get: "get_function no_activation name None x = (Inr (Some (sim_config x)), x)"
    "get_function no_activation name (Some q) x =
      (Inr (Some ((sim_config x)\<lparr>fstate := Some StFailed\<rparr>)), x)" for name q x
    by (simp_all add: no_activation_def)
  have fields: "now_ns no_activation = tick" "sleep_until no_activation = (\<lambda>n x. ((), x))"
    "update_function_configuration no_activation = (\<lambda>req. bump ())"
    by (simp_all add: no_activation_def sim_fields)
  have same: "acquire no_activation = acquire sim"
    "update_function_configuration no_activation = update_function_configuration sim"
    "publish_version no_activation = publish_version sim"
    by (rule ext, simp add: acquire_def no_activation_def) (simp_all add: no_activation_def)
  have ready: "\<exists>u. wait_ready no_activation nm (Some (show_nat n)) s = (Inr (), u) \<and> ext u = ext s"
    if "ext s = (Suc n, b, t)" for s n b t nm
  proof -
    have "\<exists>u. wait_ready_loop no_activation nm (Some (show_nat n)) (Suc m) s = (Inr (), u) \<and> ext u = ext s" for m
      using that by (simp add: get_fn_def get sim_step sim_config_def is_ready_def)
    from this [of 599] show ?thesis by (simp add: wait_ready_def POLL_MAX_ATTEMPTS_def)
  qed
  have bump: "\<exists>u. bump_cold_nonce no_activation nm nonce s = (Inr (), u)" for nm
    using s ready [of "s\<lparr>next_slot := max (next_slot s) u + 1000000000 div CONTROL_PLANE_TPS,
        ext := (Suc n, True, Suc u), calls := calls s @ [EvGetFunction nm None,
        EvSlot (max (next_slot s) u), EvUpdateConfig nm]\<rparr>" n True "Suc u" nm]
    by (auto simp: bump_cold_nonce_def get_fn_def get fields sim_step acquire_def reserve_def
        sim_config_def Let_def)
  have wait: "\<exists>u. wait_version_loop no_activation nm v (Suc m) s = (Inl (VersionFailed nm v), u) \<and>
      calls u = calls s @ [EvGetFunction nm (Some v)]" for nm v m s
    by (simp add: get_fn_def get sim_step sim_config_def)
  obtain s1 where s1: "bump_cold_nonce no_activation (function_name c) nonce s = (Inr (), s1)"
    using bump by blast
  obtain y s2 where s2: "acquire sim s1 = (Inr y, s2)"
    using sim_acquire [of "\<lambda>_. True"] by (auto simp: runs_def) 
  obtain s3 where s3: "send (EvPublish (function_name c)) (publish_version sim (function_name c)) s2 =
      (Inr (Some ''1''), s3)" "calls s3 = calls s2 @ [EvPublish (function_name c)]"
    by (cases "ext s2") (auto simp: sim_fields sim_step)
  obtain s4 where s4: "wait_version_loop no_activation (function_name c) ''1'' (Suc 599) s3 =
      (Inl (VersionFailed (function_name c) ''1''), s4)"
    "calls s4 = calls s3 @ [EvGetFunction (function_name c) (Some ''1'')]"
    using wait by blast
  from s4 have "wait_version_active no_activation (function_name c) ''1'' s3 =
      (Inl (VersionFailed (function_name c) ''1''), s4)"
    by (simp add: wait_version_active_def POLL_MAX_ATTEMPTS_def)
  with s1 s2 s3 s4(2) show ?thesis
    by (simp add: publish_cold_version_def thenE_def bindE_def same Let_def)
qed

theorem snapstart_version_life_witness:
  "\<exists>t. try_one_snapstart_cycle no_activation python_authz_x86 \<lparr>cold_count = 1, warm_count = 1\<rparr> ''run''
      sim_sizes 0 sim_start = (Inl (VersionFailed (function_name python_authz_x86) ''1''), t) \<and>
     EvPublish (function_name python_authz_x86) \<in> set (calls t) \<and>
     deletes (calls t) = [] \<and> leaked_versions t = []"
proof -
  let ?c = python_authz_x86
  have u: "new_uuid no_activation (ext sim_start) = (''nonce'', ext sim_start)"
    by (simp add: no_activation_def sim_fields)
  obtain s1 where s1: "publish_cold_version no_activation ?c ''nonce'' (sim_start\<lparr>ext := ext sim_start\<rparr>) =
      (Inl (VersionFailed (function_name ?c) ''1''), s1)" "EvPublish (function_name ?c) \<in> set (calls s1)"
    using orphan_publish by blast
  obtain res t where t: "try_one_snapstart_cycle no_activation ?c \<lparr>cold_count = 1, warm_count = 1\<rparr>
      ''run'' sim_sizes 0 sim_start = (res, t)" by force
  have "deletes (calls sim_start) = []" "leaked_versions sim_start = []"
    by (simp_all add: sim_start_def deletes_def)
  with snapstart_version_life [OF u s1(1) t] s1(2) t show ?thesis by auto
qed

end
