(* ===== verification/Stats.thy ===== *)
theory Stats
  imports Prelude "HOL-Library.Multiset"
begin

text \<open>
  The pure part of \<open>bencher/src/probe/sample.rs\<close>: the decomposition of one cold sample, and the
  reduction of a series to medians and spreads. Milliseconds are rationals, so there is no NaN
  to sort; \<open>None\<close> is the panic of \<open>assert!\<close>, or for \<open>spread\<close> the pair of infinities of an empty
  slice.
\<close>

record sample =
  sm_w_cold :: rat
  sm_init :: rat
  sm_cold_duration :: rat
  sm_warm_rtt :: rat
  sm_w_warm :: rat
  sm_residual :: rat

record aggregated =
  ag_n_samples :: nat
  ag_w_cold_p50 :: rat
  ag_w_cold_min :: rat
  ag_w_cold_max :: rat
  ag_init_p50 :: rat
  ag_cold_dur_p50 :: rat
  ag_warm_rtt_p50 :: rat
  ag_w_warm_p50 :: rat
  ag_w_warm_min :: rat
  ag_w_warm_max :: rat
  ag_residual_p50 :: rat
  ag_residual_min :: rat
  ag_residual_max :: rat

fun spread :: "rat list \<Rightarrow> (rat \<times> rat) option" where
  "spread [] = None"
| "spread (x # xs) = Some (foldl min x xs, foldl max x xs)"

definition median :: "rat list \<Rightarrow> rat option" where
  "median v =
     (if v = [] then None
      else let s = sort v; n = length s in
        Some (if n mod 2 = 1 then s ! (n div 2) else (s ! (n div 2 - 1) + s ! (n div 2)) / 2))"

definition percentile :: "rat list \<Rightarrow> rat \<Rightarrow> rat option" where
  "percentile v q =
     (if v = [] \<or> \<not> (0 < q \<and> q \<le> 1) then None
      else let s = sort v; rank = nat \<lceil>q * of_nat (length s)\<rceil> in Some (s ! (max rank 1 - 1)))"

definition aggregate :: "sample list \<Rightarrow> aggregated option" where
  "aggregate samples =
     Option.bind (spread (map sm_w_cold samples)) (\<lambda>(w_cold_min, w_cold_max).
     Option.bind (spread (map sm_w_warm samples)) (\<lambda>(w_warm_min, w_warm_max).
     Option.bind (spread (map sm_residual samples)) (\<lambda>(residual_min, residual_max).
     Option.bind (median (map sm_w_cold samples)) (\<lambda>w_cold_p50.
     Option.bind (median (map sm_init samples)) (\<lambda>init_p50.
     Option.bind (median (map sm_cold_duration samples)) (\<lambda>cold_dur_p50.
     Option.bind (median (map sm_warm_rtt samples)) (\<lambda>warm_rtt_p50.
     Option.bind (median (map sm_w_warm samples)) (\<lambda>w_warm_p50.
     Option.bind (median (map sm_residual samples)) (\<lambda>residual_p50.
       Some \<lparr>ag_n_samples = length samples mod 2 ^ 32,
             ag_w_cold_p50 = w_cold_p50, ag_w_cold_min = w_cold_min, ag_w_cold_max = w_cold_max,
             ag_init_p50 = init_p50, ag_cold_dur_p50 = cold_dur_p50,
             ag_warm_rtt_p50 = warm_rtt_p50,
             ag_w_warm_p50 = w_warm_p50, ag_w_warm_min = w_warm_min, ag_w_warm_max = w_warm_max,
             ag_residual_p50 = residual_p50, ag_residual_min = residual_min,
             ag_residual_max = residual_max\<rparr>)))))))))"

section \<open>Order statistics\<close>

text \<open>The \<open>k\<close>-th smallest value by counting: what the sorted slice is read for.\<close>

lemma sorted_nth_le_iff:
  fixes s :: "'a::linorder list"
  assumes "sorted s" "k < length s"
  shows "s ! k \<le> v \<longleftrightarrow> k < length (filter (\<lambda>x. x \<le> v) s)"
  using assms
proof (induction s arbitrary: k)
  case Nil
  then show ?case by simp
next
  case (Cons x s)
  show ?case
  proof (cases "x \<le> v")
    case True
    with Cons show ?thesis by (cases k) auto
  next
    case False
    with Cons.prems have gt: "\<forall>y \<in> set (x # s). v < y" by auto
    then have "filter (\<lambda>y. y \<le> v) (x # s) = []" by (auto simp: filter_empty_conv)
    moreover have "v < (x # s) ! k" using gt Cons.prems(2) nth_mem by blast
    ultimately show ?thesis by (metis leD length_0_conv not_less_zero)
  qed
qed

lemma length_filter_sort: "length (filter P (sort xs)) = length (filter P xs)"
  by (metis mset_filter mset_sort size_mset)

lemma sort_nth_le_iff:
  fixes xs :: "'a::linorder list"
  shows "k < length xs \<Longrightarrow> sort xs ! k \<le> v \<longleftrightarrow> k < length (filter (\<lambda>x. x \<le> v) xs)"
  using sorted_nth_le_iff [of "sort xs" k v] by (simp add: length_filter_sort)

lemma sort_nth_mem: "k < length xs \<Longrightarrow> sort xs ! k \<in> set xs"
  by (metis length_sort nth_mem set_sort)

lemma sort_eq_mset: "mset xs = mset ys \<Longrightarrow> sort xs = sort ys"
  by (metis properties_for_sort mset_sort sorted_sort)

text \<open>Pointwise larger values have pointwise larger order statistics.\<close>

lemma sort_nth_mono:
  fixes xs ys :: "'a::linorder list"
  assumes "list_all2 (\<le>) xs ys" "k < length xs"
  shows "sort xs ! k \<le> sort ys ! k"
proof -
  have len: "length xs = length ys" using assms(1) by (rule list_all2_lengthD)
  have "length (filter (\<lambda>x. x \<le> v) ys) \<le> length (filter (\<lambda>x. x \<le> v) xs)" for v
    using assms(1) by (induction rule: list_all2_induct) auto
  moreover have "k < length (filter (\<lambda>x. x \<le> sort ys ! k) ys)"
    using sort_nth_le_iff [of k ys "sort ys ! k"] assms(2) len by simp
  ultimately show ?thesis
    using sort_nth_le_iff [of k xs "sort ys ! k"] assms(2) by (meson less_le_trans)
qed

section \<open>Median\<close>

lemma median_None [simp]: "median v = None \<longleftrightarrow> v = []"
  by (simp add: median_def Let_def)

lemma median_sort_cong: "mset v = mset w \<Longrightarrow> median v = median w"
  using sort_eq_mset [of v w] by (auto simp: median_def Let_def dest: arg_cong [where f = length])

lemma median_between:
  assumes "median v = Some m" "\<And>x. x \<in> set v \<Longrightarrow> lo \<le> x \<and> x \<le> hi"
  shows "lo \<le> m \<and> m \<le> hi"
proof -
  have ne: "v \<noteq> []" using assms(1) by (auto simp: median_def)
  then have "sort v ! (length v div 2) \<in> set v" "sort v ! (length v div 2 - 1) \<in> set v"
    by (intro sort_nth_mem; cases v; simp)+
  with assms(2) have "lo \<le> sort v ! (length v div 2)" "sort v ! (length v div 2) \<le> hi"
    "lo \<le> sort v ! (length v div 2 - 1)" "sort v ! (length v div 2 - 1) \<le> hi" by blast+
  with assms(1) show ?thesis by (auto simp: median_def Let_def split: if_splits)
qed

section \<open>Spread\<close>

lemma foldl_min: "foldl min (x::'a::linorder) xs = Min (set (x # xs))"
proof (induction xs arbitrary: x)
  case (Cons y ys)
  have "Min (set (x # y # ys)) = Min (set (min x y # ys))"
    by (cases "ys = []") (simp_all add: min.assoc)
  with Cons show ?case by simp
qed simp

lemma foldl_max: "foldl max (x::'a::linorder) xs = Max (set (x # xs))"
proof (induction xs arbitrary: x)
  case (Cons y ys)
  have "Max (set (x # y # ys)) = Max (set (max x y # ys))"
    by (cases "ys = []") (simp_all add: max.assoc)
  with Cons show ?case by simp
qed simp

lemma spread_eq: "spread v = (if v = [] then None else Some (Min (set v), Max (set v)))"
  by (cases v) (simp_all only: spread.simps foldl_min foldl_max, simp_all)

lemma spread_Some: "spread v = Some (lo, hi) \<longleftrightarrow> v \<noteq> [] \<and> lo = Min (set v) \<and> hi = Max (set v)"
  by (auto simp: spread_eq)

section \<open>Properties\<close>

text \<open>
  C37. \<open>percentile\<close> is the nearest-rank percentile its comment promises: for \<open>0 < q \<le> 1\<close> the
  result is one of the samples, at least \<open>q\<close> of the samples are at or below it, and it is the
  smallest sample with that property.
\<close>

theorem percentile_nearest_rank:
  assumes "v \<noteq> []" "0 < q" "q \<le> 1"
  shows "\<exists>p. percentile v q = Some p \<and> p \<in> set v \<and>
    q * of_nat (length v) \<le> of_nat (length (filter (\<lambda>x. x \<le> p) v)) \<and>
    (\<forall>x \<in> set v. x < p \<longrightarrow> of_nat (length (filter (\<lambda>y. y \<le> x) v)) < q * of_nat (length v))"
proof -
  let ?n = "length v" and ?k = "nat \<lceil>q * of_nat (length v)\<rceil> - 1"
  have pos: "0 < q * of_nat ?n" using assms by simp
  then have r1: "1 \<le> nat \<lceil>q * of_nat ?n\<rceil>" by linarith
  have "q * of_nat ?n \<le> of_nat ?n" using assms by (simp add: mult_left_le_one_le)
  then have "\<lceil>q * of_nat ?n\<rceil> \<le> int ?n" by (metis ceiling_mono ceiling_of_nat)
  then have k: "?k < ?n" using r1 by linarith
  let ?p = "sort v ! ?k"
  have eq: "percentile v q = Some ?p"
    using assms r1 by (simp add: percentile_def Let_def max_def)
  have up: "?k < length (filter (\<lambda>x. x \<le> ?p) v)" using sort_nth_le_iff [OF k, of ?p] by simp
  have "q * of_nat ?n \<le> of_int \<lceil>q * of_nat ?n\<rceil>" by (rule le_of_int_ceiling)
  also have "\<dots> = of_nat (?k + 1)" using r1 by (simp add: of_nat_diff)
  also have "\<dots> \<le> of_nat (length (filter (\<lambda>x. x \<le> ?p) v))" using up by (simp only: of_nat_le_iff)
  finally have ge: "q * of_nat ?n \<le> of_nat (length (filter (\<lambda>x. x \<le> ?p) v))" .
  have "of_nat (length (filter (\<lambda>y. y \<le> x) v)) < q * of_nat ?n" if "x < ?p" for x
  proof -
    have "length (filter (\<lambda>y. y \<le> x) v) \<le> ?k" using sort_nth_le_iff [OF k, of x] that by linarith
    then have "int (length (filter (\<lambda>y. y \<le> x) v)) < \<lceil>q * of_nat ?n\<rceil>" using r1 by linarith
    then show ?thesis by (simp add: less_ceiling_iff)
  qed
  with eq ge sort_nth_mem [OF k] show ?thesis by blast
qed

theorem percentile_nearest_rank_witness:
  "\<exists>p. percentile [7, 1, 5, 3, 2, 6, 4] (1 / 2) = Some p \<and> p \<in> set [7, 1, 5, 3, 2, 6, 4]"
  using percentile_nearest_rank [of "[7, 1, 5, 3, 2, 6, 4]" "1 / 2"] by force

section \<open>Aggregation\<close>

lemma aggregate_None: "aggregate samples = None \<longleftrightarrow> samples = []"
  by (cases samples) (auto simp: aggregate_def bind_eq_None_conv)

lemma aggregate_perm:
  assumes "mset ss = mset samples"
  shows "aggregate ss = aggregate samples"
proof -
  have "median (map f ss) = median (map f samples)" for f
    by (rule median_sort_cong) (simp add: assms)
  moreover have "ss = [] \<longleftrightarrow> samples = []" using assms by auto
  then have "spread (map f ss) = spread (map f samples)" for f
    using mset_eq_setD [OF assms] by (simp only: spread_eq set_map map_is_Nil_conv)
  moreover have "length ss = length samples" using assms by (metis size_mset)
  ultimately show ?thesis by (simp only: aggregate_def)
qed

text \<open>A term of the decomposition, its spread and its median.\<close>

definition encloses :: "(sample \<Rightarrow> rat) \<Rightarrow> sample list \<Rightarrow> rat \<Rightarrow> rat \<Rightarrow> rat \<Rightarrow> bool" where
  "encloses f samples lo mid hi \<longleftrightarrow>
     lo \<in> f ` set samples \<and> hi \<in> f ` set samples \<and> lo \<le> mid \<and> mid \<le> hi \<and>
     (\<forall>s \<in> set samples. lo \<le> f s \<and> f s \<le> hi)"

lemma enclosesI:
  assumes "spread (map f samples) = Some (lo, hi)" "median (map f samples) = Some m"
  shows "encloses f samples lo m hi"
proof -
  have "samples \<noteq> []" "lo = Min (f ` set samples)" "hi = Max (f ` set samples)"
    using assms(1) by (auto simp: spread_Some)
  then have "lo \<in> f ` set samples" "hi \<in> f ` set samples"
    "\<forall>s \<in> set samples. lo \<le> f s \<and> f s \<le> hi" by (auto intro: Min_in Max_in)
  with median_between [OF assms(2), of lo hi] show ?thesis by (auto simp: encloses_def)
qed

lemma aggregate_encloses:
  assumes "aggregate samples = Some a"
  shows "encloses sm_residual samples (ag_residual_min a) (ag_residual_p50 a) (ag_residual_max a)"
    "encloses sm_w_cold samples (ag_w_cold_min a) (ag_w_cold_p50 a) (ag_w_cold_max a)"
    "encloses sm_w_warm samples (ag_w_warm_min a) (ag_w_warm_p50 a) (ag_w_warm_max a)"
    "ag_n_samples a = length samples mod 2 ^ 32"
  using assms by (auto simp: aggregate_def bind_eq_Some_conv intro!: enclosesI)

text \<open>
  C38. The reduction of a series: a non-empty series, and only it, has an aggregate; each spread
  is attained by samples and encloses the whole series and the median of its term; the order in
  which the samples were taken does not matter.
\<close>

theorem aggregate_sound:
  assumes "samples \<noteq> []" "mset samples' = mset samples"
  shows "\<exists>a. aggregate samples = Some a \<and> aggregate samples' = Some a \<and>
    ag_n_samples a = length samples mod 2 ^ 32 \<and>
    encloses sm_residual samples (ag_residual_min a) (ag_residual_p50 a) (ag_residual_max a) \<and>
    encloses sm_w_cold samples (ag_w_cold_min a) (ag_w_cold_p50 a) (ag_w_cold_max a) \<and>
    encloses sm_w_warm samples (ag_w_warm_min a) (ag_w_warm_p50 a) (ag_w_warm_max a)"
proof -
  obtain a where a: "aggregate samples = Some a"
    using assms(1) aggregate_None [of samples] by (cases "aggregate samples") simp_all
  with aggregate_perm [OF assms(2)] have "aggregate samples' = Some a" by simp
  with a aggregate_encloses [OF a] show ?thesis by blast
qed

definition three_samples :: "sample list" where
  "three_samples =
     [\<lparr>sm_w_cold = 300, sm_init = 100, sm_cold_duration = 20, sm_warm_rtt = 5, sm_w_warm = 7,
       sm_residual = 175\<rparr>,
      \<lparr>sm_w_cold = 320, sm_init = 110, sm_cold_duration = 22, sm_warm_rtt = 6,
       sm_w_warm = 17 / 2, sm_residual = 182\<rparr>,
      \<lparr>sm_w_cold = 310, sm_init = 105, sm_cold_duration = 21, sm_warm_rtt = 4, sm_w_warm = 6,
       sm_residual = 180\<rparr>]"

theorem aggregate_sound_witness:
  "\<exists>a. aggregate three_samples = Some a \<and> aggregate (rev three_samples) = Some a \<and>
     ag_n_samples a = 3"
  using aggregate_sound [of three_samples "rev three_samples"]
  by (auto simp: three_samples_def)

end
