(* ===== verification/Selection.thy ===== *)
theory Selection
  imports Config
begin

text \<open>
  Which cells a command works on: the filters of \<open>bencher run\<close> (\<open>bencher/src/main.rs\<close>) and the
  targets of \<open>probe download-start\<close> (\<open>bencher/src/probe/download_start.rs\<close>). An error keeps
  the facts of its message.
\<close>

datatype select_error =
    NotLangScenario string
  | UnknownName string string
  | NotInMatrix string lang scenario
  | ExcludedByLang string lang "lang list"
  | BadArch string
  | BadMemory string
  | NoMatrixCell lang scenario int arch

definition map_err :: "('e \<Rightarrow> 'f) \<Rightarrow> 'e + 'a \<Rightarrow> 'f + 'a" where
  "map_err f r = (case r of Inl e \<Rightarrow> Inl (f e) | Inr x \<Rightarrow> Inr x)"

lemma map_err_Inr [simp]: "map_err f r = Inr x \<longleftrightarrow> r = Inr x"
  by (cases r) (simp_all add: map_err_def)

lemma is_ok_iff: "is_ok r \<longleftrightarrow> (\<exists>x. r = Inr x)"
  by (cases r) simp_all

lemma is_ok_map_err [simp]: "is_ok (map_err f r) \<longleftrightarrow> is_ok r"
  by (cases r) (simp_all add: map_err_def)

section \<open>The filters of a run\<close>

text \<open>The filter arguments of \<open>RunArgs\<close>; \<open>--lang\<close> is parsed first, by \<open>parse_langs\<close>.\<close>

record run_filters =
  rf_only :: "string option"
  rf_memory :: "int list"
  rf_arch :: "string option"

definition parse_langs :: "string list \<Rightarrow> string + lang list" where
  "parse_langs values = collect_results lang_parse values"

text \<open>One \<open>lang:scenario\<close> entry, cross-checked against the matrix and against \<open>--lang\<close>.\<close>

definition parse_only_entry :: "lang list \<Rightarrow> string \<Rightarrow> select_error + lang \<times> scenario" where
  "parse_only_entry langs part =
     res_bind (ok_or (NotLangScenario part) (split_once (CHR '':'') part)) (\<lambda>(l, sc).
     res_bind (map_err (\<lambda>e. UnknownName e part) (lang_parse l)) (\<lambda>lg.
     res_bind (map_err (\<lambda>e. UnknownName e part) (scenario_parse sc)) (\<lambda>scn.
       if \<not> supports lg scn then Inl (NotInMatrix part lg scn)
       else if langs \<noteq> [] \<and> lg \<notin> set langs then Inl (ExcludedByLang part lg langs)
       else Inr (lg, scn))))"

definition parse_only ::
    "lang list \<Rightarrow> string option \<Rightarrow> select_error + (lang \<times> scenario) list option" where
  "parse_only langs o' =
     (case o' of
        None \<Rightarrow> Inr None
      | Some s \<Rightarrow>
          res_bind (collect_results (parse_only_entry langs) (split_on (CHR '','') s))
            (\<lambda>v. Inr (Some v)))"

definition parse_arch :: "string option \<Rightarrow> select_error + arch option" where
  "parse_arch o' =
     (case o' of
        None \<Rightarrow> Inr None
      | Some a \<Rightarrow> res_bind (map_err BadArch (arch_parse a)) (\<lambda>x. Inr (Some x)))"

definition select_cells :: "run_filters \<Rightarrow> lang list \<Rightarrow> select_error + cell list" where
  "select_cells args langs =
     res_bind (parse_only langs (rf_only args)) (\<lambda>only.
     res_bind (parse_arch (rf_arch args)) (\<lambda>a.
     res_bind (map_err BadMemory (validate_memory_tiers (rf_memory args))) (\<lambda>_.
       Inr (filter (\<lambda>c. case a of Some x \<Rightarrow> x = arch c | None \<Rightarrow> True)
         (filter (\<lambda>c. rf_memory args = [] \<or> memory_mb c \<in> set (rf_memory args))
         (filter (\<lambda>c. case only of
             Some lst \<Rightarrow> list_ex (\<lambda>(l, s). l = lang c \<and> s = scenario c) lst
           | None \<Rightarrow> True)
         (cells_for_langs langs)))))))"

section \<open>The targets of the download-start probe\<close>

record start_args =
  sa_only :: "string option"
  sa_memory :: "int list"

definition dedup_targets :: "(lang \<times> scenario \<times> int) list \<Rightarrow> (lang \<times> scenario \<times> int) list" where
  "dedup_targets targets = dedup_first targets"

definition default_targets :: "(lang \<times> scenario \<times> int) list" where
  "default_targets =
     dedup_targets
       ([(Rust, Hello, 128), (Rust, Hello, 512), (Rust, Hello, 3008)] @
        [(Node, Hello, 512), (Python, Hello, 512), (Java, Hello, 512), (Python, Authz, 512),
         (Rust, SmithyFull, 512), (Java, SmithyFull, 512), (Python, OneClient, 512)] @
        concat (map (\<lambda>mem.
          [(Rust, SmithyFull, mem), (Java, SmithyFull, mem), (Node, SmithyFull, mem),
           (Python, OneClient, mem), (Go, OneClient, mem)]) [512, 3008]))"

definition parse_target_entry :: "string \<Rightarrow> select_error + lang \<times> scenario" where
  "parse_target_entry part =
     res_bind (ok_or (NotLangScenario part) (split_once (CHR '':'') part)) (\<lambda>(l, sc).
     res_bind (map_err (\<lambda>e. UnknownName e part) (lang_parse l)) (\<lambda>lg.
     res_bind (map_err (\<lambda>e. UnknownName e part) (scenario_parse sc)) (\<lambda>scn.
       if \<not> supports lg scn then Inl (NotInMatrix part lg scn) else Inr (lg, scn))))"

definition wanted_targets :: "start_args \<Rightarrow> select_error + (lang \<times> scenario \<times> int) list" where
  "wanted_targets args =
     (case sa_only args of
        None \<Rightarrow>
          (if sa_memory args = [] then Inr default_targets
           else
             let pairs = dedup_first (map (\<lambda>(l, s, _). (l, s)) default_targets)
             in Inr (concat (map (\<lambda>(l, s). map (\<lambda>m. (l, s, m)) (sa_memory args)) pairs)))
      | Some s \<Rightarrow>
          (let mems = (if sa_memory args = [] then [512] else sa_memory args)
           in res_bind (collect_results parse_target_entry (split_on (CHR '','') s)) (\<lambda>v.
                Inr (concat (map (\<lambda>(l, s). map (\<lambda>m. (l, s, m)) mems) v)))))"

definition is_target :: "lang \<Rightarrow> scenario \<Rightarrow> arch \<Rightarrow> int \<Rightarrow> cell \<Rightarrow> bool" where
  "is_target l s a m c \<longleftrightarrow>
     lang c = l \<and> scenario c = s \<and> arch c = a \<and> memory_mb c = m \<and> \<not> snapstart c \<and>
     jitter c \<noteq> Some On \<and> (l \<noteq> Rust \<or> opt c = Some O3)"

fun resolve_loop ::
    "arch \<Rightarrow> (lang \<times> scenario \<times> int) list \<Rightarrow> cell list \<Rightarrow> select_error + cell list" where
  "resolve_loop a [] out = Inr out"
| "resolve_loop a ((l, s, m) # ws) out =
     (if m < min_memory_mb s l False then resolve_loop a ws out
      else case List.find (is_target l s a m) all_cells of
        Some c \<Rightarrow>
          resolve_loop a ws
            (if list_ex (\<lambda>e. function_name e = function_name c) out then out else out @ [c])
      | None \<Rightarrow> Inl (NoMatrixCell l s m a))"

definition resolve_targets :: "start_args \<Rightarrow> arch \<Rightarrow> select_error + cell list" where
  "resolve_targets args a =
     res_bind (map_err BadMemory (validate_memory_tiers (sa_memory args))) (\<lambda>_.
     res_bind (wanted_targets args) (\<lambda>wanted. resolve_loop a wanted []))"

section \<open>The plain cell of a target\<close>

definition plain_cell :: "lang \<Rightarrow> scenario \<Rightarrow> arch \<Rightarrow> int \<Rightarrow> cell" where
  "plain_cell l s a m =
     \<lparr>lang = l, scenario = s, arch = a, memory_mb = m,
      opt = (if l = Rust then Some O3 else None), snapstart = False,
      jitter = (if l = Rust then Some Off else None)\<rparr>"

lemma plain_cell_sel [simp]:
  "lang (plain_cell l s a m) = l" "scenario (plain_cell l s a m) = s"
  "arch (plain_cell l s a m) = a" "memory_mb (plain_cell l s a m) = m"
  "snapstart (plain_cell l s a m) = False"
  by (simp_all add: plain_cell_def)

lemma is_target_plain: "is_target l s a m (plain_cell l s a m)"
  by (simp add: is_target_def plain_cell_def)

lemma is_target_unique:
  assumes "is_target l s a m c" "assert_valid c"
  shows "c = plain_cell l s a m"
  using assms
  by (cases "opt c"; cases "jitter c")
     (auto simp: is_target_def assert_valid_def plain_cell_def cell_eq_iff jitter_not_On)

lemma plain_cell_in_matrix:
  assumes "supports l s" "m \<in> set MEMORY_MB" "min_memory_mb s l False \<le> m"
  shows "plain_cell l s a m \<in> set all_cells"
  using assms
  by (auto simp: mem_all_cells in_matrix_def plain_cell_def assert_valid_def)

lemma find_target:
  assumes "supports l s" "m \<in> set MEMORY_MB" "min_memory_mb s l False \<le> m"
  shows "List.find (is_target l s a m) all_cells = Some (plain_cell l s a m)"
proof (rule find_unique)
  show "plain_cell l s a m \<in> set all_cells" by (rule plain_cell_in_matrix [OF assms])
  show "is_target l s a m (plain_cell l s a m)" by (rule is_target_plain)
qed (auto simp: mem_all_cells in_matrix_def intro: is_target_unique)

section \<open>What the filters accept\<close>

lemma validate_memory_tiers_Inr: "validate_memory_tiers ms = Inr () \<longleftrightarrow> set ms \<subseteq> set MEMORY_MB"
  by (induction ms) auto

lemma is_ok_unit: "is_ok r \<longleftrightarrow> r = Inr ()"
  by (cases r) simp_all

definition names_pair :: "string \<Rightarrow> lang \<Rightarrow> scenario \<Rightarrow> bool" where
  "names_pair part l s \<longleftrightarrow>
     (case split_once (CHR '':'') part of
        None \<Rightarrow> False
      | Some (x, y) \<Rightarrow> trim x = lang_as_str l \<and> trim y = scenario_as_str s)"

lemma parse_only_entry_Inr:
  "parse_only_entry langs part = Inr (l, s) \<longleftrightarrow>
     names_pair part l s \<and> supports l s \<and> (langs = [] \<or> l \<in> set langs)"
  by (auto simp: parse_only_entry_def names_pair_def res_bind_Inr lang_parse_Inr
      scenario_parse_Inr split: option.splits)

lemma parse_target_entry_Inr:
  "parse_target_entry part = Inr (l, s) \<longleftrightarrow> names_pair part l s \<and> supports l s"
  by (auto simp: parse_target_entry_def names_pair_def res_bind_Inr lang_parse_Inr
      scenario_parse_Inr split: option.splits)

lemma names_pair_unique:
  "names_pair part l s \<Longrightarrow> names_pair part l' s' \<Longrightarrow> l = l' \<and> s = s'"
  by (auto simp: names_pair_def split: option.splits dest: langs.as_str_inj scenarios.as_str_inj)

lemma collect_results_set:
  assumes "collect_results f xs = Inr ys"
  shows "y \<in> set ys \<longleftrightarrow> (\<exists>x \<in> set xs. f x = Inr y)"
  using assms unfolding collect_results_Inr
  by (induction rule: list_all2_induct) auto

section \<open>Selection of a run\<close>

definition only_ok :: "lang list \<Rightarrow> string option \<Rightarrow> bool" where
  "only_ok langs o' \<longleftrightarrow>
     (\<forall>s. o' = Some s \<longrightarrow> (\<forall>part \<in> set (split_on (CHR '','') s).
        \<exists>l sc. names_pair part l sc \<and> supports l sc \<and> (langs = [] \<or> l \<in> set langs)))"

definition named_in :: "string option \<Rightarrow> lang \<Rightarrow> scenario \<Rightarrow> bool" where
  "named_in o' l s \<longleftrightarrow>
     (case o' of None \<Rightarrow> True
      | Some t \<Rightarrow> (\<exists>part \<in> set (split_on (CHR '','') t). names_pair part l s))"

lemma parse_only_is_ok: "is_ok (parse_only langs o') \<longleftrightarrow> only_ok langs o'"
proof (cases o')
  case None
  then show ?thesis by (simp add: parse_only_def only_ok_def)
next
  case (Some s)
  have "is_ok (parse_only langs o') \<longleftrightarrow>
      is_ok (collect_results (parse_only_entry langs) (split_on (CHR '','') s))"
    by (cases "collect_results (parse_only_entry langs) (split_on (CHR '','') s)")
       (simp_all add: Some parse_only_def)
  also have "\<dots> \<longleftrightarrow> only_ok langs o'"
    unfolding collect_results_is_ok
    by (simp add: Some only_ok_def is_ok_iff split_paired_Ex parse_only_entry_Inr)
  finally show ?thesis .
qed

lemma parse_only_Inr:
  assumes "parse_only langs o' = Inr r" "langs = [] \<or> lang c \<in> set langs"
    "supports (lang c) (scenario c)"
  shows "(case r of Some lst \<Rightarrow> list_ex (\<lambda>(l, s). l = lang c \<and> s = scenario c) lst
       | None \<Rightarrow> True) \<longleftrightarrow> named_in o' (lang c) (scenario c)"
proof (cases o')
  case None
  with assms(1) show ?thesis by (simp add: parse_only_def named_in_def)
next
  case (Some s)
  with assms(1) obtain v where
    v: "collect_results (parse_only_entry langs) (split_on (CHR '','') s) = Inr v" "r = Some v"
    by (auto simp: parse_only_def res_bind_Inr)
  have "list_ex (\<lambda>(l, s). l = lang c \<and> s = scenario c) v \<longleftrightarrow> (lang c, scenario c) \<in> set v"
    by (force simp: list_ex_iff)
  also have "\<dots> \<longleftrightarrow> named_in o' (lang c) (scenario c)"
    using assms(2,3) by (auto simp: collect_results_set [OF v(1)] parse_only_entry_Inr Some named_in_def)
  finally show ?thesis using v(2) by simp
qed

lemma parse_arch_Inr:
  "parse_arch o' = Inr r \<longleftrightarrow>
     (case o' of None \<Rightarrow> r = None | Some t \<Rightarrow> (\<exists>a. trim t = arch_as_str a \<and> r = Some a))"
  by (auto simp: parse_arch_def res_bind_Inr arch_parse_Inr split: option.splits)

lemma parse_arch_is_ok:
  "is_ok (parse_arch o') \<longleftrightarrow> (\<forall>t. o' = Some t \<longrightarrow> (\<exists>a. trim t = arch_as_str a))"
  by (cases o') (auto simp: is_ok_iff parse_arch_Inr)


text \<open>A targeted run: one scenario in two languages, on one architecture.\<close>

definition sample_filters :: run_filters where
  "sample_filters =
     \<lparr>rf_only = Some ''rust:hello, java:smithyfull'', rf_memory = [], rf_arch = Some ''x86_64''\<rparr>"

lemma sample_pairs:
  "split_on (CHR '','') ''rust:hello, java:smithyfull'' = [''rust:hello'', '' java:smithyfull'']"
  "names_pair ''rust:hello'' Rust Hello" "names_pair '' java:smithyfull'' Java SmithyFull"
  "trim ''x86_64'' = arch_as_str X86_64"
  by code_simp+

lemma sample_filters_ok: "only_ok [] (rf_only sample_filters)"
  using sample_pairs by (fastforce simp: only_ok_def sample_filters_def supports_def)


section \<open>Targets of the download-start probe\<close>

lemma same_name:
  assumes "c \<in> set all_cells" "d \<in> set all_cells"
  shows "function_name c = function_name d \<longleftrightarrow> c = d"
  using assms fns.name_inj [of c d] in_matrix_nameable by (auto simp: mem_all_cells)

lemma resolve_loop_eq:
  assumes "\<And>l s m. (l, s, m) \<in> set ws \<Longrightarrow> supports l s \<and> m \<in> set MEMORY_MB"
    and "set out \<subseteq> set all_cells"
  shows "resolve_loop a ws out =
    Inr (dedup_acc out (map (\<lambda>(l, s, m). plain_cell l s a m)
      (filter (\<lambda>(l, s, m). min_memory_mb s l False \<le> m) ws)))"
  using assms
proof (induction ws arbitrary: out)
  case Nil
  show ?case by simp
next
  case (Cons w ws)
  obtain l s m where w: "w = (l, s, m)" by (cases w)
  have ok: "supports l s" "m \<in> set MEMORY_MB" using Cons.prems(1) w by auto
  show ?case
  proof (cases "m < min_memory_mb s l False")
    case True
    with Cons w show ?thesis by auto
  next
    case False
    let ?c = "plain_cell l s a m"
    have c: "?c \<in> set all_cells" using plain_cell_in_matrix [OF ok] False by simp
    have "list_ex (\<lambda>e. function_name e = function_name ?c) out \<longleftrightarrow> ?c \<in> set out"
      using same_name [OF _ c] Cons.prems(2) by (auto simp: list_ex_iff)
    moreover have "resolve_loop a ws (if ?c \<in> set out then out else out @ [?c]) =
      Inr (dedup_acc (if ?c \<in> set out then out else out @ [?c])
        (map (\<lambda>(l, s, m). plain_cell l s a m)
          (filter (\<lambda>(l, s, m). min_memory_mb s l False \<le> m) ws)))"
      by (rule Cons.IH) (use Cons.prems c in auto)
    ultimately show ?thesis using False find_target [OF ok] by (simp add: w)
  qed
qed

lemma default_targets_ok:
  "(l, s, m) \<in> set default_targets \<Longrightarrow> supports l s \<and> m \<in> set MEMORY_MB"
  by (auto simp: default_targets_def dedup_targets_def supports_def MEMORY_MB_def)

lemma wanted_targets_ok:
  assumes "wanted_targets args = Inr ws" "set (sa_memory args) \<subseteq> set MEMORY_MB" "(l, s, m) \<in> set ws"
  shows "supports l s \<and> m \<in> set MEMORY_MB"
proof (cases "sa_only args")
  case None
  with assms show ?thesis
    by (auto simp: wanted_targets_def Let_def split: if_splits dest: default_targets_ok)
next
  case (Some t)
  then obtain v where v: "collect_results parse_target_entry (split_on (CHR '','') t) = Inr v" and
    ws: "ws = concat (map (\<lambda>(l, s). map (\<lambda>m. (l, s, m))
      (if sa_memory args = [] then [512] else sa_memory args)) v)"
    using assms(1) by (auto simp: wanted_targets_def Let_def res_bind_Inr)
  from ws assms(3) have "(l, s) \<in> set v" "m \<in> set (if sa_memory args = [] then [512] else sa_memory args)"
    by auto
  with assms(2) show ?thesis
    by (auto simp: collect_results_set [OF v] parse_target_entry_Inr MEMORY_MB_def split: if_splits)
qed

text \<open>
  C36. The targets of the download-start probe. With swept \<open>--memory\<close> tiers and an accepted
  \<open>--only\<close> the resolution never fails for want of a matrix cell: it returns, in order and each
  once, the plain cell (for Rust the \<open>o3\<close> build without jitter) of every wanted triple at or
  above its memory floor, all of them cells of the matrix and none SnapStart.
\<close>

theorem resolve_targets_exact:
  assumes "set (sa_memory args) \<subseteq> set MEMORY_MB" "wanted_targets args = Inr wanted"
  shows "\<exists>cells. resolve_targets args a = Inr cells \<and>
    cells = dedup_first (map (\<lambda>(l, s, m). plain_cell l s a m)
      (filter (\<lambda>(l, s, m). min_memory_mb s l False \<le> m) wanted)) \<and>
    distinct cells \<and> (\<forall>c \<in> set cells. c \<in> set all_cells \<and> \<not> snapstart c)"
proof -
  note ok = wanted_targets_ok [OF assms(2,1)]
  have "resolve_targets args a = Inr (dedup_first (map (\<lambda>(l, s, m). plain_cell l s a m)
      (filter (\<lambda>(l, s, m). min_memory_mb s l False \<le> m) wanted)))"
    using assms validate_memory_tiers_Inr [of "sa_memory args"] resolve_loop_eq [of wanted "[]" a] ok
    by (simp add: resolve_targets_def map_err_def dedup_first_def)
  then show ?thesis by (auto dest!: ok intro!: plain_cell_in_matrix)
qed

theorem resolve_targets_exact_witness:
  "\<exists>cells. resolve_targets \<lparr>sa_only = None, sa_memory = []\<rparr> Arm64 = Inr cells \<and> distinct cells \<and>
     plain_cell Go OneClient Arm64 3008 \<in> set cells"
  using resolve_targets_exact [of "\<lparr>sa_only = None, sa_memory = []\<rparr>" default_targets Arm64]
  by (force simp: wanted_targets_def default_targets_def dedup_targets_def min_memory_mb_def)

end
