(* ===== verification/Btree.thy ===== *)
theory Btree
  imports Prelude
begin

text \<open>
  Rust's \<open>BTreeMap\<close> as the association list its iterator walks: ascending keys, each once.
  Shared by the artifact and size maps and the bucket tally, whose order of iteration the
  program's output depends on.
\<close>

fun bt_insert :: "'k::linorder \<Rightarrow> 'v \<Rightarrow> ('k \<times> 'v) list \<Rightarrow> ('k \<times> 'v) list" where
  "bt_insert k v [] = [(k, v)]"
| "bt_insert k v ((k', v') # m) =
     (if k < k' then (k, v) # (k', v') # m
      else if k = k' then (k, v) # m
      else (k', v') # bt_insert k v m)"

definition bt_ok :: "('k::linorder \<times> 'v) list \<Rightarrow> bool" where
  "bt_ok m \<longleftrightarrow> sorted_wrt (<) (map fst m)"

definition bt_keys :: "('k \<times> 'v) list \<Rightarrow> 'k set" where
  "bt_keys m = fst ` set m"

lemma bt_ok_Nil [simp]: "bt_ok []"
  by (simp add: bt_ok_def)

lemma bt_keys_Nil [simp]: "bt_keys [] = {}"
  by (simp add: bt_keys_def)

lemma bt_keys_insert [simp]: "bt_keys (bt_insert k v m) = insert k (bt_keys m)"
  by (induction k v m rule: bt_insert.induct) (auto simp: bt_keys_def)

lemma map_of_bt_insert [simp]: "map_of (bt_insert k v m) = (map_of m)(k \<mapsto> v)"
  by (induction k v m rule: bt_insert.induct) auto

lemma bt_ok_insert [simp]: "bt_ok m \<Longrightarrow> bt_ok (bt_insert k v m)"
proof (induction k v m rule: bt_insert.induct)
  case (2 k v k' v' m)
  have "fst ` set (bt_insert k v m) = insert k (fst ` set m)"
    using bt_keys_insert [of k v m] by (simp add: bt_keys_def)
  with 2 show ?case by (force simp: bt_ok_def)
qed (simp add: bt_ok_def)

lemma set_bt_insert: "set (bt_insert k v m) \<subseteq> insert (k, v) (set m)"
  by (induction k v m rule: bt_insert.induct) auto

lemma bt_ok_distinct: "bt_ok m \<Longrightarrow> distinct (map fst m)"
  by (simp add: bt_ok_def strict_sorted_iff)

lemma map_of_Some_keys: "k \<in> bt_keys m \<longleftrightarrow> (\<exists>v. map_of m k = Some v)"
  using map_of_eq_None_iff [of m k] by (cases "map_of m k") (auto simp: bt_keys_def)

text \<open>A loop that inserts one entry per element.\<close>

fun bt_fill :: "('a \<Rightarrow> 'k::linorder) \<Rightarrow> ('a \<Rightarrow> 'v) \<Rightarrow> 'a list \<Rightarrow> ('k \<times> 'v) list \<Rightarrow> ('k \<times> 'v) list" where
  "bt_fill key val [] m = m"
| "bt_fill key val (x # xs) m = bt_fill key val xs (bt_insert (key x) (val x) m)"

lemma bt_fill_keys [simp]: "bt_keys (bt_fill key val xs m) = key ` set xs \<union> bt_keys m"
  by (induction xs arbitrary: m) auto

lemma bt_fill_ok [simp]: "bt_ok m \<Longrightarrow> bt_ok (bt_fill key val xs m)"
  by (induction xs arbitrary: m) auto

lemma set_bt_fill: "set (bt_fill key val xs m) \<subseteq> (\<lambda>x. (key x, val x)) ` set xs \<union> set m"
proof (induction xs arbitrary: m)
  case Nil
  then show ?case by simp
next
  case (Cons x xs)
  from Cons [of "bt_insert (key x) (val x) m"] set_bt_insert [of "key x" "val x" m]
  show ?case by auto
qed

lemma map_of_bt_fill:
  "map_of (bt_fill key val xs m) = foldl (\<lambda>f x. f(key x \<mapsto> val x)) (map_of m) xs"
  by (induction xs arbitrary: m) auto

text \<open>A sum over the entries changes by the new entry and the one it replaces.\<close>

lemma map_of_below: "bt_ok ((k', v') # m) \<Longrightarrow> k < k' \<Longrightarrow> map_of m k = None"
  by (auto simp: bt_ok_def map_of_eq_None_iff dest: order.strict_trans)

lemma sum_bt_insert:
  fixes f :: "'k::linorder \<times> 'v \<Rightarrow> nat"
  assumes "bt_ok m"
  shows "sum_list (map f (bt_insert k v m)) + (case map_of m k of None \<Rightarrow> 0 | Some u \<Rightarrow> f (k, u)) =
    sum_list (map f m) + f (k, v)"
  using assms
proof (induction k v m rule: bt_insert.induct)
  case (1 k v)
  then show ?case by simp
next
  case (2 k v k' v' m)
  then have "bt_ok m" by (simp add: bt_ok_def)
  with 2 map_of_below [of k' v' m k] show ?case by auto
qed

end
