(* ===== verification/Run_Pool.thy ===== *)
theory Run_Pool
  imports Effort Sim_Run Btree "HOL-Library.Multiset"
begin

text \<open>
  \<open>run::run\<close> of \<open>bencher/src/run.rs\<close>: the order of the cells, the pool of at most \<open>pool\<close> of them
  with its fail-fast cancellation, the version guard, and the drain of leaked versions. The
  pool is a step relation: which running cell ends next, and how far a cancelled cell had come,
  is not the driver's choice. A cell that ends does so in one step, by \<open>run_cell\<close>.
\<close>

section \<open>Order of the cells\<close>

definition per_invoke_secs :: "scenario \<Rightarrow> rat" where
  "per_invoke_secs s =
     (case s of
        Batch \<Rightarrow> 3 / 10
      | ThreeClient \<Rightarrow> 5 / 100
      | SmithyFull \<Rightarrow> 5 / 100
      | OneClient \<Rightarrow> 4 / 100
      | Hello \<Rightarrow> 3 / 100
      | Smithy \<Rightarrow> 3 / 100
      | LetterCount \<Rightarrow> 2 / 100
      | Cache \<Rightarrow> 2 / 100
      | Authz \<Rightarrow> 15 / 1000)"

definition expected_secs :: "profile \<Rightarrow> cell \<Rightarrow> rat" where
  "expected_secs p c =
     (let cpu_share = of_int (min (memory_mb c) 1769) / 1769;
          per_cold_cycle = (if snapstart c then 45 else 2);
          (cold, warm) = iterations c p
      in of_nat cold * per_cold_cycle +
         of_nat cold * (1 + of_nat warm) * per_invoke_secs (scenario c) / cpu_share)"

definition longest_first :: "cell list \<Rightarrow> profile \<Rightarrow> cell list" where
  "longest_first cells p = sort_key (\<lambda>c. - expected_secs p c) cells"

definition two_digits :: "nat \<Rightarrow> string" where
  "two_digits n = replicate (2 - length (show_nat n)) (CHR ''0'') @ show_nat n"

text \<open>\<open>utc_hms\<close> of a clock reading in milliseconds.\<close>

definition utc_hms :: "nat \<Rightarrow> string" where
  "utc_hms now_ms =
     (let secs = now_ms div 1000;
          h = secs div 3600 mod 24; m = secs div 60 mod 60; s = secs mod 60
      in two_digits h @ '':'' @ two_digits m @ '':'' @ two_digits s)"

section \<open>The version guard\<close>

record version_guard =
  vg_name :: string
  vg_version :: "string option"

definition guard_new :: "string \<Rightarrow> string \<Rightarrow> version_guard" where
  "guard_new name version = \<lparr>vg_name = name, vg_version = Some version\<rparr>"

definition disarm :: "version_guard \<Rightarrow> version_guard" where
  "disarm g = g\<lparr>vg_version := None\<rparr>"

definition guard_drop :: "version_guard \<Rightarrow> 'x drv \<Rightarrow> 'x drv" where
  "guard_drop g s =
     (case vg_version g of
        None \<Rightarrow> s
      | Some v \<Rightarrow> s\<lparr>leaked_versions := leaked_versions s @ [(vg_name g, v)]\<rparr>)"

text \<open>
  A cancelled cell: it had made some of its own calls, in whatever world, and held at most one
  armed guard, on its own function, which is dropped with it. Only SnapStart cells make guards.
\<close>

definition cancelled :: "cell \<Rightarrow> 'x drv \<Rightarrow> 'x drv \<Rightarrow> bool" where
  "cancelled c s t \<longleftrightarrow>
     (\<exists>x evs n g. list_all (run_event (function_name c)) evs \<and>
        vg_name g = function_name c \<and> (vg_version g \<noteq> None \<longrightarrow> snapstart c) \<and>
        t = guard_drop g (s\<lparr>ext := x, calls := calls s @ evs, next_slot := n\<rparr>))"

inductive all_cancelled :: "cell list \<Rightarrow> 'x drv \<Rightarrow> 'x drv \<Rightarrow> bool" where
  none: "all_cancelled [] s s"
| one: "cancelled c s t \<Longrightarrow> all_cancelled cs t u \<Longrightarrow> all_cancelled (c # cs) s u"

inductive_simps all_cancelled_Nil: "all_cancelled [] s t"
inductive_simps all_cancelled_Cons: "all_cancelled (c # cs) s t"

section \<open>The pool\<close>

text \<open>What one cell does: its sizes are looked up under its name, and it is run.\<close>

definition cell_job ::
    "'x aws \<Rightarrow> 'x writer \<Rightarrow> run_params \<Rightarrow> string \<Rightarrow> (string \<times> artifact_sizes) list \<Rightarrow> cell \<Rightarrow>
     ('x, unit) eff" where
  "cell_job aws w params run_id sizes c =
     (case map_of sizes (function_name c) of
        None \<Rightarrow> fail (NoSizes (function_name c))
      | Some sz \<Rightarrow> run_cell aws w c params run_id sz)"

record 'x pool =
  waiting :: "cell list"
  running :: "cell list"
  ended :: "cell list"
  outcome :: "(err + unit) option"
  pdrv :: "'x drv"

text \<open>
  \<open>try_for_each_concurrent\<close>: a waiting cell is started while there is room, for which a limit
  of zero is no limit; a running cell
  ends; the first failure is the outcome, stops the others where they are and starts nothing
  more; with nothing left the outcome is success.
\<close>

inductive pool_step ::
    "nat \<Rightarrow> (cell \<Rightarrow> ('x, unit) eff) \<Rightarrow> 'x pool \<Rightarrow> 'x pool \<Rightarrow> bool"
    for k :: nat and job :: "cell \<Rightarrow> ('x, unit) eff" where
  start: "outcome p = None \<Longrightarrow> waiting p = c # cs \<Longrightarrow> k = 0 \<or> length (running p) < k \<Longrightarrow>
    pool_step k job p (p\<lparr>waiting := cs, running := running p @ [c]\<rparr>)"
| finish: "outcome p = None \<Longrightarrow> running p = as @ c # bs \<Longrightarrow> job c (pdrv p) = (Inr (), t) \<Longrightarrow>
    pool_step k job p (p\<lparr>running := as @ bs, ended := ended p @ [c], pdrv := t\<rparr>)"
| fail_fast: "outcome p = None \<Longrightarrow> running p = as @ c # bs \<Longrightarrow> job c (pdrv p) = (Inl e, t) \<Longrightarrow>
    all_cancelled (as @ bs) t u \<Longrightarrow>
    pool_step k job p (p\<lparr>running := [], outcome := Some (Inl e), pdrv := u\<rparr>)"
| complete: "outcome p = None \<Longrightarrow> waiting p = [] \<Longrightarrow> running p = [] \<Longrightarrow>
    pool_step k job p (p\<lparr>outcome := Some (Inr ())\<rparr>)"

inductive_cases pool_stepE: "pool_step k job p q"

definition pool_start :: "cell list \<Rightarrow> 'x drv \<Rightarrow> 'x pool" where
  "pool_start cells s =
     \<lparr>waiting = cells, running = [], ended = [], outcome = None, pdrv = s\<rparr>"

section \<open>The drain\<close>

text \<open>The leaked versions are taken, then each is deleted, best effort.\<close>

definition reclaim_version :: "'x aws \<Rightarrow> string \<times> string \<Rightarrow> ('x, unit) eff" where
  "reclaim_version aws nv =
     (case nv of (name, version) \<Rightarrow>
        bindE (attempt (delete_version aws name version)) (\<lambda>_. ret ()))"

definition drain :: "'x aws \<Rightarrow> ('x, unit) eff" where
  "drain aws s =
     for_each (reclaim_version aws) (leaked_versions s) (s\<lparr>leaked_versions := []\<rparr>)"

text \<open>A result and state that \<open>run\<close> may end with.\<close>

definition run_all_ends ::
    "'x aws \<Rightarrow> 'x writer \<Rightarrow> cell list \<Rightarrow> run_params \<Rightarrow> string \<Rightarrow>
     (string \<times> artifact_sizes) list \<Rightarrow> 'x drv \<Rightarrow> (err + unit) \<times> 'x drv \<Rightarrow> bool" where
  "run_all_ends aws w cells params run_id sizes s rt \<longleftrightarrow>
     (\<exists>p. (pool_step (rp_pool params) (cell_job aws w params run_id sizes))\<^sup>*\<^sup>*
            (pool_start (longest_first cells (rp_profile params)) s) p \<and>
        outcome p = Some (fst rt) \<and> snd rt = snd (drain aws (pdrv p)))"

section \<open>What a cell does to the shared counters\<close>

text \<open>The rows counter, the leaked versions and the key id.\<close>

definition counters ::
    "nat \<Rightarrow> (string \<times> string) list \<Rightarrow> string option \<Rightarrow> 'x drv \<Rightarrow> bool" where
  "counters n lv key s \<longleftrightarrow> rows_count s = n \<and> leaked_versions s = lv \<and> kms_key_id s = key"

interpretation ct: run_invariant nm "counters n lv key" for nm n lv key
  by unfold_locales (auto simp: counters_def)

definition planned_rows :: "profile \<Rightarrow> cell \<Rightarrow> nat" where
  "planned_rows p c = (case iterations c p of (cold, warm) \<Rightarrow> cold * (1 + warm))"

text \<open>The rows a cell's result is worth.\<close>

definition earned :: "'e + 'a \<Rightarrow> nat \<Rightarrow> nat" where
  "earned r n = (case r of Inl _ \<Rightarrow> 0 | Inr _ \<Rightarrow> n)"

lemma earned_simps [simp]: "earned (Inl e) n = 0" "earned (Inr x) n = n"
  by (simp_all add: earned_def)

lemma keeps_io: "keeps (counters n lv key) (bindE (call ev f) io_ok)"
  unfolding io_ok_def
  by (rule keeps_bind [OF _ keeps_ret(3)]) (simp add: keeps_def counters_def call_def split: prod.splits)

lemma keeps_write_line: "keeps (counters n lv key) (write_line w l)"
  unfolding write_line_def by (intro keeps_then keeps_io)

lemma keeps_for_each: "(\<And>x. keeps P (f x)) \<Longrightarrow> keeps P (for_each f xs)"
  by (induction xs) (auto intro: keeps_ret keeps_then)

lemma keepsD: "keeps P m \<Longrightarrow> P s \<Longrightarrow> m s = (r, t) \<Longrightarrow> P t"
  unfolding keeps_def by (metis snd_conv)

lemma write_cell_counters:
  assumes "write_cell w rows s = (r, t)" "counters n lv key s"
  shows "counters (n + earned r (length rows)) lv key t"
proof (cases "serialize_rows w rows")
  case (Inl e)
  with assms show ?thesis by (auto simp: write_cell_def fail_def)
next
  case (Inr ls)
  have len: "length ls = length rows"
    using Inr by (auto simp: serialize_rows_def collect_results_Inr dest: list_all2_lengthD)
  obtain r1 s1 where f: "for_each (write_line w) ls s = (r1, s1)" by force
  have c1: "counters n lv key s1"
    by (rule keepsD [OF keeps_for_each [OF keeps_write_line] assms(2) f])
  obtain r2 s2 where g: "bindE (call EvFlush (stream_flush w)) io_ok s1 = (r2, s2)" by force
  have c2: "counters n lv key s2" by (rule keepsD [OF keeps_io c1 g])
  show ?thesis
    using assms(1) Inr f g c1 c2 len
    by (cases r1; cases r2)
       (auto simp: write_cell_def thenE_def bindE_def [of "for_each _ _"]
          bindE_def [of "bindE (call _ _) io_ok"] ret_def counters_def)
qed

lemma run_cell_loop_counters:
  assumes "run_cell_loop aws w c n run_id sizes a left k rows le s = (r, t)"
    "cell_rows c n run_id sizes k rows" "k \<le> cold_count n" "counters m lv key s"
  shows "counters (m + earned r (cold_count n * (1 + warm_count n))) lv key t"
  using assms
proof (induction left arbitrary: a k rows le s)
  case 0
  then show ?case by (auto simp: fail_def)
next
  case (Suc left)
  obtain k' rows' r1 s1 where v: "run_cycles aws c n run_id sizes k rows s = (Inr (k', rows', r1), s1)"
    using run_cycles_Inr [of aws c n run_id sizes k rows s] by (metis prod_cases3)
  have c1: "counters m lv key s1" by (rule keepsD [OF ct.keeps_run_cycles [OF refl] Suc.prems(4) v])
  have inv: "cell_rows c n run_id sizes k' rows'" "k' \<le> cold_count n" "r1 = None \<Longrightarrow> k' = cold_count n"
    using returnsD [OF returns_run_cycles [OF Suc.prems(2,3)] v] by auto
  show ?case
  proof (cases r1)
    case None
    with Suc.prems(1) v have "write_cell w rows' s1 = (r, t)" by (simp add: bindE_def)
    from write_cell_counters [OF this c1] show ?thesis
      using length_cell_rows [OF inv(1)] inv(3) None by simp
  next
    case (Some e')
    let ?z = "if a < MAX_CELL_ATTEMPTS then sleep aws CELL_RETRY_BACKOFF_MS else ret ()"
    have "\<exists>y s2. ?z s1 = (Inr y, s2)"
      by (simp add: sleep_def call_def ret_def split: prod.splits)
    then obtain y s2 where s2: "?z s1 = (Inr y, s2)" by blast
    have "run_cell_loop aws w c n run_id sizes (Suc a) left k' rows' e' s2 = (r, t)"
      using Suc.prems(1) v Some s2 by (auto simp: bindE_def thenE_def)
    moreover have "keeps (counters m lv key) ?z" by (simp add: ct.keeps_sleep keeps_ret)
    then have "counters m lv key s2" using c1 s2 unfolding keeps_def by (metis snd_conv)
    ultimately show ?thesis using Suc.IH inv(1,2) by blast
  qed
qed

lemma run_cell_counters:
  assumes "run_cell aws w c params run_id sz s = (r, t)" "counters n lv key s"
  shows "counters (n + earned r (planned_rows (rp_profile params) c)) lv key t"
proof -
  obtain cold warm where it: "iterations c (rp_profile params) = (cold, warm)" by force
  let ?n = "\<lparr>cold_count = cold, warm_count = warm\<rparr>"
  have "counters (n + earned r (cold_count ?n * (1 + warm_count ?n))) lv key t"
    by (rule run_cell_loop_counters [OF _ cell_rows_Nil _ assms(2)])
       (use assms(1) it in \<open>simp_all add: run_cell_def\<close>)
  then show ?thesis by (simp add: planned_rows_def it)
qed

lemma cell_job_counters:
  assumes "cell_job aws w params run_id sizes c s = (r, t)" "counters n lv key s"
  shows "counters (n + earned r (planned_rows (rp_profile params) c)) lv key t"
proof (cases "map_of sizes (function_name c)")
  case None
  with assms show ?thesis by (auto simp: cell_job_def fail_def)
next
  case (Some z)
  with assms show ?thesis by (auto simp: cell_job_def intro: run_cell_counters)
qed

section \<open>The invariant of the pool\<close>

text \<open>The leaked versions grow only by versions of cancelled SnapStart cells.\<close>

definition leaks_of :: "cell list \<Rightarrow> (string \<times> string) list \<Rightarrow> (string \<times> string) list \<Rightarrow> bool" where
  "leaks_of cs lv lv' \<longleftrightarrow>
     (\<exists>new. lv' = lv @ new \<and> length new \<le> length cs \<and>
        (\<forall>(nm, v) \<in> set new. \<exists>c \<in> set cs. snapstart c \<and> nm = function_name c))"

lemma leaks_of_refl: "leaks_of cs lv lv"
  by (simp add: leaks_of_def)

lemma cancelled_counters:
  assumes "cancelled c s t" "counters n lv key s"
  shows "\<exists>lv'. leaks_of [c] lv lv' \<and> counters n lv' key t"
  using assms
  by (auto simp: cancelled_def guard_drop_def counters_def leaks_of_def split: option.splits)

lemma leaks_of_Cons:
  assumes "leaks_of [c] lv lv1" "leaks_of cs lv1 lv2"
  shows "leaks_of (c # cs) lv lv2"
  using assms by (fastforce simp: leaks_of_def)

lemma all_cancelled_counters:
  assumes "all_cancelled cs s t" "counters n lv key s"
  shows "\<exists>lv'. leaks_of cs lv lv' \<and> counters n lv' key t"
  using assms
proof (induction arbitrary: lv rule: all_cancelled.induct)
  case (none s)
  then show ?case by (auto intro: leaks_of_refl)
next
  case (one c s t cs u)
  from cancelled_counters [OF one.hyps(1) one.prems] obtain lv1 where
    1: "leaks_of [c] lv lv1" "counters n lv1 key t" by blast
  from one.IH [OF 1(2)] obtain lv2 where "leaks_of cs lv1 lv2" "counters n lv2 key u" by blast
  with leaks_of_Cons [OF 1(1)] show ?case by blast
qed

lemma all_cancelled_ex: "\<exists>u. all_cancelled cs s u"
proof (induction cs arbitrary: s)
  case Nil
  show ?case by (auto intro: all_cancelled.none)
next
  case (Cons c cs)
  have "cancelled c s (guard_drop \<lparr>vg_name = function_name c, vg_version = None\<rparr>
      (s\<lparr>ext := ext s, calls := calls s @ [], next_slot := next_slot s\<rparr>))"
    unfolding cancelled_def by (intro exI [of _ "ext s"] exI [of _ "[]"] exI [of _ "next_slot s"]
        exI [of _ "\<lparr>vg_name = function_name c, vg_version = None\<rparr>"]) simp
  with Cons show ?case by (blast intro: all_cancelled.one)
qed

text \<open>
  At any time: the started cells are a prefix of the order, each is running, ended or, after a
  failure, dropped; at most \<open>k\<close> run; the rows counter is what the ended cells earned; no version
  is leaked before a failure; success means that every cell has ended.
\<close>

definition pool_inv ::
    "cell list \<Rightarrow> nat \<Rightarrow> profile \<Rightarrow> nat \<Rightarrow> (string \<times> string) list \<Rightarrow> string option \<Rightarrow> 'x pool \<Rightarrow> bool" where
  "pool_inv cells k pr n lv key p \<longleftrightarrow>
     (k \<noteq> 0 \<longrightarrow> length (running p) \<le> k) \<and>
     (\<exists>started. cells = started @ waiting p \<and>
        (case outcome p of
           None \<Rightarrow> mset started = mset (running p) + mset (ended p)
         | Some (Inl _) \<Rightarrow> running p = [] \<and> mset (ended p) \<subset># mset started
         | Some (Inr _) \<Rightarrow> running p = [] \<and> waiting p = [] \<and> mset started = mset (ended p))) \<and>
     (\<exists>lv'. counters (n + sum_list (map (planned_rows pr) (ended p))) lv' key (pdrv p) \<and>
        leaks_of cells lv lv' \<and> (outcome p = None \<or> outcome p = Some (Inr ()) \<longrightarrow> lv' = lv))"

lemma pool_inv_start: "counters n lv key s \<Longrightarrow> pool_inv cells k pr n lv key (pool_start cells s)"
  by (auto simp: pool_inv_def pool_start_def leaks_of_refl)

lemma leaks_of_mono: "leaks_of cs lv lv' \<Longrightarrow> set cs \<subseteq> set ds \<Longrightarrow> length cs \<le> length ds \<Longrightarrow> leaks_of ds lv lv'"
  unfolding leaks_of_def by fastforce

lemma pool_inv_step:
  assumes "pool_step k (cell_job aws w params run_id sizes) p q"
    "pool_inv cells k (rp_profile params) n lv key p"
  shows "pool_inv cells k (rp_profile params) n lv key q"
  using assms(1)
proof cases
  case (start c cs)
  with assms(2) show ?thesis by (auto simp: pool_inv_def)
next
  case (finish as c bs t)
  from assms(2) finish(2) have "counters (n + sum_list (map (planned_rows (rp_profile params)) (ended p))) lv key (pdrv p)"
    by (auto simp: pool_inv_def)
  from cell_job_counters [OF finish(4) this] finish assms(2) show ?thesis
    by (auto simp: pool_inv_def leaks_of_refl ac_simps)
next
  case (fail_fast as c bs e t u)
  from assms(2) fail_fast(2) have "counters (n + sum_list (map (planned_rows (rp_profile params)) (ended p))) lv key (pdrv p)"
    by (auto simp: pool_inv_def)
  from cell_job_counters [OF fail_fast(4) this]
  have "counters (n + sum_list (map (planned_rows (rp_profile params)) (ended p))) lv key t" by simp
  from all_cancelled_counters [OF fail_fast(5) this] obtain lv' where
    l: "leaks_of (as @ bs) lv lv'"
      "counters (n + sum_list (map (planned_rows (rp_profile params)) (ended p))) lv' key u" by blast
  from assms(2) fail_fast(2,3) obtain started where
    st: "cells = started @ waiting p" "mset started = mset (as @ c # bs) + mset (ended p)"
    by (auto simp: pool_inv_def)
  then have sub: "set (as @ bs) \<subseteq> set cells" "length (as @ bs) \<le> length cells"
    "mset (ended p) \<subset># mset started"
  proof -
    have "set_mset (mset started) = set (as @ c # bs) \<union> set (ended p)" unfolding st(2) by simp
    then show "set (as @ bs) \<subseteq> set cells" unfolding st(1) by auto
    have "size (mset started) = size (mset (as @ c # bs) + mset (ended p))" using st(2) by simp
    then show "length (as @ bs) \<le> length cells" unfolding st(1) by simp
    show "mset (ended p) \<subset># mset started" unfolding st(2) by (simp add: subset_mset_def)
  qed
  show ?thesis
    using fail_fast(1,2) st(1) sub(3) l(2) leaks_of_mono [OF l(1) sub(1,2)]
    by (auto simp: pool_inv_def)
next
  case complete
  with assms(2) show ?thesis by (auto simp: pool_inv_def)
qed

interpretation pool: step_system
  "\<lambda>p. \<exists>s. counters n lv key s \<and> p = pool_start cells s"
  "pool_step k (cell_job aws w params run_id sizes)"
  "pool_inv cells k (rp_profile params) n lv key"
  for cells k aws w params run_id sizes n lv key
  by unfold_locales (auto intro: pool_inv_start pool_inv_step)

section \<open>The pool ends\<close>

text \<open>What is left to do: every step makes it smaller.\<close>

definition pool_left :: "'x pool \<Rightarrow> nat" where
  "pool_left p =
     2 * length (waiting p) + length (running p) + (if outcome p = None then 1 else 0)"

lemma pool_step_left: "pool_step k job p q \<Longrightarrow> pool_left q < pool_left p"
  by (induction rule: pool_step.induct) (auto simp: pool_left_def)

lemma pool_step_ex:
  assumes "outcome p = None"
  shows "\<exists>q. pool_step k job p q"
proof (cases "running p")
  case Nil
  show ?thesis
  proof (cases "waiting p")
    case w: Nil
    from pool_step.complete [OF assms w Nil] show ?thesis by blast
  next
    case (Cons c cs)
    from pool_step.start [OF assms Cons, of k] Nil show ?thesis by auto
  qed
next
  case (Cons c bs)
  then have r: "running p = [] @ c # bs" by simp
  obtain res t where j: "job c (pdrv p) = (res, t)" by force
  obtain u where u: "all_cancelled ([] @ bs) t u" using all_cancelled_ex by blast
  show ?thesis
  proof (cases res)
    case (Inl e)
    with j have je: "job c (pdrv p) = (Inl e, t)" by simp
    have "pool_step k job p (p\<lparr>running := [], outcome := Some (Inl e), pdrv := u\<rparr>)"
      by (rule pool_step.fail_fast [where as = "[]" and bs = bs and c = c and t = t])
        (use assms r je u in simp_all)
    then show ?thesis by blast
  next
    case (Inr x)
    with j have j: "job c (pdrv p) = (Inr (), t)" by simp
    have "pool_step k job p (p\<lparr>running := [] @ bs, ended := ended p @ [c], pdrv := t\<rparr>)"
      by (rule pool_step.finish [where as = "[]" and bs = bs and c = c and t = t])
        (use assms r j in simp_all)
    then show ?thesis by blast
  qed
qed

lemma pool_ends: "\<exists>q. (pool_step k job)\<^sup>*\<^sup>* p q \<and> outcome q \<noteq> None"
proof (induction "pool_left p" arbitrary: p rule: less_induct)
  case less
  show ?case
  proof (cases "outcome p")
    case None
    then obtain q where q: "pool_step k job p q" using pool_step_ex by blast
    from less [OF pool_step_left [OF q]] obtain r where
      "(pool_step k job)\<^sup>*\<^sup>* q r" "outcome r \<noteq> None" by blast
    with q show ?thesis by (meson converse_rtranclp_into_rtranclp)
  qed auto
qed

section \<open>The drain\<close>

definition is_delete :: "event \<Rightarrow> bool" where
  "is_delete ev = (case ev of EvDeleteFunction nm q \<Rightarrow> True | _ \<Rightarrow> False)"

lemma delete_version_deletes:
  "filter is_delete (calls (snd (delete_version aws nm v s))) =
     filter is_delete (calls s) @ [EvDeleteFunction nm (Some v)]"
  by (simp add: delete_version_def acquire_def thenE_def bindE_def peek_def call_def send_def
      sdk_ok_def of_result_def is_delete_def split: prod.splits sum.splits)

lemma reclaim_version_apply:
  "reclaim_version aws (nm, v) s = (Inr (), snd (delete_version aws nm v s))"
  by (simp add: reclaim_version_def bindE_def attempt_apply ret_def)

text \<open>The deletes of the drain: one per leaked version, in order, whatever each returns.\<close>

lemma drain_loop:
  assumes "for_each (reclaim_version aws)
      vs s = (r, t)" "counters n lv key s"
  shows "r = Inr () \<and> counters n lv key t \<and>
    filter is_delete (calls t) =
      filter is_delete (calls s) @ map (\<lambda>(nm, v). EvDeleteFunction nm (Some v)) vs"
  using assms
proof (induction vs arbitrary: s)
  case Nil
  then show ?case by (simp add: ret_def)
next
  case (Cons v vs)
  obtain nm ver where v: "v = (nm, ver)" by force
  let ?s = "snd (delete_version aws nm ver s)"
  have "keeps (counters n lv key) (delete_version aws nm ver)" by (rule ct.keeps_delete_version)
  then have "counters n lv key ?s" using Cons.prems(2) unfolding keeps_def by blast
  moreover have "for_each (reclaim_version aws)
      vs ?s = (r, t)"
    using Cons.prems(1) v by (simp add: reclaim_version_apply thenE_def bindE_def)
  ultimately show ?case using Cons.IH [of ?s] v by (simp add: delete_version_deletes)
qed

lemma drain_counters:
  assumes "counters n lv key s"
  shows "fst (drain aws s) = Inr () \<and> counters n [] key (snd (drain aws s)) \<and>
    filter is_delete (calls (snd (drain aws s))) =
      filter is_delete (calls s) @ map (\<lambda>(nm, v). EvDeleteFunction nm (Some v)) lv"
proof -
  let ?s = "s\<lparr>leaked_versions := []\<rparr>"
  have c: "counters n [] key ?s" using assms by (simp add: counters_def)
  obtain r t where d: "drain aws s = (r, t)" by force
  with assms have "for_each (reclaim_version aws)
      lv ?s = (r, t)" by (simp add: drain_def counters_def)
  from drain_loop [OF this c] d show ?thesis by simp
qed

section \<open>Properties\<close>

text \<open>
  C8. At every moment of a run, whatever order the cells end in: at most \<open>pool\<close> cells are in flight
  (a pool of zero is unlimited), no cell is run twice, the rows counter is exactly what the cells
  that have ended earned, and before a failure no published version counts as leaked. A version
  that does belongs to a SnapStart cell of the run.
\<close>

theorem pool_safe:
  assumes "(pool_step (rp_pool params) (cell_job aws w params run_id sizes))\<^sup>*\<^sup>*
    (pool_start cells s) p"
  shows "(rp_pool params \<noteq> 0 \<longrightarrow> length (running p) \<le> rp_pool params) \<and>
    rows_count (pdrv p) = rows_count s + sum_list (map (planned_rows (rp_profile params)) (ended p)) \<and>
    mset (ended p) \<subseteq># mset cells \<and>
    (outcome p = None \<longrightarrow> leaked_versions (pdrv p) = leaked_versions s \<and>
       mset cells = mset (waiting p) + mset (running p) + mset (ended p)) \<and>
    leaks_of cells (leaked_versions s) (leaked_versions (pdrv p))"
proof -
  have "counters (rows_count s) (leaked_versions s) (kms_key_id s) s" by (simp add: counters_def)
  then have inv: "pool_inv cells (rp_pool params) (rp_profile params) (rows_count s)
      (leaked_versions s) (kms_key_id s) p"
    using pool.inv_reachable [OF _ assms] by blast
  then obtain started where st: "cells = started @ waiting p" "case outcome p of
      None \<Rightarrow> mset started = mset (running p) + mset (ended p)
    | Some (Inl _) \<Rightarrow> running p = [] \<and> mset (ended p) \<subset># mset started
    | Some (Inr _) \<Rightarrow> running p = [] \<and> waiting p = [] \<and> mset started = mset (ended p)"
    unfolding pool_inv_def by blast
  then have "mset (ended p) \<subseteq># mset started"
    by (simp split: option.splits sum.splits)
      (metis mset_subset_eq_add_right subset_mset.less_imp_le subset_mset.order_refl)
  also have "mset started \<subseteq># mset cells" using st(1) by simp
  finally have "mset (ended p) \<subseteq># mset cells" .
  with inv show ?thesis by (auto simp: pool_inv_def counters_def ac_simps)
qed


lemma mset_longest_first: "mset (longest_first cells p) = mset cells"
  by (simp add: longest_first_def)

lemma planned_longest_first:
  "mset xs = mset cells \<Longrightarrow> sum_list (map f xs) = sum_list (map f cells)" for f :: "cell \<Rightarrow> nat"
  by (metis mset_map sum_mset_sum_list)

text \<open>How a run ends, for the pipeline and for the property below.\<close>

lemma run_all_cases:
  assumes "run_all_ends aws w cells params run_id sizes s (r, t)"
  shows "\<exists>fin. leaked_versions t = [] \<and> kms_key_id t = kms_key_id s \<and>
    rows_count t = rows_count s + sum_list (map (planned_rows (rp_profile params)) fin) \<and>
    (case r of Inr _ \<Rightarrow> mset fin = mset cells | Inl _ \<Rightarrow> mset fin \<subset># mset cells)"
proof -
  from assms obtain p where
    p: "(pool_step (rp_pool params) (cell_job aws w params run_id sizes))\<^sup>*\<^sup>*
         (pool_start (longest_first cells (rp_profile params)) s) p"
      "outcome p = Some r" "t = snd (drain aws (pdrv p))"
    by (auto simp: run_all_ends_def)
  have "counters (rows_count s) (leaked_versions s) (kms_key_id s) s" by (simp add: counters_def)
  then have inv: "pool_inv (longest_first cells (rp_profile params)) (rp_pool params)
      (rp_profile params) (rows_count s) (leaked_versions s) (kms_key_id s) p"
    using pool.inv_reachable [OF _ p(1)] by blast
  then obtain lv' where
    "counters (rows_count s + sum_list (map (planned_rows (rp_profile params)) (ended p))) lv'
      (kms_key_id s) (pdrv p)" by (auto simp: pool_inv_def)
  from drain_counters [OF this, of aws] p(3)
  have c: "counters (rows_count s + sum_list (map (planned_rows (rp_profile params)) (ended p))) []
      (kms_key_id s) t" by simp
  have "case r of Inr _ \<Rightarrow> mset (ended p) = mset cells | Inl _ \<Rightarrow> mset (ended p) \<subset># mset cells"
  proof (cases r)
    case (Inr x)
    with inv p(2) have "mset (longest_first cells (rp_profile params)) = mset (ended p)"
      by (auto simp: pool_inv_def)
    with Inr show ?thesis by (simp add: mset_longest_first)
  next
    case (Inl e)
    with inv p(2) obtain started where
      "longest_first cells (rp_profile params) = started @ waiting p" "mset (ended p) \<subset># mset started"
      by (auto simp: pool_inv_def)
    then have "mset (ended p) \<subset># mset (longest_first cells (rp_profile params))"
      by (simp add: subset_mset.less_le_trans)
    with Inl show ?thesis by (simp add: mset_longest_first)
  qed
  with c show ?thesis by (auto simp: counters_def intro!: exI [of _ "ended p"])
qed

lemma planned_rows_pos: "0 < planned_rows p c"
  by (auto simp: planned_rows_def iterations_def full_base_counts_def FULL_LIGHT_COUNTS_def
      SMOKE_COUNTS_def SNAPSTART_COLD_CYCLES_def Let_def split: profile.split scenario.split if_splits)

lemma planned_strict:
  assumes "mset xs \<subset># mset cells"
  shows "sum_list (map (planned_rows pr) xs) < sum_list (map (planned_rows pr) cells)"
proof -
  obtain D where "mset cells = mset xs + D" "D \<noteq> {#}"
    using assms by (auto simp: subset_mset.less_le subset_mset.le_iff_add)
  then obtain c C where "mset cells = mset xs + add_mset c C"
    using multi_nonempty_split by blast
  then obtain ys where "mset cells = mset (xs @ c # ys)"
    by (metis ex_mset mset.simps(2) mset_append)
  then have "sum_list (map (planned_rows pr) cells) = sum_list (map (planned_rows pr) (xs @ c # ys))"
    by (metis planned_longest_first)
  with planned_rows_pos [of pr c] show ?thesis by simp
qed

text \<open>How many rows a run records, and that success is exactly completeness.\<close>

lemma run_all_rows:
  assumes "run_all_ends aws w cells params run_id sizes s (r, t)"
  defines "plan \<equiv> sum_list (map (planned_rows (rp_profile params)) cells)"
  shows "leaked_versions t = []" "kms_key_id t = kms_key_id s"
    "rows_count t \<le> rows_count s + plan" "r = Inr () \<longleftrightarrow> rows_count t = rows_count s + plan"
proof -
  obtain fin where f: "leaked_versions t = []" "kms_key_id t = kms_key_id s"
    "rows_count t = rows_count s + sum_list (map (planned_rows (rp_profile params)) fin)"
    "case r of Inr _ \<Rightarrow> mset fin = mset cells | Inl _ \<Rightarrow> mset fin \<subset># mset cells"
    using run_all_cases [OF assms(1)] by blast
  show "leaked_versions t = []" "kms_key_id t = kms_key_id s" by fact+
  have "case r of Inr _ \<Rightarrow> sum_list (map (planned_rows (rp_profile params)) fin) = plan
      | Inl _ \<Rightarrow> sum_list (map (planned_rows (rp_profile params)) fin) < plan"
  proof (cases r)
    case (Inl e)
    with f(4) planned_strict [of fin cells] show ?thesis by (simp add: plan_def)
  next
    case (Inr x)
    with f(4) planned_longest_first [of fin cells] show ?thesis by (simp add: plan_def)
  qed
  then show "rows_count t \<le> rows_count s + plan" "r = Inr () \<longleftrightarrow> rows_count t = rows_count s + plan"
    using f(3) by (auto split: sum.splits)
qed

text \<open>
  C7. What a run leaves behind, whatever the cells did and in whatever order: it succeeded exactly
  when every planned row of every cell was recorded, otherwise strictly fewer were; and no
  SnapStart version is left marked as leaked.
\<close>

theorem run_all_outcome:
  assumes "run_all_ends aws w cells params run_id sizes s (r, t)"
  shows "leaked_versions t = [] \<and>
    (r = Inr () \<longleftrightarrow>
       rows_count t = rows_count s + sum_list (map (planned_rows (rp_profile params)) cells)) \<and>
    rows_count t \<le> rows_count s + sum_list (map (planned_rows (rp_profile params)) cells)"
  using run_all_rows [OF assms] by blast

text \<open>
  C10. The drain gives every leaked version one \<open>DeleteFunction\<close>, in the order they leaked and
  whatever the earlier ones answered, takes them off the list and does not fail.
\<close>

theorem drain_reclaims:
  "fst (drain aws s) = Inr () \<and> leaked_versions (snd (drain aws s)) = [] \<and>
   filter is_delete (calls (snd (drain aws s))) =
     filter is_delete (calls s) @ map (\<lambda>(nm, v). EvDeleteFunction nm (Some v)) (leaked_versions s)"
  using drain_counters [of "rows_count s" "leaked_versions s" "kms_key_id s" s aws]
  by (simp add: counters_def)

section \<open>An instance\<close>

text \<open>In the healthy world a pool of one cell starts, finishes and completes it.\<close>

lemma sim_pool:
  fixes s :: "world drv" and c :: cell
  defines "job \<equiv> cell_job sim sim_writer sim_params ''run'' [(function_name c, sim_sizes)]"
  shows "\<exists>p. (pool_step 1 job)\<^sup>*\<^sup>* (pool_start [c] s) p \<and> outcome p = Some (Inr ()) \<and> ended p = [c]"
proof -
  obtain t where "run_cell sim sim_writer c sim_params ''run'' sim_sizes s = (Inr (), t)"
    using sim_run_cell by blast
  then have j: "job c s = (Inr (), t)" by (simp add: job_def cell_job_def)
  let ?p0 = "pool_start [c] s"
  let ?p1 = "?p0\<lparr>waiting := [], running := [] @ [c]\<rparr>"
  let ?p2 = "?p1\<lparr>running := [] @ [], ended := [] @ [c], pdrv := t\<rparr>"
  have "pool_step 1 job ?p0 ?p1"
    using pool_step.start [of ?p0 c "[]" 1 job] by (simp add: pool_start_def)
  moreover have "pool_step 1 job ?p1 ?p2"
    using pool_step.finish [of ?p1 "[]" c "[]" job t 1] j by (simp add: pool_start_def)
  moreover have "pool_step 1 job ?p2 (?p2\<lparr>outcome := Some (Inr ())\<rparr>)"
    by (rule pool_step.complete) (simp_all add: pool_start_def)
  ultimately have "(pool_step 1 job)\<^sup>*\<^sup>* ?p0 (?p2\<lparr>outcome := Some (Inr ())\<rparr>)"
    by (meson converse_rtranclp_into_rtranclp rtranclp.rtrancl_refl)
  then show ?thesis by (intro exI [of _ "?p2\<lparr>outcome := Some (Inr ())\<rparr>"]) simp
qed

theorem pool_safe_witness:
  "\<exists>p. (pool_step 1 (cell_job sim sim_writer sim_params ''run''
          [(function_name rust_oneclient_jitter, sim_sizes)]))\<^sup>*\<^sup>*
        (pool_start [rust_oneclient_jitter] sim_start) p \<and>
     ended p = [rust_oneclient_jitter] \<and> rows_count (pdrv p) = 6"
proof -
  obtain p where p: "(pool_step 1 (cell_job sim sim_writer sim_params ''run''
        [(function_name rust_oneclient_jitter, sim_sizes)]))\<^sup>*\<^sup>*
      (pool_start [rust_oneclient_jitter] sim_start) p" "ended p = [rust_oneclient_jitter]"
    using sim_pool by blast
  have "rp_pool sim_params = 1" by (simp add: sim_params_def)
  then have "(pool_step (rp_pool sim_params) (cell_job sim sim_writer sim_params ''run''
        [(function_name rust_oneclient_jitter, sim_sizes)]))\<^sup>*\<^sup>*
      (pool_start [rust_oneclient_jitter] sim_start) p" using p(1) by simp
  from pool_safe [OF this] p show ?thesis
    by (auto simp: sim_start_def sim_params_def planned_rows_def iterations_def SMOKE_COUNTS_def
        rust_oneclient_jitter_def)
qed

lemma sim_run_all:
  "\<exists>t. run_all_ends sim sim_writer [c] sim_params ''run'' [(function_name c, sim_sizes)] s (Inr (), t)"
proof -
  have "longest_first [c] (rp_profile sim_params) = [c]" "rp_pool sim_params = 1"
    by (simp_all add: longest_first_def sim_params_def)
  with sim_pool [of c s] show ?thesis unfolding run_all_ends_def by fastforce
qed

theorem run_all_outcome_witness:
  "\<exists>t. run_all_ends sim sim_writer [rust_oneclient_jitter] sim_params ''run''
        [(function_name rust_oneclient_jitter, sim_sizes)] sim_start (Inr (), t) \<and>
     rows_count t = 6"
proof -
  obtain t where t: "run_all_ends sim sim_writer [rust_oneclient_jitter] sim_params ''run''
      [(function_name rust_oneclient_jitter, sim_sizes)] sim_start (Inr (), t)"
    using sim_run_all by blast
  from run_all_outcome [OF t] t show ?thesis
    by (auto simp: sim_start_def sim_params_def planned_rows_def iterations_def SMOKE_COUNTS_def
        rust_oneclient_jitter_def)
qed

end
