(* ===== verification/Run_Spec.thy ===== *)
theory Run_Spec
  imports Run_Pool
begin

text \<open>
  What \<open>bencher run\<close> promises, without pools, worlds and calls: a ledger of the cells that are not
  recorded yet, the rows recorded so far and the verdict. The pool of \<open>Run_Pool\<close> refines it.
\<close>

section \<open>The ledger\<close>

record ledger =
  unrecorded :: "cell multiset"
  recorded_rows :: nat
  verdict :: "(err + unit) option"

text \<open>
  A cell is recorded with all its rows or not at all; a run may be given up while a cell is
  unrecorded; it succeeds when none is.
\<close>

inductive ledger_step :: "profile \<Rightarrow> ledger \<Rightarrow> ledger \<Rightarrow> bool" for pr :: profile where
  record_cell: "verdict a = None \<Longrightarrow> c \<in># unrecorded a \<Longrightarrow>
    ledger_step pr a (a\<lparr>unrecorded := unrecorded a - {#c#},
      recorded_rows := recorded_rows a + planned_rows pr c\<rparr>)"
| give_up: "verdict a = None \<Longrightarrow> unrecorded a \<noteq> {#} \<Longrightarrow>
    ledger_step pr a (a\<lparr>verdict := Some (Inl e)\<rparr>)"
| succeed: "verdict a = None \<Longrightarrow> unrecorded a = {#} \<Longrightarrow>
    ledger_step pr a (a\<lparr>verdict := Some (Inr ())\<rparr>)"

definition open_ledger :: "cell list \<Rightarrow> nat \<Rightarrow> ledger" where
  "open_ledger cells n =
     \<lparr>unrecorded = mset cells, recorded_rows = n, verdict = None\<rparr>"

text \<open>The account of a ledger: what is recorded and what is not make up the whole plan.\<close>

definition balanced :: "profile \<Rightarrow> cell list \<Rightarrow> nat \<Rightarrow> ledger \<Rightarrow> bool" where
  "balanced pr cells n a \<longleftrightarrow>
     unrecorded a \<subseteq># mset cells \<and>
     recorded_rows a + sum_mset (image_mset (planned_rows pr) (unrecorded a)) =
       n + sum_list (map (planned_rows pr) cells) \<and>
     (verdict a = Some (Inr ()) \<longrightarrow> unrecorded a = {#}) \<and>
     (\<forall>e. verdict a = Some (Inl e) \<longrightarrow> unrecorded a \<noteq> {#})"

lemma balanced_open: "balanced pr cells n (open_ledger cells n)"
  by (simp add: balanced_def open_ledger_def sum_mset_sum_list flip: mset_map)

lemma balanced_step: "ledger_step pr a b \<Longrightarrow> balanced pr cells n a \<Longrightarrow> balanced pr cells n b"
proof (induction rule: ledger_step.induct)
  case (record_cell a c)
  then obtain m where "unrecorded a = add_mset c m" by (metis multi_member_split)
  with record_cell show ?case
    by (auto simp: balanced_def dest: mset_subset_eq_insertD intro: subset_mset.less_imp_le)
qed (auto simp: balanced_def)

interpretation ledger: step_system "\<lambda>a. a = open_ledger cells n" "ledger_step pr" "balanced pr cells n"
  for cells n pr
  by unfold_locales (auto intro: balanced_open balanced_step)

section \<open>The pool refines it\<close>

definition pool_ledger :: "cell list \<Rightarrow> 'x pool \<Rightarrow> ledger" where
  "pool_ledger cells p =
     \<lparr>unrecorded = mset cells - mset (ended p), recorded_rows = rows_count (pdrv p),
      verdict = outcome p\<rparr>"

lemma pool_inv_running:
  assumes "pool_inv cells k pr n lv key p" "outcome p = None"
  shows "mset cells = mset (waiting p) + mset (running p) + mset (ended p)"
    "\<exists>lv'. counters (n + sum_list (map (planned_rows pr) (ended p))) lv' key (pdrv p)"
  using assms by (auto simp: pool_inv_def)

lemma pool_step_ledger:
  assumes "pool_step k (cell_job aws w params run_id sizes) p q"
    and inv: "pool_inv cells k (rp_profile params) n lv key p"
  shows "pool_ledger cells q = pool_ledger cells p \<or>
    ledger_step (rp_profile params) (pool_ledger cells p) (pool_ledger cells q)"
proof -
  have running: "outcome p = None" using assms(1) by cases auto
  note m = pool_inv_running(1) [OF inv running]
  obtain lv' where cnt: "counters (n + sum_list (map (planned_rows (rp_profile params)) (ended p))) lv' key (pdrv p)"
    using pool_inv_running(2) [OF inv running] by blast
  have left: "mset cells - mset (ended p) = mset (waiting p) + mset (running p)" using m by simp
  from assms(1) show ?thesis
  proof cases
    case (start c cs)
    then show ?thesis by (simp add: pool_ledger_def)
  next
    case (finish as c bs t)
    have rows: "rows_count t = rows_count (pdrv p) + planned_rows (rp_profile params) c"
      using cell_job_counters [OF finish(4) cnt] cnt by (simp add: counters_def)
    have "c \<in># unrecorded (pool_ledger cells p)" using left finish(3) by (simp add: pool_ledger_def)
    from ledger_step.record_cell [OF _ this, where pr = "rp_profile params"] rows finish(1) running
    have "ledger_step (rp_profile params) (pool_ledger cells p) (pool_ledger cells q)"
      by (simp add: pool_ledger_def)
    then show ?thesis ..
  next
    case (fail_fast as c bs e t u)
    have "counters (n + sum_list (map (planned_rows (rp_profile params)) (ended p))) lv' key t"
      using cell_job_counters [OF fail_fast(4) cnt] by simp
    from all_cancelled_counters [OF fail_fast(5) this] cnt
    have rows: "rows_count u = rows_count (pdrv p)" by (auto simp: counters_def)
    have "unrecorded (pool_ledger cells p) \<noteq> {#}" using left fail_fast(3) by (simp add: pool_ledger_def)
    from ledger_step.give_up [OF _ this, where pr = "rp_profile params" and e = e] rows fail_fast(1) running
    have "ledger_step (rp_profile params) (pool_ledger cells p) (pool_ledger cells q)"
      by (simp add: pool_ledger_def)
    then show ?thesis ..
  next
    case complete
    have "unrecorded (pool_ledger cells p) = {#}" using left complete by (simp add: pool_ledger_def)
    from ledger_step.succeed [OF _ this, where pr = "rp_profile params"] complete(1) running
    have "ledger_step (rp_profile params) (pool_ledger cells p) (pool_ledger cells q)"
      by (simp add: pool_ledger_def)
    then show ?thesis ..
  qed
qed

interpretation pool_run: step_refinement
  "\<lambda>p. \<exists>s. counters n lv key s \<and> p = pool_start cells s"
  "pool_step k (cell_job aws w params run_id sizes)"
  "pool_inv cells k (rp_profile params) n lv key"
  "pool_ledger cells" "ledger_step (rp_profile params)"
  for cells k aws w params run_id sizes n lv key
  by unfold_locales (rule pool_step_ledger)

section \<open>Properties\<close>

text \<open>
  C6. The concurrent pool implements the ledger: every execution is, seen through the abstraction
  (the cells that have not ended, the rows counter, the outcome), an execution of the ledger, in
  which a cell is recorded once and with all its planned rows, a failure leaves at least one cell
  unrecorded and success leaves none. In every state what is recorded and what the unrecorded
  cells still owe make up the plan.
\<close>

theorem pool_refines_ledger:
  assumes "(pool_step (rp_pool params) (cell_job aws w params run_id sizes))\<^sup>*\<^sup>* (pool_start cells s) p"
  shows "(ledger_step (rp_profile params))\<^sup>*\<^sup>* (open_ledger cells (rows_count s)) (pool_ledger cells p) \<and>
    balanced (rp_profile params) cells (rows_count s) (pool_ledger cells p)"
proof -
  have "counters (rows_count s) (leaked_versions s) (kms_key_id s) s" by (simp add: counters_def)
  then have steps: "(ledger_step (rp_profile params))\<^sup>*\<^sup>* (pool_ledger cells (pool_start cells s)) (pool_ledger cells p)"
    using pool_run.abs_reachable [OF _ assms] by blast
  have "pool_ledger cells (pool_start cells s) = open_ledger cells (rows_count s)"
    by (simp add: pool_ledger_def pool_start_def open_ledger_def)
  with steps ledger.inv_reachable [OF refl] show ?thesis by metis
qed

theorem pool_refines_ledger_witness:
  "\<exists>p. outcome p = Some (Inr ()) \<and>
     (ledger_step Smoke)\<^sup>*\<^sup>* (open_ledger [rust_oneclient_jitter] 0)
       (pool_ledger [rust_oneclient_jitter] (p :: world pool)) \<and>
     recorded_rows (pool_ledger [rust_oneclient_jitter] p) = 6"
proof -
  obtain p where p: "(pool_step 1 (cell_job sim sim_writer sim_params ''run''
        [(function_name rust_oneclient_jitter, sim_sizes)]))\<^sup>*\<^sup>*
      (pool_start [rust_oneclient_jitter] sim_start) p" "outcome p = Some (Inr ())"
    using sim_pool by blast
  have params: "rp_pool sim_params = 1" "rp_profile sim_params = Smoke" by (simp_all add: sim_params_def)
  then have "(pool_step (rp_pool sim_params) (cell_job sim sim_writer sim_params ''run''
        [(function_name rust_oneclient_jitter, sim_sizes)]))\<^sup>*\<^sup>*
      (pool_start [rust_oneclient_jitter] sim_start) p" using p(1) by simp
  from pool_refines_ledger [OF this]
  have l: "(ledger_step Smoke)\<^sup>*\<^sup>* (open_ledger [rust_oneclient_jitter] 0) (pool_ledger [rust_oneclient_jitter] p)"
    "balanced Smoke [rust_oneclient_jitter] 0 (pool_ledger [rust_oneclient_jitter] p)"
    by (simp_all add: sim_start_def params)
  have "planned_rows Smoke rust_oneclient_jitter = 6"
    by (simp add: planned_rows_def iterations_def SMOKE_COUNTS_def rust_oneclient_jitter_def)
  with l(2) p(2) have "recorded_rows (pool_ledger [rust_oneclient_jitter] p) = 6"
    by (auto simp: balanced_def pool_ledger_def)
  with l(1) p(2) show ?thesis by blast
qed

end
