(* ===== verification/Cloud.thy ===== *)
theory Cloud
  imports Services "HOL-Library.Multiset"
begin

text \<open>
  The services the provisioning side calls, as a second record of functions over the outside
  world: IAM, DynamoDB, KMS, S3, ECR, CloudWatch Logs, the \<open>crane\<close> tool and the environment of
  the process. As in \<open>Services\<close> nothing is assumed about them. A paginator of the SDK delivers
  a finite stream of items or pages, each of them a result. Here too are \<open>buffer_unordered\<close>,
  the driver's only concurrency outside the run pool, and the loop over names that the pool
  runs: jobs are atomic, and which of the jobs in flight ends next is up to the world.
\<close>

record role_info =
  role_arn :: string
  role_boundary :: "string option"

datatype table_status = TableActive | TableDeleting | TableOther

record 'x cloud =
  env_var :: "string \<Rightarrow> string option"
  next_done :: "nat \<Rightarrow> 'x \<Rightarrow> nat \<times> 'x"
  iam_get_role :: "string \<Rightarrow> 'x \<Rightarrow> (sdk_error + role_info option) \<times> 'x"
  iam_put_boundary :: "string \<Rightarrow> string \<Rightarrow> 'x \<Rightarrow> (sdk_error + unit) \<times> 'x"
  iam_create_role ::
    "string \<Rightarrow> string \<Rightarrow> string option \<Rightarrow> 'x \<Rightarrow> (sdk_error + role_info option) \<times> 'x"
  iam_attach_policy :: "string \<Rightarrow> string \<Rightarrow> 'x \<Rightarrow> (sdk_error + unit) \<times> 'x"
  iam_put_policy :: "string \<Rightarrow> string \<Rightarrow> string \<Rightarrow> 'x \<Rightarrow> (sdk_error + unit) \<times> 'x"
  iam_detach_policy :: "string \<Rightarrow> string \<Rightarrow> 'x \<Rightarrow> (sdk_error + unit) \<times> 'x"
  iam_delete_policy :: "string \<Rightarrow> string \<Rightarrow> 'x \<Rightarrow> (sdk_error + unit) \<times> 'x"
  iam_delete_role :: "string \<Rightarrow> 'x \<Rightarrow> (sdk_error + unit) \<times> 'x"
  ddb_describe :: "string \<Rightarrow> 'x \<Rightarrow> (sdk_error + table_status option) \<times> 'x"
  ddb_create :: "string \<Rightarrow> string \<Rightarrow> 'x \<Rightarrow> (sdk_error + unit) \<times> 'x"
  ddb_put_item :: "string \<Rightarrow> (string \<Rightarrow> string option) \<Rightarrow> 'x \<Rightarrow> (sdk_error + unit) \<times> 'x"
  ddb_delete :: "string \<Rightarrow> 'x \<Rightarrow> (sdk_error + unit) \<times> 'x"
  kms_list_aliases :: "'x \<Rightarrow> (sdk_error + string option \<times> string option) list \<times> 'x"
  kms_create_key :: "string \<Rightarrow> string \<Rightarrow> 'x \<Rightarrow> (sdk_error + string option) \<times> 'x"
  kms_create_alias :: "string \<Rightarrow> string \<Rightarrow> 'x \<Rightarrow> (sdk_error + unit) \<times> 'x"
  kms_delete_alias :: "string \<Rightarrow> 'x \<Rightarrow> (sdk_error + unit) \<times> 'x"
  kms_schedule_deletion :: "string \<Rightarrow> nat \<Rightarrow> 'x \<Rightarrow> (sdk_error + unit) \<times> 'x"
  kms_list_keys :: "'x \<Rightarrow> (sdk_error + string option) list \<times> 'x"
  kms_list_tags :: "string \<Rightarrow> 'x \<Rightarrow> (sdk_error + string \<times> string) list \<times> 'x"
  s3_head_bucket :: "string \<Rightarrow> 'x \<Rightarrow> (sdk_error + unit) \<times> 'x"
  s3_create_bucket :: "string \<Rightarrow> string option \<Rightarrow> 'x \<Rightarrow> (sdk_error + unit) \<times> 'x"
  s3_block_public :: "string \<Rightarrow> 'x \<Rightarrow> (sdk_error + unit) \<times> 'x"
  s3_put_policy :: "string \<Rightarrow> string \<Rightarrow> 'x \<Rightarrow> (sdk_error + unit) \<times> 'x"
  s3_head_object ::
    "string \<Rightarrow> string \<Rightarrow> 'x \<Rightarrow> (sdk_error + (string \<Rightarrow> string option) option) \<times> 'x"
  s3_list_pages :: "string \<Rightarrow> 'x \<Rightarrow> (sdk_error + string option list) list \<times> 'x"
  s3_delete_bucket :: "string \<Rightarrow> 'x \<Rightarrow> (sdk_error + unit) \<times> 'x"
  ecr_create_repo :: "string \<Rightarrow> 'x \<Rightarrow> (sdk_error + unit) \<times> 'x"
  ecr_put_lifecycle :: "string \<Rightarrow> string \<Rightarrow> 'x \<Rightarrow> (sdk_error + unit) \<times> 'x"
  ecr_get_token :: "'x \<Rightarrow> (sdk_error + string option list) \<times> 'x"
  ecr_describe_images :: "string \<Rightarrow> string \<Rightarrow> 'x \<Rightarrow> (sdk_error + int option list) \<times> 'x"
  ecr_delete_image :: "string \<Rightarrow> string \<Rightarrow> 'x \<Rightarrow> (sdk_error + unit) \<times> 'x"
  ecr_delete_repo :: "string \<Rightarrow> 'x \<Rightarrow> (sdk_error + unit) \<times> 'x"
  logs_delete_group :: "string \<Rightarrow> 'x \<Rightarrow> (sdk_error + unit) \<times> 'x"
  sts_account :: "'x \<Rightarrow> (sdk_error + string option) \<times> 'x"
  utf8_strict :: "string \<Rightarrow> string option"
  crane :: "string list \<Rightarrow> string option \<Rightarrow> 'x \<Rightarrow> (string + bool \<times> string) \<times> 'x"

text \<open>A raw string literal of the source, by lines; a back quote stands for a double quote.\<close>

definition raw_lines :: "string list \<Rightarrow> string" where
  "raw_lines ls =
     map (\<lambda>c. if c = CHR 0x60 then CHR 0x22 else c) (join_with [nl] ls)"

section \<open>Calls\<close>

text \<open>A call of one of these services, with the name it works on.\<close>

definition svc :: "string \<Rightarrow> string \<Rightarrow> ('x \<Rightarrow> (sdk_error + 'a) \<times> 'x) \<Rightarrow> ('x, 'a) eff" where
  "svc op key f = send (EvService op key) f"

definition svc_try ::
    "string \<Rightarrow> string \<Rightarrow> ('x \<Rightarrow> (sdk_error + 'a) \<times> 'x) \<Rightarrow> ('x, sdk_error + 'a) eff" where
  "svc_try op key f = call (EvService op key) f"

text \<open>\<open>match op.send().await { Ok(_) => Ok(()), Err(e) => not_found_as_none(e, ..) }\<close>.\<close>

definition svc_delete ::
    "(sdk_error \<Rightarrow> bool) \<Rightarrow> string \<Rightarrow> string \<Rightarrow> ('x \<Rightarrow> (sdk_error + 'a) \<times> 'x) \<Rightarrow> ('x, unit) eff" where
  "svc_delete gone op key f = send_idempotent gone (EvService op key) f"

text \<open>
  \<open>Aws::load\<close>: the identity call gives the account of the bundle, whose shared state is fresh:
  no KMS key id, a limiter that is due now, no leaked versions.
\<close>

definition aws_load :: "'x aws \<Rightarrow> 'x cloud \<Rightarrow> ('x, 'x aws) eff" where
  "aws_load aws cl =
     bindE (svc ''sts.GetCallerIdentity'' [] (sts_account cl)) (\<lambda>account.
     bindE (of_result (ok_or (Message ''GetCallerIdentity returned no account'') account)) (\<lambda>a.
     bindE (peek (now_ns aws)) (\<lambda>now.
     bindE (of_result (ok_or (Panicked ''max_tps'') (per_second CONTROL_PLANE_TPS now))) (\<lambda>l s.
       (Inr (aws\<lparr>account_id := a\<rparr>),
        s\<lparr>kms_key_id := None, next_slot := slot l, leaked_versions := []\<rparr>)))))"

text \<open>\<open>run_id()\<close> of \<open>bencher/src/config.rs\<close>: \<open><unix_ms>-<8 hex>\<close>.\<close>

definition new_run_id :: "'x aws \<Rightarrow> ('x, string) eff" where
  "new_run_id aws =
     bindE (peek (unix_ms aws)) (\<lambda>ms.
     bindE (peek (new_uuid aws)) (\<lambda>uuid. ret (show_nat ms @ ''-'' @ take 8 uuid)))"

section \<open>Buffered jobs\<close>

text \<open>
  \<open>stream::iter(jobs).buffer_unordered(k).collect()\<close>: at most \<open>k\<close> jobs are in flight, which are
  the first \<open>k\<close> of those not yet done, and the results are collected as the jobs end.
\<close>

definition remove_nth :: "nat \<Rightarrow> 'a list \<Rightarrow> 'a list" where
  "remove_nth i xs = take i xs @ drop (Suc i) xs"

definition next_job :: "nat \<Rightarrow> 'a list \<Rightarrow> nat \<Rightarrow> nat" where
  "next_job k jobs i = i mod (max 1 (min k (length jobs)))"

lemma length_remove_nth: "i < length xs \<Longrightarrow> length (remove_nth i xs) = length xs - 1"
  by (simp add: remove_nth_def)

lemma mset_remove_nth: "i < length xs \<Longrightarrow> mset (remove_nth i xs) + {#xs ! i#} = mset xs"
  by (subst (3) id_take_nth_drop [of i xs]) (simp_all add: remove_nth_def)

lemma next_job_less: "next_job k (j # js) i < length (j # js)"
proof -
  have "next_job k (j # js) i < max 1 (min k (length (j # js)))"
    unfolding next_job_def by (rule mod_less_divisor) simp
  also have "\<dots> \<le> length (j # js)" by simp
  finally show ?thesis .
qed

lemma length_remove_next [termination_simp]:
  "length (remove_nth (next_job k (j # js) i) (j # js)) < Suc (length js)"
  using length_remove_nth [OF next_job_less [of k j js i]] by simp

function buffered ::
    "'x cloud \<Rightarrow> nat \<Rightarrow> ('a \<Rightarrow> ('x, 'b) eff) \<Rightarrow> 'a list \<Rightarrow> ('x, ('a \<times> (err + 'b)) list) eff" where
  "buffered cl k f [] = ret []"
| "buffered cl k f (j # js) =
     bindE (peek (next_done cl k)) (\<lambda>i.
     bindE (attempt (f ((j # js) ! next_job k (j # js) i))) (\<lambda>r.
     bindE (buffered cl k f (remove_nth (next_job k (j # js) i) (j # js))) (\<lambda>rs.
       ret (((j # js) ! next_job k (j # js) i, r) # rs))))"
  by pat_completeness auto
termination
  by (relation "measure (\<lambda>(cl, k, f, jobs). length jobs)") (simp_all only: in_measure wf_measure
      prod.case list.size add_0_right add_Suc_right length_remove_next)

text \<open>The same collected as a result (\<open>try_collect\<close>): the first error to arrive ends it.\<close>

function buffered_try ::
    "'x cloud \<Rightarrow> nat \<Rightarrow> ('a \<Rightarrow> ('x, 'b) eff) \<Rightarrow> 'a list \<Rightarrow> ('x, 'b list) eff" where
  "buffered_try cl k f [] = ret []"
| "buffered_try cl k f (j # js) =
     bindE (peek (next_done cl k)) (\<lambda>i.
     bindE (f ((j # js) ! next_job k (j # js) i)) (\<lambda>r.
     bindE (buffered_try cl k f (remove_nth (next_job k (j # js) i) (j # js))) (\<lambda>rs.
       ret (r # rs))))"
  by pat_completeness auto
termination
  by (relation "measure (\<lambda>(cl, k, f, jobs). length jobs)") (simp_all only: in_measure wf_measure
      prod.case list.size add_0_right add_Suc_right length_remove_next)

declare buffered.simps(2) [simp del] buffered_try.simps(2) [simp del]

text \<open>Every job ends exactly once, whatever the order, and its result is reported.\<close>

lemma returns_buffered: "returns (buffered cl k f jobs) (\<lambda>rs. mset (map fst rs) = mset jobs)"
proof (induction cl k f jobs rule: buffered.induct)
  case (1 cl k f)
  show ?case by (simp add: returns_ret)
next
  case (2 cl k f j js)
  let ?i = "next_job k (j # js)"
  have m: "add_mset ((j # js) ! ?i i) (mset (remove_nth (?i i) (j # js))) = mset (j # js)" for i
    using mset_remove_nth [OF next_job_less [of k j js i]] by simp
  show ?case
    unfolding buffered.simps
    by (rule returns_bind_any, rule returns_bind_any, rule returns_bind [OF 2], rule returns_ret)
       (use m in simp)
qed

end
