(* ===== verification/Provision.thy ===== *)
theory Provision
  imports Cloud Lambda_Api
begin

text \<open>
  The resources beside the functions: the execution role (\<open>bencher/src/aws/iam.rs\<close>), the table
  and its seed item (\<open>ddb.rs\<close>), the KMS key and its alias (\<open>kms.rs\<close>), the image repository
  (\<open>ecr.rs\<close>) and the log groups (\<open>logs.rs\<close>): how each is ensured and how each is removed.
\<close>

section \<open>Execution role\<close>

definition TRUST_POLICY :: string where
  "TRUST_POLICY = raw_lines
     [''{'',
      ''  `Version`: `2012-10-17`,'',
      ''  `Statement`: ['',
      ''    { `Effect`: `Allow`, `Principal`: { `Service`: `lambda.amazonaws.com` }, `Action`: `sts:AssumeRole` }'',
      ''  ]'',
      ''}'']"

definition BASIC_EXEC_POLICY_ARN :: string where
  "BASIC_EXEC_POLICY_ARN =
     ''arn:aws:iam::aws:policy/service-role/AWSLambdaBasicExecutionRole''"

definition EXEC_ROLE_BOUNDARY_POLICY_ENV :: string where
  "EXEC_ROLE_BOUNDARY_POLICY_ENV = ''LAMBDABENCH_EXEC_ROLE_BOUNDARY_POLICY_ARN''"

definition inline_policy :: "'x aws \<Rightarrow> string" where
  "inline_policy aws =
     (let region = REGION; account = account_id aws;
          alias_wildcard = ''alias/'' @ PREFIX @ ''-*'';
          table_arn = ''arn:aws:dynamodb:'' @ region @ '':'' @ account @ '':table/'' @ TABLE_NAME;
          bucket_objects_arn = ''arn:aws:s3:::'' @ bucket_name aws @ ''/*''
      in raw_lines
        [''{'',
         ''  `Version`: `2012-10-17`,'',
         ''  `Statement`: ['',
         ''    { `Effect`: `Allow`, `Action`: [`dynamodb:GetItem`, `dynamodb:PutItem`], `Resource`: `'' @
           table_arn @ ''` },'',
         ''    { `Effect`: `Allow`,'',
         ''       `Action`: [`kms:Encrypt`],'',
         ''       `Resource`: `arn:aws:kms:'' @ region @ '':'' @ account @ '':key/*`,'',
         ''       `Condition`: { `ForAnyValue:StringLike`: { `kms:ResourceAliases`: `'' @
           alias_wildcard @ ''` } } },'',
         ''    { `Effect`: `Allow`, `Action`: [`s3:GetObject`, `s3:PutObject`], `Resource`: `'' @
           bucket_objects_arn @ ''` }'',
         ''  ]'',
         ''}''])"

text \<open>The permissions boundary of the environment, an empty value counting as unset.\<close>

definition role_boundary_env :: "'x cloud \<Rightarrow> string option" where
  "role_boundary_env cl =
     (case env_var cl EXEC_ROLE_BOUNDARY_POLICY_ENV of
        None \<Rightarrow> None
      | Some s \<Rightarrow> if s = [] then None else Some s)"

definition converge_boundary :: "'x cloud \<Rightarrow> role_info \<Rightarrow> ('x, unit) eff" where
  "converge_boundary cl role =
     (case role_boundary_env cl of
        None \<Rightarrow> ret ()
      | Some b \<Rightarrow>
          if role_boundary role \<noteq> Some b
          then svc ''iam.PutRolePermissionsBoundary'' ROLE_NAME (iam_put_boundary cl ROLE_NAME b)
          else ret ())"

definition ensure_role :: "'x aws \<Rightarrow> 'x cloud \<Rightarrow> ('x, string) eff" where
  "ensure_role aws cl =
     bindE (svc_try ''iam.GetRole'' ROLE_NAME (iam_get_role cl ROLE_NAME)) (\<lambda>existing.
     bindE (case existing of
         Inr out \<Rightarrow>
           bindE (of_result (ok_or (Message ''GetRole returned no role'') out)) (\<lambda>role.
             thenE (converge_boundary cl role) (ret (role_arn role)))
       | Inl e \<Rightarrow>
           if has_code ''NoSuchEntity'' e then
             bindE (svc ''iam.CreateRole'' ROLE_NAME
                 (iam_create_role cl ROLE_NAME TRUST_POLICY (role_boundary_env cl))) (\<lambda>created.
             bindE (of_result (ok_or (Message ''CreateRole returned no role'') created)) (\<lambda>role.
               ret (role_arn role)))
           else fail (Sdk e)) (\<lambda>arn.
     thenE (svc ''iam.AttachRolePolicy'' ROLE_NAME
         (iam_attach_policy cl ROLE_NAME BASIC_EXEC_POLICY_ARN))
     (thenE (svc ''iam.PutRolePolicy'' ROLE_NAME
         (iam_put_policy cl ROLE_NAME INLINE_POLICY_NAME (inline_policy aws)))
       (ret arn))))"

definition delete_role :: "'x cloud \<Rightarrow> ('x, unit) eff" where
  "delete_role cl =
     thenE (svc_delete (has_code ''NoSuchEntity'') ''iam.DetachRolePolicy'' ROLE_NAME
         (iam_detach_policy cl ROLE_NAME BASIC_EXEC_POLICY_ARN))
     (thenE (svc_delete (has_code ''NoSuchEntity'') ''iam.DeleteRolePolicy'' ROLE_NAME
         (iam_delete_policy cl ROLE_NAME INLINE_POLICY_NAME))
       (svc_delete (has_code ''NoSuchEntity'') ''iam.DeleteRole'' ROLE_NAME
         (iam_delete_role cl ROLE_NAME)))"

section \<open>Table\<close>

definition create_table :: "'x cloud \<Rightarrow> ('x, unit) eff" where
  "create_table cl = svc ''dynamodb.CreateTable'' TABLE_NAME (ddb_create cl TABLE_NAME TABLE_PK)"

fun wait_table_gone_loop :: "'x aws \<Rightarrow> 'x cloud \<Rightarrow> nat \<Rightarrow> ('x, unit) eff" where
  "wait_table_gone_loop aws cl 0 = fail (Message ''table did not finish DELETING in time'')"
| "wait_table_gone_loop aws cl (Suc n) =
     bindE (svc_try ''dynamodb.DescribeTable'' TABLE_NAME (ddb_describe cl TABLE_NAME)) (\<lambda>r.
       case r of
         Inr _ \<Rightarrow> thenE (sleep aws 2000) (wait_table_gone_loop aws cl n)
       | Inl e \<Rightarrow>
           if has_code ''ResourceNotFoundException'' e then ret () else fail (Sdk e))"

definition wait_table_gone :: "'x aws \<Rightarrow> 'x cloud \<Rightarrow> ('x, unit) eff" where
  "wait_table_gone aws cl = wait_table_gone_loop aws cl 60"

fun wait_table_active_loop :: "'x aws \<Rightarrow> 'x cloud \<Rightarrow> nat \<Rightarrow> ('x, unit) eff" where
  "wait_table_active_loop aws cl 0 = fail (Message ''table did not become ACTIVE in time'')"
| "wait_table_active_loop aws cl (Suc n) =
     bindE (svc ''dynamodb.DescribeTable'' TABLE_NAME (ddb_describe cl TABLE_NAME)) (\<lambda>status.
       if status = Some TableActive then ret ()
       else thenE (sleep aws 2000) (wait_table_active_loop aws cl n))"

definition wait_table_active :: "'x aws \<Rightarrow> 'x cloud \<Rightarrow> ('x, unit) eff" where
  "wait_table_active aws cl = wait_table_active_loop aws cl 60"

definition seed_item :: "'x cloud \<Rightarrow> ('x, unit) eff" where
  "seed_item cl =
     svc ''dynamodb.PutItem'' TABLE_NAME
       (ddb_put_item cl TABLE_NAME [TABLE_PK \<mapsto> SEED_KEY, ''payload'' \<mapsto> SEED_PAYLOAD])"

definition ensure_table :: "'x aws \<Rightarrow> 'x cloud \<Rightarrow> ('x, unit) eff" where
  "ensure_table aws cl =
     bindE (svc_try ''dynamodb.DescribeTable'' TABLE_NAME (ddb_describe cl TABLE_NAME)) (\<lambda>r.
     thenE (case r of
         Inr status \<Rightarrow>
           if status = Some TableDeleting
           then thenE (wait_table_gone aws cl) (create_table cl) else ret ()
       | Inl e \<Rightarrow>
           if has_code ''ResourceNotFoundException'' e then create_table cl else fail (Sdk e))
     (thenE (wait_table_active aws cl) (seed_item cl)))"

definition delete_table :: "'x cloud \<Rightarrow> ('x, unit) eff" where
  "delete_table cl =
     svc_delete (has_code ''ResourceNotFoundException'') ''dynamodb.DeleteTable'' TABLE_NAME
       (ddb_delete cl TABLE_NAME)"

section \<open>KMS key\<close>

definition resolve_alias_key_id :: "'x cloud \<Rightarrow> ('x, string option) eff" where
  "resolve_alias_key_id cl =
     bindE (call (EvService ''kms.ListAliases'' []) (kms_list_aliases cl))
       (scan_items (\<lambda>e. fail (Sdk e))
         (\<lambda>(alias, target).
           ret (if alias = Some KMS_ALIAS then map_option Some target else None))
         (ret None))"

definition ensure_kms_key :: "'x cloud \<Rightarrow> ('x, string) eff" where
  "ensure_kms_key cl =
     bindE (resolve_alias_key_id cl) (\<lambda>found.
       case found of
         Some key_id \<Rightarrow> ret key_id
       | None \<Rightarrow>
           bindE (svc ''kms.CreateKey'' [] (kms_create_key cl KMS_TAG_KEY KMS_TAG_VALUE)) (\<lambda>created.
           bindE (of_result (ok_or (Message ''CreateKey returned no key metadata'') created)) (\<lambda>key_id.
           bindE (svc_try ''kms.CreateAlias'' key_id (kms_create_alias cl KMS_ALIAS key_id)) (\<lambda>r.
             case r of
               Inl e \<Rightarrow>
                 bindE (svc_try ''kms.ScheduleKeyDeletion'' key_id
                     (kms_schedule_deletion cl key_id 7)) (\<lambda>_. fail (Sdk e))
             | Inr _ \<Rightarrow> ret key_id))))"

definition schedule_key_deletion_idempotent :: "'x cloud \<Rightarrow> string \<Rightarrow> ('x, unit) eff" where
  "schedule_key_deletion_idempotent cl key_id =
     svc_delete (\<lambda>e. has_code ''NotFoundException'' e \<or> has_code ''KMSInvalidStateException'' e)
       ''kms.ScheduleKeyDeletion'' key_id (kms_schedule_deletion cl key_id 7)"

definition delete_kms_key :: "'x cloud \<Rightarrow> ('x, unit) eff" where
  "delete_kms_key cl =
     bindE (resolve_alias_key_id cl) (\<lambda>key_id.
     thenE (svc_delete (has_code ''NotFoundException'') ''kms.DeleteAlias'' KMS_ALIAS
         (kms_delete_alias cl KMS_ALIAS))
       (case key_id of
          Some k \<Rightarrow> schedule_key_deletion_idempotent cl k
        | None \<Rightarrow> ret ()))"

definition key_has_creation_tag :: "'x cloud \<Rightarrow> string \<Rightarrow> ('x, bool) eff" where
  "key_has_creation_tag cl key_id =
     bindE (call (EvService ''kms.ListResourceTags'' key_id) (kms_list_tags cl key_id))
       (scan_items
         (\<lambda>e. bindE (of_result (not_found_as_none
             (\<lambda>e. has_code ''NotFoundException'' e \<or> has_code ''AccessDeniedException'' e) e))
           (\<lambda>_. ret False))
         (\<lambda>(k, v). ret (if k = KMS_TAG_KEY \<and> v = KMS_TAG_VALUE then Some True else None))
         (ret False))"

definition reclaim_orphaned_kms_keys :: "'x cloud \<Rightarrow> ('x, unit) eff" where
  "reclaim_orphaned_kms_keys cl =
     bindE (call (EvService ''kms.ListKeys'' []) (kms_list_keys cl))
       (scan_items (\<lambda>e. fail (Sdk e))
         (\<lambda>entry.
           case entry of
             None \<Rightarrow> ret None
           | Some key_id \<Rightarrow>
               bindE (key_has_creation_tag cl key_id) (\<lambda>ours.
                 if ours
                 then thenE (schedule_key_deletion_idempotent cl key_id) (ret None)
                 else ret None))
         (ret ()))"

section \<open>Image repository\<close>

definition LIFECYCLE_POLICY :: string where
  "LIFECYCLE_POLICY = raw_lines
     [''{'',
      ''  `rules`: ['',
      ''    {'',
      ''      `rulePriority`: 1,'',
      ''      `description`: `expire untagged images`,'',
      ''      `selection`: { `tagStatus`: `untagged`, `countType`: `sinceImagePushed`, `countUnit`: `days`, `countNumber`: 1 },'',
      ''      `action`: { `type`: `expire` }'',
      ''    },'',
      ''    {'',
      ''      `rulePriority`: 2,'',
      ''      `description`: `cap tagged synthdl images`,'',
      ''      `selection`: { `tagStatus`: `tagged`, `tagPrefixList`: [`synthdl-`], `countType`: `imageCountMoreThan`, `countNumber`: 20 },'',
      ''      `action`: { `type`: `expire` }'',
      ''    }'',
      ''  ]'',
      ''}'']"

definition ecr_registry_host :: "'x aws \<Rightarrow> string" where
  "ecr_registry_host aws = account_id aws @ ''.dkr.ecr.'' @ REGION @ ''.amazonaws.com''"

definition ecr_image_uri :: "'x aws \<Rightarrow> string \<Rightarrow> string" where
  "ecr_image_uri aws tag = ecr_registry_host aws @ ''/'' @ ECR_REPO @ '':'' @ tag"

definition ensure_ecr_repo :: "'x cloud \<Rightarrow> ('x, string) eff" where
  "ensure_ecr_repo cl =
     bindE (svc_try ''ecr.CreateRepository'' ECR_REPO (ecr_create_repo cl ECR_REPO)) (\<lambda>r.
     thenE (case r of
         Inr _ \<Rightarrow> ret ()
       | Inl e \<Rightarrow>
           if \<not> has_code ''RepositoryAlreadyExistsException'' e then fail (Sdk e) else ret ())
     (thenE (svc ''ecr.PutLifecyclePolicy'' ECR_REPO
         (ecr_put_lifecycle cl ECR_REPO LIFECYCLE_POLICY))
       (ret ECR_REPO)))"

definition run_crane :: "'x cloud \<Rightarrow> string list \<Rightarrow> string option \<Rightarrow> ('x, unit) eff" where
  "run_crane cl args stdin =
     bindE (call (EvService ''crane'' (hd args)) (crane cl args stdin)) (\<lambda>r.
       case r of
         Inl e \<Rightarrow> fail (IoError e)
       | Inr (success, stderr) \<Rightarrow> if \<not> success then fail (Message stderr) else ret ())"

definition crane_ecr_login :: "'x aws \<Rightarrow> 'x cloud \<Rightarrow> ('x, unit) eff" where
  "crane_ecr_login aws cl =
     bindE (svc ''ecr.GetAuthorizationToken'' [] (ecr_get_token cl)) (\<lambda>datas.
     bindE (of_result (ok_or (Message ''no authorization data'')
         (case datas of [] \<Rightarrow> None | d # _ \<Rightarrow> Some d))) (\<lambda>d.
     bindE (of_result (ok_or (Message ''no token'') d)) (\<lambda>token_b64.
     bindE (of_result (ok_or BadBase64 (b64_decode aws token_b64))) (\<lambda>bytes.
     bindE (of_result (ok_or (Message ''token is not UTF-8'') (utf8_strict cl bytes))) (\<lambda>decoded.
     bindE (of_result (ok_or (Message ''token not in AWS:<password> form'')
         (map_option snd (split_once (CHR '':'') decoded)))) (\<lambda>password.
       run_crane cl [''auth'', ''login'', ''--username'', ''AWS'', ''--password-stdin'',
         ecr_registry_host aws] (Some password)))))))"

definition ecr_image_size :: "'x cloud \<Rightarrow> string \<Rightarrow> ('x, nat) eff" where
  "ecr_image_size cl tag =
     bindE (svc ''ecr.DescribeImages'' tag (ecr_describe_images cl ECR_REPO tag)) (\<lambda>details.
       case details of
         [d] \<Rightarrow>
           bindE (of_result (ok_or (Message ''no size'') d)) (\<lambda>size.
             if size < 0 then fail (Message ''negative size'') else ret (nat size))
       | _ \<Rightarrow> fail (Message ''expected exactly 1 image detail''))"

definition delete_ecr_image :: "'x cloud \<Rightarrow> string \<Rightarrow> ('x, unit) eff" where
  "delete_ecr_image cl tag =
     svc_delete (has_code ''RepositoryNotFoundException'') ''ecr.BatchDeleteImage'' tag
       (ecr_delete_image cl ECR_REPO tag)"

definition delete_ecr_repo :: "'x cloud \<Rightarrow> ('x, unit) eff" where
  "delete_ecr_repo cl =
     svc_delete (has_code ''RepositoryNotFoundException'') ''ecr.DeleteRepository'' ECR_REPO
       (ecr_delete_repo cl ECR_REPO)"

section \<open>Log groups\<close>

record delete_summary =
  ds_total :: nat
  ds_deleted :: nat
  ds_failures :: "err list"

definition delete_log_group :: "'x cloud \<Rightarrow> string \<Rightarrow> ('x, unit) eff" where
  "delete_log_group cl name =
     svc_delete (has_code ''ResourceNotFoundException'') ''logs.DeleteLogGroup'' name
       (logs_delete_group cl name)"

text \<open>\<open>acquire\<close> on a limiter of the caller's own.\<close>

definition acquire_on :: "'x aws \<Rightarrow> limiter \<Rightarrow> ('x, limiter) eff" where
  "acquire_on aws l =
     bindE (peek (now_ns aws)) (\<lambda>now.
       case reserve l now of
         (start, l') \<Rightarrow> thenE (call (EvSlot start) (sleep_until aws start)) (ret l'))"

fun log_group_loop ::
    "'x aws \<Rightarrow> 'x cloud \<Rightarrow> limiter \<Rightarrow> string list \<Rightarrow> delete_summary \<Rightarrow> ('x, delete_summary) eff" where
  "log_group_loop aws cl l [] sm = ret sm"
| "log_group_loop aws cl l (name # names) sm =
     bindE (acquire_on aws l) (\<lambda>l'.
     bindE (attempt (delete_log_group cl name)) (\<lambda>r.
       log_group_loop aws cl l' names
         (case r of
            Inr _ \<Rightarrow> sm\<lparr>ds_deleted := Suc (ds_deleted sm)\<rparr>
          | Inl e \<Rightarrow> sm\<lparr>ds_failures := ds_failures sm @ [e]\<rparr>)))"

definition delete_function_log_groups ::
    "'x aws \<Rightarrow> 'x cloud \<Rightarrow> string list \<Rightarrow> ('x, delete_summary) eff" where
  "delete_function_log_groups aws cl names =
     bindE (peek (now_ns aws)) (\<lambda>now.
     bindE (of_result (ok_or (Panicked ''max_tps'') (per_second LOG_GROUP_DELETE_TPS now))) (\<lambda>l.
       log_group_loop aws cl l names
         \<lparr>ds_total = length names, ds_deleted = 0, ds_failures = []\<rparr>))"

end
