(* ===== verification/S3.thy ===== *)
theory S3
  imports Provision
begin

text \<open>
  \<open>bencher/src/aws/s3.rs\<close>: the benchmark bucket, its hardening, the seed objects with their
  version gate, the two generated payloads, and the removal of the bucket.
\<close>

section \<open>Payloads\<close>

text \<open>
  \<open>build_json_array\<close>: entries are appended while the open document is shorter than
  \<open>min_bytes\<close>. An entry that cannot be rendered (\<open>None\<close>) panics. Every entry the program passes
  is non-empty; an empty first entry would not lengthen the document, so the recursion is on
  fuel, and \<open>None\<close> is also a loop that goes on.
\<close>

fun json_array_loop ::
    "nat \<Rightarrow> nat \<Rightarrow> (nat \<Rightarrow> string option) \<Rightarrow> nat \<Rightarrow> string \<Rightarrow> string option" where
  "json_array_loop 0 min_bytes entry i out =
     (if length out < min_bytes then None else Some (out @ '']''))"
| "json_array_loop (Suc fuel) min_bytes entry i out =
     (if length out < min_bytes
      then (case entry i of
          None \<Rightarrow> None
        | Some e \<Rightarrow> json_array_loop fuel min_bytes entry (Suc i)
            (out @ (if 0 < i then '','' else []) @ e))
      else Some (out @ '']''))"

definition build_json_array :: "nat \<Rightarrow> (nat \<Rightarrow> string option) \<Rightarrow> string option" where
  "build_json_array min_bytes entry = json_array_loop min_bytes min_bytes entry 0 ''[''"

definition WORDS :: "string list" where
  "WORDS =
     [''alpha'', ''bravo'', ''charlie'', ''delta'', ''echo'', ''foxtrot'', ''golf'', ''hotel'']"

definition lettercount_entry :: "nat \<Rightarrow> string" where
  "lettercount_entry i =
     (let n = length WORDS;
          w0 = WORDS ! (i mod n);
          w1 = WORDS ! ((i div n) mod n);
          w2 = WORDS ! ((i div (n * n)) mod n)
      in quote (w0 @ '' '' @ w1 @ '' '' @ w2 @
           '' the quick brown fox jumps over the lazy dog record'' @ show_nat i))"

text \<open>The assertion on each entry; \<open>None\<close> is its panic, and that of \<open>i % 0\<close> below.\<close>

definition is_ascii :: "string \<Rightarrow> bool" where
  "is_ascii s \<longleftrightarrow> list_all (\<lambda>c. of_char c < (128 :: nat)) s"

definition generate_lettercount_payload :: "nat \<Rightarrow> string option" where
  "generate_lettercount_payload min_bytes =
     build_json_array min_bytes (\<lambda>i.
       let entry = lettercount_entry i in if is_ascii entry then Some entry else None)"

text \<open>\<open>{key:04}\<close>: at least four digits, padded with zeros.\<close>

definition pad4 :: "nat \<Rightarrow> string" where
  "pad4 n = replicate (4 - length (show_nat n)) (CHR ''0'') @ show_nat n"

definition batch_entry :: "nat \<Rightarrow> nat \<Rightarrow> string" where
  "batch_entry cardinality i =
     ''{'' @ quote ''key'' @ '':'' @ quote (''k'' @ pad4 (i mod cardinality)) @ '','' @
     quote ''value'' @ '':'' @ show_nat (i mod 997 + 1) @ ''}''"

definition generate_batch_payload :: "nat \<Rightarrow> nat \<Rightarrow> string option" where
  "generate_batch_payload min_bytes cardinality =
     build_json_array min_bytes (\<lambda>i.
       if cardinality = 0 then None else Some (batch_entry cardinality i))"

section \<open>Bucket\<close>

definition tls_policy :: "string \<Rightarrow> string" where
  "tls_policy bucket = raw_lines
     [''{`Version`:`2012-10-17`,`Statement`:[{`Sid`:`DenyInsecureTransport`,`Effect`:`Deny`,`Principal`:`*`,`Action`:`s3:*`,`Resource`:[`arn:aws:s3:::'' @
      bucket @ ''`,`arn:aws:s3:::'' @ bucket @
      ''/*`],`Condition`:{`Bool`:{`aws:SecureTransport`:`false`}}}]}'']"

definition harden_bucket :: "'x cloud \<Rightarrow> string \<Rightarrow> ('x, unit) eff" where
  "harden_bucket cl bucket =
     thenE (svc ''s3.PutPublicAccessBlock'' bucket (s3_block_public cl bucket))
       (svc ''s3.PutBucketPolicy'' bucket (s3_put_policy cl bucket (tls_policy bucket)))"

definition already_owned :: "sdk_error \<Rightarrow> bool" where
  "already_owned e \<longleftrightarrow>
     has_code ''BucketAlreadyOwnedByYou'' e \<or> has_code ''BucketAlreadyExists'' e"

definition ensure_bucket :: "'x aws \<Rightarrow> 'x cloud \<Rightarrow> ('x, unit) eff" where
  "ensure_bucket aws cl =
     (let bucket = bucket_name aws
      in bindE (svc_try ''s3.HeadBucket'' bucket (s3_head_bucket cl bucket)) (\<lambda>r.
         bindE (case r of
             Inr _ \<Rightarrow> ret False
           | Inl e \<Rightarrow>
               bindE (of_result (not_found_as_none (has_code ''NotFound'') e))
                 (\<lambda>x. ret (x = None))) (\<lambda>needs_create.
         thenE (if needs_create then
             bindE (svc_try ''s3.CreateBucket'' bucket
                 (s3_create_bucket cl bucket
                   (if REGION \<noteq> ''us-east-1'' then Some REGION else None))) (\<lambda>r.
               case r of
                 Inl e \<Rightarrow> if \<not> already_owned e then fail (Sdk e) else ret ()
               | Inr _ \<Rightarrow> ret ())
           else ret ())
           (harden_bucket cl bucket))))"

definition ensure_seed_object ::
    "'x aws \<Rightarrow> 'x cloud \<Rightarrow> string \<Rightarrow> string \<Rightarrow> string \<Rightarrow> string option \<Rightarrow> ('x, unit) eff" where
  "ensure_seed_object aws cl bucket key version generate =
     bindE (svc_try ''s3.HeadObject'' key (s3_head_object cl bucket key)) (\<lambda>r.
     bindE (case r of
         Inr out \<Rightarrow>
           ret (case Option.bind out (\<lambda>m. m SEED_VERSION_META_KEY) of
                  Some v \<Rightarrow> v = version
                | None \<Rightarrow> False)
       | Inl e \<Rightarrow>
           bindE (of_result (not_found_as_none (has_code ''NotFound'') e)) (\<lambda>_. ret False))
       (\<lambda>current.
         if current then ret ()
         else
           bindE (of_result (ok_or (Panicked ''seed payload'') generate)) (\<lambda>body.
             svc ''s3.PutObject'' key
               (s3_put aws bucket key body [SEED_VERSION_META_KEY \<mapsto> version]))))"

definition ensure_seeded_bucket :: "'x aws \<Rightarrow> 'x cloud \<Rightarrow> ('x, unit) eff" where
  "ensure_seeded_bucket aws cl =
     (let bucket = bucket_name aws
      in thenE (ensure_bucket aws cl)
        (thenE (svc ''s3.PutObject'' S3_OBJECT_KEY
            (s3_put aws bucket S3_OBJECT_KEY S3_OBJECT_BODY Map.empty))
        (thenE (ensure_seed_object aws cl bucket S3_LETTERCOUNT_KEY
            (''lc1-'' @ show_nat S3_LETTERCOUNT_PAYLOAD_BYTES)
            (generate_lettercount_payload S3_LETTERCOUNT_PAYLOAD_BYTES))
          (ensure_seed_object aws cl bucket S3_BATCH_KEY
            (''agg1-'' @ show_nat S3_BATCH_PAYLOAD_BYTES @ ''-'' @
              show_nat S3_BATCH_KEY_CARDINALITY)
            (generate_batch_payload S3_BATCH_PAYLOAD_BYTES S3_BATCH_KEY_CARDINALITY)))))"

section \<open>Removal\<close>

text \<open>The objects of one page; an entry without a key is skipped.\<close>

fun delete_page :: "'x aws \<Rightarrow> string \<Rightarrow> string option list \<Rightarrow> ('x, unit) eff" where
  "delete_page aws bucket [] = ret ()"
| "delete_page aws bucket (None # objs) = delete_page aws bucket objs"
| "delete_page aws bucket (Some key # objs) =
     thenE (svc ''s3.DeleteObject'' key (s3_delete aws bucket key)) (delete_page aws bucket objs)"

definition delete_bucket :: "'x cloud \<Rightarrow> string \<Rightarrow> ('x, unit) eff" where
  "delete_bucket cl bucket =
     svc_delete (has_code ''NoSuchBucket'') ''s3.DeleteBucket'' bucket (s3_delete_bucket cl bucket)"

definition delete_s3 :: "'x aws \<Rightarrow> 'x cloud \<Rightarrow> ('x, unit) eff" where
  "delete_s3 aws cl =
     (let bucket = bucket_name aws
      in bindE (call (EvService ''s3.ListObjectsV2'' bucket) (s3_list_pages cl bucket))
        (scan_items
          (\<lambda>e. bindE (of_result (not_found_as_none (has_code ''NoSuchBucket'') e)) (\<lambda>_. ret ()))
          (\<lambda>page. thenE (delete_page aws bucket page) (ret None))
          (delete_bucket cl bucket)))"

section \<open>The payloads that are seeded\<close>

definition open_array :: "(nat \<Rightarrow> string) \<Rightarrow> nat \<Rightarrow> string" where
  "open_array e n = ''['' @ join_with '','' (map e [0..<n])"

lemma join_with_snoc: "join_with sep (xs @ [x]) = (if xs = [] then x else join_with sep xs @ sep @ x)"
  by (induction sep xs rule: join_with.induct) auto

lemma open_array_0: "open_array e 0 = ''[''"
  by (simp add: open_array_def)

lemma open_array_Suc:
  "open_array e (Suc n) = open_array e n @ (if 0 < n then '','' else []) @ e n"
  by (simp add: open_array_def join_with_snoc)

lemma json_array_loop_exact:
  assumes "\<And>i. entry i = Some (e i)" "\<And>i. e i \<noteq> []"
  shows "m \<le> fuel + length (open_array e n) \<Longrightarrow> \<forall>k<n. length (open_array e k) < m \<Longrightarrow>
    \<exists>n'. json_array_loop fuel m entry n (open_array e n) = Some (open_array e n' @ '']'') \<and>
      m \<le> length (open_array e n') \<and> (\<forall>k<n'. length (open_array e k) < m)"
proof (induction fuel arbitrary: n)
  case 0
  then show ?case by (intro exI [of _ n]) simp
next
  case (Suc fuel)
  show ?case
  proof (cases "length (open_array e n) < m")
    case True
    have "m \<le> fuel + length (open_array e (Suc n))"
      using Suc.prems(1) assms(2) [of n] by (cases "e n") (simp_all add: open_array_Suc)
    moreover have "\<forall>k<Suc n. length (open_array e k) < m"
      using Suc.prems(2) True less_Suc_eq by auto
    ultimately have rest: "\<exists>n'. json_array_loop fuel m entry (Suc n) (open_array e (Suc n)) =
        Some (open_array e n' @ '']'') \<and>
        m \<le> length (open_array e n') \<and> (\<forall>k<n'. length (open_array e k) < m)"
      by (rule Suc.IH)
    have "json_array_loop (Suc fuel) m entry n (open_array e n) =
        json_array_loop fuel m entry (Suc n) (open_array e (Suc n))"
      using True assms(1) [of n] by (simp add: open_array_Suc)
    with rest show ?thesis by simp
  next
    case False
    with Suc.prems show ?thesis by (intro exI [of _ n]) simp
  qed
qed

lemma build_json_array_exact:
  assumes "\<And>i. entry i = Some (e i)" "\<And>i. e i \<noteq> []"
  shows "\<exists>n. build_json_array m entry = Some (''['' @ join_with '','' (map e [0..<n]) @ '']'') \<and>
    m \<le> length (open_array e n) \<and> (\<forall>k<n. length (open_array e k) < m)"
  using json_array_loop_exact [where entry = entry and e = e and m = m and fuel = m and n = 0, OF assms]
  by (simp add: build_json_array_def open_array_0) (simp add: open_array_def)

lemma is_ascii_append [simp]: "is_ascii (s @ t) \<longleftrightarrow> is_ascii s \<and> is_ascii t"
  by (simp add: is_ascii_def)

lemma lettercount_entry_ascii: "is_ascii (lettercount_entry i)" "lettercount_entry i \<noteq> []"
proof -
  have all: "list_all is_ascii WORDS" by code_simp
  have word: "is_ascii (WORDS ! (k mod length WORDS))" for k
    using all by (simp add: list_all_length WORDS_def)
  have num: "is_ascii (show_nat i)"
    using show_nat_digits [of i] by (auto simp: is_ascii_def list.pred_set is_digit_def)
  have lit: "is_ascii '' the quick brown fox jumps over the lazy dog record''" "is_ascii '' ''"
    by code_simp+
  show "is_ascii (lettercount_entry i)"
    using word num lit by (simp add: lettercount_entry_def Let_def quote_def is_ascii_def)
  show "lettercount_entry i \<noteq> []" by (simp add: lettercount_entry_def Let_def quote_def)
qed

text \<open>
  C21. The seeded payloads: both are JSON arrays of the generated entries \<open>0, 1, ..\<close>, as many as it
  takes for the document without its closing bracket to reach the wanted size and no more (so the
  closed document is longer than asked); every letter-count entry is ASCII, so its assertion never
  fires.
\<close>

theorem seed_payloads_exact:
  "(\<exists>n. generate_lettercount_payload m =
       Some (''['' @ join_with '','' (map lettercount_entry [0..<n]) @ '']'') \<and>
     m \<le> length (open_array lettercount_entry n) \<and>
     (\<forall>k<n. length (open_array lettercount_entry k) < m)) \<and>
   (c \<noteq> 0 \<longrightarrow> (\<exists>n. generate_batch_payload m c =
       Some (''['' @ join_with '','' (map (batch_entry c) [0..<n]) @ '']'') \<and>
     m \<le> length (open_array (batch_entry c) n) \<and>
     (\<forall>k<n. length (open_array (batch_entry c) k) < m)))"
proof (intro conjI impI)
  show "\<exists>n. generate_lettercount_payload m =
      Some (''['' @ join_with '','' (map lettercount_entry [0..<n]) @ '']'') \<and>
    m \<le> length (open_array lettercount_entry n) \<and>
    (\<forall>k<n. length (open_array lettercount_entry k) < m)"
    unfolding generate_lettercount_payload_def
    by (rule build_json_array_exact) (simp_all add: lettercount_entry_ascii)
  show "\<exists>n. generate_batch_payload m c =
      Some (''['' @ join_with '','' (map (batch_entry c) [0..<n]) @ '']'') \<and>
    m \<le> length (open_array (batch_entry c) n) \<and>
    (\<forall>k<n. length (open_array (batch_entry c) k) < m)" if "c \<noteq> 0"
    unfolding generate_batch_payload_def
    by (rule build_json_array_exact) (use that in \<open>simp_all add: batch_entry_def\<close>)
qed

theorem seed_payloads_exact_witness:
  "\<exists>n. generate_batch_payload 100 7 =
     Some (''['' @ join_with '','' (map (batch_entry 7) [0..<n]) @ '']'') \<and>
     100 \<le> length (open_array (batch_entry 7) n)"
  using seed_payloads_exact [of 100 7] by auto

end
