(* ===== verification/Teardown.thy ===== *)
theory Teardown
  imports S3
begin

text \<open>
  \<open>bencher/src/teardown.rs\<close> and \<open>cmd_teardown\<close> of \<open>bencher/src/main.rs\<close>: every managed function
  and log group by its exact name, then the shared resources, each attempted whatever the
  others returned; the failures are collected and reported at the end.
\<close>

definition TEARDOWN_CONCURRENCY :: nat where "TEARDOWN_CONCURRENCY = 8"

definition delete_one_function :: "'x aws \<Rightarrow> string \<Rightarrow> ('x, unit) eff" where
  "delete_one_function aws name = thenE (acquire aws) (delete_function aws name)"

text \<open>The labelled failures of a list of results.\<close>

definition failures_of :: "(string \<times> (err + 'a)) list \<Rightarrow> (string \<times> err) list" where
  "failures_of rs =
     List.map_filter (\<lambda>(label, r). case r of Inl e \<Rightarrow> Some (label, e) | Inr _ \<Rightarrow> None) rs"

text \<open>The elements of \<open>steps\<close>, evaluated in order.\<close>

fun run_steps ::
    "(string \<times> ('x, unit) eff) list \<Rightarrow> ('x, (string \<times> (err + unit)) list) eff" where
  "run_steps [] = ret []"
| "run_steps ((label, m) # ms) =
     bindE (attempt m) (\<lambda>r. bindE (run_steps ms) (\<lambda>rs. ret ((label, r) # rs)))"

definition teardown_steps :: "'x aws \<Rightarrow> 'x cloud \<Rightarrow> (string \<times> ('x, unit) eff) list" where
  "teardown_steps aws cl =
     [(''IAM role'', delete_role cl),
      (''DynamoDB table'', delete_table cl),
      (''S3 bucket + object'', delete_s3 aws cl),
      (''KMS key (scheduled, 7-day window) + alias'', delete_kms_key cl),
      (''KMS orphan-key sweep'', reclaim_orphaned_kms_keys cl),
      (''ECR repository'', delete_ecr_repo cl)]"

definition log_failures :: "err + delete_summary \<Rightarrow> (string \<times> err) list" where
  "log_failures r =
     (case r of
        Inr sm \<Rightarrow> map (\<lambda>e. (''log group delete'', e)) (ds_failures sm)
      | Inl e \<Rightarrow> [(''log group delete'', e)])"

definition teardown :: "'x aws \<Rightarrow> 'x cloud \<Rightarrow> ('x, unit) eff" where
  "teardown aws cl =
     bindE (buffered cl TEARDOWN_CONCURRENCY (delete_one_function aws)
         all_managed_function_names) (\<lambda>results.
     bindE (attempt (delete_function_log_groups aws cl all_managed_log_group_names)) (\<lambda>logs.
     bindE (run_steps (teardown_steps aws cl)) (\<lambda>steps.
       let failures =
             failures_of (map (\<lambda>(_, r). (''function delete'', r)) results) @
             log_failures logs @ failures_of steps
       in if failures = [] then ret () else fail (Incomplete failures))))"

text \<open>The confirmation: \<open>--yes\<close>, or a line that says so.\<close>

definition cmd_teardown :: "'x aws \<Rightarrow> 'x cloud \<Rightarrow> bool \<Rightarrow> string \<Rightarrow> ('x, unit) eff" where
  "cmd_teardown aws cl yes input =
     bindE (aws_load aws cl) (\<lambda>aws.
       if \<not> yes \<and> trim input \<noteq> ''yes'' then fail (Message ''aborted (no confirmation)'')
       else teardown aws cl)"

section \<open>What is attempted\<close>

text \<open>
  \<open>picks sel A m\<close>: whatever the world does, the calls of \<open>m\<close> that \<open>sel\<close> selects are exactly \<open>A\<close>.
  \<open>total m\<close>: \<open>m\<close> always returns a value.
\<close>

definition picked :: "(event \<Rightarrow> 'k option) \<Rightarrow> 'x drv \<Rightarrow> 'k multiset" where
  "picked sel s = mset (List.map_filter sel (calls s))"

definition picks :: "(event \<Rightarrow> 'k option) \<Rightarrow> 'k multiset \<Rightarrow> ('x, 'a) eff \<Rightarrow> bool" where
  "picks sel A m \<longleftrightarrow> (\<forall>s. picked sel (snd (m s)) = picked sel s + A)"

definition always_ok :: "('x, 'a) eff \<Rightarrow> bool" where
  "always_ok m \<longleftrightarrow> (\<forall>s. \<exists>v t. m s = (Inr v, t))"

lemma always_ok_basic:
  "always_ok (ret v)" "always_ok (attempt m)" "always_ok (call ev f)" "always_ok (peek g)"
  by (auto simp: always_ok_def ret_def attempt_def call_def peek_def split: prod.splits)

lemma always_ok_bind: "always_ok m \<Longrightarrow> (\<And>v. always_ok (k v)) \<Longrightarrow> always_ok (bindE m k)"
  unfolding always_ok_def bindE_Inr by blast

lemma picks_basic:
  "picks sel {#} (ret v)" "picks sel {#} (fail e)" "picks sel {#} (of_result r)" "picks sel {#} (peek g)"
  by (simp_all add: picks_def picked_def ret_def fail_def of_result_def peek_def split: prod.splits)

lemma picks_call: "picks sel (case sel ev of None \<Rightarrow> {#} | Some k \<Rightarrow> {#k#}) (call ev f)"
  by (auto simp: picks_def picked_def call_def map_filter_def split: prod.splits option.splits)

lemma picks_attempt: "picks sel A m \<Longrightarrow> picks sel A (attempt m)"
  by (simp add: picks_def attempt_apply)

lemma picks_bind_last:
  assumes "picks sel A m" "\<And>v. picks sel {#} (k v)"
  shows "picks sel A (bindE m k)"
  unfolding picks_def
proof
  fix s
  obtain r t where m: "m s = (r, t)" by force
  with assms(1) have "picked sel t = picked sel s + A" unfolding picks_def by (metis snd_conv)
  moreover have "picked sel (snd (k v t)) = picked sel t" for v
    using assms(2) [of v] unfolding picks_def by simp
  ultimately show "picked sel (snd (bindE m k s)) = picked sel s + A"
    by (cases r) (simp_all add: bindE_def m)
qed

lemma picks_bind:
  assumes "picks sel A m" "always_ok m" "\<And>v. picks sel B (k v)"
  shows "picks sel (A + B) (bindE m k)"
  unfolding picks_def
proof
  fix s
  obtain v t where m: "m s = (Inr v, t)" using assms(2) unfolding always_ok_def by blast
  with assms(1) have "picked sel t = picked sel s + A" unfolding picks_def by (metis snd_conv)
  moreover have "picked sel (snd (k v t)) = picked sel t + B"
    using assms(3) [of v] unfolding picks_def by blast
  ultimately show "picked sel (snd (bindE m k s)) = picked sel s + (A + B)"
    by (simp add: bindE_def m)
qed

lemma picks_then_last: "picks sel A m \<Longrightarrow> picks sel {#} k \<Longrightarrow> picks sel A (thenE m k)"
  unfolding thenE_def by (rule picks_bind_last)

lemma picks_scan:
  assumes "\<And>e. picks sel {#} (bad e)" "\<And>i. picks sel {#} (body i)" "picks sel {#} fin"
  shows "picks sel {#} (scan_items bad body fin items)"
proof (induction items)
  case Nil
  then show ?case by (simp add: assms)
next
  case (Cons item items)
  then show ?case
    by (cases item) (auto simp: assms intro!: picks_bind_last picks_basic split: option.split)
qed

text \<open>The calls that remove something, with the resource; of a step of several calls the first.\<close>

definition REMOVALS :: "string list" where
  "REMOVALS =
     [''logs.DeleteLogGroup'', ''iam.DetachRolePolicy'', ''dynamodb.DeleteTable'',
      ''s3.ListObjectsV2'', ''kms.ListAliases'', ''kms.ListKeys'', ''ecr.DeleteRepository'']"

definition removal :: "event \<Rightarrow> (string \<times> string) option" where
  "removal ev =
     (case ev of
        EvDeleteFunction name None \<Rightarrow> Some (''lambda.DeleteFunction'', name)
      | EvService op key \<Rightarrow> if op \<in> set REMOVALS then Some (op, key) else None
      | _ \<Rightarrow> None)"

definition removed :: "string \<Rightarrow> string \<Rightarrow> (string \<times> string) multiset" where
  "removed op key = (if op \<in> set REMOVALS then {#(op, key)#} else {#})"

lemma removed_event:
  "removed op key = (case removal (EvService op key) of None \<Rightarrow> {#} | Some k \<Rightarrow> {#k#})"
  by (simp add: removed_def removal_def)

lemma picks_idempotent:
  "picks sel (case sel ev of None \<Rightarrow> {#} | Some k \<Rightarrow> {#k#}) (send_idempotent gone ev f)"
  unfolding send_idempotent_def
  by (rule picks_bind_last [OF picks_call])
    (auto intro!: picks_bind_last picks_basic split: sum.split)

lemma picks_svc_delete: "picks removal (removed op key) (svc_delete gone op key f)"
  unfolding svc_delete_def removed_event by (rule picks_idempotent)

lemma picks_service_call: "picks removal (removed op key) (call (EvService op key) f)"
  unfolding removed_event by (rule picks_call)

lemma picks_svc: "picks removal (removed op key) (svc op key f)"
  unfolding svc_def send_def sdk_ok_def by (intro picks_bind_last [OF picks_service_call] picks_basic)

lemma picks_delete_one: "picks removal {#(''lambda.DeleteFunction'', name)#} (delete_one_function aws name)"
proof -
  have slot: "picks removal {#} (acquire aws)"
    unfolding acquire_def
    by (rule picks_bind_last [OF picks_basic(4)])
      (auto simp: picks_def picked_def call_def removal_def map_filter_def split: prod.splits)
  have ok: "always_ok (acquire aws)"
    by (auto simp: always_ok_def acquire_def bindE_def peek_def call_def split: prod.splits)
  have "picks removal {#(''lambda.DeleteFunction'', name)#} (delete_function aws name)"
    unfolding delete_function_def
    using picks_idempotent [of removal "EvDeleteFunction name None"] by (simp add: removal_def)
  from picks_bind [OF slot ok this] show ?thesis by (simp add: delete_one_function_def thenE_def)
qed

lemma picks_buffered:
  assumes "\<And>j. picks sel {#g j#} (f j)"
  shows "picks sel (image_mset g (mset jobs)) (buffered cl k f jobs) \<and> always_ok (buffered cl k f jobs)"
proof (induction "length jobs" arbitrary: jobs)
  case 0
  then show ?case by (simp add: picks_basic always_ok_basic)
next
  case (Suc n)
  then obtain j js where jobs: "jobs = j # js" by (cases jobs) auto
  let ?i = "next_job k jobs"
  have m: "image_mset g (mset jobs) = {#} + ({#g (jobs ! ?i i)#} +
      (image_mset g (mset (remove_nth (?i i) jobs)) + {#}))" for i
    using mset_remove_nth [OF next_job_less [of k j js i]] jobs
    by (metis add.commute add.right_neutral image_mset_single image_mset_union)
  have rest: "picks sel (image_mset g (mset (remove_nth (?i i) jobs)))
      (buffered cl k f (remove_nth (?i i) jobs))"
    "always_ok (buffered cl k f (remove_nth (?i i) jobs))" for i
    using Suc.hyps(1) [of "remove_nth (?i i) jobs"] Suc.hyps(2) length_remove_nth [OF next_job_less [of k j js i]] jobs
    by simp_all
  have "picks sel (image_mset g (mset jobs)) (bindE (peek (next_done cl k)) (\<lambda>i.
      bindE (attempt (f (jobs ! ?i i))) (\<lambda>r.
      bindE (buffered cl k f (remove_nth (?i i) jobs)) (\<lambda>rs. ret ((jobs ! ?i i, r) # rs)))))"
  proof -
    have "picks sel (image_mset g (mset jobs)) (bindE (attempt (f (jobs ! ?i i))) (\<lambda>r.
        bindE (buffered cl k f (remove_nth (?i i) jobs)) (\<lambda>rs. ret ((jobs ! ?i i, r) # rs))))" for i
      using picks_bind [OF picks_attempt [OF assms] always_ok_basic(2)
          picks_bind [OF rest picks_basic(1)]] m [of i] by simp
    from picks_bind [OF picks_basic(4) always_ok_basic(4) this] show ?thesis by simp
  qed
  moreover have "always_ok (bindE (peek (next_done cl k)) (\<lambda>i.
      bindE (attempt (f (jobs ! ?i i))) (\<lambda>r.
      bindE (buffered cl k f (remove_nth (?i i) jobs)) (\<lambda>rs. ret ((jobs ! ?i i, r) # rs)))))"
    by (intro always_ok_bind always_ok_basic rest)
  ultimately show ?case unfolding jobs buffered.simps by simp
qed

text \<open>The log groups are attempted in order, each once.\<close>

lemma acquire_on_quiet: "picks removal {#} (acquire_on aws l)" "always_ok (acquire_on aws l)"
proof -
  have "picks removal {#} (call (EvSlot n) g)" for n g
    using picks_call [of removal "EvSlot n" g] by (simp add: removal_def)
  then show "picks removal {#} (acquire_on aws l)"
    unfolding acquire_on_def thenE_def
    by (intro picks_bind_last [OF picks_basic(4)])
      (auto intro!: picks_bind_last picks_basic split: prod.split)
  show "always_ok (acquire_on aws l)"
    unfolding acquire_on_def thenE_def
    by (intro always_ok_bind always_ok_basic)
      (auto intro!: always_ok_bind always_ok_basic split: prod.split)
qed

lemma picks_log_groups:
  "picks removal (image_mset (Pair ''logs.DeleteLogGroup'') (mset names)) (log_group_loop aws cl l names sm) \<and>
   always_ok (log_group_loop aws cl l names sm)"
proof (induction names arbitrary: l sm)
  case Nil
  then show ?case by (simp add: picks_basic always_ok_basic)
next
  case (Cons name names)
  have one: "picks removal {#(''logs.DeleteLogGroup'', name)#} (delete_log_group cl name)"
    using picks_svc_delete [of "''logs.DeleteLogGroup''" name]
    by (simp add: delete_log_group_def removed_def REMOVALS_def)
  have "picks removal ({#} + ({#(''logs.DeleteLogGroup'', name)#} +
      image_mset (Pair ''logs.DeleteLogGroup'') (mset names))) (log_group_loop aws cl l (name # names) sm)"
    unfolding log_group_loop.simps
    by (intro picks_bind [OF acquire_on_quiet] picks_bind [OF picks_attempt [OF one] always_ok_basic(2)])
      (use Cons in blast)
  moreover have "always_ok (log_group_loop aws cl l (name # names) sm)"
    unfolding log_group_loop.simps
    by (intro always_ok_bind acquire_on_quiet always_ok_basic) (use Cons in blast)
  ultimately show ?case by simp
qed

lemma picks_delete_log_groups:
  "picks removal (image_mset (Pair ''logs.DeleteLogGroup'') (mset names)) (delete_function_log_groups aws cl names)"
proof -
  have some: "\<exists>l. per_second LOG_GROUP_DELETE_TPS now = Some l" for now
    by (simp add: per_second_def LOG_GROUP_DELETE_TPS_def)
  have "picks removal (image_mset (Pair ''logs.DeleteLogGroup'') (mset names))
      (bindE (of_result (ok_or (Panicked ''max_tps'') (per_second LOG_GROUP_DELETE_TPS now))) (\<lambda>l.
        log_group_loop aws cl l names sm))" for now sm
    using some [of now] by (auto simp: ok_or_def intro: picks_log_groups [THEN conjunct1])
  from picks_bind [OF picks_basic(4) always_ok_basic(4) this] show ?thesis
    by (simp add: delete_function_log_groups_def)
qed

text \<open>The six shared resources: each is begun, whatever the ones before it did.\<close>

lemma picks_quiet_service:
  "op \<notin> set REMOVALS \<Longrightarrow> picks removal {#} (svc_delete gone op key f)"
  "op \<notin> set REMOVALS \<Longrightarrow> picks removal {#} (call (EvService op key) g)"
  "op \<notin> set REMOVALS \<Longrightarrow> picks removal {#} (svc op key h)"
  using picks_svc_delete [of op key gone f] picks_service_call [of op key g] picks_svc [of op key h]
  by (simp_all add: removed_def)

lemmas picks_quiet = picks_bind_last picks_then_last picks_basic picks_scan picks_quiet_service

lemma picks_schedule: "picks removal {#} (schedule_key_deletion_idempotent cl k)"
  unfolding schedule_key_deletion_idempotent_def by (rule picks_quiet_service) (simp add: REMOVALS_def)

lemma picks_steps:
  "picks removal {#(''iam.DetachRolePolicy'', ROLE_NAME)#} (delete_role cl)"
  "picks removal {#(''dynamodb.DeleteTable'', TABLE_NAME)#} (delete_table cl)"
  "picks removal {#(''s3.ListObjectsV2'', bucket_name aws)#} (delete_s3 aws cl)"
  "picks removal {#(''kms.ListAliases'', [])#} (delete_kms_key cl)"
  "picks removal {#(''kms.ListKeys'', [])#} (reclaim_orphaned_kms_keys cl)"
  "picks removal {#(''ecr.DeleteRepository'', ECR_REPO)#} (delete_ecr_repo cl)"
proof -
  have first: "op \<in> set REMOVALS \<Longrightarrow> picks removal {#(op, key)#} (svc_delete gone op key f)"
    "op \<in> set REMOVALS \<Longrightarrow> picks removal {#(op, key)#} (call (EvService op key) g)"
    for op key gone f and g :: "'x \<Rightarrow> 'b \<times> 'x"
    using picks_svc_delete [of op key gone f] picks_service_call [of op key g]
    by (simp_all add: removed_def)
  show "picks removal {#(''iam.DetachRolePolicy'', ROLE_NAME)#} (delete_role cl)"
    unfolding delete_role_def
    by (intro picks_then_last first(1) picks_quiet) (simp_all add: REMOVALS_def)
  show "picks removal {#(''dynamodb.DeleteTable'', TABLE_NAME)#} (delete_table cl)"
    "picks removal {#(''ecr.DeleteRepository'', ECR_REPO)#} (delete_ecr_repo cl)"
    unfolding delete_table_def delete_ecr_repo_def by (intro first(1), simp add: REMOVALS_def)+
  have page: "picks removal {#} (delete_page aws b objs)" for b objs
    by (induction aws b objs rule: delete_page.induct)
      (auto intro!: picks_quiet simp: REMOVALS_def)
  show "picks removal {#(''s3.ListObjectsV2'', bucket_name aws)#} (delete_s3 aws cl)"
    unfolding delete_s3_def Let_def delete_bucket_def
    by (intro picks_bind_last [OF first(2)] picks_quiet page) (simp_all add: REMOVALS_def)
  have lookup: "picks removal {#(''kms.ListAliases'', [])#} (resolve_alias_key_id cl)"
    unfolding resolve_alias_key_id_def
    by (intro picks_bind_last [OF first(2)] picks_quiet)
      (auto simp: REMOVALS_def intro: picks_basic split: prod.split)
  show "picks removal {#(''kms.ListAliases'', [])#} (delete_kms_key cl)"
    unfolding delete_kms_key_def
    by (intro picks_bind_last [OF lookup] picks_then_last picks_quiet_service)
      (auto simp: REMOVALS_def intro: picks_basic picks_schedule split: option.split)
  have tag: "picks removal {#} (key_has_creation_tag cl k)" for k
    unfolding key_has_creation_tag_def
    by (intro picks_quiet) (auto simp: REMOVALS_def intro: picks_basic split: prod.split)
  show "picks removal {#(''kms.ListKeys'', [])#} (reclaim_orphaned_kms_keys cl)"
    unfolding reclaim_orphaned_kms_keys_def
    by (intro picks_bind_last [OF first(2)] picks_scan)
      (auto simp: REMOVALS_def intro!: picks_bind_last picks_then_last picks_basic tag picks_schedule
        split: option.split)
qed

lemma picks_run_steps:
  "list_all2 (\<lambda>A step. picks sel A (snd step)) As steps \<Longrightarrow>
     picks sel (sum_list As) (run_steps steps) \<and> always_ok (run_steps steps)"
proof (induction As steps rule: list_all2_induct)
  case Nil
  then show ?case by (simp add: picks_basic always_ok_basic)
next
  case (Cons A As step steps)
  obtain label m where step: "step = (label, m)" by force
  have "picks sel (A + (sum_list As + {#})) (run_steps (step # steps))"
    unfolding step run_steps.simps
    by (intro picks_bind [OF picks_attempt always_ok_basic(2)] picks_bind [OF _ _ picks_basic(1)])
      (use Cons step in auto)
  moreover have "always_ok (run_steps (step # steps))"
    unfolding step run_steps.simps by (intro always_ok_bind always_ok_basic) (use Cons in blast)
  ultimately show ?case by simp
qed

definition all_removals :: "'x aws \<Rightarrow> (string \<times> string) multiset" where
  "all_removals aws =
     image_mset (Pair ''lambda.DeleteFunction'') (mset all_managed_function_names) +
     (image_mset (Pair ''logs.DeleteLogGroup'') (mset all_managed_log_group_names) +
     mset [(''iam.DetachRolePolicy'', ROLE_NAME), (''dynamodb.DeleteTable'', TABLE_NAME),
       (''s3.ListObjectsV2'', bucket_name aws), (''kms.ListAliases'', []), (''kms.ListKeys'', []),
       (''ecr.DeleteRepository'', ECR_REPO)])"

lemma picks_teardown: "picks removal (all_removals aws) (teardown aws cl)"
proof -
  let ?As = "[{#(''iam.DetachRolePolicy'', ROLE_NAME)#}, {#(''dynamodb.DeleteTable'', TABLE_NAME)#},
    {#(''s3.ListObjectsV2'', bucket_name aws)#}, {#(''kms.ListAliases'', [])#}, {#(''kms.ListKeys'', [])#},
    {#(''ecr.DeleteRepository'', ECR_REPO)#}]"
  have "list_all2 (\<lambda>A step. picks removal A (snd step)) ?As (teardown_steps aws cl)"
    by (simp add: teardown_steps_def picks_steps)
  from picks_run_steps [OF this] have steps: "picks removal (sum_list ?As) (run_steps (teardown_steps aws cl))"
    by blast
  have fns: "picks removal (image_mset (Pair ''lambda.DeleteFunction'') (mset all_managed_function_names))
      (buffered cl TEARDOWN_CONCURRENCY (delete_one_function aws) all_managed_function_names)"
    "always_ok (buffered cl TEARDOWN_CONCURRENCY (delete_one_function aws) all_managed_function_names)"
    using picks_buffered [of removal "Pair ''lambda.DeleteFunction''" "delete_one_function aws"]
      picks_delete_one by blast+
  have "sum_list ?As = mset [(''iam.DetachRolePolicy'', ROLE_NAME), (''dynamodb.DeleteTable'', TABLE_NAME),
       (''s3.ListObjectsV2'', bucket_name aws), (''kms.ListAliases'', []), (''kms.ListKeys'', []),
       (''ecr.DeleteRepository'', ECR_REPO)]" by (simp add: ac_simps)
  then have steps': "picks removal (mset [(''iam.DetachRolePolicy'', ROLE_NAME), (''dynamodb.DeleteTable'', TABLE_NAME),
       (''s3.ListObjectsV2'', bucket_name aws), (''kms.ListAliases'', []), (''kms.ListKeys'', []),
       (''ecr.DeleteRepository'', ECR_REPO)]) (run_steps (teardown_steps aws cl))"
    using steps by (simp only:)
  show ?thesis
    unfolding teardown_def all_removals_def
    by (intro picks_bind [OF fns] picks_bind [OF picks_attempt [OF picks_delete_log_groups] always_ok_basic(2)]
        picks_bind_last [OF steps']) (simp add: picks_basic Let_def)
qed

text \<open>
  C11. \<open>bencher teardown\<close> attempts everything, whatever AWS answers: each managed function and each
  managed log group is deleted once by its exact name, each of the six shared resources is begun
  once, nothing else of these kinds is touched, and the command ends in success or in the list of
  what failed.
\<close>

theorem teardown_attempts_all:
  "picked removal (snd (teardown aws cl s)) = picked removal s + all_removals aws \<and>
   (fst (teardown aws cl s) = Inr () \<or>
     (\<exists>failures. failures \<noteq> [] \<and> fst (teardown aws cl s) = Inl (Incomplete failures)))"
proof
  show "picked removal (snd (teardown aws cl s)) = picked removal s + all_removals aws"
    using picks_teardown unfolding picks_def by blast
  have ok: "always_ok (buffered cl TEARDOWN_CONCURRENCY (delete_one_function aws) all_managed_function_names)"
    using picks_buffered [of removal "Pair ''lambda.DeleteFunction''" "delete_one_function aws"]
      picks_delete_one by blast
  have steps: "always_ok (run_steps ms)" for ms :: "(string \<times> ('x, unit) eff) list"
    by (induction ms rule: run_steps.induct) (auto intro!: always_ok_bind always_ok_basic)
  have "always_ok (attempt (teardown aws cl))" by (rule always_ok_basic)
  from ok steps [of "teardown_steps aws cl"] show "fst (teardown aws cl s) = Inr () \<or>
     (\<exists>failures. failures \<noteq> [] \<and> fst (teardown aws cl s) = Inl (Incomplete failures))"
    unfolding always_ok_def teardown_def
    by (auto simp: bindE_def attempt_def ret_def fail_def Let_def split: prod.splits sum.splits)
       (metis Pair_inject sum.distinct(1))+
qed

end
