(* ===== verification/Host.thy ===== *)
theory Host
  imports Cloud Writer
begin

text \<open>
  What the driver uses of the machine it runs on: files and directories, the zip and tar
  libraries, child processes, the process id and the temporary directory, as a third record of functions over
  the outside world. Paths are joined with a slash.
\<close>

record command =
  cmd_program :: string
  cmd_args :: "string list"
  cmd_dir :: "string option"
  cmd_env :: "(string \<times> string) list"

record 'x host =
  fs_read :: "string \<Rightarrow> 'x \<Rightarrow> (string + string) \<times> 'x"
  fs_write :: "string \<Rightarrow> string \<Rightarrow> 'x \<Rightarrow> (string + unit) \<times> 'x"
  fs_create :: "string \<Rightarrow> 'x \<Rightarrow> (string + unit) \<times> 'x"
  fs_append :: "string \<Rightarrow> string \<Rightarrow> 'x \<Rightarrow> (string + unit) \<times> 'x"
  fs_flush :: "string \<Rightarrow> 'x \<Rightarrow> (string + unit) \<times> 'x"
  fs_mkdir :: "string \<Rightarrow> 'x \<Rightarrow> (string + unit) \<times> 'x"
  fs_rmdir :: "string \<Rightarrow> 'x \<Rightarrow> (string + unit) \<times> 'x"
  fs_exists :: "string \<Rightarrow> 'x \<Rightarrow> bool \<times> 'x"
  fs_is_file :: "string \<Rightarrow> 'x \<Rightarrow> bool \<times> 'x"
  fs_is_dir :: "string \<Rightarrow> 'x \<Rightarrow> bool \<times> 'x"
  fs_size :: "string \<Rightarrow> 'x \<Rightarrow> (string + nat) \<times> 'x"
  fs_copy :: "string \<Rightarrow> string \<Rightarrow> 'x \<Rightarrow> (string + unit) \<times> 'x"
  fs_read_dir :: "string \<Rightarrow> 'x \<Rightarrow> (string + (string + string) list) \<times> 'x"
  spawn :: "command \<Rightarrow> 'x \<Rightarrow> (string + bool \<times> string) \<times> 'x"
  tar_append :: "string \<Rightarrow> string \<Rightarrow> string \<Rightarrow> 'x \<Rightarrow> (string + unit) \<times> 'x"
  tar_finish :: "string \<Rightarrow> 'x \<Rightarrow> (string + unit) \<times> 'x"
  zip_stored :: "(string \<times> nat \<times> string) list \<Rightarrow> string option"
  zip_entry :: "string \<Rightarrow> string \<Rightarrow> string option"
  zip_sizes :: "string \<Rightarrow> nat option list option"
  zip_deflated :: "(string \<times> nat \<times> string) list \<Rightarrow> string option"
  walk_fuel :: nat
  temp_dir :: string
  process_id :: nat

definition path_join :: "string \<Rightarrow> string \<Rightarrow> string" where
  "path_join dir name = dir @ ''/'' @ name"

definition path_absolute :: "string \<Rightarrow> bool" where
  "path_absolute p \<longleftrightarrow> prefix ''/'' p"

text \<open>\<open>Path::parent\<close> of a path with a slash that does not end in one.\<close>

definition path_parent :: "string \<Rightarrow> string option" where
  "path_parent p =
     (case dropWhile (\<lambda>c. c \<noteq> CHR ''/'') (rev p) of
        [] \<Rightarrow> if p = [] then None else Some []
      | _ # r \<Rightarrow> Some (rev r))"

text \<open>A call of the file system; the message of a failure is kept.\<close>

definition io :: "string \<Rightarrow> string \<Rightarrow> ('x \<Rightarrow> (string + 'a) \<times> 'x) \<Rightarrow> ('x, 'a) eff" where
  "io op path f = bindE (call (EvService op path) f) io_ok"

text \<open>\<open>write_json\<close> of \<open>bencher/src/probe.rs\<close>: the serializer is a parameter.\<close>

definition write_json ::
    "'x host \<Rightarrow> string \<Rightarrow> string \<Rightarrow> ('v \<Rightarrow> string option) \<Rightarrow> 'v \<Rightarrow> ('x, unit) eff" where
  "write_json h repo_root out to_json v =
     (let out_path = (if path_absolute out then out else path_join repo_root out)
      in bindE (of_result (ok_or (SerializeError ''probe output'') (to_json v))) (\<lambda>json.
         thenE (case path_parent out_path of
             None \<Rightarrow> ret ()
           | Some parent \<Rightarrow>
               bindE (attempt (io ''fs.mkdir'' parent (fs_mkdir h parent))) (\<lambda>_. ret ()))
           (io ''fs.write'' out_path (fs_write h out_path json))))"

end
