(* ===== verification/Build.thy ===== *)
theory Build
  imports Host Btree Lambda_Api
begin

text \<open>
  \<open>bencher/src/build.rs\<close>: how an artifact key becomes a zip under \<open>dist/\<close>. Each language's
  build is the sequence of file operations and child processes of the code, with the command
  lines, working directories and environments it passes; what those programs do is the host's
  business; the text a process answers with is its standard output, decoded. Sizes are mathematical
  naturals (no directory here reaches \<open>2^64\<close> bytes).
\<close>

record artifact =
  art_key :: artifact_key
  art_zip_path :: string
  art_zip_size :: nat
  art_unzipped :: nat

section \<open>Processes and files\<close>

definition run :: "'x host \<Rightarrow> command \<Rightarrow> string \<Rightarrow> ('x, unit) eff" where
  "run h cmd what =
     bindE (call (EvService ''spawn'' what) (spawn h cmd)) (\<lambda>r.
       case r of
         Inl e \<Rightarrow> fail (IoError e)
       | Inr (success, _) \<Rightarrow> if \<not> success then fail (Message what) else ret ())"

text \<open>\<open>capture\<close> ignores the exit status.\<close>

definition capture :: "'x host \<Rightarrow> command \<Rightarrow> ('x, string) eff" where
  "capture h cmd =
     bindE (call (EvService ''output'' (cmd_program cmd)) (spawn h cmd)) (\<lambda>r.
       case r of Inl e \<Rightarrow> fail (IoError e) | Inr (_, out) \<Rightarrow> ret (trim out))"

definition tool_version :: "'x host \<Rightarrow> command \<Rightarrow> ('x, string) eff" where
  "tool_version h cmd =
     bindE (attempt (capture h cmd)) (\<lambda>r.
       ret (case r of
              Inr v \<Rightarrow> if v \<noteq> [] then v else ''<unavailable>''
            | Inl _ \<Rightarrow> ''<unavailable>''))"

definition cmd_in :: "string \<Rightarrow> string \<Rightarrow> string list \<Rightarrow> command" where
  "cmd_in dir program args =
     \<lparr>cmd_program = program, cmd_args = args, cmd_dir = Some dir, cmd_env = []\<rparr>"

definition run_gradle :: "'x host \<Rightarrow> string \<Rightarrow> string list \<Rightarrow> string \<Rightarrow> ('x, unit) eff" where
  "run_gradle h project_dir tasks what =
     run h \<lparr>cmd_program = ''./gradlew'', cmd_args = ''--console=plain'' # tasks,
            cmd_dir = Some project_dir, cmd_env = []\<rparr> what"

definition gradle_codegen :: "'x host \<Rightarrow> string \<Rightarrow> string \<Rightarrow> ('x, unit) eff" where
  "gradle_codegen h project_dir task =
     run_gradle h project_dir [task] (''gradle '' @ task @ '' in '' @ project_dir)"

definition io_try :: "string \<Rightarrow> string \<Rightarrow> ('x \<Rightarrow> (string + 'a) \<times> 'x) \<Rightarrow> ('x, unit) eff" where
  "io_try op path f = bindE (attempt (io op path f)) (\<lambda>_. ret ())"

definition require_file :: "'x host \<Rightarrow> string \<Rightarrow> ('x, unit) eff" where
  "require_file h path =
     bindE (peek (fs_is_file h path)) (\<lambda>there. if \<not> there then fail (Message path) else ret ())"

definition file_len :: "'x host \<Rightarrow> string \<Rightarrow> ('x, nat) eff" where
  "file_len h path = io ''fs.metadata'' path (fs_size h path)"

text \<open>The entries of one directory: subdirectories go on the stack, files on the output.\<close>

fun walk_entries ::
    "'x host \<Rightarrow> (string + string) list \<Rightarrow> string list \<Rightarrow> string list \<Rightarrow>
     ('x, string list \<times> string list) eff" where
  "walk_entries h [] stack out = ret (stack, out)"
| "walk_entries h (Inl e # es) stack out = fail (IoError e)"
| "walk_entries h (Inr path # es) stack out =
     bindE (peek (fs_is_dir h path)) (\<lambda>d.
       if d then walk_entries h es (stack @ [path]) out
       else walk_entries h es stack (out @ [path]))"

text \<open>The stack is popped at its end. A cyclic tree would never end, so the loop has fuel.\<close>

fun walk_loop :: "'x host \<Rightarrow> nat \<Rightarrow> string list \<Rightarrow> string list \<Rightarrow> ('x, string list) eff" where
  "walk_loop h 0 stack out = (if stack = [] then ret out else fail (Message ''walk: out of fuel''))"
| "walk_loop h (Suc fuel) stack out =
     (if stack = [] then ret out
      else bindE (io ''fs.read_dir'' (last stack) (fs_read_dir h (last stack))) (\<lambda>entries.
           bindE (walk_entries h entries (butlast stack) out) (\<lambda>(stack', out').
             walk_loop h fuel stack' out')))"

definition walk :: "'x host \<Rightarrow> string \<Rightarrow> ('x, string list) eff" where
  "walk h dir = walk_loop h (walk_fuel h) [dir] []"

text \<open>\<open>iter().filter_map(|p| metadata(p).ok()).map(|m| m.len()).sum()\<close>.\<close>

fun sum_sizes :: "'x host \<Rightarrow> string list \<Rightarrow> ('x, nat) eff" where
  "sum_sizes h [] = ret 0"
| "sum_sizes h (p # ps) =
     bindE (attempt (file_len h p)) (\<lambda>r.
     bindE (sum_sizes h ps) (\<lambda>total.
       ret ((case r of Inr n \<Rightarrow> n | Inl _ \<Rightarrow> 0) + total)))"

definition dir_size :: "'x host \<Rightarrow> string \<Rightarrow> ('x, nat) eff" where
  "dir_size h dir = bindE (walk h dir) (sum_sizes h)"

definition unzipped_size_from_zip :: "'x host \<Rightarrow> string \<Rightarrow> ('x, nat) eff" where
  "unzipped_size_from_zip h zip_path =
     bindE (io ''fs.read'' zip_path (fs_read h zip_path)) (\<lambda>bytes.
     bindE (of_result (ok_or (Message (''reading zip '' @ zip_path)) (zip_sizes h bytes))) (\<lambda>entries.
     bindE (of_result (collect_results (ok_or (Message (''entry of '' @ zip_path))) entries)) (\<lambda>sizes.
       ret (sum_list sizes))))"

definition zip_single :: "'x host \<Rightarrow> string \<Rightarrow> string \<Rightarrow> string \<Rightarrow> nat \<Rightarrow> ('x, unit) eff" where
  "zip_single h src arcname zip_path mode =
     thenE (io ''fs.create'' zip_path (fs_create h zip_path))
     (bindE (io ''fs.read'' src (fs_read h src)) (\<lambda>buf.
      bindE (of_result (ok_or (Message ''zip'') (zip_deflated h [(arcname, mode, buf)]))) (\<lambda>bytes.
        io ''fs.append'' zip_path (fs_append h zip_path bytes))))"

definition strip_prefix :: "string \<Rightarrow> string \<Rightarrow> string option" where
  "strip_prefix dir path =
     (if prefix (dir @ ''/'') path then Some (drop (length dir + 1) path) else None)"

fun zip_entries ::
    "'x host \<Rightarrow> string \<Rightarrow> string list \<Rightarrow> ('x, (string \<times> nat \<times> string) list) eff" where
  "zip_entries h dir [] = ret []"
| "zip_entries h dir (p # ps) =
     bindE (of_result (ok_or (Message ''strip_prefix'') (strip_prefix dir p))) (\<lambda>rel.
     bindE (io ''fs.read'' p (fs_read h p)) (\<lambda>buf.
     bindE (zip_entries h dir ps) (\<lambda>es. ret ((rel, 420, buf) # es))))"

definition zip_dir :: "'x host \<Rightarrow> string \<Rightarrow> string \<Rightarrow> ('x, unit) eff" where
  "zip_dir h dir zip_path =
     thenE (io ''fs.create'' zip_path (fs_create h zip_path))
     (bindE (walk h dir) (\<lambda>files.
      bindE (zip_entries h dir files) (\<lambda>entries.
      bindE (of_result (ok_or (Message ''zip'') (zip_deflated h entries))) (\<lambda>bytes.
        io ''fs.append'' zip_path (fs_append h zip_path bytes)))))"

text \<open>\<open>Path::extension\<close>.\<close>

definition path_extension :: "string \<Rightarrow> string option" where
  "path_extension p =
     (let name = last (split_on (CHR ''/'') p); parts = split_on (CHR ''.'') name
      in if length parts < 2 \<or> (length parts = 2 \<and> hd parts = []) then None
         else Some (last parts))"

definition single_zip_in :: "'x host \<Rightarrow> string \<Rightarrow> ('x, string) eff" where
  "single_zip_in h dir =
     bindE (io ''fs.read_dir'' dir (fs_read_dir h dir)) (\<lambda>entries.
       case filter (\<lambda>p. path_extension p = Some ''zip'')
              (List.map_filter (\<lambda>e. case e of Inl _ \<Rightarrow> None | Inr p \<Rightarrow> Some p) entries) of
         [] \<Rightarrow> fail (Message (''no .zip found in '' @ dir))
       | [p] \<Rightarrow> ret p
       | _ \<Rightarrow> fail (Message (''expected exactly one .zip in '' @ dir)))"

section \<open>The manifest\<close>

definition artifacts_manifest :: "(string \<times> artifact) list \<Rightarrow> json" where
  "artifacts_manifest artifacts =
     JArr (map (\<lambda>(label, a). JObj
       [(''label'', JStr label), (''zip'', JStr (art_zip_path a)),
        (''zip_size_bytes'', JInt (int (art_zip_size a))),
        (''unzipped_size_bytes'', JInt (int (art_unzipped a)))]) artifacts)"

definition tool_commands :: "string \<Rightarrow> (string \<times> command) list" where
  "tool_commands repo_root =
     map (\<lambda>(name, program, args, dir). (name,
         \<lparr>cmd_program = program, cmd_args = args, cmd_dir = dir, cmd_env = []\<rparr>))
       [(''rustc'', ''rustc'', [''--version''], None),
        (''cargo_lambda'', ''cargo'', [''lambda'', ''--version''], None),
        (''node'', ''node'', [''--version''], None),
        (''python'', ''python3'', [''--version''], None),
        (''pip'', ''python3'', [''-m'', ''pip'', ''--version''], None),
        (''go'', ''go'', [''version''], Some (path_join repo_root ''scenarios/go'')),
        (''java'', ''java'', [''--version''], None)]"

fun tool_versions ::
    "'x host \<Rightarrow> (string \<times> command) list \<Rightarrow> ('x, (string \<times> json) list) eff" where
  "tool_versions h [] = ret []"
| "tool_versions h ((name, cmd) # cs) =
     bindE (tool_version h cmd) (\<lambda>v.
     bindE (tool_versions h cs) (\<lambda>vs. ret ((name, JStr v) # vs)))"

section \<open>Reuse\<close>

definition zip_path_of :: "string \<Rightarrow> artifact_key \<Rightarrow> string" where
  "zip_path_of dist_dir key = path_join dist_dir (label_of key @ ''.zip'')"

fun load_loop ::
    "'x host \<Rightarrow> string \<Rightarrow> artifact_key list \<Rightarrow> (string \<times> artifact) list \<Rightarrow>
     ('x, (string \<times> artifact) list) eff" where
  "load_loop h dist_dir [] m = ret m"
| "load_loop h dist_dir (key # keys) m =
     (let p = zip_path_of dist_dir key
      in bindE (file_len h p) (\<lambda>n.
         bindE (unzipped_size_from_zip h p) (\<lambda>u.
           load_loop h dist_dir keys
             (bt_insert (label_of key)
               \<lparr>art_key = key, art_zip_path = p, art_zip_size = n, art_unzipped = u\<rparr> m))))"

definition load_artifacts_from_dist ::
    "'x host \<Rightarrow> string \<Rightarrow> artifact_key list \<Rightarrow> ('x, (string \<times> artifact) list \<times> json) eff" where
  "load_artifacts_from_dist h repo_root keys =
     bindE (load_loop h (path_join repo_root ''dist'') keys []) (\<lambda>m.
       ret (m, JObj
         [(''tools'', JObj [(''note'', JStr
             ''skip-build: reused existing dist/ artifacts, tool versions not captured'')]),
          (''artifacts'', artifacts_manifest m)]))"

section \<open>Rust\<close>

fun arch_flag :: "arch \<Rightarrow> string" where
  "arch_flag Arm64 = ''--arm64''"
| "arch_flag X86_64 = ''--x86-64''"

text \<open>The working directory and, for a workspace member, the package.\<close>

definition rust_workdir :: "string \<Rightarrow> scenario \<Rightarrow> string \<times> string option" where
  "rust_workdir repo_root s =
     (case s of
        Smithy \<Rightarrow> (path_join repo_root ''scenarios/rust/smithy/server'', None)
      | SmithyFull \<Rightarrow> (path_join repo_root ''scenarios/rust/smithyfull'', None)
      | _ \<Rightarrow> (repo_root, Some (''lambdabench-rust-'' @ scenario_as_str s)))"

definition dir_tag :: "jitter \<Rightarrow> opt \<Rightarrow> string" where
  "dir_tag j o' =
     (case j of Off \<Rightarrow> opt_as_str o' | On \<Rightarrow> opt_as_str o' @ ''-jitter'')"

definition target_dir :: "string \<Rightarrow> scenario \<Rightarrow> string \<Rightarrow> string" where
  "target_dir repo_root s tag =
     path_join repo_root
       (case s of
          Smithy \<Rightarrow> ''scenarios/rust/smithy/server/target-'' @ tag
        | SmithyFull \<Rightarrow> ''scenarios/rust/smithyfull/target-'' @ tag
        | _ \<Rightarrow> ''target-'' @ tag)"

definition lambda_dir :: "string \<Rightarrow> artifact_key \<Rightarrow> opt \<Rightarrow> jitter \<Rightarrow> string" where
  "lambda_dir repo_root key o' j =
     path_join (target_dir repo_root (key_scenario key) (dir_tag j o'))
       (''out-'' @ label_of key)"

definition rust_command :: "string \<Rightarrow> artifact_key \<Rightarrow> opt \<Rightarrow> jitter \<Rightarrow> command" where
  "rust_command repo_root key o' j =
     (case rust_workdir repo_root (key_scenario key) of
        (workdir, package) \<Rightarrow>
          \<lparr>cmd_program = ''cargo'',
           cmd_args =
             [''lambda'', ''build'', ''--profile'', ''lambda'', arch_flag (key_arch key),
              ''--lambda-dir'', lambda_dir repo_root key o' j, ''--flatten'', ''bootstrap''] @
             (case package of Some pkg \<Rightarrow> [''-p'', pkg] | None \<Rightarrow> []),
           cmd_dir = Some workdir,
           cmd_env =
             (if j = Off then [(''AWS_LC_SYS_NO_JITTER_ENTROPY'', ''1'')] else []) @
             [(''CARGO_PROFILE_LAMBDA_OPT_LEVEL'', cargo_opt_level o'),
              (''CARGO_TARGET_DIR'',
                target_dir repo_root (key_scenario key) (dir_tag j o'))]\<rparr>)"

text \<open>Measure a bootstrap, zip it under the artifact's label, measure the zip.\<close>

definition finish_bootstrap ::
    "'x host \<Rightarrow> string \<Rightarrow> artifact_key \<Rightarrow> string \<Rightarrow> ('x, artifact) eff" where
  "finish_bootstrap h dist_dir key bootstrap =
     thenE (require_file h bootstrap)
     (bindE (file_len h bootstrap) (\<lambda>unzipped.
      thenE (zip_single h bootstrap ''bootstrap'' (zip_path_of dist_dir key) 493)
      (bindE (file_len h (zip_path_of dist_dir key)) (\<lambda>n.
        ret \<lparr>art_key = key, art_zip_path = zip_path_of dist_dir key, art_zip_size = n,
             art_unzipped = unzipped\<rparr>))))"

definition build_rust ::
    "'x host \<Rightarrow> string \<Rightarrow> string \<Rightarrow> artifact_key \<Rightarrow> ('x, artifact) eff" where
  "build_rust h repo_root dist_dir key =
     thenE (if key_scenario key = Smithy \<or> key_scenario key = SmithyFull
            then gradle_codegen h (path_join repo_root ''scenarios/rust/smithy'') '':server:build''
            else ret ())
     (let o' = (case key_opt key of Some x \<Rightarrow> x | None \<Rightarrow> O3)
      in bindE (of_result (ok_or (Panicked ''rust artifact key must carry a Jitter dimension'')
           (key_jitter key))) (\<lambda>j.
         let out = lambda_dir repo_root key o' j
         in thenE (io_try ''fs.remove_dir_all'' out (fs_rmdir h out))
           (thenE (run h (rust_command repo_root key o' j) (''cargo-lambda build '' @ label_of key))
             (finish_bootstrap h dist_dir key (path_join out ''bootstrap'')))))"

section \<open>Node\<close>

definition copy_ssdk :: "'x host \<Rightarrow> string \<Rightarrow> string \<Rightarrow> ('x, unit) eff" where
  "copy_ssdk h src dst =
     bindE (peek (fs_exists h (path_join src ''package.json''))) (\<lambda>there.
       if \<not> there then fail (Message (''generated SSDK not found at '' @ src))
       else
         thenE (io_try ''fs.remove_dir_all'' dst (fs_rmdir h dst))
         (thenE (io ''fs.mkdir'' dst (fs_mkdir h dst))
           (run h \<lparr>cmd_program = ''rsync'',
              cmd_args = [''-a'', ''--delete'', ''--exclude'', ''node_modules'', ''--exclude'',
                ''dist-*'', src @ ''/'', dst @ ''/''],
              cmd_dir = None, cmd_env = []\<rparr> ''rsync of SSDK'')))"

definition node_codegen_and_bundle :: "'x host \<Rightarrow> string \<Rightarrow> ('x, unit) eff" where
  "node_codegen_and_bundle h repo_root =
     (let node_root = path_join repo_root ''scenarios/node'';
          gradle_proj = path_join node_root ''smithy'';
          generated = path_join gradle_proj
            ''smithy/build/smithyprojections/smithy/source/typescript-ssdk-codegen'';
          ssdk = path_join node_root ''.ssdk'';
          modules = path_join node_root ''node_modules''
      in thenE (gradle_codegen h gradle_proj '':smithy:build'')
        (thenE (copy_ssdk h generated ssdk)
        (thenE (run h (cmd_in ssdk ''yarn'' [''install'']) ''ssdk yarn install'')
        (thenE (for_each (\<lambda>target. run h (cmd_in ssdk ''yarn'' [''run'', target]) (''ssdk '' @ target))
            [''build:cjs'', ''build:es'', ''build:types''])
        (thenE (io_try ''fs.remove_dir_all'' modules (fs_rmdir h modules))
        (thenE (run h (cmd_in node_root ''npm'' [''ci'']) ''node npm ci'')
          (run h (cmd_in node_root ''node'' [''build.mjs'']) ''node esbuild'')))))))"

definition zip_node ::
    "'x host \<Rightarrow> string \<Rightarrow> string \<Rightarrow> artifact_key \<Rightarrow> ('x, artifact) eff" where
  "zip_node h repo_root dist_dir key =
     (let bundle_dir = path_join (path_join repo_root ''scenarios/node/dist'')
            (scenario_as_str (key_scenario key))
      in bindE (peek (fs_exists h (path_join bundle_dir ''index.mjs''))) (\<lambda>there.
         if \<not> there then fail (Message (''missing node bundle at '' @ bundle_dir))
         else
           bindE (dir_size h bundle_dir) (\<lambda>unzipped.
           thenE (zip_dir h bundle_dir (zip_path_of dist_dir key))
           (bindE (file_len h (zip_path_of dist_dir key)) (\<lambda>n.
             ret \<lparr>art_key = key, art_zip_path = zip_path_of dist_dir key, art_zip_size = n,
                  art_unzipped = unzipped\<rparr>)))))"

section \<open>Java\<close>

fun java_loop ::
    "'x host \<Rightarrow> string \<Rightarrow> string \<Rightarrow> artifact_key list \<Rightarrow> (string \<times> artifact) list \<Rightarrow>
     ('x, (string \<times> artifact) list) eff" where
  "java_loop h java_root dist_dir [] m = ret m"
| "java_loop h java_root dist_dir (key # keys) m =
     bindE (single_zip_in h (path_join (path_join java_root (scenario_as_str (key_scenario key)))
         ''build/distributions'')) (\<lambda>built_zip.
     let p = zip_path_of dist_dir key
     in thenE (io ''fs.copy'' p (fs_copy h built_zip p))
       (bindE (file_len h p) (\<lambda>n.
        bindE (unzipped_size_from_zip h p) (\<lambda>u.
          java_loop h java_root dist_dir keys
            (bt_insert (label_of key)
              \<lparr>art_key = key, art_zip_path = p, art_zip_size = n, art_unzipped = u\<rparr> m)))))"

definition build_java ::
    "'x host \<Rightarrow> string \<Rightarrow> string \<Rightarrow> artifact_key list \<Rightarrow> ('x, (string \<times> artifact) list) eff" where
  "build_java h repo_root dist_dir keys =
     (let java_root = path_join repo_root ''scenarios/java''
      in thenE (run_gradle h java_root
             (map (\<lambda>key. '':'' @ scenario_as_str (key_scenario key) @ '':buildZip'') keys)
             ''gradle java buildZip'')
           (java_loop h java_root dist_dir keys []))"

section \<open>Python\<close>

definition pip_install_target :: "'x host \<Rightarrow> string \<Rightarrow> string \<Rightarrow> arch \<Rightarrow> ('x, unit) eff" where
  "pip_install_target h requirements target a =
     (let manylinux_arch = (case a of Arm64 \<Rightarrow> ''aarch64'' | X86_64 \<Rightarrow> ''x86_64'')
      in run h
        \<lparr>cmd_program = ''python3'',
         cmd_args =
           [''-m'', ''pip'', ''install'', ''--target'', target, ''--python-version'', ''3.14'',
            ''--implementation'', ''cp'', ''--only-binary=:all:'',
            ''--platform'', ''manylinux2014_'' @ manylinux_arch,
            ''--platform'', ''manylinux_2_28_'' @ manylinux_arch, ''-r'', requirements],
         cmd_dir = None, cmd_env = []\<rparr>
        (''pip install python deps ('' @ manylinux_arch @ '') from '' @ requirements))"

definition copy_file :: "'x host \<Rightarrow> string \<Rightarrow> string \<Rightarrow> ('x, unit) eff" where
  "copy_file h src dst = io ''fs.copy'' dst (fs_copy h src dst)"

text \<open>The public verification key that the \<open>authz\<close> artifacts embed.\<close>

definition stage_jwk :: "'x host \<Rightarrow> string \<Rightarrow> artifact_key \<Rightarrow> string \<Rightarrow> ('x, unit) eff" where
  "stage_jwk h repo_root key dst =
     (if key_scenario key = Authz then
        let jwk = path_join repo_root ''bencher/fixtures/authz_public_jwk.json''
        in thenE (require_file h jwk)
             (copy_file h jwk (path_join dst ''authz_public_jwk.json''))
      else ret ())"

definition build_python ::
    "'x host \<Rightarrow> string \<Rightarrow> string \<Rightarrow> artifact_key \<Rightarrow> ('x, artifact) eff" where
  "build_python h repo_root dist_dir key =
     (let src_dir = path_join (path_join repo_root ''scenarios/python'')
            (scenario_as_str (key_scenario key));
          source = path_join src_dir ''handler.py'';
          staging = path_join (path_join repo_root ''scenarios/python/.build'') (label_of key);
          requirements = path_join src_dir ''requirements.txt''
      in thenE (require_file h source)
        (thenE (io_try ''fs.remove_dir_all'' staging (fs_rmdir h staging))
        (thenE (io ''fs.mkdir'' staging (fs_mkdir h staging))
        (thenE (copy_file h source (path_join staging ''handler.py''))
        (thenE (copy_file h (path_join repo_root ''scenarios/python/lambdabench_cpuinfo.py'')
            (path_join staging ''lambdabench_cpuinfo.py''))
        (thenE (stage_jwk h repo_root key staging)
        (bindE (peek (fs_is_file h requirements)) (\<lambda>declared.
         thenE (if declared then pip_install_target h requirements staging (key_arch key)
                else ret ())
        (bindE (dir_size h staging) (\<lambda>unzipped.
         thenE (zip_dir h staging (zip_path_of dist_dir key))
        (bindE (file_len h (zip_path_of dist_dir key)) (\<lambda>n.
           ret \<lparr>art_key = key, art_zip_path = zip_path_of dist_dir key, art_zip_size = n,
                art_unzipped = unzipped\<rparr>))))))))))))"

section \<open>Go\<close>

definition go_command :: "string \<Rightarrow> artifact_key \<Rightarrow> string \<Rightarrow> command" where
  "go_command go_root key bootstrap =
     \<lparr>cmd_program = ''go'',
      cmd_args =
        [''build'', ''-tags'', ''lambda.norpc'', ''-trimpath'', ''-ldflags=-s -w'', ''-o'',
         bootstrap, ''./'' @ scenario_as_str (key_scenario key)],
      cmd_dir = Some go_root,
      cmd_env =
        [(''GOOS'', ''linux''),
         (''GOARCH'', case key_arch key of Arm64 \<Rightarrow> ''arm64'' | X86_64 \<Rightarrow> ''amd64''),
         (''CGO_ENABLED'', ''0'')]\<rparr>"

definition build_go ::
    "'x host \<Rightarrow> string \<Rightarrow> string \<Rightarrow> artifact_key \<Rightarrow> ('x, artifact) eff" where
  "build_go h repo_root dist_dir key =
     (let go_root = path_join repo_root ''scenarios/go'';
          src_dir = path_join go_root (scenario_as_str (key_scenario key));
          out_dir = path_join dist_dir (''go-build-'' @ label_of key);
          bootstrap = path_join out_dir ''bootstrap''
      in thenE (require_file h (path_join src_dir ''main.go''))
        (thenE (stage_jwk h repo_root key src_dir)
        (thenE (io_try ''fs.remove_dir_all'' out_dir (fs_rmdir h out_dir))
        (thenE (io ''fs.mkdir'' out_dir (fs_mkdir h out_dir))
        (thenE (run h (go_command go_root key bootstrap) (''go build '' @ label_of key))
          (finish_bootstrap h dist_dir key bootstrap))))))"

section \<open>All artifacts\<close>

fun build_loop ::
    "(artifact_key \<Rightarrow> ('x, artifact) eff) \<Rightarrow> artifact_key list \<Rightarrow> (string \<times> artifact) list \<Rightarrow>
     ('x, (string \<times> artifact) list) eff" where
  "build_loop build [] m = ret m"
| "build_loop build (key # keys) m =
     bindE (build key) (\<lambda>art. build_loop build keys (bt_insert (label_of key) art m))"

definition keys_of :: "lang \<Rightarrow> artifact_key list \<Rightarrow> artifact_key list" where
  "keys_of l keys = filter (\<lambda>k. key_lang k = l) keys"

definition build_all ::
    "'x host \<Rightarrow> string \<Rightarrow> artifact_key list \<Rightarrow> ('x, (string \<times> artifact) list \<times> json) eff" where
  "build_all h repo_root keys =
     (let dist_dir = path_join repo_root ''dist''
      in thenE (io ''fs.mkdir'' dist_dir (fs_mkdir h dist_dir))
        (bindE (build_loop (build_rust h repo_root dist_dir) (keys_of Rust keys) []) (\<lambda>m1.
         bindE (if keys_of Node keys = [] then ret m1
           else thenE (node_codegen_and_bundle h repo_root)
             (build_loop (zip_node h repo_root dist_dir) (keys_of Node keys) m1)) (\<lambda>m2.
         bindE (if keys_of Java keys = [] then ret m2
           else bindE (build_java h repo_root dist_dir (keys_of Java keys)) (\<lambda>arts.
             ret (bt_fill fst snd arts m2))) (\<lambda>m3.
         bindE (build_loop (build_python h repo_root dist_dir) (keys_of Python keys) m3) (\<lambda>m4.
         bindE (build_loop (build_go h repo_root dist_dir) (keys_of Go keys) m4) (\<lambda>m5.
         bindE (tool_versions h (tool_commands repo_root)) (\<lambda>tools.
           ret (m5, JObj [(''tools'', JObj tools), (''artifacts'', artifacts_manifest m5)])))))))))"

section \<open>The artifact map\<close>

text \<open>
  The type invariant of an artifact map for a set of keys: a well-formed map with exactly the
  labels of the keys, each entry the artifact of its own label and zipped under it.
\<close>

definition artifact_map_for ::
    "string \<Rightarrow> artifact_key set \<Rightarrow> (string \<times> artifact) list \<Rightarrow> bool" where
  "artifact_map_for dist_dir ks m \<longleftrightarrow>
     bt_ok m \<and> bt_keys m = label_of ` ks \<and>
     (\<forall>(l, a) \<in> set m. art_key a \<in> ks \<and> l = label_of (art_key a) \<and>
        art_zip_path a = zip_path_of dist_dir (art_key a))"

definition artifact_for :: "string \<Rightarrow> artifact_key \<Rightarrow> artifact \<Rightarrow> bool" where
  "artifact_for dist_dir key a \<longleftrightarrow> art_key a = key \<and> art_zip_path a = zip_path_of dist_dir key"

lemma artifact_map_Nil: "artifact_map_for d {} []"
  by (simp add: artifact_map_for_def)

lemma artifact_map_insert:
  assumes "artifact_map_for d ks m" "artifact_for d k a"
  shows "artifact_map_for d (insert k ks) (bt_insert (label_of k) a m)"
  using assms set_bt_insert [of "label_of k" a m]
  unfolding artifact_map_for_def artifact_for_def by (fastforce simp: subset_iff)

lemma artifact_map_fill:
  assumes "artifact_map_for d ks m" "artifact_map_for d ks' arts"
  shows "artifact_map_for d (ks \<union> ks') (bt_fill fst snd arts m)"
  unfolding artifact_map_for_def
proof (intro conjI ballI)
  show "bt_ok (bt_fill fst snd arts m)" using assms(1) by (simp add: artifact_map_for_def)
  show "bt_keys (bt_fill fst snd arts m) = label_of ` (ks \<union> ks')"
  proof -
    have "fst ` set arts = label_of ` ks'" using assms(2) by (simp add: artifact_map_for_def bt_keys_def)
    with assms(1) show ?thesis by (simp add: artifact_map_for_def image_Un Un_commute)
  qed
  fix e assume "e \<in> set (bt_fill fst snd arts m)"
  then have "e \<in> set arts \<or> e \<in> set m" using set_bt_fill [of fst snd arts m] by auto
  then show "case e of (l, a) \<Rightarrow> art_key a \<in> ks \<union> ks' \<and> l = label_of (art_key a) \<and>
      art_zip_path a = zip_path_of d (art_key a)"
    using assms by (auto simp: artifact_map_for_def)
qed

lemma returns_load_loop:
  "artifact_map_for d ks m \<Longrightarrow> returns (load_loop h d keys m) (artifact_map_for d (ks \<union> set keys))"
proof (induction keys arbitrary: ks m)
  case Nil
  then show ?case by (simp add: returns_ret)
next
  case (Cons key keys)
  have "returns (load_loop h d keys (bt_insert (label_of key)
      \<lparr>art_key = key, art_zip_path = zip_path_of d key, art_zip_size = n, art_unzipped = u\<rparr> m))
    (artifact_map_for d (ks \<union> set (key # keys)))" for n u
    using Cons.IH [OF artifact_map_insert [OF Cons.prems, of key "\<lparr>art_key = key,
      art_zip_path = zip_path_of d key, art_zip_size = n, art_unzipped = u\<rparr>"]]
    by (simp add: artifact_for_def)
  then show ?case by (auto intro!: returns_bind_any simp: Let_def)
qed

lemma returns_build_loop:
  assumes "\<And>key. returns (build key) (artifact_for d key)"
  shows "artifact_map_for d ks m \<Longrightarrow>
    returns (build_loop build keys m) (artifact_map_for d (ks \<union> set keys))"
proof (induction keys arbitrary: ks m)
  case Nil
  then show ?case by (simp add: returns_ret)
next
  case (Cons key keys)
  show ?case
    unfolding build_loop.simps
  proof (rule returns_bind [OF assms])
    fix a assume "artifact_for d key a"
    from Cons.IH [OF artifact_map_insert [OF Cons.prems this]]
    show "returns (build_loop build keys (bt_insert (label_of key) a m))
        (artifact_map_for d (ks \<union> set (key # keys)))" by simp
  qed
qed

lemma returns_build_loop_Nil:
  assumes "\<And>key. returns (build key) (artifact_for d key)"
  shows "returns (build_loop build keys []) (artifact_map_for d (set keys))"
  using returns_build_loop [OF assms artifact_map_Nil] by simp

lemma returns_finish_bootstrap: "returns (finish_bootstrap h d key b) (artifact_for d key)"
  by (auto simp: finish_bootstrap_def artifact_for_def intro!: returns_then returns_bind_any returns_ret)

lemma returns_build_rust: "returns (build_rust h rr d key) (artifact_for d key)"
  by (auto simp: build_rust_def Let_def
      intro!: returns_then returns_bind_any returns_finish_bootstrap)

lemma returns_zip_node: "returns (zip_node h rr d key) (artifact_for d key)"
  by (auto simp: zip_node_def Let_def artifact_for_def
      intro!: returns_then returns_bind_any returns_ret returns_fail)

lemma returns_build_python: "returns (build_python h rr d key) (artifact_for d key)"
  by (auto simp: build_python_def Let_def artifact_for_def
      intro!: returns_then returns_bind_any returns_ret)

lemma returns_build_go: "returns (build_go h rr d key) (artifact_for d key)"
  by (auto simp: build_go_def Let_def intro!: returns_then returns_finish_bootstrap)

lemma returns_java_loop:
  "artifact_map_for d ks m \<Longrightarrow> returns (java_loop h jr d keys m) (artifact_map_for d (ks \<union> set keys))"
proof (induction keys arbitrary: ks m)
  case Nil
  then show ?case by (simp add: returns_ret)
next
  case (Cons key keys)
  have "returns (java_loop h jr d keys (bt_insert (label_of key)
      \<lparr>art_key = key, art_zip_path = zip_path_of d key, art_zip_size = n, art_unzipped = u\<rparr> m))
    (artifact_map_for d (ks \<union> set (key # keys)))" for n u
    using Cons.IH [OF artifact_map_insert [OF Cons.prems, of key "\<lparr>art_key = key,
      art_zip_path = zip_path_of d key, art_zip_size = n, art_unzipped = u\<rparr>"]]
    by (simp add: artifact_for_def)
  then show ?case by (auto intro!: returns_bind_any returns_then simp: Let_def)
qed

lemma returns_build_java: "returns (build_java h rr d keys) (artifact_map_for d (set keys))"
  using returns_java_loop [OF artifact_map_Nil, of h _ d keys]
  by (simp add: build_java_def Let_def returns_then)

lemma keys_of_all:
  "set (keys_of Rust keys) \<union> set (keys_of Node keys) \<union> set (keys_of Java keys) \<union>
     set (keys_of Python keys) \<union> set (keys_of Go keys) = set keys"
proof -
  have "k \<in> set (keys_of (key_lang k) keys)" if "k \<in> set keys" for k
    using that by (simp add: keys_of_def)
  then show ?thesis by (auto simp: keys_of_def) (metis lang.exhaust)
qed

text \<open>
  C23. Whether built or reused from \<open>dist/\<close>, the artifact map is well formed and complete: its labels
  are exactly those of the requested keys, every entry is the artifact of the key its label names
  and is zipped under that label, and the manifest lists exactly these artifacts.
\<close>

theorem artifact_maps_complete:
  "returns (build_all h repo_root keys) (\<lambda>(m, manifest).
     artifact_map_for (path_join repo_root ''dist'') (set keys) m \<and>
     json_get ''artifacts'' manifest = Some (artifacts_manifest m)) \<and>
   returns (load_artifacts_from_dist h repo_root keys) (\<lambda>(m, manifest).
     artifact_map_for (path_join repo_root ''dist'') (set keys) m \<and>
     json_get ''artifacts'' manifest = Some (artifacts_manifest m))"
proof (rule conjI)
  let ?d = "path_join repo_root ''dist''"
  let ?R = "set (keys_of Rust keys)" and ?N = "set (keys_of Node keys)"
  let ?J = "set (keys_of Java keys)" and ?P = "set (keys_of Python keys)"
  have 1: "returns (build_loop (build_rust h repo_root ?d) (keys_of Rust keys) []) (artifact_map_for ?d ?R)"
    by (rule returns_build_loop_Nil [OF returns_build_rust])
  have 2: "returns (if keys_of Node keys = [] then ret m
       else thenE (node_codegen_and_bundle h repo_root)
         (build_loop (zip_node h repo_root ?d) (keys_of Node keys) m)) (artifact_map_for ?d (?R \<union> ?N))"
    if "artifact_map_for ?d ?R m" for m
  proof (cases "keys_of Node keys = []")
    case True
    with that show ?thesis by (simp add: returns_ret)
  next
    case False
    then show ?thesis by (simp add: returns_then returns_build_loop [OF returns_zip_node that])
  qed
  have 3: "returns (if keys_of Java keys = [] then ret m
       else bindE (build_java h repo_root ?d (keys_of Java keys)) (\<lambda>arts.
         ret (bt_fill fst snd arts m))) (artifact_map_for ?d (?R \<union> ?N \<union> ?J))"
    if "artifact_map_for ?d (?R \<union> ?N) m" for m
  proof (cases "keys_of Java keys = []")
    case True
    with that show ?thesis by (simp add: returns_ret)
  next
    case False
    then show ?thesis
      by (simp add: returns_bind [OF returns_build_java] returns_ret artifact_map_fill [OF that])
  qed
  have 4: "returns (build_loop (build_python h repo_root ?d) (keys_of Python keys) m)
      (artifact_map_for ?d (?R \<union> ?N \<union> ?J \<union> ?P))"
    if "artifact_map_for ?d (?R \<union> ?N \<union> ?J) m" for m
    by (rule returns_build_loop [OF returns_build_python that])
  have 5: "returns (build_loop (build_go h repo_root ?d) (keys_of Go keys) m) (artifact_map_for ?d (set keys))"
    if "artifact_map_for ?d (?R \<union> ?N \<union> ?J \<union> ?P) m" for m
    using returns_build_loop [OF returns_build_go that, where keys = "keys_of Go keys"]
    unfolding keys_of_all .
  show "returns (build_all h repo_root keys) (\<lambda>(m, manifest).
      artifact_map_for ?d (set keys) m \<and>
      json_get ''artifacts'' manifest = Some (artifacts_manifest m))"
    unfolding build_all_def Let_def
    by (intro returns_then returns_bind [OF 1] returns_bind [OF 2] returns_bind [OF 3]
        returns_bind [OF 4] returns_bind [OF 5] returns_bind_any returns_ret) simp_all
  show "returns (load_artifacts_from_dist h repo_root keys) (\<lambda>(m, manifest).
      artifact_map_for ?d (set keys) m \<and>
      json_get ''artifacts'' manifest = Some (artifacts_manifest m))"
    unfolding load_artifacts_from_dist_def
    by (rule returns_bind [OF returns_load_loop [OF artifact_map_Nil]]) (simp add: returns_ret)
qed

end
