(* ===== verification/Deploy.thy ===== *)
theory Deploy
  imports S3 Build Run_Pool Selection
begin

text \<open>
  \<open>bencher/src/deploy.rs\<close> and the preflight check of \<open>bencher/src/main.rs\<close>: the size map of the
  selected cells, the provisioning of everything they need, and the check that their functions
  exist.
\<close>

definition DEPLOY_CONCURRENCY :: nat where "DEPLOY_CONCURRENCY = 8"
definition CHECK_CONCURRENCY :: nat where "CHECK_CONCURRENCY = 8"

fun sizes_loop ::
    "(string \<times> artifact) list \<Rightarrow> cell list \<Rightarrow> (string \<times> artifact_sizes) list \<Rightarrow>
     err + (string \<times> artifact_sizes) list" where
  "sizes_loop artifacts [] m = Inr m"
| "sizes_loop artifacts (c # cs) m =
     (case map_of artifacts (label_of (artifact_key_of c)) of
        None \<Rightarrow> Inl (Message (''no built artifact '' @ label_of (artifact_key_of c)))
      | Some a \<Rightarrow>
          sizes_loop artifacts cs
            (bt_insert (function_name c)
              \<lparr>zip_size = art_zip_size a, unzipped_size = art_unzipped a\<rparr> m))"

definition sizes_from_artifacts ::
    "(string \<times> artifact) list \<Rightarrow> cell list \<Rightarrow> err + (string \<times> artifact_sizes) list" where
  "sizes_from_artifacts artifacts cells = sizes_loop artifacts cells []"

text \<open>\<open>OnceLock::set\<close>, and the comparison when it was already set.\<close>

definition publish_kms_key :: "string \<Rightarrow> ('x, unit) eff" where
  "publish_kms_key key_id s =
     (case kms_key_id s of
        None \<Rightarrow> ret () (s\<lparr>kms_key_id := Some key_id\<rparr>)
      | Some stored \<Rightarrow>
          if stored \<noteq> key_id then fail (Message ''functions would be wired to a stale key'') s
          else ret () s)"

fun zip_cache_loop ::
    "'x host \<Rightarrow> (string \<times> artifact) list \<Rightarrow> (string \<times> string) list \<Rightarrow>
     ('x, (string \<times> string) list) eff" where
  "zip_cache_loop h [] m = ret m"
| "zip_cache_loop h ((_, art) # arts) m =
     bindE (io ''fs.read'' (art_zip_path art) (fs_read h (art_zip_path art))) (\<lambda>bytes.
       zip_cache_loop h arts (bt_insert (label_of (art_key art)) bytes m))"

definition deploy_work :: "(string \<times> string) list \<Rightarrow> cell list \<Rightarrow> err + (cell \<times> string) list" where
  "deploy_work cache cells =
     collect_results (\<lambda>c.
       res_bind (ok_or (Message (''no built artifact for '' @ label_of (artifact_key_of c)))
           (map_of cache (label_of (artifact_key_of c))))
         (\<lambda>bytes. Inr (c, bytes))) cells"

text \<open>\<open>for r in results { r?; }\<close>.\<close>

fun first_error :: "('a \<times> (err + 'b)) list \<Rightarrow> err + unit" where
  "first_error [] = Inr ()"
| "first_error ((_, r) # rs) = (case r of Inl e \<Rightarrow> Inl e | Inr _ \<Rightarrow> first_error rs)"

definition deploy ::
    "'x aws \<Rightarrow> 'x cloud \<Rightarrow> 'x host \<Rightarrow> (string \<times> artifact) list \<Rightarrow> cell list \<Rightarrow>
     ('x, (string \<times> artifact_sizes) list) eff" where
  "deploy aws cl h artifacts cells =
     bindE (ensure_role aws cl) (\<lambda>role.
     thenE (ensure_table aws cl)
     (bindE (ensure_kms_key cl) (\<lambda>key_id.
      thenE (publish_kms_key key_id)
      (thenE (ensure_seeded_bucket aws cl)
      (bindE (of_result (sizes_from_artifacts artifacts cells)) (\<lambda>sizes.
       bindE (zip_cache_loop h artifacts []) (\<lambda>cache.
       bindE (of_result (deploy_work cache cells)) (\<lambda>work.
       bindE (buffered cl DEPLOY_CONCURRENCY
           (\<lambda>(c, bytes). ensure_function aws c role bytes) work) (\<lambda>results.
       thenE (of_result (first_error results)) (ret sizes))))))))))"

text \<open>The names of the cells whose function does not exist, as the checks end.\<close>

definition missing_functions :: "'x aws \<Rightarrow> 'x cloud \<Rightarrow> cell list \<Rightarrow> ('x, string list) eff" where
  "missing_functions aws cl cells =
     bindE (buffered_try cl CHECK_CONCURRENCY
         (\<lambda>c. bindE (function_exists aws (function_name c)) (\<lambda>there.
            ret (function_name c, there))) cells) (\<lambda>checked.
       ret (map fst (filter (\<lambda>(name, there). \<not> there) checked)))"

text \<open>\<open>missing.sort(); missing.dedup()\<close>, and the refusal when one is missing.\<close>

definition require_deployed :: "'x aws \<Rightarrow> 'x cloud \<Rightarrow> cell list \<Rightarrow> ('x, unit) eff" where
  "require_deployed aws cl cells =
     bindE (missing_functions aws cl cells) (\<lambda>missing.
       if missing \<noteq> [] then fail (Message (join_with '', '' (remdups_adj (sort missing))))
       else ret ())"

section \<open>Sizes\<close>

definition sizes_of :: "artifact \<Rightarrow> artifact_sizes" where
  "sizes_of a = \<lparr>zip_size = art_zip_size a, unzipped_size = art_unzipped a\<rparr>"

lemma sizes_loop_eq:
  assumes "\<And>c. c \<in> set cells \<Longrightarrow> map_of artifacts (label_of (artifact_key_of c)) = Some (art c)"
  shows "sizes_loop artifacts cells m = Inr (bt_fill function_name (\<lambda>c. sizes_of (art c)) cells m)"
  using assms by (induction cells arbitrary: m) (simp_all add: sizes_of_def)

text \<open>The entry of a key in a map of artifacts for valid keys.\<close>

lemma artifact_lookup:
  assumes "artifact_map_for d ks m" "k \<in> ks" "\<And>k. k \<in> ks \<Longrightarrow> valid_key k"
  obtains a where "map_of m (label_of k) = Some a" "artifact_for d k a"
proof -
  have "label_of k \<in> bt_keys m" using assms(1,2) by (simp add: artifact_map_for_def)
  then obtain a where a: "map_of m (label_of k) = Some a" by (auto simp: map_of_Some_keys)
  then have "(label_of k, a) \<in> set m" by (rule map_of_SomeD)
  then have "art_key a \<in> ks" "label_of k = label_of (art_key a)"
    "art_zip_path a = zip_path_of d (art_key a)"
    using assms(1) by (auto simp: artifact_map_for_def)
  with labels.name_inj [of k "art_key a"] assms(2,3) a that show ?thesis
    by (simp add: artifact_for_def)
qed

lemma matrix_nameable: "set cells \<subseteq> set all_cells \<Longrightarrow> c \<in> set cells \<Longrightarrow> nameable c"
  using in_matrix_nameable by (auto simp: mem_all_cells)

lemma unique_artifacts_valid:
  "set cells \<subseteq> set all_cells \<Longrightarrow> k \<in> set (unique_artifacts cells) \<Longrightarrow> valid_key k"
  by (auto simp: set_unique_artifacts matrix_keys_valid)

lemma sizes_cover:
  assumes "set cells \<subseteq> set all_cells" "artifact_map_for d (set (unique_artifacts cells)) m"
  shows "\<exists>sizes. sizes_from_artifacts m cells = Inr sizes \<and> bt_ok sizes \<and>
    bt_keys sizes = function_name ` set cells \<and>
    (\<forall>c \<in> set cells. \<exists>a. map_of m (label_of (artifact_key_of c)) = Some a \<and>
       artifact_for d (artifact_key_of c) a \<and> map_of sizes (function_name c) = Some (sizes_of a))"
proof -
  define art where "art c = the (map_of m (label_of (artifact_key_of c)))" for c
  have art: "map_of m (label_of (artifact_key_of c)) = Some (art c) \<and>
      artifact_for d (artifact_key_of c) (art c)" if "c \<in> set cells" for c
  proof -
    have "artifact_key_of c \<in> set (unique_artifacts cells)" using that by (simp add: set_unique_artifacts)
    from artifact_lookup [OF assms(2) this unique_artifacts_valid [OF assms(1)]]
    show ?thesis by (metis art_def option.sel)
  qed
  let ?sizes = "bt_fill function_name (\<lambda>c. sizes_of (art c)) cells []"
  have "sizes_from_artifacts m cells = Inr ?sizes"
    unfolding sizes_from_artifacts_def by (rule sizes_loop_eq) (use art in blast)
  moreover have "map_of ?sizes (function_name c) = Some (sizes_of (art c))" if "c \<in> set cells" for c
    using fns.fill_lookup [of cells c "\<lambda>c. sizes_of (art c)" Map.empty] that matrix_nameable [OF assms(1)]
    by (simp add: map_of_bt_fill)
  ultimately show ?thesis using art by (intro exI [of _ ?sizes]) auto
qed

text \<open>
  C24. The size map of a selection is complete and honest: with the artifact map of the cells'
  keys no lookup fails, the map has exactly the cells' function names, and each cell is recorded
  with the sizes of its own artifact, never with those of another or a placeholder.
\<close>

theorem sizes_exact:
  assumes "set cells \<subseteq> set all_cells"
    and "artifact_map_for d (set (unique_artifacts cells)) m"
  shows "\<exists>sizes. sizes_from_artifacts m cells = Inr sizes \<and> bt_ok sizes \<and>
    bt_keys sizes = function_name ` set cells \<and>
    (\<forall>c \<in> set cells. \<exists>a. (label_of (artifact_key_of c), a) \<in> set m \<and>
       art_key a = artifact_key_of c \<and>
       map_of sizes (function_name c) =
         Some \<lparr>zip_size = art_zip_size a, unzipped_size = art_unzipped a\<rparr>)"
proof -
  from sizes_cover [OF assms] obtain sizes where
    s: "sizes_from_artifacts m cells = Inr sizes" "bt_ok sizes"
      "bt_keys sizes = function_name ` set cells"
      "\<forall>c \<in> set cells. \<exists>a. map_of m (label_of (artifact_key_of c)) = Some a \<and>
        artifact_for d (artifact_key_of c) a \<and> map_of sizes (function_name c) = Some (sizes_of a)"
    by blast
  have "\<forall>c \<in> set cells. \<exists>a. (label_of (artifact_key_of c), a) \<in> set m \<and>
      art_key a = artifact_key_of c \<and> map_of sizes (function_name c) =
        Some \<lparr>zip_size = art_zip_size a, unzipped_size = art_unzipped a\<rparr>"
    using s(4) map_of_SomeD unfolding sizes_of_def artifact_for_def by fast
  with s(1-3) show ?thesis by blast
qed

definition two_artifacts :: "(string \<times> artifact) list" where
  "two_artifacts =
     bt_insert (label_of (artifact_key_of rust_oneclient_jitter))
       \<lparr>art_key = artifact_key_of rust_oneclient_jitter,
        art_zip_path = zip_path_of ''dist'' (artifact_key_of rust_oneclient_jitter),
        art_zip_size = 4000, art_unzipped = 9000\<rparr>
       (bt_insert (label_of (artifact_key_of python_authz_x86))
         \<lparr>art_key = artifact_key_of python_authz_x86,
          art_zip_path = zip_path_of ''dist'' (artifact_key_of python_authz_x86),
          art_zip_size = 5500, art_unzipped = 12000\<rparr> [])"

lemma two_artifacts_for:
  "artifact_map_for ''dist''
     (set (unique_artifacts [rust_oneclient_jitter, python_authz_x86])) two_artifacts"
proof -
  have "set (unique_artifacts [rust_oneclient_jitter, python_authz_x86]) =
      insert (artifact_key_of rust_oneclient_jitter) (insert (artifact_key_of python_authz_x86) {})"
    by (simp add: set_unique_artifacts)
  then show ?thesis
    unfolding two_artifacts_def
    by (simp only:) (intro artifact_map_insert artifact_map_Nil; simp add: artifact_for_def)
qed

theorem sizes_exact_witness:
  "\<exists>sizes. sizes_from_artifacts two_artifacts [rust_oneclient_jitter, python_authz_x86] = Inr sizes \<and>
     map_of sizes (function_name python_authz_x86) = Some \<lparr>zip_size = 5500, unzipped_size = 12000\<rparr>"
proof -
  have m: "set [rust_oneclient_jitter, python_authz_x86] \<subseteq> set all_cells"
    using sample_cells_in_matrix by simp
  from sizes_exact [OF m two_artifacts_for] obtain sizes a where
    s: "sizes_from_artifacts two_artifacts [rust_oneclient_jitter, python_authz_x86] = Inr sizes"
      "(label_of (artifact_key_of python_authz_x86), a) \<in> set two_artifacts"
      "art_key a = artifact_key_of python_authz_x86"
      "map_of sizes (function_name python_authz_x86) =
         Some \<lparr>zip_size = art_zip_size a, unzipped_size = art_unzipped a\<rparr>"
    by fastforce
  have "set two_artifacts \<subseteq> {(label_of (artifact_key_of rust_oneclient_jitter),
       \<lparr>art_key = artifact_key_of rust_oneclient_jitter,
        art_zip_path = zip_path_of ''dist'' (artifact_key_of rust_oneclient_jitter),
        art_zip_size = 4000, art_unzipped = 9000\<rparr>),
      (label_of (artifact_key_of python_authz_x86),
         \<lparr>art_key = artifact_key_of python_authz_x86,
          art_zip_path = zip_path_of ''dist'' (artifact_key_of python_authz_x86),
          art_zip_size = 5500, art_unzipped = 12000\<rparr>)}"
    unfolding two_artifacts_def
    by (rule order_trans [OF set_bt_insert]) (auto dest: subsetD [OF set_bt_insert])
  with s(2,3) have "art_zip_size a = 5500 \<and> art_unzipped a = 12000"
    by (auto simp: artifact_key_of_def rust_oneclient_jitter_def python_authz_x86_def)
  with s show ?thesis by simp
qed

section \<open>The preflight check\<close>

text \<open>What a world that knows its functions answers: a function exists or is not found.\<close>

definition lists_functions :: "'x aws \<Rightarrow> string set \<Rightarrow> bool" where
  "lists_functions aws D \<longleftrightarrow>
     (\<forall>nm x. if nm \<in> D then is_ok (fst (get_function aws nm None x))
             else fst (get_function aws nm None x) =
               Inl (ServiceError ''ResourceNotFoundException'' None))"

lemma function_exists_in:
  assumes "lists_functions aws D"
  shows "fst (function_exists aws nm s) = Inr (nm \<in> D)"
proof -
  obtain r x where r: "get_function aws nm None (ext s) = (r, x)" by force
  have "if nm \<in> D then is_ok r else r = Inl (ServiceError ''ResourceNotFoundException'' None)"
    using assms r unfolding lists_functions_def by (metis fst_conv)
  with r show ?thesis
    by (cases r) (auto simp: function_exists_def bindE_def call_def ret_def of_result_def
        not_found_as_none_def has_code_def split: if_splits)
qed

lemma buffered_try_pure:
  assumes "\<And>j s. fst (f j s) = Inr (g j)"
  shows "\<exists>rs. fst (buffered_try cl k f jobs s) = Inr rs \<and> mset rs = mset (map g jobs)"
  using assms
proof (induction cl k f jobs arbitrary: s rule: buffered_try.induct)
  case (1 cl k f)
  then show ?case by (simp add: ret_def)
next
  case (2 cl k f j js)
  obtain i x where i: "next_done cl k (ext s) = (i, x)" by force
  let ?i = "next_job k (j # js) i"
  let ?c = "(j # js) ! ?i"
  obtain t where t: "f ?c (s\<lparr>ext := x\<rparr>) = (Inr (g ?c), t)" using 2(2) by (metis prod.collapse)
  obtain rs where rs: "fst (buffered_try cl k f (remove_nth ?i (j # js)) t) = Inr rs"
    "mset rs = mset (map g (remove_nth ?i (j # js)))"
    using 2 by blast
  then obtain u where u: "buffered_try cl k f (remove_nth ?i (j # js)) t = (Inr rs, u)"
    by (metis prod.collapse)
  have "buffered_try cl k f (j # js) s = (Inr (g ?c # rs), u)"
    using i t u by (simp add: buffered_try.simps(2) bindE_def peek_def ret_def)
  moreover have "mset (map g (remove_nth ?i (j # js))) + {#g ?c#} = mset (map g (j # js))"
    using arg_cong [OF mset_remove_nth [OF next_job_less [of k j js i]], of "image_mset g"] by simp
  ultimately show ?case using rs(2) by (intro exI [of _ "g ?c # rs"]) simp
qed

lemma sorted_dedup:
  fixes xs :: "'a::linorder list"
  shows "remdups_adj (sort xs) = sorted_list_of_set (set xs)"
proof -
  have "sorted_wrt (<) (remdups_adj ys)" if "sorted ys" for ys :: "'a list"
    using that by (induction ys rule: remdups_adj.induct) (auto simp: less_le)
  then have "sorted_wrt (<) (remdups_adj (sort xs))" by simp
  moreover have "set (remdups_adj (sort xs)) = set xs" by simp
  ultimately show ?thesis
    by (metis sorted_list_of_set.idem_if_sorted_distinct strict_sorted_iff)
qed

lemma missing_functions_in:
  assumes "lists_functions aws D"
  shows "\<exists>names. fst (missing_functions aws cl cells s) = Inr names \<and>
    set names = function_name ` set cells - D"
proof -
  let ?f = "\<lambda>c. bindE (function_exists aws (function_name c)) (\<lambda>there. ret (function_name c, there))"
  have "fst (?f c s) = Inr (function_name c, function_name c \<in> D)" for c s
    using function_exists_in [OF assms, of "function_name c" s]
    by (auto simp: bindE_def ret_def split: prod.splits sum.splits)
  then obtain rs where
    rs: "fst (buffered_try cl CHECK_CONCURRENCY ?f cells s) = Inr rs"
      "mset rs = mset (map (\<lambda>c. (function_name c, function_name c \<in> D)) cells)"
    using buffered_try_pure [of ?f "\<lambda>c. (function_name c, function_name c \<in> D)"] by blast
  have "set rs = set (map (\<lambda>c. (function_name c, function_name c \<in> D)) cells)"
    by (rule mset_eq_setD [OF rs(2)])
  then have "(n, False) \<in> set rs \<longleftrightarrow> n \<in> function_name ` set cells - D" for n by auto
  moreover have "set (map fst (filter (\<lambda>(name, there). \<not> there) rs)) = {n. (n, False) \<in> set rs}"
    by (induction rs) auto
  ultimately have "set (map fst (filter (\<lambda>(name, there). \<not> there) rs)) = function_name ` set cells - D"
    by blast
  with rs(1) show ?thesis
    by (auto simp: missing_functions_def bindE_def ret_def split: prod.splits)
qed

lemma require_deployed_result:
  assumes "lists_functions aws D"
  shows "fst (require_deployed aws cl cells s) =
    (let missing = function_name ` set cells - D
     in if missing = {} then Inr ()
        else Inl (Message (join_with '', '' (sorted_list_of_set missing))))"
proof -
  obtain names t where n: "missing_functions aws cl cells s = (Inr names, t)"
    "set names = function_name ` set cells - D"
    using missing_functions_in [OF assms, of cl cells s] by (metis prod.collapse)
  then have e: "names = [] \<longleftrightarrow> function_name ` set cells - D = {}"
    by (metis set_empty)
  have "fst (require_deployed aws cl cells s) =
      (if names = [] then Inr () else Inl (Message (join_with '', '' (sorted_list_of_set (set names)))))"
    using n(1) by (simp add: require_deployed_def bindE_def ret_def fail_def sorted_dedup)
  then show ?thesis unfolding e Let_def n(2) .
qed

text \<open>
  C25. The preflight check of \<open>run --skip-deploy\<close> and of the probe, against an account that knows
  which functions exist: it passes exactly when every selected function exists, and otherwise
  fails with the names of the missing ones, sorted and each once, in whatever order the
  concurrent checks come back.
\<close>

theorem require_deployed_exact:
  assumes "lists_functions aws D"
  shows "fst (require_deployed aws cl cells s) =
    (let missing = function_name ` set cells - D
     in if missing = {} then Inr ()
        else Inl (Message (join_with '', '' (sorted_list_of_set missing))))"
  by (rule require_deployed_result [OF assms])

theorem require_deployed_exact_witness:
  "\<forall>cl. fst (require_deployed (sim\<lparr>get_function := \<lambda>nm q x.
       (Inl (ServiceError ''ResourceNotFoundException'' None), x)\<rparr>) cl [python_authz_x86] sim_start) =
     Inl (Message (function_name python_authz_x86))"
proof
  fix cl
  have "lists_functions (sim\<lparr>get_function := \<lambda>nm q x.
       (Inl (ServiceError ''ResourceNotFoundException'' None), x)\<rparr>) {}"
    by (simp add: lists_functions_def)
  from require_deployed_exact [OF this] show "fst (require_deployed (sim\<lparr>get_function := \<lambda>nm q x.
      (Inl (ServiceError ''ResourceNotFoundException'' None), x)\<rparr>) cl [python_authz_x86] sim_start) =
    Inl (Message (function_name python_authz_x86))" by simp
qed

end
