(* ===== verification/Pipeline.thy ===== *)
theory Pipeline
  imports Deploy Selection Run_Pool "HOL-Library.Product_Lexorder"
begin

text \<open>
  \<open>cmd_run\<close> of \<open>bencher/src/main.rs\<close> with the run metadata of \<open>bencher/src/record.rs\<close>:
  select, build or reuse, load the services, deploy or check, record the metadata, run the pool,
  record it again. The JSON of the metadata is the serializer's.
\<close>

section \<open>Metadata\<close>

record iteration_bucket =
  ib_cold :: nat
  ib_warm :: nat
  ib_functions :: nat
  ib_invocations :: nat

datatype run_status = StRunning | StOk | StFailedRun

record run_meta =
  rm_run_id :: string
  rm_started :: nat
  rm_finished :: "nat option"
  rm_status :: run_status
  rm_region :: string
  rm_account_id :: string
  rm_profile :: profile
  rm_buckets :: "iteration_bucket list"
  rm_pool :: nat
  rm_memory_mb :: "int list"
  rm_total_functions :: nat
  rm_planned :: nat
  rm_recorded :: nat
  rm_manifest :: json

text \<open>Cells tallied by their resolved counts: functions and invocations per \<open>(cold, warm)\<close>.\<close>

type_synonym tally = "((nat \<times> nat) \<times> (nat \<times> nat)) list"

fun tally_cells :: "profile \<Rightarrow> cell list \<Rightarrow> tally \<Rightarrow> tally" where
  "tally_cells p [] m = m"
| "tally_cells p (c # cs) m =
     (let (cold, warm) = iterations c p;
          (functions, invocations) =
            (case map_of m (cold, warm) of None \<Rightarrow> (0, 0) | Some e \<Rightarrow> e)
      in tally_cells p cs
           (bt_insert (cold, warm) (functions + 1, invocations + cold * (1 + warm)) m))"

definition iteration_buckets :: "profile \<Rightarrow> cell list \<Rightarrow> iteration_bucket list" where
  "iteration_buckets p cells =
     map (\<lambda>((cold, warm), (functions, invocations)).
         \<lparr>ib_cold = cold, ib_warm = warm, ib_functions = functions,
          ib_invocations = invocations\<rparr>)
       (tally_cells p cells [])"

definition planned :: "iteration_bucket list \<Rightarrow> nat" where
  "planned buckets = sum_list (map ib_invocations buckets)"

definition initial_meta ::
    "string \<Rightarrow> nat \<Rightarrow> string \<Rightarrow> run_params \<Rightarrow> cell list \<Rightarrow> json \<Rightarrow> run_meta" where
  "initial_meta run_id started account params cells manifest =
     (let buckets = iteration_buckets (rp_profile params) cells
      in \<lparr>rm_run_id = run_id, rm_started = started, rm_finished = None, rm_status = StRunning,
          rm_region = REGION, rm_account_id = account, rm_profile = rp_profile params,
          rm_buckets = buckets, rm_pool = rp_pool params, rm_memory_mb = MEMORY_MB,
          rm_total_functions = length cells, rm_planned = planned buckets, rm_recorded = 0,
          rm_manifest = manifest\<rparr>)"

definition final_meta :: "run_meta \<Rightarrow> nat \<Rightarrow> nat \<Rightarrow> err + unit \<Rightarrow> run_meta" where
  "final_meta meta now recorded result =
     meta\<lparr>rm_finished := Some now, rm_recorded := recorded,
       rm_status := (if is_ok result then StOk else StFailedRun)\<rparr>"

definition write_meta ::
    "'x host \<Rightarrow> (run_meta \<Rightarrow> string option) \<Rightarrow> string \<Rightarrow> run_meta \<Rightarrow> ('x, unit) eff" where
  "write_meta h to_json path meta =
     bindE (of_result (ok_or (SerializeError ''run meta'') (to_json meta))) (\<lambda>json.
       io ''fs.write'' path (fs_write h path json))"

section \<open>Before the pool\<close>

record run_args =
  ra_profile :: profile
  ra_pool :: nat
  ra_filters :: run_filters
  ra_lang :: "string list"
  ra_skip_build :: bool
  ra_skip_deploy :: bool

fun select_text :: "select_error \<Rightarrow> string" where
  "select_text (NotLangScenario part) = ''--only entry must be lang:scenario: '' @ part"
| "select_text (UnknownName e part) = e @ '' in --only entry '' @ part"
| "select_text (NotInMatrix part l s) = ''--only entry is not part of the matrix: '' @ part"
| "select_text (ExcludedByLang part l ls) = ''--only entry is excluded by --lang: '' @ part"
| "select_text (BadArch e) = e"
| "select_text (BadMemory e) = e"
| "select_text (NoMatrixCell l s m a) =
     ''no matrix cell for '' @ lang_as_str l @ '':'' @ scenario_as_str s"

definition as_message :: "('e \<Rightarrow> string) \<Rightarrow> 'e + 'a \<Rightarrow> err + 'a" where
  "as_message text' r = map_err (\<lambda>e. Message (text' e)) r"

definition build_artifacts_for_keys ::
    "'x host \<Rightarrow> string \<Rightarrow> artifact_key list \<Rightarrow> ('x, (string \<times> artifact) list \<times> json) eff" where
  "build_artifacts_for_keys h repo_root keys = build_all h repo_root keys"

definition build_artifacts ::
    "'x host \<Rightarrow> string \<Rightarrow> lang list \<Rightarrow> ('x, (string \<times> artifact) list \<times> json) eff" where
  "build_artifacts h repo_root langs =
     build_artifacts_for_keys h repo_root (unique_artifacts (cells_for_langs langs))"

record 'x run_setup =
  rs_aws :: "'x aws"
  rs_cells :: "cell list"
  rs_sizes :: "(string \<times> artifact_sizes) list"
  rs_run_id :: string
  rs_meta_path :: string
  rs_jsonl :: string
  rs_meta :: run_meta

definition args_params :: "run_args \<Rightarrow> run_params" where
  "args_params args = \<lparr>rp_profile = ra_profile args, rp_pool = ra_pool args\<rparr>"

text \<open>\<open>ResultsWriter::create\<close>: the parent directory best effort, a truncated file, no rows.\<close>

definition results_create :: "'x host \<Rightarrow> string \<Rightarrow> string \<Rightarrow> ('x, unit) eff" where
  "results_create h parent path =
     bindE (attempt (io ''fs.mkdir'' parent (fs_mkdir h parent))) (\<lambda>_.
     bindE (io ''fs.create'' path (fs_create h path)) (\<lambda>_ s. (Inr (), s\<lparr>rows_count := 0\<rparr>)))"

text \<open>Everything up to the creation of the results file.\<close>

definition prepare_run ::
    "'x aws \<Rightarrow> 'x cloud \<Rightarrow> 'x host \<Rightarrow> (run_meta \<Rightarrow> string option) \<Rightarrow> string \<Rightarrow> run_args \<Rightarrow>
     ('x, 'x run_setup) eff" where
  "prepare_run aws cl h to_json repo_root args =
     bindE (of_result (as_message id (parse_langs (ra_lang args)))) (\<lambda>langs.
     bindE (of_result (as_message select_text (select_cells (ra_filters args) langs))) (\<lambda>cells.
       if cells = [] then fail (Message ''no cells selected'')
       else
         let keys = unique_artifacts cells
         in bindE (if ra_skip_build args then load_artifacts_from_dist h repo_root keys
                   else build_artifacts_for_keys h repo_root keys) (\<lambda>(artifacts, manifest).
            bindE (aws_load aws cl) (\<lambda>aws.
            bindE (if ra_skip_deploy args then
                thenE (require_deployed aws cl cells)
                  (of_result (sizes_from_artifacts artifacts cells))
              else deploy aws cl h artifacts cells) (\<lambda>sizes.
            bindE (new_run_id aws) (\<lambda>run_id.
              let dir = path_join repo_root ''results'';
                  jsonl = path_join dir (''run-'' @ run_id @ ''.jsonl.gz'');
                  meta_path = path_join dir (''run-'' @ run_id @ ''.meta.json'')
              in thenE (io ''fs.mkdir'' dir (fs_mkdir h dir))
                 (bindE (peek (unix_ms aws)) (\<lambda>started.
                    let meta = initial_meta run_id started (account_id aws) (args_params args)
                          cells manifest
                    in thenE (write_meta h to_json meta_path meta)
                       (thenE (results_create h dir jsonl)
                         (ret \<lparr>rs_aws = aws, rs_cells = cells, rs_sizes = sizes, rs_run_id = run_id,
                             rs_meta_path = meta_path, rs_jsonl = jsonl, rs_meta = meta\<rparr>))))))))))"

section \<open>After the pool\<close>

text \<open>The metadata is written for both outcomes, and a failure of that write comes first.\<close>

definition conclude_run ::
    "'x aws \<Rightarrow> 'x host \<Rightarrow> (run_meta \<Rightarrow> string option) \<Rightarrow> 'x run_setup \<Rightarrow> err + unit \<Rightarrow>
     ('x, run_meta) eff" where
  "conclude_run aws h to_json st result =
     bindE (peek (unix_ms aws)) (\<lambda>now.
     bindE rows_written (\<lambda>recorded.
       let meta = final_meta (rs_meta st) now recorded result
       in thenE (write_meta h to_json (rs_meta_path st) meta)
          (bindE (of_result result) (\<lambda>_. ret meta))))"

text \<open>
  What \<open>cmd_run\<close> may end with: the pool is the only step whose end is not determined by the
  world. \<open>writer_at\<close> is the results writer on a path.
\<close>

inductive cmd_run ::
    "'x aws \<Rightarrow> 'x cloud \<Rightarrow> 'x host \<Rightarrow> (run_meta \<Rightarrow> string option) \<Rightarrow> (string \<Rightarrow> 'x writer) \<Rightarrow>
     string \<Rightarrow> run_args \<Rightarrow> 'x drv \<Rightarrow> (err + run_meta) \<times> 'x drv \<Rightarrow> bool"
    for aws cl h to_json writer_at repo_root args s where
  refused: "prepare_run aws cl h to_json repo_root args s = (Inl e, t) \<Longrightarrow>
    cmd_run aws cl h to_json writer_at repo_root args s (Inl e, t)"
| ran: "prepare_run aws cl h to_json repo_root args s = (Inr st, t) \<Longrightarrow>
    run_all_ends (rs_aws st) (writer_at (rs_jsonl st)) (rs_cells st) (args_params args) (rs_run_id st)
      (rs_sizes st) t (result, u) \<Longrightarrow>
    conclude_run (rs_aws st) h to_json st result u = rt \<Longrightarrow>
    cmd_run aws cl h to_json writer_at repo_root args s rt"

section \<open>The tally\<close>

text \<open>How often a pair of counts occurs.\<close>

definition bucket_size :: "profile \<Rightarrow> cell list \<Rightarrow> nat \<times> nat \<Rightarrow> nat" where
  "bucket_size p cells k = length (filter (\<lambda>c. iterations c p = k) cells)"

lemma bucket_size_Cons [simp]:
  "bucket_size p (c # cs) k = (if iterations c p = k then 1 else 0) + bucket_size p cs k"
  by (simp add: bucket_size_def)

lemma bucket_size_Nil [simp]: "bucket_size p [] k = 0"
  by (simp add: bucket_size_def)

definition add_bucket :: "nat \<Rightarrow> nat \<times> nat \<Rightarrow> (nat \<times> nat) option \<Rightarrow> (nat \<times> nat) option" where
  "add_bucket n k old =
     (if n = 0 then old
      else case (case old of None \<Rightarrow> (0, 0) | Some e \<Rightarrow> e) of
        (f, i) \<Rightarrow> Some (f + n, i + n * (fst k * (1 + snd k))))"

lemma tally_cells_lookup:
  "map_of (tally_cells p cs m) k = add_bucket (bucket_size p cs k) k (map_of m k)"
proof (induction cs arbitrary: m)
  case Nil
  then show ?case by (simp add: add_bucket_def)
next
  case (Cons c cs)
  obtain cold warm where it: "iterations c p = (cold, warm)" by force
  obtain f i where old: "(case map_of m (cold, warm) of None \<Rightarrow> (0, 0) | Some e \<Rightarrow> e) = (f, i)"
    by force
  have "tally_cells p (c # cs) m =
      tally_cells p cs (bt_insert (cold, warm) (f + 1, i + cold * (1 + warm)) m)"
    by (simp add: it old)
  with Cons old show ?case
    by (cases "k = (cold, warm)") (auto simp: it add_bucket_def algebra_simps split: prod.splits)
qed

lemma tally_cells_ok: "bt_ok m \<Longrightarrow> bt_ok (tally_cells p cs m)"
  by (induction cs arbitrary: m) (simp_all add: Let_def split: prod.splits)

text \<open>The invocations of a tally, and its functions.\<close>

lemma tally_cells_sums:
  "bt_ok m \<Longrightarrow>
     sum_list (map (\<lambda>e. snd (snd e)) (tally_cells p cs m)) =
       sum_list (map (\<lambda>e. snd (snd e)) m) + sum_list (map (planned_rows p) cs) \<and>
     sum_list (map (\<lambda>e. fst (snd e)) (tally_cells p cs m)) =
       sum_list (map (\<lambda>e. fst (snd e)) m) + length cs"
proof (induction cs arbitrary: m)
  case Nil
  then show ?case by simp
next
  case (Cons c cs)
  obtain cold warm where it: "iterations c p = (cold, warm)" by force
  obtain f i where old: "(case map_of m (cold, warm) of None \<Rightarrow> (0, 0) | Some e \<Rightarrow> e) = (f, i)"
    by force
  let ?m = "bt_insert (cold, warm) (f + 1, i + cold * (1 + warm)) m"
  have step: "tally_cells p (c # cs) m = tally_cells p cs ?m" by (simp add: it old)
  have "sum_list (map (\<lambda>e. snd (snd e)) ?m) = sum_list (map (\<lambda>e. snd (snd e)) m) + planned_rows p c"
    "sum_list (map (\<lambda>e. fst (snd e)) ?m) = sum_list (map (\<lambda>e. fst (snd e)) m) + 1"
    using sum_bt_insert [OF Cons.prems, of "\<lambda>e. snd (snd e)" "(cold, warm)" "(f + 1, i + cold * (1 + warm))"]
      sum_bt_insert [OF Cons.prems, of "\<lambda>e. fst (snd e)" "(cold, warm)" "(f + 1, i + cold * (1 + warm))"] old
    by (auto simp: planned_rows_def it split: option.splits)
  with Cons.IH [of ?m] step Cons.prems show ?case by simp
qed

section \<open>What a run has done\<close>

lemma results_create_Inr:
  assumes "results_create h parent path s = (Inr (), t)"
  shows "rows_count t = 0"
  using assms unfolding results_create_def by (auto simp: bindE_Inr)

lemma prepare_run_Inr:
  assumes "prepare_run aws cl h to_json repo_root args s = (Inr st, t)"
  shows "\<exists>langs manifest started.
    parse_langs (ra_lang args) = Inr langs \<and>
    select_cells (ra_filters args) langs = Inr (rs_cells st) \<and> rs_cells st \<noteq> [] \<and>
    rs_meta st = initial_meta (rs_run_id st) started (account_id (rs_aws st)) (args_params args)
      (rs_cells st) manifest \<and> rows_count t = 0"
  using assms unfolding prepare_run_def Let_def thenE_def as_message_def
  by (auto simp: bindE_Inr of_result_Inr ret_Inr fail_def dest!: results_create_Inr
      split: if_splits) blast+

lemma io_shared:
  assumes "io op path f s = (r, t)"
  shows "rows_count t = rows_count s \<and> leaked_versions t = leaked_versions s"
  using assms by (auto simp: io_def bindE_def call_def io_ok_def of_result_def
      split: prod.splits sum.splits)

lemma write_meta_shared:
  assumes "write_meta h to_json path meta s = (r, t)"
  shows "leaked_versions t = leaked_versions s"
  using assms io_shared [of "''fs.write''" path "fs_write h path json" for json]
  by (cases "to_json meta") (auto simp: write_meta_def fail_def dest: io_shared)

lemma conclude_run_Inr:
  assumes "conclude_run aws h to_json st result s = (Inr meta, t)"
  shows "result = Inr () \<and> (\<exists>now. meta = final_meta (rs_meta st) now (rows_count s) result) \<and>
    leaked_versions t = leaked_versions s"
  using assms unfolding conclude_run_def Let_def thenE_def
  by (fastforce simp: bindE_Inr of_result_Inr ret_Inr peek_def rows_written_def
      dest: write_meta_shared split: prod.splits)

lemma planned_buckets: "planned (iteration_buckets p cells) = sum_list (map (planned_rows p) cells)"
  using tally_cells_sums [of "[]" p cells]
  by (simp add: iteration_buckets_def planned_def comp_def case_prod_beta)

lemma meta_fields:
  "rm_planned (initial_meta run_id started account params cells manifest) =
     sum_list (map (planned_rows (rp_profile params)) cells)"
  "rm_total_functions (initial_meta run_id started account params cells manifest) = length cells"
  by (simp_all add: initial_meta_def Let_def planned_buckets)

lemma final_meta_fields:
  "rm_planned (final_meta m now n r) = rm_planned m"
  "rm_total_functions (final_meta m now n r) = rm_total_functions m"
  "rm_recorded (final_meta m now n r) = n"
  "rm_status (final_meta m now n r) = StOk \<longleftrightarrow> is_ok r"
  "rm_finished (final_meta m now n r) = Some now"
  by (simp_all add: final_meta_def)

section \<open>Properties\<close>

text \<open>
  C26. The metadata's sampling record: the buckets are exactly the pairs of counts that occur among
  the cells, in ascending order and each once, with the number of cells that resolved to the pair
  and the invocations those contribute; together they account for every cell and for every
  planned invocation.
\<close>

theorem iteration_buckets_exact:
  "(b \<in> set (iteration_buckets p cells) \<longleftrightarrow>
      (let n = bucket_size p cells (ib_cold b, ib_warm b)
       in n \<noteq> 0 \<and> b = \<lparr>ib_cold = ib_cold b, ib_warm = ib_warm b, ib_functions = n,
         ib_invocations = n * (ib_cold b * (1 + ib_warm b))\<rparr>)) \<and>
   sorted_wrt (<) (map (\<lambda>b. (ib_cold b, ib_warm b)) (iteration_buckets p cells)) \<and>
   sum_list (map ib_functions (iteration_buckets p cells)) = length cells \<and>
   planned (iteration_buckets p cells) = sum_list (map (planned_rows p) cells)"
proof (intro conjI)
  let ?m = "tally_cells p cells []"
  have ok: "bt_ok ?m" by (rule tally_cells_ok) simp
  have "(k, v) \<in> set ?m \<longleftrightarrow> map_of ?m k = Some v" for k v
    using bt_ok_distinct [OF ok] by (rule map_of_eq_Some_iff [symmetric])
  then have mem: "(k, v) \<in> set ?m \<longleftrightarrow> bucket_size p cells k \<noteq> 0 \<and>
      v = (bucket_size p cells k, bucket_size p cells k * (fst k * (1 + snd k)))" for k v
    by (auto simp: tally_cells_lookup add_bucket_def)
  show "b \<in> set (iteration_buckets p cells) \<longleftrightarrow>
      (let n = bucket_size p cells (ib_cold b, ib_warm b)
       in n \<noteq> 0 \<and> b = \<lparr>ib_cold = ib_cold b, ib_warm = ib_warm b, ib_functions = n,
         ib_invocations = n * (ib_cold b * (1 + ib_warm b))\<rparr>)"
    by (cases b) (force simp: iteration_buckets_def mem Let_def image_iff Bex_def split: prod.splits)
  show "sorted_wrt (<) (map (\<lambda>b. (ib_cold b, ib_warm b)) (iteration_buckets p cells))"
    using ok by (simp add: bt_ok_def iteration_buckets_def comp_def case_prod_beta)
  show "sum_list (map ib_functions (iteration_buckets p cells)) = length cells"
    "planned (iteration_buckets p cells) = sum_list (map (planned_rows p) cells)"
    using tally_cells_sums [of "[]" p cells]
    by (simp_all add: iteration_buckets_def planned_def comp_def case_prod_beta)
qed


text \<open>
  C5. A run that reports success has recorded, for the cells its filters select, every planned
  invocation; its metadata says so, and no published version is left marked as leaked.
\<close>

theorem cmd_run_complete:
  assumes "cmd_run aws cl h to_json writer_at repo_root args s (Inr meta, t)"
  shows "\<exists>langs cells. parse_langs (ra_lang args) = Inr langs \<and>
    select_cells (ra_filters args) langs = Inr cells \<and> cells \<noteq> [] \<and>
    rm_status meta = StOk \<and> rm_total_functions meta = length cells \<and>
    rm_recorded meta = sum_list (map (planned_rows (ra_profile args)) cells) \<and>
    rm_planned meta = rm_recorded meta \<and> leaked_versions t = []"
  using assms
proof cases
  case (ran st t' result u)
  from prepare_run_Inr [OF ran(1)] obtain langs started manifest where
    p: "parse_langs (ra_lang args) = Inr langs" "select_cells (ra_filters args) langs = Inr (rs_cells st)"
      "rs_cells st \<noteq> []" "rows_count t' = 0"
      "rs_meta st = initial_meta (rs_run_id st) started (account_id (rs_aws st)) (args_params args)
        (rs_cells st) manifest" by blast
  from conclude_run_Inr [OF ran(3)] obtain now where
    c: "result = Inr ()" "meta = final_meta (rs_meta st) now (rows_count u) result"
      "leaked_versions t = leaked_versions u" by blast
  from run_all_rows [OF ran(2)] c p show ?thesis
    by (intro exI [of _ langs] exI [of _ "rs_cells st"])
      (simp add: final_meta_fields meta_fields args_params_def)
qed

text \<open>
  C28. A refused selection (an unknown name, tier or architecture, a pair that is not hosted, or
  filters that select nothing) ends the command before any file, process or service is touched.
\<close>

theorem cmd_run_refuses_first:
  assumes "cmd_run aws cl h to_json writer_at repo_root args s (r, t)"
    and "\<nexists>langs cells. parse_langs (ra_lang args) = Inr langs \<and>
      select_cells (ra_filters args) langs = Inr cells \<and> cells \<noteq> []"
  shows "(\<exists>e. r = Inl e) \<and> t = s"
proof -
  have "\<exists>e. prepare_run aws cl h to_json repo_root args s = (Inl e, s)"
  proof (cases "parse_langs (ra_lang args)")
    case (Inl e)
    then show ?thesis by (simp add: prepare_run_def as_message_def map_err_def fail_def)
  next
    case (Inr langs)
    then show ?thesis
      using assms(2) by (cases "select_cells (ra_filters args) langs")
        (simp_all add: prepare_run_def as_message_def map_err_def fail_def)
  qed
  with assms(1) show ?thesis by (auto elim!: cmd_run.cases)
qed

end
