(* ===== verification/Sim_Pipeline.thy ===== *)
theory Sim_Pipeline
  imports Pipeline
begin

text \<open>
  The healthy world of \<open>Sim\<close> with a machine and the remaining services, on which
  \<open>bencher run --skip-build --skip-deploy\<close> succeeds for every selection: the properties of the
  pipeline have an instance.
\<close>

section \<open>The machine and the services\<close>

definition fine :: "'a \<Rightarrow> world \<Rightarrow> ('e + 'a) \<times> world" where
  "fine r x = (Inr r, x)"

definition sim_host :: "world host" where
  "sim_host =
     \<lparr>fs_read = (\<lambda>p. fine ''bytes''), fs_write = (\<lambda>p b. fine ()), fs_create = (\<lambda>p. fine ()),
      fs_append = (\<lambda>p b. fine ()), fs_flush = (\<lambda>p. fine ()), fs_mkdir = (\<lambda>p. fine ()),
      fs_rmdir = (\<lambda>p. fine ()), fs_exists = (\<lambda>p x. (True, x)), fs_is_file = (\<lambda>p x. (True, x)),
      fs_is_dir = (\<lambda>p x. (False, x)), fs_size = (\<lambda>p. fine 4000), fs_copy = (\<lambda>p q. fine ()),
      fs_read_dir = (\<lambda>p. fine []), spawn = (\<lambda>c. fine (True, [])),
      tar_append = (\<lambda>p q n. fine ()), tar_finish = (\<lambda>p. fine ()),
      zip_stored = (\<lambda>es. Some ''zip''), zip_entry = (\<lambda>b n. Some ''bytes''),
      zip_sizes = (\<lambda>b. Some [Some 9000]), zip_deflated = (\<lambda>es. Some ''zip''),
      walk_fuel = 100, temp_dir = ''/tmp'', process_id = 1\<rparr>"

definition sim_cloud :: "world cloud" where
  "sim_cloud =
     \<lparr>env_var = (\<lambda>v. None), next_done = (\<lambda>k x. (0, x)),
      iam_get_role = (\<lambda>r. done_ok (Some \<lparr>role_arn = ''arn'', role_boundary = None\<rparr>)),
      iam_put_boundary = (\<lambda>r b. done_ok ()),
      iam_create_role = (\<lambda>r p b. done_ok (Some \<lparr>role_arn = ''arn'', role_boundary = b\<rparr>)),
      iam_attach_policy = (\<lambda>r p. done_ok ()), iam_put_policy = (\<lambda>r n p. done_ok ()),
      iam_detach_policy = (\<lambda>r p. done_ok ()), iam_delete_policy = (\<lambda>r p. done_ok ()),
      iam_delete_role = (\<lambda>r. done_ok ()),
      ddb_describe = (\<lambda>t. done_ok (Some TableActive)), ddb_create = (\<lambda>t k. done_ok ()),
      ddb_put_item = (\<lambda>t i. done_ok ()), ddb_delete = (\<lambda>t. done_ok ()),
      kms_list_aliases = (\<lambda>x. ([], x)), kms_create_key = (\<lambda>k v. done_ok (Some ''key'')),
      kms_create_alias = (\<lambda>a k. done_ok ()), kms_delete_alias = (\<lambda>a. done_ok ()),
      kms_schedule_deletion = (\<lambda>k n. done_ok ()), kms_list_keys = (\<lambda>x. ([], x)),
      kms_list_tags = (\<lambda>k x. ([], x)),
      s3_head_bucket = (\<lambda>b. done_ok ()), s3_create_bucket = (\<lambda>b l. done_ok ()),
      s3_block_public = (\<lambda>b. done_ok ()), s3_put_policy = (\<lambda>b p. done_ok ()),
      s3_head_object = (\<lambda>b k. done_ok None), s3_list_pages = (\<lambda>b x. ([], x)),
      s3_delete_bucket = (\<lambda>b. done_ok ()),
      ecr_create_repo = (\<lambda>r. done_ok ()), ecr_put_lifecycle = (\<lambda>r p. done_ok ()),
      ecr_get_token = done_ok [Some ''AWS:pw''], ecr_describe_images = (\<lambda>r t. done_ok [Some 1]),
      ecr_delete_image = (\<lambda>r t. done_ok ()), ecr_delete_repo = (\<lambda>r. done_ok ()),
      logs_delete_group = (\<lambda>g. done_ok ()), sts_account = done_ok (Some ''123456789012''), utf8_strict = Some,
      crane = (\<lambda>args i x. (Inr (True, []), x))\<rparr>"

section \<open>Operations that always succeed\<close>

definition always :: "('x, 'a) eff \<Rightarrow> ('a \<Rightarrow> bool) \<Rightarrow> bool" where
  "always m Q \<longleftrightarrow> (\<forall>s. \<exists>x t. m s = (Inr x, t) \<and> Q x)"

lemma always_ret: "Q x \<Longrightarrow> always (ret x) Q"
  by (simp add: always_def ret_def)

lemma always_mono: "always m P \<Longrightarrow> (\<And>x. P x \<Longrightarrow> Q x) \<Longrightarrow> always m Q"
  unfolding always_def by blast

lemma always_of_result: "r = Inr x \<Longrightarrow> Q x \<Longrightarrow> always (of_result r) Q"
  by (auto simp: always_def ret_def)

lemma always_bind: "always m P \<Longrightarrow> (\<And>x. P x \<Longrightarrow> always (k x) Q) \<Longrightarrow> always (bindE m k) Q"
  unfolding always_def bindE_Inr by blast

lemma always_then: "always m (\<lambda>_. True) \<Longrightarrow> always k Q \<Longrightarrow> always (thenE m k) Q"
  unfolding thenE_def by (rule always_bind)

lemma always_peek: "always (peek f) (\<lambda>_. True)"
  by (simp add: always_def peek_def split: prod.splits)

lemma always_io: "(\<And>x. f x = (Inr v, x)) \<Longrightarrow> always (io op p f) (\<lambda>r. r = v)"
  by (simp add: always_def io_def bindE_def call_def io_ok_def ret_def)

lemma always_io_any: "(\<And>x. f x = (Inr v, x)) \<Longrightarrow> always (io op p f) (\<lambda>_. True)"
  by (rule always_mono [OF always_io]) simp_all

lemma host_fields:
  "fs_size sim_host p = fine 4000" "fs_read sim_host p = fine ''bytes''"
  "zip_sizes sim_host b = Some [Some 9000]" "fs_mkdir sim_host p = fine ()"
  "fs_write sim_host p b' = fine ()" "fs_create sim_host p = fine ()"
  by (simp_all add: sim_host_def)

lemma always_load_loop: "always (load_loop sim_host d keys m) (\<lambda>_. True)"
proof (induction keys arbitrary: m)
  case Nil
  then show ?case by (simp add: always_ret)
next
  case (Cons key keys)
  have "always (file_len sim_host p) (\<lambda>n. n = 4000)" for p
    unfolding file_len_def by (rule always_io) (simp add: host_fields fine_def)
  moreover have "always (unzipped_size_from_zip sim_host p) (\<lambda>_. True)" for p
    unfolding unzipped_size_from_zip_def
    by (rule always_bind [OF always_io [where v = "''bytes''"]])
      (auto simp: host_fields fine_def ok_or_def intro!: always_ret)
  ultimately show ?case
    unfolding load_loop.simps Let_def by (intro always_bind [OF _ always_bind [OF _ Cons]])
qed

lemma always_returns: "always m (\<lambda>_. True) \<Longrightarrow> returns m Q \<Longrightarrow> always m Q"
  unfolding always_def returns_def by metis

lemma always_load_artifacts:
  "always (load_artifacts_from_dist sim_host rr keys) (\<lambda>(m, _).
     artifact_map_for (path_join rr ''dist'') (set keys) m)"
proof (rule always_returns)
  show "always (load_artifacts_from_dist sim_host rr keys) (\<lambda>_. True)"
    unfolding load_artifacts_from_dist_def by (rule always_bind [OF always_load_loop]) (rule always_ret, simp)
  show "returns (load_artifacts_from_dist sim_host rr keys) (\<lambda>(m, _).
      artifact_map_for (path_join rr ''dist'') (set keys) m)"
    unfolding load_artifacts_from_dist_def
    by (rule returns_bind [OF returns_load_loop [OF artifact_map_Nil]]) (simp add: returns_ret)
qed

lemma always_require_deployed: "always (require_deployed sim cl cells) (\<lambda>_. True)"
proof -
  have all: "lists_functions sim UNIV" by (simp add: lists_functions_def sim_def)
  have "function_name ` set cells - UNIV = {}" by blast
  with require_deployed_result [OF all] have "fst (require_deployed sim cl cells s) = Inr ()" for s
    by (simp add: Let_def)
  then show ?thesis unfolding always_def by (metis prod.collapse)
qed

lemma always_write_meta: "always (write_meta sim_host (\<lambda>m. Some ''{}'') p meta) (\<lambda>_. True)"
  unfolding write_meta_def ok_or_def option.case of_result_simps bindE_ret
  by (rule always_io_any [where v = "()"]) (simp add: host_fields fine_def)

lemma always_aws_load: "always (aws_load sim sim_cloud) (\<lambda>aws. aws = sim)"
  unfolding aws_load_def
proof (rule always_bind)
  show "always (svc ''sts.GetCallerIdentity'' [] (sts_account sim_cloud))
      (\<lambda>a. a = Some ''123456789012'')"
    by (simp add: always_def svc_def send_def sdk_ok_def bindE_def call_def ret_def sim_cloud_def done_ok_def)
  show "always (bindE (of_result (ok_or (Message ''GetCallerIdentity returned no account'') account))
      (\<lambda>a. bindE (peek (now_ns sim)) (\<lambda>now.
        bindE (of_result (ok_or (Panicked ''max_tps'') (per_second CONTROL_PLANE_TPS now))) (\<lambda>l s.
          (Inr (sim\<lparr>account_id := a\<rparr>),
           s\<lparr>kms_key_id := None, next_slot := slot l, leaked_versions := []\<rparr>)))))
      (\<lambda>aws. aws = sim)" if "account = Some ''123456789012''" for account
    unfolding that ok_or_def option.case of_result_simps bindE_ret
    by (intro always_bind [OF always_peek])
      (simp add: per_second_def CONTROL_PLANE_TPS_def always_def bindE_def ret_def sim_def)
qed

section \<open>A whole run\<close>

definition reuse_args :: "run_filters \<Rightarrow> run_args" where
  "reuse_args f =
     \<lparr>ra_profile = Smoke, ra_pool = 1, ra_filters = f, ra_lang = [], ra_skip_build = True,
      ra_skip_deploy = True\<rparr>"

lemma always_prepare_run:
  assumes "select_cells f [] = Inr cells" "cells \<noteq> []" "set cells \<subseteq> set all_cells"
  shows "always (prepare_run sim sim_cloud sim_host (\<lambda>m. Some ''{}'') rr (reuse_args f))
    (\<lambda>st. rs_aws st = sim \<and> rs_cells st = cells \<and> (\<forall>c \<in> set cells. map_of (rs_sizes st) (function_name c) \<noteq> None))"
proof -
  have p: "parse_langs [] = Inr []" by (simp add: parse_langs_def)
  have dir: "always (io ''fs.mkdir'' d (fs_mkdir sim_host d)) (\<lambda>_. True)" for d
    by (rule always_io_any [where v = "()"]) (simp add: host_fields fine_def)
  have nr: "always (new_run_id sim) (\<lambda>_. True)"
    unfolding new_run_id_def by (intro always_bind [OF always_peek] always_ret TrueI)
  have create: "always (results_create sim_host d p) (\<lambda>_. True)" for d p
    by (simp add: results_create_def always_def bindE_def io_def call_def io_ok_def ret_def attempt_def
        host_fields fine_def)
  have sizes: "always (thenE (require_deployed sim sim_cloud cells)
      (of_result (sizes_from_artifacts m cells)))
      (\<lambda>sizes. \<forall>c \<in> set cells. map_of sizes (function_name c) \<noteq> None)"
    if "artifact_map_for (path_join rr ''dist'') (set (unique_artifacts cells)) m" for m
  proof -
    from sizes_cover [OF assms(3) that] obtain sizes where
      "sizes_from_artifacts m cells = Inr sizes"
      "\<forall>c \<in> set cells. map_of sizes (function_name c) \<noteq> None" by fastforce
    then show ?thesis by (intro always_then [OF always_require_deployed] always_of_result)
  qed
  show ?thesis
    unfolding prepare_run_def reuse_args_def Let_def
    apply (simp add: p as_message_def map_err_def assms)
    apply (rule always_bind [OF always_load_artifacts], clarsimp)
    apply (rule always_bind [OF always_aws_load], clarify)
    apply (rule always_bind [OF sizes], assumption)
    apply (rule always_bind [OF nr])
    apply (rule always_then [OF dir])
    apply (rule always_bind [OF always_peek])
    apply (rule always_then [OF always_write_meta])
    apply (rule always_then [OF create])
    apply (rule always_ret, simp)
    done
qed

text \<open>A pool whose jobs all succeed does not fail.\<close>

lemma pool_no_failure:
  assumes "(pool_step k job)\<^sup>*\<^sup>* p q" "\<And>c s. c \<in> A \<Longrightarrow> \<exists>t. job c s = (Inr (), t)"
    and "set (waiting p) \<union> set (running p) \<subseteq> A" "\<forall>e. outcome p \<noteq> Some (Inl e)"
  shows "set (waiting q) \<union> set (running q) \<subseteq> A \<and> (\<forall>e. outcome q \<noteq> Some (Inl e))"
  using assms(1,3,4)
proof (induction rule: rtranclp_induct)
  case base
  then show ?case by blast
next
  case (step y z)
  then have y: "set (waiting y) \<union> set (running y) \<subseteq> A" "\<forall>e. outcome y \<noteq> Some (Inl e)"
    by blast+
  from step.hyps(2) show ?case
  proof cases
    case (fail_fast as c bs e t u)
    with y(1) have "c \<in> A" by simp
    with assms(2) [of c "pdrv y"] fail_fast(4) show ?thesis by simp
  qed (use y in auto)
qed

lemma sim_run_all_ends:
  assumes "\<forall>c \<in> set cells. map_of sizes (function_name c) \<noteq> None"
  shows "\<exists>t. run_all_ends sim sim_writer cells params run_id sizes s (Inr (), t)"
proof -
  let ?cells = "longest_first cells (rp_profile params)"
  let ?job = "cell_job sim sim_writer params run_id sizes"
  have set_eq: "set ?cells = set cells" by (simp add: longest_first_def)
  have job: "\<exists>t. ?job c s = (Inr (), t)" if "c \<in> set cells" for c s
    using assms that sim_run_cell by (auto simp: cell_job_def split: option.splits)
  obtain q where q: "(pool_step (rp_pool params) ?job)\<^sup>*\<^sup>* (pool_start ?cells s) q" "outcome q \<noteq> None"
    using pool_ends by blast
  have "\<forall>e. outcome q \<noteq> Some (Inl e)"
    using pool_no_failure [OF q(1) job] set_eq by (simp add: pool_start_def)
  with q(2) have "outcome q = Some (Inr ())"
    by (cases "outcome q"; cases "the (outcome q)") auto
  with q(1) show ?thesis unfolding run_all_ends_def by force
qed

section \<open>Instances of the properties of the pipeline\<close>

definition whole_matrix :: run_filters where
  "whole_matrix = \<lparr>rf_only = None, rf_memory = [], rf_arch = None\<rparr>"

abbreviation "sim_prepare \<equiv>
  prepare_run sim sim_cloud sim_host (\<lambda>m. Some ''{}'') ''repo'' (reuse_args whole_matrix)"

lemma select_whole_matrix: "select_cells whole_matrix [] = Inr all_cells"
  by (simp add: select_cells_def whole_matrix_def parse_only_def parse_arch_def
      cells_for_langs_def map_err_def)

lemma sim_prepared:
  "\<exists>st t. sim_prepare s = (Inr st, t) \<and> rs_aws st = sim \<and>
     (\<forall>c \<in> set (rs_cells st). map_of (rs_sizes st) (function_name c) \<noteq> None)"
proof -
  have "all_cells \<noteq> []" using length_all_cells by auto
  from always_prepare_run [OF select_whole_matrix this subset_refl, of "''repo''"]
  show ?thesis unfolding always_def by metis
qed

lemma sim_cmd_run:
  "\<exists>meta t. cmd_run sim sim_cloud sim_host (\<lambda>m. Some ''{}'') (\<lambda>_. sim_writer) ''repo''
     (reuse_args whole_matrix) s (Inr meta, t)"
proof -
  obtain st t where p: "sim_prepare s = (Inr st, t)"
    and a: "rs_aws st = sim" and b: "\<forall>c \<in> set (rs_cells st). map_of (rs_sizes st) (function_name c) \<noteq> None"
    using sim_prepared by blast
  obtain u where u: "run_all_ends sim sim_writer (rs_cells st) (args_params (reuse_args whole_matrix))
      (rs_run_id st) (rs_sizes st) t (Inr (), u)"
    using sim_run_all_ends [OF b] by blast
  have "always (conclude_run sim sim_host (\<lambda>m. Some ''{}'') st (Inr ())) (\<lambda>_. True)"
    unfolding conclude_run_def Let_def
    by (intro always_bind [OF always_peek] always_bind [where P = "\<lambda>_. True"] always_then
        always_write_meta always_of_result always_ret)
      (simp_all add: always_def rows_written_def ret_def)
  then obtain meta v where "conclude_run sim sim_host (\<lambda>m. Some ''{}'') st (Inr ()) u = (Inr meta, v)"
    unfolding always_def by blast
  with cmd_run.ran [OF p] u a show ?thesis by fastforce
qed


theorem cmd_run_complete_witness:
  "\<exists>meta t. cmd_run sim sim_cloud sim_host (\<lambda>m. Some ''{}'') (\<lambda>_. sim_writer) ''repo''
     (reuse_args whole_matrix) sim_start (Inr meta, t) \<and>
     rm_total_functions meta = 674 \<and> rm_recorded meta = rm_planned meta \<and> leaked_versions t = []"
proof -
  obtain meta t where r: "cmd_run sim sim_cloud sim_host (\<lambda>m. Some ''{}'') (\<lambda>_. sim_writer)
      ''repo'' (reuse_args whole_matrix) sim_start (Inr meta, t)"
    using sim_cmd_run by blast
  have "parse_langs (ra_lang (reuse_args whole_matrix)) = Inr []"
    "ra_filters (reuse_args whole_matrix) = whole_matrix"
    by (simp_all add: reuse_args_def parse_langs_def)
  with cmd_run_complete [OF r] select_whole_matrix length_all_cells
  have "rm_total_functions meta = 674 \<and> rm_recorded meta = rm_planned meta \<and> leaked_versions t = []"
    by auto
  with r show ?thesis by blast
qed

text \<open>An architecture that does not exist.\<close>

definition bad_arch :: run_args where
  "bad_arch = reuse_args (whole_matrix\<lparr>rf_arch := Some ''z80''\<rparr>)"

theorem cmd_run_refuses_first_witness:
  "\<exists>e. cmd_run sim sim_cloud sim_host (\<lambda>m. Some ''{}'') (\<lambda>_. sim_writer) ''repo''
     bad_arch sim_start (Inl e, sim_start)"
proof -
  have refused: "\<exists>e. parse_arch (Some ''z80'') = Inl e"
  proof -
    have "\<not> is_ok (parse_arch (Some ''z80''))" by code_simp
    then show ?thesis by (cases "parse_arch (Some ''z80'')") simp_all
  qed
  have bad: "\<exists>e. select_cells (ra_filters bad_arch) langs = Inl e" for langs
    using refused by (auto simp: select_cells_def bad_arch_def reuse_args_def whole_matrix_def parse_only_def)
  have "parse_langs (ra_lang bad_arch) = Inr []"
    by (simp add: bad_arch_def reuse_args_def parse_langs_def)
  with bad [of "[]"] have "\<exists>e t. prepare_run sim sim_cloud sim_host (\<lambda>m. Some ''{}'') ''repo''
      bad_arch sim_start = (Inl e, t)"
    by (auto simp: prepare_run_def as_message_def map_err_def fail_def)
  then obtain e t where run: "cmd_run sim sim_cloud sim_host (\<lambda>m. Some ''{}'') (\<lambda>_. sim_writer)
      ''repo'' bad_arch sim_start (Inl e, t)"
    using cmd_run.refused by blast
  have none: "\<nexists>langs cells. parse_langs (ra_lang bad_arch) = Inr langs \<and>
      select_cells (ra_filters bad_arch) langs = Inr cells \<and> cells \<noteq> []"
    using bad by (metis sum.distinct(1))
  from cmd_run_refuses_first [OF run none] run show ?thesis by blast
qed

end
