(* ===== verification/Sampling.thy ===== *)
theory Sampling
  imports Stats Run_Loop Cloud
begin

text \<open>
  How the probes measure (\<open>bencher/src/probe.rs\<close> and the effectful part of
  \<open>bencher/src/probe/sample.rs\<close>): the retry of a unit, the connection prewarm, one cold sample,
  the cold series and the tail-less warm block. Wall clocks are nanoseconds, reported in
  milliseconds. The counts come from the command line, which refuses zero; a zero would reach
  the panic of \<open>median\<close>, an error that unwinds through the retry.
\<close>

definition MAX_UNIT_ATTEMPTS :: nat where "MAX_UNIT_ATTEMPTS = 3"
definition UNIT_RETRY_BACKOFF_MS :: nat where "UNIT_RETRY_BACKOFF_MS = 5000"

text \<open>Attempt \<open>k\<close> of \<open>k + left - 1\<close>; the sleep also follows the last failed attempt.\<close>

fun retry_loop :: "'x aws \<Rightarrow> ('x, 'a) eff \<Rightarrow> nat \<Rightarrow> err option \<Rightarrow> ('x, 'a) eff" where
  "retry_loop aws unit' 0 last_err =
     fail (case last_err of Some e \<Rightarrow> e | None \<Rightarrow> Panicked ''loop ran at least once'')"
| "retry_loop aws unit' (Suc left) last_err =
     bindE (catching unit') (\<lambda>r.
       case r of
         Inr v \<Rightarrow> ret v
       | Inl e \<Rightarrow>
           thenE (sleep aws UNIT_RETRY_BACKOFF_MS) (retry_loop aws unit' left (Some e)))"

definition retry_transient :: "'x aws \<Rightarrow> ('x, 'a) eff \<Rightarrow> ('x, 'a) eff" where
  "retry_transient aws unit' = retry_loop aws unit' MAX_UNIT_ATTEMPTS None"

record probe_common =
  pc_cold_samples :: nat
  pc_warm_per_sample :: nat
  pc_arch :: string

definition prewarm_connection :: "'x aws \<Rightarrow> client \<Rightarrow> ('x, unit) eff" where
  "prewarm_connection aws client =
     bindE (call (EvInvoke PREWARM_NONEXISTENT_FN ''{}'' None None)
       (invoke aws
         \<lparr>iv_client = client, iv_name = PREWARM_NONEXISTENT_FN, iv_tail = False,
          iv_payload = ''{}'', iv_qualifier = None, iv_context = None\<rparr>)) (\<lambda>r.
       case r of
         Inr _ \<Rightarrow> ret ()
       | Inl e \<Rightarrow>
           if has_code ''ResourceNotFoundException'' e then ret () else fail (Sdk e))"

definition probe_out_path :: "string option \<Rightarrow> string \<Rightarrow> string \<Rightarrow> string" where
  "probe_out_path explicit kind run_id =
     (case explicit of
        Some p \<Rightarrow> p
      | None \<Rightarrow> ''results/lifecycle-'' @ kind @ ''-'' @ run_id @ ''.json'')"

definition check_ok :: "'x aws \<Rightarrow> string \<Rightarrow> bool \<Rightarrow> invoke_result \<Rightarrow> err + unit" where
  "check_ok aws name http_fronted res =
     (if status_code res \<noteq> 200 then Inl (StatusNot200 name (status_code res))
      else case function_error res of
        Some e \<Rightarrow> Inl (FunctionErrorReported name e)
      | None \<Rightarrow> if http_fronted then check_http_envelope_ok aws name res else Inr ())"

text \<open>\<open>as_secs_f64() * 1000.0\<close>.\<close>

definition ms_of_ns :: "nat \<Rightarrow> rat" where
  "ms_of_ns n = of_nat n / 1000000"

text \<open>\<open>check_ok\<close> then \<open>parse_report\<close>.\<close>

definition checked :: "'x aws \<Rightarrow> string \<Rightarrow> bool \<Rightarrow> invoke_result \<Rightarrow> err + report" where
  "checked aws name http_fronted res =
     res_bind (check_ok aws name http_fronted res) (\<lambda>_. parse_report (regex aws) (log_tail res))"

fun force_sample_loop ::
    "'x aws \<Rightarrow> client \<Rightarrow> string \<Rightarrow> string \<Rightarrow> bool \<Rightarrow> nat \<Rightarrow> nat \<Rightarrow> ('x, rat \<times> rat \<times> rat) eff" where
  "force_sample_loop aws timed name pl http k 0 =
     fail (ColdForceExhausted name MAX_COLD_FORCE_ATTEMPTS)"
| "force_sample_loop aws timed name pl http k (Suc left) =
     bindE (peek (new_uuid aws)) (\<lambda>nonce.
     thenE (force_cold_by_name aws name nonce)
     (thenE (prewarm_connection aws timed)
     (bindE (invoke_tail_timed_by_name aws timed name pl None) (\<lambda>(res, wall).
      bindE (of_result (checked aws name http res)) (\<lambda>rep.
        case init_ms rep of
          Some i \<Rightarrow> ret (ms_of_ns wall, i, duration_ms rep)
        | None \<Rightarrow>
            thenE (sleep aws (500 * k)) (force_sample_loop aws timed name pl http (Suc k) left))))))"

text \<open>The \<open>left\<close> warm invokes that remain, \<open>i\<close> the number of the next one; the net and the full
  wall clocks so far.\<close>

fun warm_sample_loop ::
    "'x aws \<Rightarrow> client \<Rightarrow> string \<Rightarrow> string \<Rightarrow> bool \<Rightarrow> nat \<Rightarrow> nat \<Rightarrow> rat list \<Rightarrow> rat list \<Rightarrow>
     ('x, rat list \<times> rat list) eff" where
  "warm_sample_loop aws timed name pl http i 0 warm warm_wall = ret (warm, warm_wall)"
| "warm_sample_loop aws timed name pl http i (Suc left) warm warm_wall =
     bindE (invoke_tail_timed_by_name aws timed name pl None) (\<lambda>(res, w).
     bindE (of_result (checked aws name http res)) (\<lambda>rep.
       if is_cold rep then fail (Message (name @ '': warm invoke unexpectedly cold-started''))
       else
         let wall = ms_of_ns w; net = max (wall - duration_ms rep) 0
         in warm_sample_loop aws timed name pl http (Suc i) left (warm @ [net])
              (warm_wall @ [wall])))"

definition panic_none :: "string \<Rightarrow> 'a option \<Rightarrow> err + 'a" where
  "panic_none msg r = ok_or (Panicked msg) r"

definition take_sample ::
    "'x aws \<Rightarrow> client \<Rightarrow> string \<Rightarrow> string \<Rightarrow> bool \<Rightarrow> nat \<Rightarrow> ('x, sample) eff" where
  "take_sample aws timed name pl http warm_per_sample =
     bindE (force_sample_loop aws timed name pl http 1 MAX_COLD_FORCE_ATTEMPTS)
       (\<lambda>(wc, i, cold_duration).
     bindE (warm_sample_loop aws timed name pl http 1 warm_per_sample [] []) (\<lambda>(warm, warm_wall).
     bindE (of_result (panic_none ''median of empty sample set'' (median warm))) (\<lambda>rtt.
     bindE (of_result (panic_none ''median of empty sample set'' (median warm_wall))) (\<lambda>ww.
       ret \<lparr>sm_w_cold = wc, sm_init = i, sm_cold_duration = cold_duration, sm_warm_rtt = rtt,
            sm_w_warm = ww, sm_residual = wc - i - cold_duration - rtt\<rparr>))))"

fun series_loop ::
    "'x aws \<Rightarrow> client \<Rightarrow> string \<Rightarrow> string \<Rightarrow> bool \<Rightarrow> nat \<Rightarrow> nat \<Rightarrow> sample list \<Rightarrow>
     ('x, sample list) eff" where
  "series_loop aws timed name pl http warm_per_sample 0 samples = ret samples"
| "series_loop aws timed name pl http warm_per_sample (Suc left) samples =
     bindE (take_sample aws timed name pl http warm_per_sample) (\<lambda>sm.
       series_loop aws timed name pl http warm_per_sample left (samples @ [sm]))"

definition sample_cold_series ::
    "'x aws \<Rightarrow> client \<Rightarrow> string \<Rightarrow> string \<Rightarrow> bool \<Rightarrow> nat \<Rightarrow> nat \<Rightarrow> ('x, sample list) eff" where
  "sample_cold_series aws timed name pl http cold_samples warm_per_sample =
     retry_transient aws (series_loop aws timed name pl http warm_per_sample cold_samples [])"

record caller_warm =
  cw_n :: nat
  cw_p50 :: rat
  cw_p90 :: rat
  cw_p99 :: rat
  cw_min :: rat
  cw_max :: rat

fun caller_walls ::
    "'x aws \<Rightarrow> client \<Rightarrow> string \<Rightarrow> string \<Rightarrow> bool \<Rightarrow> nat \<Rightarrow> rat list \<Rightarrow> ('x, rat list) eff" where
  "caller_walls aws timed name pl http 0 walls = ret walls"
| "caller_walls aws timed name pl http (Suc left) walls =
     bindE (invoke_no_tail_timed_by_name aws timed name pl) (\<lambda>(res, w).
     thenE (of_result (check_ok aws name http res))
       (caller_walls aws timed name pl http left (walls @ [ms_of_ns w])))"

text \<open>The reduction of the block; \<open>None\<close> is the panic on no walls.\<close>

definition caller_summary :: "nat \<Rightarrow> rat list \<Rightarrow> caller_warm option" where
  "caller_summary n walls =
     Option.bind (spread walls) (\<lambda>(lo, hi).
     Option.bind (median walls) (\<lambda>p50.
     Option.bind (percentile walls (90 / 100)) (\<lambda>p90.
     Option.bind (percentile walls (99 / 100)) (\<lambda>p99.
       Some \<lparr>cw_n = n, cw_p50 = p50, cw_p90 = p90, cw_p99 = p99, cw_min = lo, cw_max = hi\<rparr>))))"

definition sample_caller_warm ::
    "'x aws \<Rightarrow> client \<Rightarrow> string \<Rightarrow> string \<Rightarrow> bool \<Rightarrow> nat \<Rightarrow> ('x, caller_warm) eff" where
  "sample_caller_warm aws timed name pl http n =
     retry_transient aws
       (bindE (caller_walls aws timed name pl http n []) (\<lambda>walls.
          of_result (panic_none ''percentile of empty sample set'' (caller_summary n walls))))"

end
