(* ===== verification/Synthetic.thy ===== *)
theory Synthetic
  imports Sampling S3 Host "HOL-Library.Word"
begin

unbundle bit_operations_syntax

text \<open>
  \<open>bencher/src/probe/synthetic.rs\<close>: the padded-size sweep. The padding is SplitMix64 on 64-bit
  words with wrapping arithmetic, written a mebibyte at a time; a padded function is deployed
  and measured for every runtime family and size, and all of them are removed whatever
  happened.
\<close>

definition SYNTH_MEMORY_MB :: int where "SYNTH_MEMORY_MB = 512"

definition SYNTH_PY_HANDLER :: string where
  "SYNTH_PY_HANDLER =
     ''def handler(event, context):'' @ [nl] @ ''    return {'' @ [CHR 0x27] @ ''ok'' @ [CHR 0x27] @
     '': True}'' @ [nl]"

datatype synth_runtime = SynthPython | SynthRust

fun synth_family :: "synth_runtime \<Rightarrow> string" where
  "synth_family SynthPython = ''python''"
| "synth_family SynthRust = ''rust''"

fun synth_runtime_id :: "synth_runtime \<Rightarrow> string" where
  "synth_runtime_id SynthPython = ''python3.14''"
| "synth_runtime_id SynthRust = ''provided.al2023''"

fun synth_handler :: "synth_runtime \<Rightarrow> string" where
  "synth_handler SynthPython = ''handler.handler''"
| "synth_handler SynthRust = ''bootstrap''"

record synthetic_sample =
  ss_family :: string
  ss_size_mb :: nat
  ss_zip_bytes :: nat
  ss_stats :: aggregated

record synthetic_output =
  so_generated_at :: nat
  so_region :: string
  so_memory_mb :: int
  so_arch :: string
  so_n_warm_per_sample :: nat
  so_samples :: "synthetic_sample list"

section \<open>Incompressible padding\<close>

definition GAMMA :: "64 word" where "GAMMA = 0x9E3779B97F4A7C15"

definition splitmix_mix :: "64 word \<Rightarrow> 64 word" where
  "splitmix_mix state =
     (let z0 = state;
          z1 = (z0 XOR drop_bit 30 z0) * 0xBF58476D1CE4E5B9;
          z2 = (z1 XOR drop_bit 27 z1) * 0x94D049BB133111EB
      in z2 XOR drop_bit 31 z2)"

definition to_le_bytes :: "64 word \<Rightarrow> string" where
  "to_le_bytes w =
     map (\<lambda>i. char_of (unat (drop_bit (8 * i) w AND 0xFF))) [0, 1, 2, 3, 4, 5, 6, 7]"

definition CHUNK_WORDS :: nat where "CHUNK_WORDS = 131072"

fun fill_words :: "nat \<Rightarrow> 64 word \<Rightarrow> string \<times> 64 word" where
  "fill_words 0 state = ([], state)"
| "fill_words (Suc n) state =
     (let state' = state + GAMMA; word = to_le_bytes (splitmix_mix state')
      in case fill_words n state' of (chunk, final) \<Rightarrow> (word @ chunk, final))"

lemma length_to_le_bytes [simp]: "length (to_le_bytes w) = 8"
  by (simp add: to_le_bytes_def)

lemma length_fill_words [simp]: "length (fst (fill_words n st)) = 8 * n"
  by (induction n arbitrary: st) (auto simp: Let_def split: prod.splits, metis fst_conv)

text \<open>\<open>pos\<close> bytes are written. The sink is a state of any type that takes the bytes or fails.\<close>

function write_loop ::
    "(string \<Rightarrow> 's \<Rightarrow> 'e + 's) \<Rightarrow> nat \<Rightarrow> 64 word \<Rightarrow> nat \<Rightarrow> 's \<Rightarrow> 'e + 's" where
  "write_loop sink len state pos s =
     (if pos < len then
        let filled = fill_words CHUNK_WORDS state;
            n = min (len - pos) (length (fst filled))
        in case sink (take n (fst filled)) s of
             Inl e \<Rightarrow> Inl e
           | Inr s' \<Rightarrow> write_loop sink len (snd filled) (pos + n) s'
      else Inr s)"
  by pat_completeness auto
termination
  by (relation "measure (\<lambda>(sink, len, state, pos, s). len - pos)")
     (auto simp: CHUNK_WORDS_def)

declare write_loop.simps [simp del]

definition write_incompressible :: "(string \<Rightarrow> 's \<Rightarrow> 'e + 's) \<Rightarrow> nat \<Rightarrow> 's \<Rightarrow> 'e + 's" where
  "write_incompressible sink len s = write_loop sink len GAMMA 0 s"

text \<open>A buffer in memory, which never fails.\<close>

definition vec_sink :: "string \<Rightarrow> string \<Rightarrow> 'e + string" where
  "vec_sink bs buf = Inr (buf @ bs)"

section \<open>Padded artifacts\<close>

definition read_rust_bootstrap :: "'x host \<Rightarrow> string \<Rightarrow> arch \<Rightarrow> ('x, string) eff" where
  "read_rust_bootstrap h repo_root a =
     (let label = ''rust-hello-'' @ arch_as_str a @ ''-o3'';
          zip_path = path_join (path_join repo_root ''dist'') (label @ ''.zip'')
      in bindE (io ''fs.read'' zip_path (fs_read h zip_path)) (\<lambda>bytes.
           of_result (ok_or (Message (''no bootstrap entry in '' @ zip_path))
             (zip_entry h bytes ''bootstrap''))))"

definition build_padded_zip :: "'x host \<Rightarrow> synth_runtime \<Rightarrow> string \<Rightarrow> nat \<Rightarrow> err + string" where
  "build_padded_zip h rt base size_mb =
     (let (base_name, base_mode) =
            (case rt of
               SynthPython \<Rightarrow> (''handler.py'', 420)
             | SynthRust \<Rightarrow> (''bootstrap'', 493));
          target = size_mb * 1024 * 1024;
          overhead = length base + 1024
      in if target \<le> overhead then Inl (Message (''synthetic size is too small for '' @ base_name))
         else
           res_bind (write_incompressible vec_sink (target - overhead) []) (\<lambda>padding.
             ok_or (Message ''zip'')
               (zip_stored h [(base_name, base_mode, base), (''padding.bin'', 420, padding)])))"

section \<open>The sweep\<close>

definition aggregate_synthetic :: "string \<Rightarrow> nat \<Rightarrow> nat \<Rightarrow> sample list \<Rightarrow> synthetic_sample option" where
  "aggregate_synthetic family size_mb zip_bytes samples =
     map_option (\<lambda>a. \<lparr>ss_family = family, ss_size_mb = size_mb, ss_zip_bytes = zip_bytes,
         ss_stats = a\<rparr>)
       (aggregate samples)"

text \<open>The nested loops as one list of units; the ledger survives a failure and is returned with
  it.\<close>

fun sample_units ::
    "'x aws \<Rightarrow> 'x host \<Rightarrow> client \<Rightarrow> string \<Rightarrow> arch \<Rightarrow> probe_common \<Rightarrow>
     (synth_runtime \<times> string \<times> nat) list \<Rightarrow> (string \<times> string) list \<Rightarrow> synthetic_sample list \<Rightarrow>
     ('x, (string \<times> string) list \<times> (err + synthetic_sample list)) eff" where
  "sample_units aws h timed role a args [] created out = ret (created, Inr out)"
| "sample_units aws h timed role a args ((rt, base, mb) # us) created out =
     (let name = synth_function_name (synth_family rt) mb
      in case build_padded_zip h rt base mb of
           Inl e \<Rightarrow> ret (created, Inl e)
         | Inr zipped \<Rightarrow>
             bindE (catching (create_function_from_zip aws
                 \<lparr>fn_name = name, fn_runtime = synth_runtime_id rt, fn_handler = synth_handler rt,
                  fn_memory_mb = SYNTH_MEMORY_MB, fn_arch = lambda_arch a\<rparr> role zipped)) (\<lambda>r.
             case r of
               Inl e \<Rightarrow> ret (created, Inl e)
             | Inr s3_key \<Rightarrow>
                 bindE (catching (sample_cold_series aws timed name ''{}'' False
                     (pc_cold_samples args) (pc_warm_per_sample args))) (\<lambda>r.
                 case r of
                   Inl e \<Rightarrow> ret (created @ [(name, s3_key)], Inl e)
                 | Inr samples \<Rightarrow>
                     bindE (of_result (panic_none ''median of empty sample set''
                         (aggregate_synthetic (synth_family rt) mb (length zipped) samples))) (\<lambda>x.
                       sample_units aws h timed role a args us (created @ [(name, s3_key)])
                         (out @ [x])))))"

definition synth_units ::
    "(synth_runtime \<times> string) list \<Rightarrow> nat list \<Rightarrow> (synth_runtime \<times> string \<times> nat) list" where
  "synth_units runtimes sizes =
     concat (map (\<lambda>(rt, base). map (\<lambda>mb. (rt, base, mb)) sizes) runtimes)"

definition sample_all ::
    "'x aws \<Rightarrow> 'x host \<Rightarrow> client \<Rightarrow> string \<Rightarrow> arch \<Rightarrow> (synth_runtime \<times> string) list \<Rightarrow> nat list \<Rightarrow>
     probe_common \<Rightarrow> ('x, (string \<times> string) list \<times> (err + synthetic_sample list)) eff" where
  "sample_all aws h timed role a runtimes sizes args =
     sample_units aws h timed role a args (synth_units runtimes sizes) [] []"

definition teardown_synthetic :: "'x aws \<Rightarrow> (string \<times> string) list \<Rightarrow> ('x, unit) eff" where
  "teardown_synthetic aws created =
     for_each (\<lambda>(name, s3_key).
       thenE (attempt (delete_function aws name))
         (bindE (attempt (delete_s3_object aws s3_key)) (\<lambda>_. ret ()))) created"

section \<open>The padding is a function of its length\<close>

definition padding_word :: "nat \<Rightarrow> 64 word" where
  "padding_word i = splitmix_mix (GAMMA * of_nat (i + 2))"

definition padding_from :: "nat \<Rightarrow> nat \<Rightarrow> string" where
  "padding_from k n = concat (map (\<lambda>i. to_le_bytes (padding_word i)) [k..<k + n])"

lemma length_padding_from [simp]: "length (padding_from k n) = 8 * n"
  by (induction n) (simp_all add: padding_from_def)

lemma padding_from_add: "padding_from k (a + b) = padding_from k a @ padding_from (k + a) b"
proof -
  have "[k..<k + (a + b)] = [k..<k + a] @ [k + a..<k + (a + b)]" 
    using upt_add_eq_append [of k "k + a" b] by (simp add: add.assoc)
  then show ?thesis by (simp add: padding_from_def add.assoc)
qed

lemma take_padding: "m \<le> 8 * a \<Longrightarrow> a \<le> b \<Longrightarrow> take m (padding_from k b) = take m (padding_from k a)"
  using padding_from_add [of k a "b - a"] by simp

lemma fill_words_exact:
  "fill_words n (GAMMA * of_nat (k + 1)) = (padding_from k n, GAMMA * of_nat (k + n + 1))"
proof (induction n arbitrary: k)
  case 0
  then show ?case by (simp add: padding_from_def)
next
  case (Suc n)
  have "GAMMA * of_nat (k + 1) + GAMMA = GAMMA * of_nat (Suc k + 1)"
    by (simp add: algebra_simps)
  moreover have "padding_from k (Suc n) = to_le_bytes (padding_word k) @ padding_from (Suc k) n"
    using padding_from_add [of k 1 n] by (simp add: padding_from_def)
  ultimately show ?case
    using Suc.IH [of "Suc k"] by (simp add: padding_word_def Let_def algebra_simps)
qed

lemma write_loop_exact:
  "write_loop vec_sink len (GAMMA * of_nat (k + 1)) (8 * k) buf =
     Inr (buf @ take (len - 8 * k) (padding_from k len))"
proof (induction "len - 8 * k" arbitrary: k buf rule: less_induct)
  case less
  show ?case
  proof (cases "8 * k < len")
    case False
    then show ?thesis by (simp add: write_loop.simps)
  next
    case True
    let ?chunk = "padding_from k CHUNK_WORDS"
    have pos: "0 < CHUNK_WORDS" by (simp add: CHUNK_WORDS_def)
    let ?n = "min (len - 8 * k) (8 * CHUNK_WORDS)"
    have filled: "fill_words CHUNK_WORDS (GAMMA * of_nat (k + 1)) =
        (?chunk, GAMMA * of_nat (k + CHUNK_WORDS + 1))" by (rule fill_words_exact)
    have step: "write_loop vec_sink len (GAMMA * of_nat (k + 1)) (8 * k) buf =
        write_loop vec_sink len (GAMMA * of_nat (k + CHUNK_WORDS + 1)) (8 * k + ?n) (buf @ take ?n ?chunk)"
      using trans [OF write_loop.simps if_P [OF True], of vec_sink "GAMMA * of_nat (k + 1)" buf]
      unfolding Let_def filled fst_conv snd_conv length_padding_from vec_sink_def sum.case .
    show ?thesis
    proof (cases "len - 8 * k \<le> 8 * CHUNK_WORDS")
      case last: True
      have "take (len - 8 * k) ?chunk = take (len - 8 * k) (padding_from k len)"
      proof (cases "CHUNK_WORDS \<le> len")
        case True
        with last show ?thesis by (intro take_padding [symmetric])
      next
        case False
        then show ?thesis by (intro take_padding) simp_all
      qed
      moreover have "min (len - 8 * k) (8 * CHUNK_WORDS) = len - 8 * k" using last by simp
      moreover have "8 * k + (len - 8 * k) = len" using True by simp
      ultimately show ?thesis
        unfolding step by (simp add: write_loop.simps [of _ len _ len])
    next
      case more: False
      then have n: "min (len - 8 * k) (8 * CHUNK_WORDS) = 8 * CHUNK_WORDS" by simp
      have le: "len - 8 * (k + CHUNK_WORDS) < len - 8 * k" using True pos by simp
      have "padding_from k len = ?chunk @ padding_from (k + CHUNK_WORDS) (len - CHUNK_WORDS)"
        using more padding_from_add [of k CHUNK_WORDS "len - CHUNK_WORDS"] by simp
      moreover have "take (len - 8 * (k + CHUNK_WORDS)) (padding_from (k + CHUNK_WORDS) len) =
          take (len - 8 * (k + CHUNK_WORDS)) (padding_from (k + CHUNK_WORDS) (len - CHUNK_WORDS))"
        by (rule take_padding) auto
      ultimately show ?thesis
        using more less.hyps [OF le, of "buf @ ?chunk"]
        unfolding step n by (simp add: distrib_left)
    qed
  qed
qed

section \<open>No word of the padding occurs twice\<close>

lemma xorshift_inj:
  fixes x y :: "64 word"
  assumes "x XOR drop_bit k x = y XOR drop_bit k y" "0 < k"
  shows "x = y"
proof (rule bit_eqI)
  have shift: "(bit x n \<noteq> bit y n) = (bit x (n + k) \<noteq> bit y (n + k))" for n
    using arg_cong [OF assms(1), of "\<lambda>w. bit w n"]
    by (auto simp: bit_xor_iff bit_drop_bit_eq add.commute)
  have "(bit x n \<noteq> bit y n) = (bit x (n + m * k) \<noteq> bit y (n + m * k))" for n m
  proof (induction m)
    case (Suc m)
    with shift [of "n + m * k"] show ?case by (simp add: add.assoc add.commute [of k])
  qed simp
  then have "(bit x n \<noteq> bit y n) = (bit x (n + 64 * k) \<noteq> bit y (n + 64 * k))" for n by blast
  moreover have "\<not> bit w (n + 64 * k)" for w :: "64 word" and n
    using assms(2) by (auto dest!: bit_imp_le_length)
  ultimately show "bit x n = bit y n" for n by blast
qed

lemma odd_mult_inj:
  fixes x y c c' :: "64 word"
  assumes "x * c = y * c" "c * c' = 1"
  shows "x = y"
proof -
  have "x * c * c' = y * c * c'" using assms(1) by simp
  then show ?thesis by (simp add: mult.assoc assms(2))
qed

lemma splitmix_mix_inj: "splitmix_mix x = splitmix_mix y \<Longrightarrow> x = y"
proof -
  let ?a = "\<lambda>z :: 64 word. (z XOR drop_bit 30 z) * 0xBF58476D1CE4E5B9"
  let ?b = "\<lambda>z :: 64 word. (z XOR drop_bit 27 z) * 0x94D049BB133111EB"
  assume "splitmix_mix x = splitmix_mix y"
  then have "?b (?a x) XOR drop_bit 31 (?b (?a x)) = ?b (?a y) XOR drop_bit 31 (?b (?a y))"
    by (simp only: splitmix_mix_def Let_def)
  then have "?b (?a x) = ?b (?a y)" by (rule xorshift_inj) simp
  then have "?a x XOR drop_bit 27 (?a x) = ?a y XOR drop_bit 27 (?a y)"
    by (rule odd_mult_inj [where c' = "0x319642B2D24D8EC3"]) simp
  then have "?a x = ?a y" by (rule xorshift_inj) simp
  then have "x XOR drop_bit 30 x = y XOR drop_bit 30 y"
    by (rule odd_mult_inj [where c' = "0x96DE1B173F119089"]) simp
  then show "x = y" by (rule xorshift_inj) simp
qed

lemma padding_word_inj: "inj_on padding_word {..<2 ^ 64}"
proof (rule inj_onI)
  fix i j :: nat assume ij: "i \<in> {..<2 ^ 64}" "j \<in> {..<2 ^ 64}" "padding_word i = padding_word j"
  then have "GAMMA * of_nat (i + 2) = GAMMA * of_nat (j + 2)"
    by (simp only: padding_word_def) (rule splitmix_mix_inj)
  then have "of_nat (i + 2) * GAMMA = of_nat (j + 2) * GAMMA" by (simp only: mult.commute)
  then have "(of_nat (i + 2) :: 64 word) = of_nat (j + 2)"
    by (rule odd_mult_inj [where c' = "0xF1DE83E19937733D"]) (simp add: GAMMA_def)
  then have "(of_nat i :: 64 word) = of_nat j" by simp
  then have "unat (of_nat i :: 64 word) = unat (of_nat j :: 64 word)" by simp
  with ij(1,2) show "i = j" by (simp add: unat_of_nat)
qed

text \<open>
  C30. The padding is deterministic and has exactly the wanted size: \<open>write_incompressible\<close> puts the
  first \<open>len\<close> bytes of one fixed stream into the buffer, whatever the length and however it falls
  on the chunks. No 64-bit word of that stream occurs twice in its first \<open>2 ^ 64\<close> words, so there
  is no repetition to compress or deduplicate.
\<close>

theorem padding_exact:
  "write_incompressible vec_sink len buf = (Inr (buf @ take len (padding_from 0 len)) :: 'e + string) \<and>
   length (take len (padding_from 0 len)) = len \<and>
   inj_on padding_word {..<2 ^ 64}"
proof (intro conjI)
  have "write_loop vec_sink len (GAMMA * of_nat (0 + 1)) (8 * 0) buf =
      (Inr (buf @ take (len - 8 * 0) (padding_from 0 len)) :: 'e + string)"
    by (rule write_loop_exact)
  then show "write_incompressible vec_sink len buf = (Inr (buf @ take len (padding_from 0 len)) :: 'e + string)"
    by (simp add: write_incompressible_def)
  show "length (take len (padding_from 0 len)) = len" by simp
  show "inj_on padding_word {..<2 ^ 64}" by (rule padding_word_inj)
qed

end
