(* ===== verification/Image.thy ===== *)
theory Image
  imports Synthetic
begin

text \<open>
  \<open>bencher/src/probe/image.rs\<close>: the container-image family. One padded image per size is
  assembled in a temporary directory, pushed, and deployed as two functions; whatever was pushed
  or created is removed again. The fixed note text of the output is left out.
\<close>

definition SYNTH_IMAGE_BASE :: string where
  "SYNTH_IMAGE_BASE = ''public.ecr.aws/lambda/python:3.14''"

text \<open>A back quote stands for a single quote; every line ends in a newline.\<close>

definition SYNTH_IMAGE_HANDLER :: string where
  "SYNTH_IMAGE_HANDLER =
     map (\<lambda>c. if c = CHR 0x60 then CHR 0x27 else c) (concat (map (\<lambda>l. l @ [nl])
       [''import os'',
        ''if os.environ.get(`LAMBDABENCH_TOUCH`) == `1`:'',
        ''    with open(`/var/task/padding.bin`, `rb`) as _f:'',
        ''        _c = 0'',
        ''        while True:'',
        ''            _b = _f.read(1 << 20)'',
        ''            if not _b:'',
        ''                break'',
        ''            _c += len(_b)'',
        ''    print(`touched`, _c, `padding bytes at init`)'',
        ''def handler(event, context):'',
        ''    return {`ok`: True}'']))"

record image_sample =
  img_family :: string
  img_size_mb :: nat
  img_image_bytes :: nat
  img_stats :: aggregated

record image_output =
  imo_generated_at :: nat
  imo_region :: string
  imo_memory_mb :: int
  imo_arch :: string
  imo_base_image_bytes_est :: nat
  imo_n_warm_per_sample :: nat
  imo_samples :: "image_sample list"
  imo_zip_baseline :: "synthetic_sample list"

section \<open>The build context\<close>

text \<open>\<open>cleanup\<close> runs when \<open>m\<close> is left, by whatever way, and its own result is dropped.\<close>

definition on_drop :: "('x, unit) eff \<Rightarrow> ('x, 'a) eff \<Rightarrow> ('x, 'a) eff" where
  "on_drop cleanup m s = (case m s of (r, t) \<Rightarrow> (r, snd (cleanup t)))"

definition drop_temp_dir :: "'x host \<Rightarrow> string \<Rightarrow> ('x, unit) eff" where
  "drop_temp_dir h dir =
     bindE (attempt (io ''fs.rmdir'' dir (fs_rmdir h dir))) (\<lambda>r.
       case r of
         Inl e \<Rightarrow> bindE (peek (fs_exists h dir)) (\<lambda>_. ret ())
       | Inr _ \<Rightarrow> ret ())"

text \<open>A file as a sink of \<open>write_incompressible\<close>: the driver's state is the state of the sink.\<close>

definition file_sink ::
    "'x host \<Rightarrow> string \<Rightarrow> string \<Rightarrow> 'x drv \<Rightarrow> (err \<times> 'x drv) + 'x drv" where
  "file_sink h path bs s =
     (case io ''fs.append'' path (fs_append h path bs) s of
        (Inl e, t) \<Rightarrow> Inl (e, t)
      | (Inr _, t) \<Rightarrow> Inr t)"

definition fill_file :: "'x host \<Rightarrow> string \<Rightarrow> nat \<Rightarrow> ('x, unit) eff" where
  "fill_file h path len s =
     (case write_incompressible (file_sink h path) len s of
        Inl (e, t) \<Rightarrow> (Inl e, t)
      | Inr t \<Rightarrow> (Inr (), t))"

definition write_padding_file :: "'x host \<Rightarrow> string \<Rightarrow> nat \<Rightarrow> ('x, unit) eff" where
  "write_padding_file h dir size_mb =
     (let target = size_mb * 1024 * 1024; path = path_join dir ''padding.bin''
      in thenE (io ''fs.create'' path (fs_create h path))
         (thenE (fill_file h path target)
           (io ''fs.flush'' path (fs_flush h path))))"

definition build_layer_tar :: "'x host \<Rightarrow> string \<Rightarrow> ('x, string) eff" where
  "build_layer_tar h dir =
     (let tar_path = path_join dir ''layer.tar''
      in thenE (io ''fs.create'' tar_path (fs_create h tar_path))
         (thenE (io ''tar.append'' ''var/task/handler.py''
             (tar_append h tar_path (path_join dir ''handler.py'') ''var/task/handler.py''))
         (thenE (io ''tar.append'' ''var/task/padding.bin''
             (tar_append h tar_path (path_join dir ''padding.bin'') ''var/task/padding.bin''))
         (thenE (io ''tar.finish'' tar_path (tar_finish h tar_path))
         (thenE (io ''fs.flush'' tar_path (fs_flush h tar_path))
           (ret tar_path))))))"

section \<open>Images\<close>

definition image_tag :: "nat \<Rightarrow> arch \<Rightarrow> string \<Rightarrow> string" where
  "image_tag size_mb a nonce =
     ''synthdl-image-'' @ show_nat size_mb @ ''mb-'' @ arch_as_str a @ ''-'' @ nonce"

definition crane_mutate_args :: "arch \<Rightarrow> string \<Rightarrow> string \<Rightarrow> string list" where
  "crane_mutate_args a layer_tar uri =
     [''mutate'', SYNTH_IMAGE_BASE, ''--platform'', ''linux/'' @ oci_arch a, ''--append'',
      layer_tar, ''--cmd'', ''handler.handler'', ''-t'', uri]"

text \<open>The ledger of pushed tags is threaded: it is returned with a failure too, so that a pushed
  image is known to the caller even when its size cannot be read.\<close>

definition push_image ::
    "'x aws \<Rightarrow> 'x cloud \<Rightarrow> 'x host \<Rightarrow> string \<Rightarrow> nat \<Rightarrow> arch \<Rightarrow> string \<Rightarrow> ('x, unit) eff" where
  "push_image aws cl h dir size_mb a tag =
     (let handler = path_join dir ''handler.py''
      in thenE (io ''fs.write'' handler (fs_write h handler SYNTH_IMAGE_HANDLER))
         (thenE (write_padding_file h dir size_mb)
         (bindE (build_layer_tar h dir) (\<lambda>layer_tar.
            run_crane cl (crane_mutate_args a layer_tar (ecr_image_uri aws tag)) None))))"

definition build_and_push_image ::
    "'x aws \<Rightarrow> 'x cloud \<Rightarrow> 'x host \<Rightarrow> nat \<Rightarrow> arch \<Rightarrow> string \<Rightarrow> string list \<Rightarrow>
     ('x, string list \<times> (err + string \<times> nat)) eff" where
  "build_and_push_image aws cl h size_mb a nonce tags =
     (let dir = path_join (temp_dir h)
            (''lambdabench-imgctx-'' @ show_nat (process_id h) @ ''-'' @ show_nat size_mb @ ''mb'');
          tag = image_tag size_mb a nonce
      in thenE (attempt (io ''fs.rmdir'' dir (fs_rmdir h dir)))
         (bindE (attempt (io ''fs.mkdir'' dir (fs_mkdir h dir))) (\<lambda>made.
          case made of
            Inl e \<Rightarrow> ret (tags, Inl e)
          | Inr _ \<Rightarrow>
              on_drop (drop_temp_dir h dir)
                (bindE (attempt (push_image aws cl h dir size_mb a tag)) (\<lambda>pushed.
                 case pushed of
                   Inl e \<Rightarrow> ret (tags, Inl e)
                 | Inr _ \<Rightarrow>
                     bindE (attempt (ecr_image_size cl tag)) (\<lambda>size.
                       ret (tags @ [tag], case size of Inl e \<Rightarrow> Inl e | Inr n \<Rightarrow> Inr (tag, n))))))))"

section \<open>The sweep\<close>

definition aggregate_image ::
    "string \<Rightarrow> nat \<Rightarrow> nat \<Rightarrow> sample list \<Rightarrow> image_sample option" where
  "aggregate_image family size_mb image_bytes samples =
     map_option (\<lambda>a. \<lparr>img_family = family, img_size_mb = size_mb,
         img_image_bytes = image_bytes, img_stats = a\<rparr>)
       (aggregate samples)"

text \<open>The two functions of one image.\<close>

fun image_variants ::
    "'x aws \<Rightarrow> client \<Rightarrow> string \<Rightarrow> arch \<Rightarrow> probe_common \<Rightarrow> string \<Rightarrow> nat \<Rightarrow> nat \<Rightarrow> bool list \<Rightarrow>
     string list \<Rightarrow> image_sample list \<Rightarrow> ('x, string list \<times> (err + image_sample list)) eff" where
  "image_variants aws timed role a args uri mb bytes [] fns out = ret (fns, Inr out)"
| "image_variants aws timed role a args uri mb bytes (touch # ts) fns out =
     (let family = SYNTH_IMAGE_FAMILIES ! (if touch then 1 else 0);
          name = synth_function_name family mb
      in bindE (catching (create_function_from_image aws name role uri SYNTH_MEMORY_MB
             (lambda_arch a) touch)) (\<lambda>r.
         case r of
           Inl e \<Rightarrow> ret (fns, Inl e)
         | Inr _ \<Rightarrow>
             bindE (catching (sample_cold_series aws timed name ''{}'' False
                 (pc_cold_samples args) (pc_warm_per_sample args))) (\<lambda>r.
             case r of
               Inl e \<Rightarrow> ret (fns @ [name], Inl e)
             | Inr samples \<Rightarrow>
                 bindE (of_result (panic_none ''median of empty sample set''
                     (aggregate_image family mb bytes samples))) (\<lambda>x.
                   image_variants aws timed role a args uri mb bytes ts (fns @ [name])
                     (out @ [x])))))"

text \<open>\<open>base\<close> is \<open>base_image_bytes_est\<close>, which the first size sets (\<open>u64::saturating_sub\<close>).\<close>

fun image_sizes ::
    "'x aws \<Rightarrow> 'x cloud \<Rightarrow> 'x host \<Rightarrow> client \<Rightarrow> string \<Rightarrow> arch \<Rightarrow> probe_common \<Rightarrow> string \<Rightarrow>
     (nat \<times> nat) list \<Rightarrow> nat \<Rightarrow> string list \<Rightarrow> string list \<Rightarrow> image_sample list \<Rightarrow>
     ('x, string list \<times> string list \<times> (err + image_sample list \<times> nat)) eff" where
  "image_sizes aws cl h timed role a args nonce [] base fns tags out =
     ret (fns, tags, Inr (out, base))"
| "image_sizes aws cl h timed role a args nonce ((idx, mb) # ss) base fns tags out =
     bindE (build_and_push_image aws cl h mb a nonce tags) (\<lambda>(tags', built).
       case built of
         Inl e \<Rightarrow> ret (fns, tags', Inl e)
       | Inr (tag, bytes) \<Rightarrow>
           bindE (image_variants aws timed role a args (ecr_image_uri aws tag) mb bytes
               [False, True] fns out) (\<lambda>(fns', r).
             case r of
               Inl e \<Rightarrow> ret (fns', tags', Inl e)
             | Inr out' \<Rightarrow>
                 image_sizes aws cl h timed role a args nonce ss
                   (if idx = 0 then bytes - mb * 1024 * 1024 else base) fns' tags' out'))"

text \<open>With the \<open>debug_assert!\<close> of a debug build.\<close>

definition sample_all_images ::
    "'x aws \<Rightarrow> 'x cloud \<Rightarrow> 'x host \<Rightarrow> client \<Rightarrow> string \<Rightarrow> arch \<Rightarrow> nat list \<Rightarrow> probe_common \<Rightarrow>
     ('x, string list \<times> string list \<times> (err + image_sample list \<times> nat)) eff" where
  "sample_all_images aws cl h timed role a sizes args =
     bindE (peek (new_uuid aws)) (\<lambda>uuid.
       if sorted_wrt (\<le>) sizes
       then image_sizes aws cl h timed role a args (take 8 uuid) (enumerate 0 sizes) 0 [] [] []
       else fail (Panicked ''sample_all_images expects ascending sizes''))"

definition teardown_synthetic_images ::
    "'x aws \<Rightarrow> 'x cloud \<Rightarrow> string list \<Rightarrow> string list \<Rightarrow> ('x, unit) eff" where
  "teardown_synthetic_images aws cl fns tags =
     thenE (for_each (\<lambda>name. bindE (attempt (delete_function aws name)) (\<lambda>_. ret ())) fns)
       (for_each (\<lambda>tag. bindE (attempt (delete_ecr_image cl tag)) (\<lambda>_. ret ())) tags)"

definition run_synthetic_image ::
    "'x aws \<Rightarrow> 'x cloud \<Rightarrow> 'x host \<Rightarrow> (image_output \<Rightarrow> string option) \<Rightarrow> string \<Rightarrow> client \<Rightarrow> string \<Rightarrow>
     probe_common \<Rightarrow> string option \<Rightarrow> arch \<Rightarrow> nat list \<Rightarrow> synthetic_sample list \<Rightarrow> ('x, unit) eff" where
  "run_synthetic_image aws cl h to_json repo_root timed role args image_out a sizes zip_baseline =
     thenE (ensure_ecr_repo cl)
     (thenE (crane_ecr_login aws cl)
     (bindE (sample_all_images aws cl h timed role a sizes args) (\<lambda>(fns, tags, result).
      thenE (teardown_synthetic_images aws cl fns tags)
      (bindE (of_result result) (\<lambda>(samples, base).
       bindE (peek (unix_ms aws)) (\<lambda>now.
       bindE (new_run_id aws) (\<lambda>run_id.
         write_json h repo_root (probe_out_path image_out ''download-scaling-image'' run_id) to_json
           \<lparr>imo_generated_at = now, imo_region = REGION, imo_memory_mb = SYNTH_MEMORY_MB,
            imo_arch = arch_as_str a, imo_base_image_bytes_est = base,
            imo_n_warm_per_sample = pc_warm_per_sample args, imo_samples = samples,
            imo_zip_baseline = zip_baseline\<rparr>)))))))"

end
