(* ===== verification/Scaling.thy ===== *)
theory Scaling
  imports Image
begin

text \<open>
  \<open>probe download-scaling\<close> as a whole: \<open>run_synthetic\<close> of \<open>bencher/src/probe/synthetic.rs\<close>, which
  provisions, sweeps the zip families, removes what it created, writes the result and then, on
  request, runs the image family.
\<close>

record scaling_args =
  sc_common :: probe_common
  sc_out :: "string option"
  sc_with_image :: bool
  sc_image_out :: "string option"

definition run_synthetic ::
    "'x aws \<Rightarrow> 'x cloud \<Rightarrow> 'x host \<Rightarrow> (synthetic_output \<Rightarrow> string option) \<Rightarrow>
     (image_output \<Rightarrow> string option) \<Rightarrow> string \<Rightarrow> scaling_args \<Rightarrow> ('x, unit) eff" where
  "run_synthetic aws cl h to_json image_to_json repo_root args =
     bindE (of_result (case arch_parse (pc_arch (sc_common args)) of
         Inl e \<Rightarrow> Inl (Message e) | Inr a \<Rightarrow> Inr a)) (\<lambda>a.
     let sizes = SYNTH_DEFAULT_SIZES_MB
     in bindE (aws_load aws cl) (\<lambda>aws.
        bindE (ensure_role aws cl) (\<lambda>role.
        thenE (ensure_bucket aws cl)
        (bindE (read_rust_bootstrap h repo_root a) (\<lambda>bootstrap.
         bindE (sample_all aws h Retryless role a
             [(SynthPython, SYNTH_PY_HANDLER), (SynthRust, bootstrap)] sizes (sc_common args))
           (\<lambda>(created, result).
         thenE (teardown_synthetic aws created)
         (bindE (of_result result) (\<lambda>samples.
          let zip_baseline = filter (\<lambda>s. ss_family s = ''python'') samples
          in bindE (peek (unix_ms aws)) (\<lambda>now.
             bindE (new_run_id aws) (\<lambda>run_id.
             thenE (write_json h repo_root
                 (probe_out_path (sc_out args) ''download-scaling'' run_id) to_json
                 \<lparr>so_generated_at = now, so_region = REGION, so_memory_mb = SYNTH_MEMORY_MB,
                  so_arch = arch_as_str a,
                  so_n_warm_per_sample = pc_warm_per_sample (sc_common args),
                  so_samples = samples\<rparr>)
               (if sc_with_image args
                then run_synthetic_image aws cl h image_to_json repo_root Retryless role
                  (sc_common args) (sc_image_out args) a sizes zip_baseline
                else ret ())))))))))))"

end
