(* ===== verification/Probes.thy ===== *)
theory Probes
  imports Pipeline Scaling
begin

text \<open>
  \<open>bencher/src/probe/download_start.rs\<close> and the dispatch of \<open>bencher/src/probe.rs\<close>: the deployed
  targets are resolved, sized from \<open>dist/\<close>, checked, sampled one after the other and written. The
  fixed note text of the output is left out.
\<close>

record cell_result =
  cr_function_name :: string
  cr_lang :: string
  cr_scenario :: string
  cr_arch_name :: string
  cr_memory_mb :: int
  cr_zip_bytes :: nat
  cr_unzipped_bytes :: nat
  cr_stats :: aggregated
  cr_caller :: caller_warm

record probe_output =
  po_generated_at :: nat
  po_region :: string
  po_n_warm_per_sample :: nat
  po_n_caller_warm :: nat
  po_cells :: "cell_result list"

record download_start_args =
  ds_common :: probe_common
  ds_targets :: start_args
  ds_caller_warm :: nat
  ds_out :: "string option"

definition aggregate_cell ::
    "cell \<Rightarrow> nat \<Rightarrow> nat \<Rightarrow> sample list \<Rightarrow> caller_warm \<Rightarrow> cell_result option" where
  "aggregate_cell c zip_len unzipped samples caller =
     map_option (\<lambda>a.
       \<lparr>cr_function_name = function_name c, cr_lang = lang_as_str (lang c),
        cr_scenario = scenario_as_str (scenario c), cr_arch_name = arch_as_str (arch c),
        cr_memory_mb = memory_mb c, cr_zip_bytes = zip_len, cr_unzipped_bytes = unzipped,
        cr_stats = a, cr_caller = caller\<rparr>)
       (aggregate samples)"

text \<open>The loop over the targets; \<open>expect\<close> on the sizes is a panic.\<close>

fun probe_cells ::
    "'x aws \<Rightarrow> client \<Rightarrow> download_start_args \<Rightarrow> (string \<times> artifact_sizes) list \<Rightarrow> cell list \<Rightarrow>
     ('x, cell_result list) eff" where
  "probe_cells aws timed args sizes [] = ret []"
| "probe_cells aws timed args sizes (c # cs) =
     (let name = function_name c; pl = invoke_payload aws c;
          fronted = is_http_fronted (scenario c)
      in bindE (sample_cold_series aws timed name pl fronted
             (pc_cold_samples (ds_common args)) (pc_warm_per_sample (ds_common args))) (\<lambda>samples.
         bindE (sample_caller_warm aws timed name pl fronted (ds_caller_warm args)) (\<lambda>caller.
         bindE (of_result (panic_none ''size resolved for every probe cell above''
             (map_of sizes name))) (\<lambda>sz.
         bindE (of_result (panic_none ''median of empty sample set''
             (aggregate_cell c (zip_size sz) (unzipped_size sz) samples caller))) (\<lambda>r.
         bindE (probe_cells aws timed args sizes cs) (\<lambda>rs. ret (r # rs)))))))"

definition run_download_start ::
    "'x aws \<Rightarrow> 'x cloud \<Rightarrow> 'x host \<Rightarrow> (probe_output \<Rightarrow> string option) \<Rightarrow> string \<Rightarrow>
     download_start_args \<Rightarrow> ('x, unit) eff" where
  "run_download_start aws cl h to_json repo_root args =
     bindE (of_result (as_message id (arch_parse (pc_arch (ds_common args))))) (\<lambda>a.
     bindE (of_result (as_message select_text (resolve_targets (ds_targets args) a))) (\<lambda>targets.
       if targets = [] then fail (Message ''no target cells selected'')
       else
         bindE (load_artifacts_from_dist h repo_root (unique_artifacts targets))
           (\<lambda>(artifacts, _).
         bindE (of_result (sizes_from_artifacts artifacts targets)) (\<lambda>sizes.
         bindE (aws_load aws cl) (\<lambda>aws.
         thenE (require_deployed aws cl targets)
         (bindE (probe_cells aws Retryless args sizes targets) (\<lambda>results.
          bindE (peek (unix_ms aws)) (\<lambda>now.
          bindE (new_run_id aws) (\<lambda>run_id.
            write_json h repo_root (probe_out_path (ds_out args) ''download-start'' run_id) to_json
              \<lparr>po_generated_at = now, po_region = REGION,
               po_n_warm_per_sample = pc_warm_per_sample (ds_common args),
               po_n_caller_warm = ds_caller_warm args, po_cells = results\<rparr>)))))))))"

datatype probe_args =
    DownloadStart download_start_args
  | DownloadScaling scaling_args

definition run_probe ::
    "'x aws \<Rightarrow> 'x cloud \<Rightarrow> 'x host \<Rightarrow> (probe_output \<Rightarrow> string option) \<Rightarrow>
     (synthetic_output \<Rightarrow> string option) \<Rightarrow> (image_output \<Rightarrow> string option) \<Rightarrow> string \<Rightarrow>
     probe_args \<Rightarrow> ('x, unit) eff" where
  "run_probe aws cl h start_json synth_json image_json repo_root args =
     (case args of
        DownloadStart a \<Rightarrow> run_download_start aws cl h start_json repo_root a
      | DownloadScaling a \<Rightarrow> run_synthetic aws cl h synth_json image_json repo_root a)"

end
