(* ===== verification/Handler.thy ===== *)
theory Handler
  imports Report Lambda_Api
begin

text \<open>
  What the Rust scenario handlers share: their sandbox, and the host CPU report of the
  \<open>cpuinfo\<close> crate, which the driver reads back from the log tail. A handler is another program
  than the driver: it has its own errors, its own calls and a standard error stream, whose lines
  Lambda puts into the invoke's log. AWS, the environment and the file system are parameters.
\<close>

section \<open>The sandbox\<close>

datatype handler_error =
    CallFailed string
  | EnvNotSet string
  | ItemNotFound
  | DecodeFailed string
  | JwkMissing string
  | TokenMissing
  | NoOrder string
  | HandlerPanic string

text \<open>The calls a handler makes, with what it sends.\<close>

datatype attr = AttrS string | AttrB string | AttrOther

datatype request =
    GetItem string string
  | PutItem string "(string \<times> attr) list"
  | Encrypt string string
  | GetObject string string
  | PutObject string string string

record 'x platform =
  var :: "string \<Rightarrow> string option"
  proc_cpuinfo :: "string option"
  get_item :: "string \<Rightarrow> string \<Rightarrow> 'x \<Rightarrow> (string + (string \<Rightarrow> attr option) option) \<times> 'x"
  put_item :: "string \<Rightarrow> (string \<times> attr) list \<Rightarrow> 'x \<Rightarrow> (string + unit) \<times> 'x"
  encrypt :: "string \<Rightarrow> string \<Rightarrow> 'x \<Rightarrow> (string + string option) \<times> 'x"
  get_object :: "string \<Rightarrow> string \<Rightarrow> 'x \<Rightarrow> (string + string) \<times> 'x"
  put_object :: "string \<Rightarrow> string \<Rightarrow> string \<Rightarrow> 'x \<Rightarrow> (string + unit) \<times> 'x"

record 'x sandbox =
  world :: 'x
  stderr :: "string list"
  sent :: "request list"

type_synonym ('x, 'a) act = "'x sandbox \<Rightarrow> (handler_error + 'a) \<times> 'x sandbox"

definition hret :: "'a \<Rightarrow> ('x, 'a) act" where
  "hret v s = (Inr v, s)"

definition herr :: "handler_error \<Rightarrow> ('x, 'a) act" where
  "herr e s = (Inl e, s)"

definition hres :: "handler_error + 'a \<Rightarrow> ('x, 'a) act" where
  "hres r s = (r, s)"

definition hbind :: "('x, 'a) act \<Rightarrow> ('a \<Rightarrow> ('x, 'b) act) \<Rightarrow> ('x, 'b) act" where
  "hbind m k s = (case m s of (Inl e, t) \<Rightarrow> (Inl e, t) | (Inr v, t) \<Rightarrow> k v t)"

text \<open>\<open>send().await?\<close>.\<close>

definition request :: "request \<Rightarrow> ('x \<Rightarrow> (string + 'a) \<times> 'x) \<Rightarrow> ('x, 'a) act" where
  "request q f s =
     (case f (world s) of (r, x) \<Rightarrow>
        (case r of Inl e \<Rightarrow> Inl (CallFailed e) | Inr v \<Rightarrow> Inr v,
         s\<lparr>world := x, sent := sent s @ [q]\<rparr>))"

text \<open>\<open>env::var(name).map_err(..)?\<close>.\<close>

definition env_var_set :: "'x platform \<Rightarrow> string \<Rightarrow> ('x, string) act" where
  "env_var_set p name = hres (ok_or (EnvNotSet name) (var p name))"

lemma hbind_simps [simp]:
  "hbind (hret v) k = k v" "hbind (herr e) k = herr e"
  "hres (Inr v) = hret v" "hres (Inl e) = herr e"
  by (rule ext, simp add: hbind_def hret_def herr_def hres_def)+

lemma hbind_Inr:
  "hbind m k s = (Inr v, t) \<longleftrightarrow> (\<exists>x u. m s = (Inr x, u) \<and> k x u = (Inr v, t))"
  by (auto simp: hbind_def split: prod.splits sum.splits)

section \<open>The host CPU report\<close>

definition CPU_KEY :: string where
  "CPU_KEY = ''lambdabench''"

definition CPU_VALUE :: string where
  "CPU_VALUE = ''cpu''"

text \<open>The value of the first line whose text before the first colon is the name.\<close>

definition cpu_field :: "string \<Rightarrow> string \<Rightarrow> string option" where
  "cpu_field info name =
     (case List.find (\<lambda>l. trim (hd (split_on (CHR '':'') l)) = name) (rust_lines info) of
        None \<Rightarrow> None
      | Some l \<Rightarrow> map_option (\<lambda>(_, v). trim v) (split_once (CHR '':'') l))"

definition or_default :: "string option \<Rightarrow> string" where
  "or_default o' = (case o' of None \<Rightarrow> [] | Some v \<Rightarrow> v)"

definition describe :: "string \<Rightarrow> string" where
  "describe info =
     (let vcpus = length (filter (prefix ''processor'') (rust_lines info));
          arm = ''arm implementer='' @ or_default (cpu_field info ''CPU implementer'') @
            '' part='' @ or_default (cpu_field info ''CPU part'') @
            '' variant='' @ or_default (cpu_field info ''CPU variant'');
          cpu = (case cpu_field info ''model name'' of
              Some model \<Rightarrow> if model \<noteq> [] then model else arm
            | None \<Rightarrow> arm)
      in cpu @ ''; vcpus='' @ show_nat vcpus)"

definition requested :: "(string \<Rightarrow> string option) option \<Rightarrow> bool" where
  "requested custom =
     ((case custom of None \<Rightarrow> None | Some c \<Rightarrow> c CPU_KEY) = Some CPU_VALUE)"

definition report_line :: "'x platform \<Rightarrow> string" where
  "report_line p = ''LAMBDABENCH_CPU '' @ describe (or_default (proc_cpuinfo p))"

definition report_cpu :: "'x platform \<Rightarrow> ('x, unit) act" where
  "report_cpu p s = (Inr (), s\<lparr>stderr := stderr s @ [report_line p]\<rparr>)"

definition report_if_requested ::
    "'x platform \<Rightarrow> (string \<Rightarrow> string option) option \<Rightarrow> ('x, unit) act" where
  "report_if_requested p custom = (if requested custom then report_cpu p else hret ())"

section \<open>What the driver reads back\<close>

lemma split_on_line_free: "l \<in> set (rust_lines s) \<Longrightarrow> nl \<notin> set l"
  unfolding rust_lines_def Let_def
  using split_on_part_free [of _ nl s]
  by (auto simp: strip_cr_def split: if_splits dest!: in_set_butlastD)

lemma trim_mem: "set (trim s) \<subseteq> set s"
  by (auto simp: trim_def dest!: set_dropWhileD)

lemma trim_hd: "trim s \<noteq> [] \<Longrightarrow> \<not> is_ws (hd (trim s))"
proof -
  assume ne: "trim s \<noteq> []"
  let ?d = "dropWhile is_ws s"
  have "trim s = rev (dropWhile is_ws (rev ?d))" by (simp add: trim_def)
  moreover obtain us where "rev ?d = us @ dropWhile is_ws (rev ?d)"
    by (metis takeWhile_dropWhile_id)
  then have "?d = rev (dropWhile is_ws (rev ?d)) @ rev us"
    by (metis rev_append rev_rev_ident)
  ultimately have "?d = trim s @ rev us" by simp
  with ne show "\<not> is_ws (hd (trim s))"
    by (metis append_is_Nil_conv hd_append2 hd_dropWhile)
qed

lemma cpu_field_line: "cpu_field info name = Some v \<Longrightarrow> nl \<notin> set v"
proof -
  assume "cpu_field info name = Some v"
  then obtain l k w where l: "l \<in> set (rust_lines info)" "split_once (CHR '':'') l = Some (k, w)"
    "v = trim w"
    by (auto simp: cpu_field_def split: option.splits dest: find_Some_mem)
  then have "nl \<notin> set w" using split_on_line_free [OF l(1)] by (auto simp: split_once_Some)
  with l(3) trim_mem [of w] show "nl \<notin> set v" by blast
qed

lemma or_default_line: "nl \<notin> set (or_default (cpu_field info name))"
  by (cases "cpu_field info name") (auto simp: or_default_def dest: cpu_field_line)

lemma show_nat_no_nl: "nl \<notin> set (show_nat n)"
  using show_nat_digits [of n] by (force simp: list.pred_set is_digit_def)

lemma cpu_field_hd: "cpu_field info name = Some v \<Longrightarrow> v \<noteq> [] \<Longrightarrow> \<not> is_ws (hd v)"
  by (auto simp: cpu_field_def trim_hd split: option.splits)

lemma describe_parts:
  "\<exists>c. describe info = c @ ''; vcpus='' @
      show_nat (length (filter (prefix ''processor'') (rust_lines info))) \<and>
    c \<noteq> [] \<and> \<not> is_ws (hd c) \<and> nl \<notin> set c"
proof (cases "\<exists>m. cpu_field info ''model name'' = Some m \<and> m \<noteq> []")
  case True
  then obtain m where m: "cpu_field info ''model name'' = Some m" "m \<noteq> []" by blast
  with cpu_field_hd [OF m] cpu_field_line [OF m(1)] show ?thesis
    by (intro exI [of _ m]) (simp add: describe_def)
next
  case False
  let ?arm = "''arm implementer='' @ or_default (cpu_field info ''CPU implementer'') @
    '' part='' @ or_default (cpu_field info ''CPU part'') @
    '' variant='' @ or_default (cpu_field info ''CPU variant'')"
  have "(case cpu_field info ''model name'' of Some m \<Rightarrow> if m \<noteq> [] then m else ?arm | None \<Rightarrow> ?arm) = ?arm"
    using False by (simp split: option.split)
  then have "describe info = ?arm @ ''; vcpus='' @
      show_nat (length (filter (prefix ''processor'') (rust_lines info)))"
    unfolding describe_def Let_def by simp
  moreover have "\<not> is_ws (hd ?arm)" by (simp add: is_ws_def)
  moreover have "nl \<notin> set ?arm" using or_default_line [of info] by simp
  ultimately show ?thesis by blast
qed

lemma trim_ends:
  assumes "s \<noteq> []" "\<not> is_ws (hd s)" "\<not> is_ws (last s)"
  shows "trim s = s"
proof -
  have id: "dropWhile is_ws t = t" if "t \<noteq> []" "\<not> is_ws (hd t)" for t
    using that by (cases t) auto
  have "\<not> is_ws (hd (rev s))" using assms by (simp add: hd_rev)
  with id [of s] id [of "rev s"] assms show ?thesis by (simp add: trim_def)
qed

lemma digit_not_ws: "is_digit c \<Longrightarrow> \<not> is_ws c"
  by (auto simp: is_digit_def is_ws_def)

lemma describe_shape:
  "trim (describe info) = describe info \<and> nl \<notin> set (describe info) \<and> describe info \<noteq> [] \<and>
   last (describe info) \<noteq> CHR 0x0D"
proof -
  let ?n = "length (filter (prefix ''processor'') (rust_lines info))"
  obtain c where c: "describe info = c @ ''; vcpus='' @ show_nat ?n" "c \<noteq> []" "\<not> is_ws (hd c)"
    "nl \<notin> set c" using describe_parts by blast
  have "is_digit (last (show_nat ?n))"
    using show_nat_digits [of ?n] by (simp add: list.pred_set)
  then have l: "is_digit (last (describe info))" using c(1) by simp
  have "hd (describe info) = hd c" "describe info \<noteq> []" using c by simp_all
  with c l digit_not_ws show ?thesis
    by (auto intro!: trim_ends simp: show_nat_no_nl is_digit_def)
qed

lemma split_once_str_prefix: "split_once_str q (q @ w) = Some ([], w)"
  by (cases "q @ w") (auto simp: append_eq_Cons_conv)

lemma cpu_candidates_append:
  "cpu_candidates (xs @ nl # ys) =
     List.map_filter (\<lambda>l. map_option (\<lambda>(_, cpu). trim cpu) (split_once_str ''LAMBDABENCH_CPU '' l))
       (map strip_cr (split_on nl xs)) @ cpu_candidates ys"
  by (simp add: cpu_candidates_def rust_lines_append map_filter_def)

lemma report_line_free: "nl \<notin> set (report_line p)" "strip_cr (report_line p) = report_line p"
  using describe_shape [of "or_default (proc_cpuinfo p)"]
  by (auto simp: report_line_def strip_cr_def)

lemma find_skip: "\<forall>x \<in> set xs. \<not> P x \<Longrightarrow> List.find P (xs @ ys) = List.find P ys"
  by (induction xs) auto

lemma parse_report_line_cpu:
  assumes "pre = [] \<or> last pre = nl" "parse_host_cpu post = None"
  shows "parse_host_cpu (pre @ report_line p @ nl # post) = Some (describe (or_default (proc_cpuinfo p)))"
proof -
  let ?d = "describe (or_default (proc_cpuinfo p))"
  have "\<exists>ls. split_on nl (pre @ report_line p) = ls @ [report_line p]"
  proof (cases "pre = []")
    case True
    then show ?thesis by (simp add: split_on_free report_line_free)
  next
    case False
    with assms(1) have "pre = butlast pre @ [nl]" by (metis append_butlast_last_id)
    then have "split_on nl (pre @ report_line p) = split_on nl (butlast pre) @ [report_line p]"
      using split_on_append [of nl "butlast pre" "report_line p"]
      by (simp add: split_on_free report_line_free) (metis append_Cons append_Nil append_assoc)
    then show ?thesis by blast
  qed
  then obtain ls where ls: "split_on nl (pre @ report_line p) = ls @ [report_line p]" by blast
  have one: "split_once_str ''LAMBDABENCH_CPU '' (report_line p) = Some ([], ?d)"
    unfolding report_line_def by (rule split_once_str_prefix)
  have "\<exists>as. cpu_candidates ((pre @ report_line p) @ nl # post) = as @ [?d] @ cpu_candidates post"
    unfolding cpu_candidates_append ls
    using one report_line_free(2) [of p] describe_shape [of "or_default (proc_cpuinfo p)"]
    by (simp add: map_filter_def)
  then obtain as where "cpu_candidates (pre @ report_line p @ nl # post) = as @ [?d] @ cpu_candidates post"
    by auto
  moreover have "\<forall>d \<in> set (cpu_candidates post). d = []"
    using assms(2) by (simp add: parse_host_cpu_def find_None_iff)
  then have "List.find (\<lambda>cpu. cpu \<noteq> []) (rev (cpu_candidates post) @ zs) = List.find (\<lambda>cpu. cpu \<noteq> []) zs" for zs
    by (intro find_skip) simp
  ultimately show ?thesis
    using describe_shape [of "or_default (proc_cpuinfo p)"] by (simp add: parse_host_cpu_def)
qed

section \<open>Properties\<close>

text \<open>
  C14. The host CPU report of a Rust handler and the driver's parser agree: the client context the
  driver sends carries exactly the entry the handler asks for; without it the handler writes
  nothing; with it the handler writes one line, and from any log tail that holds that line and no
  later report the driver reads back the description, whatever \<open>/proc/cpuinfo\<close> says.
\<close>

theorem host_cpu_round_trip:
  assumes "pre = [] \<or> last pre = nl" "parse_host_cpu post = None"
  shows "HOST_CPU_CLIENT_CONTEXT =
      ''{'' @ quote ''custom'' @ '':{'' @ quote CPU_KEY @ '':'' @ quote CPU_VALUE @ ''}}'' \<and>
    (if requested custom
     then \<exists>l. report_if_requested p custom s = (Inr (), s\<lparr>stderr := stderr s @ [l]\<rparr>) \<and>
       parse_host_cpu (pre @ l @ nl # post) = Some (describe (or_default (proc_cpuinfo p)))
     else report_if_requested p custom s = (Inr (), s))"
  using parse_report_line_cpu [OF assms, of p]
  by (auto simp: HOST_CPU_CLIENT_CONTEXT_def CPU_KEY_def CPU_VALUE_def report_if_requested_def
      report_cpu_def hret_def)

definition graviton3 :: string where
  "graviton3 = ''processor'' @ [CHR 0x09] @ '': 0'' @ [nl] @ ''CPU implementer'' @ [CHR 0x09] @ '': 0x41'' @ [nl] @
     ''CPU variant'' @ [CHR 0x09] @ '': 0x1'' @ [nl] @ ''CPU part'' @ [CHR 0x09] @ '': 0xd40'' @ [nl]"

definition sim_platform :: "unit platform" where
  "sim_platform =
     \<lparr>var = (\<lambda>v. Some v), proc_cpuinfo = Some graviton3,
      get_item = (\<lambda>t k x. (Inr (Some [''payload'' \<mapsto> AttrS ''p'']), x)),
      put_item = (\<lambda>t i x. (Inr (), x)), encrypt = (\<lambda>k b x. (Inr (Some ''c''), x)),
      get_object = (\<lambda>b k x. (Inr ''body'', x)), put_object = (\<lambda>b k c x. (Inr (), x))\<rparr>"

lemma describe_graviton3: "describe graviton3 = ''arm implementer=0x41 part=0xd40 variant=0x1; vcpus=1''"
  by code_simp

theorem host_cpu_round_trip_witness:
  "\<exists>l. report_if_requested sim_platform (Some [CPU_KEY \<mapsto> CPU_VALUE]) \<lparr>world = (), stderr = [], sent = []\<rparr> =
       (Inr (), \<lparr>world = (), stderr = [l], sent = []\<rparr>) \<and>
     parse_host_cpu (''START'' @ [nl] @ l @ [nl] @ ''END'') =
       Some ''arm implementer=0x41 part=0xd40 variant=0x1; vcpus=1''"
proof -
  have "parse_host_cpu ''END'' = None" by code_simp
  from host_cpu_round_trip [OF _ this, of "''START'' @ [nl]" "Some [CPU_KEY \<mapsto> CPU_VALUE]"
      sim_platform "\<lparr>world = (), stderr = [], sent = []\<rparr>"]
  show ?thesis
    by (simp add: requested_def sim_platform_def or_default_def describe_graviton3)
qed

end
