(* ===== verification/Scenario_Handlers.thy ===== *)
theory Scenario_Handlers
  imports Handler S3 Btree "HOL-Library.AList" "HOL-Library.Word"
begin

unbundle bit_operations_syntax

text \<open>
  The Rust scenario handlers: what each does in the init phase (\<open>_init\<close>) and on an event
  (\<open>_event\<close>). Numbers have the width of the source: the handlers are built with the release
  profile, whose arithmetic wraps. The JSON decoder, the JWT library, UTF-8 decoding and the
  order in which a \<open>HashMap\<close> is walked are parameters; the Lambda runtime, which calls
  \<open>_event\<close> once per invoke, and the generated Smithy server are outside.
\<close>

section \<open>hello\<close>

definition hello_handler ::
    "'x platform \<Rightarrow> (string \<Rightarrow> string option) option \<Rightarrow> ('x, json) act" where
  "hello_handler p custom =
     hbind (report_if_requested p custom) (\<lambda>_.
       hret (JObj [(''message'', JStr ''hello''), (''scenario'', JStr ''hello'')]))"

section \<open>oneclient\<close>

text \<open>\<open>item.get("payload").and_then(|v| v.as_s().ok()).cloned()\<close>, as JSON.\<close>

definition payload_of :: "(string \<Rightarrow> attr option) \<Rightarrow> json" where
  "payload_of item =
     (case item ''payload'' of Some (AttrS v) \<Rightarrow> JStr v | _ \<Rightarrow> JNull)"

definition oneclient_handle :: "'x platform \<Rightarrow> string \<Rightarrow> string \<Rightarrow> ('x, json) act" where
  "oneclient_handle p table key =
     hbind (request (GetItem table key) (get_item p table key)) (\<lambda>out.
     hbind (hres (ok_or ItemNotFound out)) (\<lambda>item.
       hret (JObj [(''scenario'', JStr ''oneclient''), (''key'', JStr key),
         (''payload'', payload_of item)])))"

definition oneclient_init :: "'x platform \<Rightarrow> ('x, string \<times> string) act" where
  "oneclient_init p =
     hbind (env_var_set p ''LAMBDABENCH_TABLE'') (\<lambda>table.
     hbind (env_var_set p ''LAMBDABENCH_KEY'') (\<lambda>key. hret (table, key)))"

definition oneclient_event ::
    "'x platform \<Rightarrow> string \<times> string \<Rightarrow> (string \<Rightarrow> string option) option \<Rightarrow> ('x, json) act" where
  "oneclient_event p st custom =
     hbind (report_if_requested p custom) (\<lambda>_. oneclient_handle p (fst st) (snd st))"

section \<open>threeclient\<close>

record clients =
  cl_table :: string
  cl_key :: string
  cl_kms_key_id :: string
  cl_bucket :: string
  cl_object_key :: string

definition threeclient_handle :: "'x platform \<Rightarrow> clients \<Rightarrow> ('x, json) act" where
  "threeclient_handle p c =
     hbind (request (GetItem (cl_table c) (cl_key c)) (get_item p (cl_table c) (cl_key c))) (\<lambda>out.
     hbind (hres (ok_or ItemNotFound out)) (\<lambda>item.
     hbind (request (Encrypt (cl_kms_key_id c) ''hello'') (encrypt p (cl_kms_key_id c) ''hello'')) (\<lambda>blob.
     hbind (request (GetObject (cl_bucket c) (cl_object_key c))
         (get_object p (cl_bucket c) (cl_object_key c))) (\<lambda>body.
       hret (JObj [(''scenario'', JStr ''threeclient''), (''ddb_payload'', payload_of item),
         (''kms_ciphertext_len'', JInt (case blob of None \<Rightarrow> 0 | Some b \<Rightarrow> int (length b))),
         (''s3_object_len'', JInt (int (length body)))])))))"

definition threeclient_init :: "'x platform \<Rightarrow> ('x, clients) act" where
  "threeclient_init p =
     hbind (env_var_set p ''LAMBDABENCH_TABLE'') (\<lambda>t.
     hbind (env_var_set p ''LAMBDABENCH_KEY'') (\<lambda>k.
     hbind (env_var_set p ''LAMBDABENCH_KMS_KEY_ID'') (\<lambda>m.
     hbind (env_var_set p ''LAMBDABENCH_BUCKET'') (\<lambda>b.
     hbind (env_var_set p ''LAMBDABENCH_OBJECT_KEY'') (\<lambda>ob.
       hret \<lparr>cl_table = t, cl_key = k, cl_kms_key_id = m, cl_bucket = b, cl_object_key = ob\<rparr>)))))"

definition threeclient_event ::
    "'x platform \<Rightarrow> clients \<Rightarrow> (string \<Rightarrow> string option) option \<Rightarrow> ('x, json) act" where
  "threeclient_event p c custom =
     hbind (report_if_requested p custom) (\<lambda>_. threeclient_handle p c)"

section \<open>lettercount\<close>

definition is_ascii_lowercase :: "char \<Rightarrow> bool" where
  "is_ascii_lowercase b \<longleftrightarrow> 97 \<le> (of_char b :: nat) \<and> (of_char b :: nat) \<le> 122"

fun count_bytes :: "string \<Rightarrow> 64 word list \<Rightarrow> 64 word list" where
  "count_bytes [] totals = totals"
| "count_bytes (b # bs) totals =
     count_bytes bs
       (if is_ascii_lowercase b
        then (let i = of_char b - 97 in totals[i := totals ! i + 1])
        else totals)"

fun count_entries :: "string list \<Rightarrow> 64 word list \<Rightarrow> 64 word list" where
  "count_entries [] totals = totals"
| "count_entries (s # entries) totals = count_entries entries (count_bytes s totals)"

definition count_letters ::
    "(string \<Rightarrow> string list option) \<Rightarrow> string \<Rightarrow> handler_error + 64 word list" where
  "count_letters from_str doc =
     res_bind (ok_or (DecodeFailed ''strings'') (from_str doc)) (\<lambda>entries.
       Inr (count_entries entries (replicate 26 0)))"

text \<open>The payload fetched once: shared by \<open>lettercount\<close> and \<open>batch\<close> up to the variable's name.\<close>

definition fetch_payload ::
    "'x platform \<Rightarrow> (string \<Rightarrow> string option) \<Rightarrow> string \<Rightarrow> ('x, string) act" where
  "fetch_payload p utf8 key_var =
     hbind (env_var_set p ''LAMBDABENCH_BUCKET'') (\<lambda>bucket.
     hbind (env_var_set p key_var) (\<lambda>key.
     hbind (request (GetObject bucket key) (get_object p bucket key)) (\<lambda>bytes.
       hres (ok_or (DecodeFailed ''utf8'') (utf8 bytes)))))"

definition lettercount_init :: "'x platform \<Rightarrow> (string \<Rightarrow> string option) \<Rightarrow> ('x, string) act" where
  "lettercount_init p utf8 = fetch_payload p utf8 ''LAMBDABENCH_LETTERCOUNT_KEY''"

definition lettercount_event ::
    "'x platform \<Rightarrow> (string \<Rightarrow> string list option) \<Rightarrow> string \<Rightarrow>
     (string \<Rightarrow> string option) option \<Rightarrow> ('x, json) act" where
  "lettercount_event p from_str doc custom =
     hbind (report_if_requested p custom) (\<lambda>_.
     hbind (hres (count_letters from_str doc)) (\<lambda>totals.
       hret (JObj [(''scenario'', JStr ''lettercount''),
         (''letter_counts'', JArr (map (\<lambda>n. JInt (uint n)) totals))])))"

section \<open>batch\<close>

type_synonym event_record = "string \<times> 64 word"

record agg =
  agg_sum :: "64 word"
  agg_count :: "64 word"

fun group_loop ::
    "event_record list \<Rightarrow> (string \<times> agg) list \<Rightarrow> 64 word \<Rightarrow> (string \<times> agg) list \<times> 64 word" where
  "group_loop [] groups tot = (groups, tot)"
| "group_loop ((k, v) # rs) groups tot =
     group_loop rs
       (AList.update k
         (case map_of groups k of
            Some e \<Rightarrow> \<lparr>agg_sum = agg_sum e + v, agg_count = agg_count e + 1\<rparr>
          | None \<Rightarrow> \<lparr>agg_sum = v, agg_count = 1\<rparr>) groups)
       (tot + v)"

definition group_json :: "string \<times> agg \<Rightarrow> json" where
  "group_json e = JObj [(''key'', JStr (fst e)), (''sum'', JInt (sint (agg_sum (snd e)))),
     (''count'', JInt (uint (agg_count (snd e))))]"

definition process_batch ::
    "((string \<times> agg) list \<Rightarrow> (string \<times> agg) list) \<Rightarrow> (string \<Rightarrow> event_record list option) \<Rightarrow>
     string \<Rightarrow> handler_error + json" where
  "process_batch walk_order from_str doc =
     res_bind (ok_or (DecodeFailed ''records'') (from_str doc)) (\<lambda>records.
       let (groups, tot) = group_loop records [] 0
       in Inr (JObj [(''scenario'', JStr ''batch''), (''records'', JInt (int (length records))),
         (''groups'', JInt (int (length groups))), (''total'', JInt (sint tot)),
         (''per_group'', JArr (map group_json (walk_order groups)))]))"

definition batch_init :: "'x platform \<Rightarrow> (string \<Rightarrow> string option) \<Rightarrow> ('x, string) act" where
  "batch_init p utf8 = fetch_payload p utf8 ''LAMBDABENCH_BATCH_KEY''"

definition batch_event ::
    "'x platform \<Rightarrow> ((string \<times> agg) list \<Rightarrow> (string \<times> agg) list) \<Rightarrow>
     (string \<Rightarrow> event_record list option) \<Rightarrow> string \<Rightarrow> (string \<Rightarrow> string option) option \<Rightarrow>
     ('x, json) act" where
  "batch_event p walk_order from_str doc custom =
     hbind (report_if_requested p custom) (\<lambda>_. hres (process_batch walk_order from_str doc))"

section \<open>cache\<close>

definition ENTRIES :: nat where
  "ENTRIES = 200000"

definition ENTRY_BYTES :: nat where
  "ENTRY_BYTES = 512"

definition CHURN :: nat where
  "CHURN = 40000"

record cache_state =
  live :: "8 word list list"
  rot :: nat

definition fresh_buffer :: "nat \<Rightarrow> 8 word list" where
  "fresh_buffer c = (replicate ENTRY_BYTES 0)[0 := of_nat (c AND 255)]"

text \<open>An index out of range panics: \<open>None\<close>.\<close>

fun churn_loop :: "nat list \<Rightarrow> cache_state \<Rightarrow> cache_state option" where
  "churn_loop [] st = Some st"
| "churn_loop (c # cs) st =
     (let idx = (rot st + 1) mod ENTRIES
      in if idx < length (live st)
         then churn_loop cs (st\<lparr>rot := idx, live := (live st)[idx := fresh_buffer c]\<rparr>)
         else None)"

function scan_loop :: "8 word list list \<Rightarrow> nat \<Rightarrow> 64 word \<Rightarrow> 64 word option" where
  "scan_loop bufs i acc =
     (if i < ENTRIES
      then if i < length bufs \<and> bufs ! i \<noteq> []
           then scan_loop bufs (i + 10) (acc + ucast (hd (bufs ! i)))
           else None
      else Some acc)"
  by pat_completeness auto
termination by (relation "measure (\<lambda>(bufs, i, acc). ENTRIES - i)") auto

definition churn_and_scan :: "cache_state \<Rightarrow> (64 word \<times> cache_state) option" where
  "churn_and_scan st =
     (case churn_loop [0..<CHURN] st of
        None \<Rightarrow> None
      | Some st' \<Rightarrow> map_option (\<lambda>acc. (acc, st')) (scan_loop (live st') 0 0))"

definition cache_init :: cache_state where
  "cache_init = \<lparr>live = map fresh_buffer [0..<ENTRIES], rot = 0\<rparr>"

definition cache_event ::
    "'x platform \<Rightarrow> (string \<Rightarrow> string option) option \<Rightarrow> cache_state \<Rightarrow>
     ('x, json \<times> cache_state) act" where
  "cache_event p custom st =
     hbind (report_if_requested p custom) (\<lambda>_.
       case churn_and_scan st of
         None \<Rightarrow> herr (HandlerPanic ''index'')
       | Some (checksum, st') \<Rightarrow>
           hret (JObj [(''scenario'', JStr ''cache''), (''entries'', JInt (int ENTRIES)),
             (''churned'', JInt (int CHURN)), (''checksum'', JInt (uint checksum))], st'))"

section \<open>Letter counts\<close>

lemma letter_index: "i < 26 \<Longrightarrow> char_of (97 + i) = b \<longleftrightarrow> (of_char b :: nat) = 97 + i"
proof
  assume "i < 26" "char_of (97 + i) = b"
  then show "(of_char b :: nat) = 97 + i" by auto
next
  assume "(of_char b :: nat) = 97 + i"
  then show "char_of (97 + i) = b" by (metis char_of_char)
qed

lemma count_bytes_spec:
  "length totals = 26 \<Longrightarrow> count_bytes bs totals =
     map (\<lambda>i. totals ! i + of_nat (count_list bs (char_of (97 + i)))) [0..<26]"
proof (induction bs arbitrary: totals)
  case Nil
  then show ?case by (intro nth_equalityI) (simp_all del: upt_rec_numeral)
next
  case (Cons b bs)
  let ?t = "if is_ascii_lowercase b
    then (let i = of_char b - 97 in totals[i := totals ! i + 1]) else totals"
  have len: "length ?t = 26" using Cons.prems by (simp add: Let_def)
  have "?t ! i + of_nat (count_list bs (char_of (97 + i))) =
      totals ! i + of_nat (count_list (b # bs) (char_of (97 + i)))" if i: "i < 26" for i
  proof (cases "(of_char b :: nat) = 97 + i")
    case True
    then have "char_of (97 + i) = b" using i by (simp only: letter_index)
    with True i Cons.prems show ?thesis
      by (simp add: is_ascii_lowercase_def Let_def)
  next
    case False
    with i have "b \<noteq> char_of (97 + i)" by (metis letter_index)
    moreover have "?t ! i = totals ! i"
      using False by (auto simp: is_ascii_lowercase_def Let_def nth_list_update)
    ultimately show ?thesis by simp
  qed
  with Cons.IH [OF len] show ?case by (simp del: upt_rec_numeral cong: map_cong)
qed

lemma count_entries_spec:
  "length totals = 26 \<Longrightarrow> count_entries entries totals =
     map (\<lambda>i. totals ! i + of_nat (count_list (concat entries) (char_of (97 + i)))) [0..<26]"
proof (induction entries arbitrary: totals)
  case Nil
  then show ?case by (intro nth_equalityI) (simp_all del: upt_rec_numeral)
next
  case (Cons s entries)
  have len: "length (count_bytes s totals) = 26"
    using Cons.prems by (simp add: count_bytes_spec del: upt_rec_numeral)
  have "count_list (s @ xs) c = count_list s c + count_list xs c" for xs c
    by (induction s) auto
  with Cons.prems show ?case
    unfolding count_entries.simps Cons.IH [OF len]
    by (simp add: count_bytes_spec ac_simps del: upt_rec_numeral cong: map_cong)
qed

text \<open>
  C20. \<open>lettercount\<close>: on a payload that decodes to strings, total \<open>i\<close> is the number of occurrences
  of the \<open>i\<close>-th lowercase letter in all of them together, modulo \<open>2 ^ 64\<close>; other bytes count for
  nothing.
\<close>

theorem lettercount_exact:
  "count_letters from_str doc =
     (case from_str doc of
        None \<Rightarrow> Inl (DecodeFailed ''strings'')
      | Some entries \<Rightarrow>
          Inr (map (\<lambda>i. of_nat (count_list (concat entries) (char_of (97 + i)))) [0..<26]))"
proof (cases "from_str doc")
  case None
  then show ?thesis by (simp add: count_letters_def ok_or_def)
next
  case (Some entries)
  have "count_entries entries (replicate 26 0) =
      map (\<lambda>i. of_nat (count_list (concat entries) (char_of (97 + i)))) [0..<26]"
    by (simp add: count_entries_spec del: upt_rec_numeral cong: map_cong)
  with Some show ?thesis by (simp add: count_letters_def ok_or_def del: upt_rec_numeral)
qed

section \<open>Groups of a batch\<close>

definition values_of :: "string \<Rightarrow> event_record list \<Rightarrow> 64 word list" where
  "values_of k rs = map snd (filter (\<lambda>r. fst r = k) rs)"

definition agg_of :: "64 word list \<Rightarrow> agg option \<Rightarrow> agg option" where
  "agg_of vs old =
     (if vs = [] then old
      else case old of
        None \<Rightarrow> Some \<lparr>agg_sum = sum_list vs, agg_count = of_nat (length vs)\<rparr>
      | Some e \<Rightarrow> Some \<lparr>agg_sum = agg_sum e + sum_list vs, agg_count = agg_count e + of_nat (length vs)\<rparr>)"

lemma agg_of_Cons:
  "agg_of (v # vs) old = agg_of vs (Some (case old of
     Some e \<Rightarrow> \<lparr>agg_sum = agg_sum e + v, agg_count = agg_count e + 1\<rparr>
   | None \<Rightarrow> \<lparr>agg_sum = v, agg_count = 1\<rparr>))"
  by (cases vs) (auto simp: agg_of_def ac_simps split: option.splits)

lemma group_loop_spec:
  "group_loop rs groups tot = (g, t) \<Longrightarrow> distinct (map fst groups) \<Longrightarrow>
     distinct (map fst g) \<and> t = tot + sum_list (map snd rs) \<and>
     (\<forall>k. map_of g k = agg_of (values_of k rs) (map_of groups k))"
proof (induction rs arbitrary: groups tot)
  case Nil
  then show ?case by (auto simp: values_of_def agg_of_def)
next
  case (Cons r rs)
  obtain k v where r: "r = (k, v)" by force
  let ?e = "case map_of groups k of
      Some e \<Rightarrow> \<lparr>agg_sum = agg_sum e + v, agg_count = agg_count e + 1\<rparr>
    | None \<Rightarrow> \<lparr>agg_sum = v, agg_count = 1\<rparr>"
  have "group_loop rs (AList.update k ?e groups) (tot + v) = (g, t)" using Cons.prems(1) r by simp
  from Cons.IH [OF this] Cons.prems(2) show ?case
    by (auto simp: r values_of_def update_conv agg_of_Cons distinct_update ac_simps)
qed

lemma mset_walk: "mset (walk g) = mset g \<Longrightarrow> distinct (map fst g) \<Longrightarrow>
    distinct (map fst (walk g)) \<and> set (walk g) = set g"
  by (metis mset_eq_imp_distinct_iff mset_map set_mset_mset)

lemma batch_groups:
  assumes "process_batch walk_order from_str doc = Inr r" "\<And>g. mset (walk_order g) = mset g"
  shows "\<exists>records groups. from_str doc = Some records \<and>
    r = JObj [(''scenario'', JStr ''batch''), (''records'', JInt (int (length records))),
      (''groups'', JInt (int (card (fst ` set records)))),
      (''total'', JInt (sint (sum_list (map snd records)))),
      (''per_group'', JArr (map group_json groups))] \<and>
    distinct (map fst groups) \<and> fst ` set groups = fst ` set records \<and>
    (\<forall>(k, e) \<in> set groups. agg_sum e = sum_list (values_of k records) \<and>
      agg_count e = of_nat (length (values_of k records)))"
proof -
  from assms(1) obtain records g t where rec: "from_str doc = Some records"
    "group_loop records [] 0 = (g, t)"
    "r = JObj [(''scenario'', JStr ''batch''), (''records'', JInt (int (length records))),
      (''groups'', JInt (int (length g))), (''total'', JInt (sint t)),
      (''per_group'', JArr (map group_json (walk_order g)))]"
    by (auto simp: process_batch_def res_bind_def ok_or_def split: option.splits prod.splits)
  have sp: "distinct (map fst g)" "t = sum_list (map snd records)"
    "\<And>k. map_of g k = agg_of (values_of k records) None"
    using group_loop_spec [OF rec(2)] by simp_all
  have dom: "fst ` set g = fst ` set records"
  proof -
    have "k \<in> fst ` set g \<longleftrightarrow> values_of k records \<noteq> []" for k
      using sp(3) [of k] map_of_eq_None_iff [of g k] by (simp add: agg_of_def split: if_splits)
    moreover have "values_of k records \<noteq> [] \<longleftrightarrow> k \<in> fst ` set records" for k
      by (force simp: values_of_def filter_empty_conv)
    ultimately show ?thesis by blast
  qed
  have "length g = card (fst ` set records)"
    using sp(1) dom by (metis distinct_card length_map set_map)
  moreover have "agg_sum e = sum_list (values_of k records) \<and>
      agg_count e = of_nat (length (values_of k records))" if "(k, e) \<in> set g" for k e
    using that sp(3) [of k] map_of_is_SomeI [OF sp(1) that]
    by (auto simp: agg_of_def split: if_splits)
  moreover have "distinct (map fst (walk_order g))" "set (walk_order g) = set g"
    using mset_walk [of walk_order g] assms(2) sp(1) by blast+
  ultimately show ?thesis using rec sp(2) dom
    by (intro exI [of _ records] exI [of _ "walk_order g"]) auto
qed

text \<open>
  C19. \<open>batch\<close>: on a payload that decodes to records the response counts them, its groups are
  exactly the keys that occur, each once in whatever order the map is walked, with the sum and the
  number of the key's records, and the total is the sum of all values (in 64 bits).
\<close>

theorem batch_groups_exact:
  assumes "process_batch walk_order from_str doc = Inr r" "\<And>g. mset (walk_order g) = mset g"
  shows "\<exists>records groups. from_str doc = Some records \<and>
    r = JObj [(''scenario'', JStr ''batch''), (''records'', JInt (int (length records))),
      (''groups'', JInt (int (card (fst ` set records)))),
      (''total'', JInt (sint (sum_list (map snd records)))),
      (''per_group'', JArr (map group_json groups))] \<and>
    distinct (map fst groups) \<and> fst ` set groups = fst ` set records \<and>
    (\<forall>(k, e) \<in> set groups. agg_sum e = sum_list (values_of k records) \<and>
      agg_count e = of_nat (length (values_of k records)))"
  by (rule batch_groups [OF assms])

theorem batch_groups_exact_witness:
  "\<exists>r. process_batch rev (\<lambda>_. Some [(''k1'', 5), (''k1'', - 7), (''k2'', 1)]) ''doc'' = Inr r \<and>
     json_get ''groups'' r = Some (JInt 2) \<and> json_get ''total'' r = Some (JInt (- 1))"
proof -
  let ?f = "\<lambda>_. Some [(''k1'', 5), (''k1'', - 7), (''k2'', 1)] :: event_record list option"
  obtain r where r: "process_batch rev ?f ''doc'' = Inr r"
    by (simp add: process_batch_def ok_or_def)
  from batch_groups_exact [OF r mset_rev] obtain records groups where
    "?f ''doc'' = Some records"
    "r = JObj [(''scenario'', JStr ''batch''), (''records'', JInt (int (length records))),
      (''groups'', JInt (int (card (fst ` set records)))),
      (''total'', JInt (sint (sum_list (map snd records)))),
      (''per_group'', JArr (map group_json groups))]" by blast
  moreover have "records = [(''k1'', 5), (''k1'', - 7), (''k2'', 1)]" using calculation(1) by simp
  moreover have "card (fst ` set [(''k1'', 5 :: 64 word), (''k1'', - 7), (''k2'', 1)]) = 2"
    by (simp add: card_insert_if)
  moreover have "sint (sum_list (map snd [(''k1'', 5 :: 64 word), (''k1'', - 7), (''k2'', 1)])) = - 1"
    by simp
  ultimately have "json_get ''groups'' r = Some (JInt 2)" "json_get ''total'' r = Some (JInt (- 1))"
    by (simp_all only: json_get.simps map_of_Cons_code list.inject char.inject simp_thms if_True if_False of_nat_numeral)
  with r show ?thesis by blast
qed

section \<open>The cache's working set\<close>

definition cache_ok :: "cache_state \<Rightarrow> bool" where
  "cache_ok st \<longleftrightarrow> length (live st) = ENTRIES \<and> rot st < ENTRIES \<and>
     (\<forall>b \<in> set (live st). length b = ENTRY_BYTES)"

lemma length_fresh [simp]: "length (fresh_buffer c) = ENTRY_BYTES"
  by (simp add: fresh_buffer_def)

lemma ENTRIES_pos: "0 < ENTRIES"
  by (simp add: ENTRIES_def)

text \<open>The distance of an index from the ring cursor.\<close>

definition ring_dist :: "nat \<Rightarrow> nat \<Rightarrow> nat" where
  "ring_dist r i = (i + ENTRIES - r - 1) mod ENTRIES"

lemma ring_dist_next:
  assumes "r < ENTRIES" "i < ENTRIES"
  shows "ring_dist r i = (if i = (r + 1) mod ENTRIES then 0 else Suc (ring_dist ((r + 1) mod ENTRIES) i))"
proof (cases "r + 1 = ENTRIES")
  case True
  with assms show ?thesis by (cases i) (auto simp: ring_dist_def)
next
  case False
  with assms have m: "(r + 1) mod ENTRIES = r + 1" by simp
  consider "i \<le> r" | "i = r + 1" | "r + 1 < i" by linarith
  then show ?thesis
  proof cases
    case 1
    with assms have "i + ENTRIES - r - 1 < ENTRIES" "0 < i + ENTRIES - r - 1" using False by linarith+
    with 1 m show ?thesis by (simp add: ring_dist_def)
  next
    case 2
    with m show ?thesis by (simp add: ring_dist_def)
  next
    case 3
    then have "i + ENTRIES - r - 1 = (i - r - 1) + ENTRIES"
      "i + ENTRIES - (r + 1) - 1 = (i - r - 2) + ENTRIES" by linarith+
    with assms(2) have "ring_dist r i = i - r - 1" "ring_dist (r + 1) i = i - r - 2"
      by (simp_all only: ring_dist_def mod_add_self2) simp_all
    with 3 m show ?thesis by simp
  qed
qed

lemma churn_loop_exact:
  "cache_ok st \<Longrightarrow> length cs \<le> ENTRIES \<Longrightarrow>
     \<exists>st'. churn_loop cs st = Some st' \<and> cache_ok st' \<and> rot st' = (rot st + length cs) mod ENTRIES \<and>
       (\<forall>i < ENTRIES. live st' ! i =
          (if ring_dist (rot st) i < length cs then fresh_buffer (cs ! ring_dist (rot st) i) else live st ! i))"
proof (induction cs arbitrary: st)
  case Nil
  then show ?case by (auto simp: cache_ok_def)
next
  case (Cons c cs)
  let ?idx = "(rot st + 1) mod ENTRIES"
  let ?st = "st\<lparr>rot := ?idx, live := (live st)[?idx := fresh_buffer c]\<rparr>"
  have idx: "?idx < length (live st)" "?idx < ENTRIES"
    using Cons.prems(1) ENTRIES_pos by (simp_all add: cache_ok_def)
  have ok: "cache_ok ?st"
    using Cons.prems(1) idx by (auto simp: cache_ok_def dest!: set_update_subset_insert [THEN subsetD])
  from Cons.IH [OF ok] Cons.prems(2) obtain st' where st': "churn_loop cs ?st = Some st'" "cache_ok st'"
    "rot st' = (?idx + length cs) mod ENTRIES"
    "\<forall>i < ENTRIES. live st' ! i =
      (if ring_dist ?idx i < length cs then fresh_buffer (cs ! ring_dist ?idx i) else live ?st ! i)"
    by auto
  have "live st' ! i = (if ring_dist (rot st) i < length (c # cs)
      then fresh_buffer ((c # cs) ! ring_dist (rot st) i) else live st ! i)" if i: "i < ENTRIES" for i
  proof (cases "i = ?idx")
    case True
    have "ring_dist (rot st) i = 0"
      using True i Cons.prems(1) by (simp add: ring_dist_next cache_ok_def)
    moreover have "ring_dist ?idx i = ENTRIES - 1"
      using True i by (auto simp: ring_dist_def)
    ultimately show ?thesis
      using True st'(4) i idx Cons.prems(2) by auto
  next
    case False
    then have "ring_dist (rot st) i = Suc (ring_dist ?idx i)"
      using i Cons.prems(1) ring_dist_next [of "rot st" i] by (simp add: cache_ok_def)
    with st'(4) i False show ?thesis by simp
  qed
  moreover have "rot st' = (rot st + length (c # cs)) mod ENTRIES"
    using st'(3) by (simp add: mod_simps)
  moreover have "churn_loop (c # cs) st = Some st'"
    using st'(1) idx(1) by simp
  ultimately show ?case using st'(2) by blast
qed

declare scan_loop.simps [simp del]

definition first_bytes :: "8 word list list \<Rightarrow> nat \<Rightarrow> nat \<Rightarrow> nat" where
  "first_bytes bufs i n = sum_list (map (\<lambda>j. unat (hd (bufs ! (i + 10 * j)))) [0..<n])"

lemma first_bytes_Suc: "first_bytes bufs i (Suc n) = unat (hd (bufs ! i)) + first_bytes bufs (i + 10) n"
proof -
  have "[0..<Suc n] = 0 # map Suc [0..<n]" by (simp add: map_Suc_upt upt_conv_Cons)
  then show ?thesis by (simp add: first_bytes_def comp_def ac_simps del: upt_Suc)
qed

lemma first_bytes_bound: "first_bytes bufs i n \<le> n * 255"
proof -
  have "unat (w :: 8 word) \<le> 255" for w
  proof -
    have "unat w < 2 ^ LENGTH(8)" by (rule unsigned_less)
    then show ?thesis by simp
  qed
  then show ?thesis using sum_list_le_upper [of "[0..<n]" _ 255] by (simp add: first_bytes_def)
qed

lemma scan_loop_exact:
  assumes "length bufs = ENTRIES" "\<forall>b \<in> set bufs. b \<noteq> []"
  shows "i + 10 * n = ENTRIES \<Longrightarrow> scan_loop bufs i acc = Some (acc + of_nat (first_bytes bufs i n))"
proof (induction n arbitrary: i acc)
  case 0
  then show ?case by (simp add: scan_loop.simps first_bytes_def)
next
  case (Suc n)
  from Suc.prems have i: "i < ENTRIES" "i + 10 + 10 * n = ENTRIES" by simp_all
  with assms have "bufs ! i \<noteq> []" by simp
  with i assms(1) have "scan_loop bufs i acc = scan_loop bufs (i + 10) (acc + ucast (hd (bufs ! i)))"
    by (simp add: scan_loop.simps [of bufs i])
  moreover have "ucast (hd (bufs ! i)) = (of_nat (unat (hd (bufs ! i))) :: 64 word)" by simp
  ultimately show ?case 
    by (simp only: Suc.IH [OF i(2)] first_bytes_Suc of_nat_add add.assoc)
qed

lemma cache_init_ok: "cache_ok cache_init"
  using ENTRIES_pos by (auto simp: cache_ok_def cache_init_def)

lemma churn_and_scan_exact:
  assumes "cache_ok st"
  shows "\<exists>sum st'. churn_and_scan st = Some (sum, st') \<and> cache_ok st' \<and>
    rot st' = (rot st + CHURN) mod ENTRIES \<and>
    (\<forall>i < ENTRIES. live st' ! i =
       (if ring_dist (rot st) i < CHURN then fresh_buffer (ring_dist (rot st) i) else live st ! i)) \<and>
    unat sum = first_bytes (live st') 0 20000"
proof -
  have len: "length [0..<CHURN] \<le> ENTRIES" by (simp add: CHURN_def ENTRIES_def)
  from churn_loop_exact [OF assms len] obtain st' where st': "churn_loop [0..<CHURN] st = Some st'"
    "cache_ok st'" "rot st' = (rot st + CHURN) mod ENTRIES"
    "\<forall>i < ENTRIES. live st' ! i =
       (if ring_dist (rot st) i < CHURN then fresh_buffer (ring_dist (rot st) i) else live st ! i)"
    by auto
  have "\<forall>b \<in> set (live st'). b \<noteq> []" "length (live st') = ENTRIES"
    using st'(2) by (auto simp: cache_ok_def ENTRY_BYTES_def)
  then have scan: "scan_loop (live st') 0 0 = Some (0 + of_nat (first_bytes (live st') 0 20000))"
    by (intro scan_loop_exact) (simp_all add: ENTRIES_def)
  have "first_bytes (live st') 0 20000 \<le> 20000 * 255" by (rule first_bytes_bound)
  then have "unat (of_nat (first_bytes (live st') 0 20000) :: 64 word) = first_bytes (live st') 0 20000"
    by (simp add: unat_of_nat)
  with st' scan show ?thesis by (simp add: churn_and_scan_def)
qed

text \<open>
  C18. \<open>cache\<close>: the working set stays full (its invariant holds of the initial state and after
  every invoke, and no index is out of range); an invoke replaces exactly the \<open>CHURN\<close> buffers after
  the ring cursor and no other, moves the cursor past them, and its checksum is the exact sum of the
  first bytes it scans.
\<close>

theorem cache_invoke_exact:
  assumes "cache_ok st"
  shows "cache_ok cache_init \<and> (\<exists>sum st'. churn_and_scan st = Some (sum, st') \<and> cache_ok st' \<and>
    rot st' = (rot st + CHURN) mod ENTRIES \<and>
    (\<forall>i < ENTRIES. live st' ! i =
       (if ring_dist (rot st) i < CHURN then fresh_buffer (ring_dist (rot st) i) else live st ! i)) \<and>
    unat sum = first_bytes (live st') 0 20000)"
  using cache_init_ok churn_and_scan_exact [OF assms] by blast

theorem cache_invoke_exact_witness:
  "\<exists>sum st'. churn_and_scan cache_init = Some (sum, st') \<and> cache_ok st' \<and> rot st' = 40000"
  using cache_invoke_exact [OF cache_init_ok] by (auto simp: cache_init_def CHURN_def ENTRIES_def)

end
