(* ===== verification/Server_Handlers.thy ===== *)
theory Server_Handlers
  imports Handler Btree "HOL-Library.Word"
begin

text \<open>
  The Rust handlers that serve requests: the JWT authorizer and the two Smithy services.
  The JWT library, the JSON text functions and the generated server SDK are parameters: the
  server routes a validated input to the operation and serializes what it returns.
\<close>

section \<open>authz\<close>

definition EXPECTED_AUD :: string where
  "EXPECTED_AUD = ''lambdabench-gateway''"

definition EXPECTED_ISS :: string where
  "EXPECTED_ISS = ''https://idp.lambdabench.example/''"

datatype claim_type = ClaimString | ClaimBool | ClaimSet

definition CLAIM_CONFIG :: "(string \<times> claim_type) list" where
  "CLAIM_CONFIG =
     [(''sub'', ClaimString), (''email'', ClaimString), (''email_verified'', ClaimBool),
      (''cognito:groups'', ClaimSet), (''scope'', ClaimString), (''tenant_id'', ClaimString),
      (''roles'', ClaimSet)]"

datatype jwt_algorithm = RS256 | OtherAlgorithm

record validation =
  va_algorithm :: jwt_algorithm
  va_nbf :: bool
  va_aud :: "string list"
  va_iss :: "string list"
  va_required :: "string list"

text \<open>The libraries: \<open>'k\<close> is the decoding key.\<close>

record 'k jwt_lib =
  jwk_text :: string
  value_from_str :: "string \<Rightarrow> json option"
  rsa_key :: "string \<Rightarrow> string \<Rightarrow> 'k option"
  decode_token :: "string \<Rightarrow> 'k \<Rightarrow> validation \<Rightarrow> json option"
  value_text :: "json \<Rightarrow> string option"
  number_text :: "json \<Rightarrow> string"

fun as_str :: "json \<Rightarrow> string option" where
  "as_str (JStr v) = Some v"
| "as_str _ = None"

text \<open>\<open>value["k"].as_str()\<close>: an absent key indexes to null.\<close>

definition str_member :: "string \<Rightarrow> json \<Rightarrow> string option" where
  "str_member k v = (case json_get k v of None \<Rightarrow> None | Some w \<Rightarrow> as_str w)"

definition decoding_key_from_jwk :: "'k jwt_lib \<Rightarrow> handler_error + 'k" where
  "decoding_key_from_jwk lib =
     res_bind (ok_or (DecodeFailed ''jwk'') (value_from_str lib (jwk_text lib))) (\<lambda>jwk.
     res_bind (ok_or (JwkMissing ''n'') (str_member ''n'' jwk)) (\<lambda>n.
     res_bind (ok_or (JwkMissing ''e'') (str_member ''e'' jwk)) (\<lambda>e.
       ok_or (DecodeFailed ''rsa'') (rsa_key lib n e))))"

text \<open>\<open>Validation::new\<close> pins the algorithm and requires \<open>exp\<close>; the rest is set on it.\<close>

definition new_validation :: "jwt_algorithm \<Rightarrow> validation" where
  "new_validation alg =
     \<lparr>va_algorithm = alg, va_nbf = False, va_aud = [], va_iss = [], va_required = [''exp'']\<rparr>"

definition authz_validation :: validation where
  "authz_validation =
     (new_validation RS256)\<lparr>va_nbf := True, va_aud := [EXPECTED_AUD], va_iss := [EXPECTED_ISS],
       va_required := [''exp'', ''iss'', ''aud'']\<rparr>"

fun map_to_string :: "'k jwt_lib \<Rightarrow> json \<Rightarrow> json option" where
  "map_to_string lib (JStr v) = Some (JStr v)"
| "map_to_string lib (JObj kvs) = map_option JStr (value_text lib (JObj kvs))"
| "map_to_string lib (JArr vs) = map_option JStr (value_text lib (JArr vs))"
| "map_to_string lib (JBool b) = Some (JStr (if b then ''true'' else ''false''))"
| "map_to_string lib (JInt n) = Some (JStr (number_text lib (JInt n)))"
| "map_to_string lib (JFloat n) = Some (JStr (number_text lib (JFloat n)))"
| "map_to_string lib JNull = None"

fun map_to_bool :: "json \<Rightarrow> json option" where
  "map_to_bool (JBool b) = Some (JBool b)"
| "map_to_bool (JStr v) =
     (if v = ''true'' then Some (JBool True)
      else if v = ''false'' then Some (JBool False) else None)"
| "map_to_bool _ = None"

fun map_to_set :: "json \<Rightarrow> json option" where
  "map_to_set (JArr vs) = Some (JArr (filter (\<lambda>v. as_str v \<noteq> None) vs))"
| "map_to_set (JStr v) = Some (JArr [JStr v])"
| "map_to_set _ = None"

definition map_claim :: "'k jwt_lib \<Rightarrow> claim_type \<Rightarrow> json \<Rightarrow> json option" where
  "map_claim lib ty v =
     (case ty of
        ClaimString \<Rightarrow> map_to_string lib v
      | ClaimBool \<Rightarrow> map_to_bool v
      | ClaimSet \<Rightarrow> map_to_set v)"

fun extract_claims ::
    "'k jwt_lib \<Rightarrow> json \<Rightarrow> (string \<times> claim_type) list \<Rightarrow> (string \<times> json) list \<Rightarrow>
     (string \<times> json) list" where
  "extract_claims lib claims [] extracted = extracted"
| "extract_claims lib claims ((name, ty) # config) extracted =
     (case json_get name claims of
        None \<Rightarrow> extract_claims lib claims config extracted
      | Some v \<Rightarrow>
          if v = JNull then extract_claims lib claims config extracted
          else case map_claim lib ty v of
            None \<Rightarrow> extract_claims lib claims config extracted
          | Some m \<Rightarrow> extract_claims lib claims config (bt_insert name m extracted))"

definition authorize :: "'k jwt_lib \<Rightarrow> 'k \<Rightarrow> validation \<Rightarrow> string \<Rightarrow> handler_error + json" where
  "authorize lib key validation token =
     res_bind (ok_or (DecodeFailed ''token'') (decode_token lib token key validation)) (\<lambda>claims.
       Inr (JObj (extract_claims lib claims CLAIM_CONFIG [])))"

definition authz_init :: "'k jwt_lib \<Rightarrow> handler_error + 'k \<times> validation" where
  "authz_init lib =
     res_bind (decoding_key_from_jwk lib) (\<lambda>key. Inr (key, authz_validation))"

definition authz_event ::
    "'x platform \<Rightarrow> 'k jwt_lib \<Rightarrow> 'k \<times> validation \<Rightarrow> json \<Rightarrow> (string \<Rightarrow> string option) option \<Rightarrow>
     ('x, json) act" where
  "authz_event p lib st event custom =
     hbind (report_if_requested p custom) (\<lambda>_.
     hbind (hres (ok_or TokenMissing (str_member ''token'' event))) (\<lambda>token.
     hbind (hres (authorize lib (fst st) (snd st) token)) (\<lambda>claims.
       hret (JObj [(''scenario'', JStr ''authz''), (''authorized'', JBool True),
         (''claims'', claims)]))))"

section \<open>smithy\<close>

record coffee_item =
  ci_type :: string
  ci_description :: string

record order_out =
  oo_id :: string
  oo_coffee_type :: string
  oo_status :: string

text \<open>\<open>fetch_add\<close> wraps, and so does the sum with one in the release profile.\<close>

definition smithy_get_menu :: "64 word \<Rightarrow> coffee_item list \<times> 64 word" where
  "smithy_get_menu requests =
     (let n = requests + 1
      in ([\<lparr>ci_type = ''Drip'', ci_description = ''lambdabench #'' @ show_nat (unat n)\<rparr>],
          requests + 1))"

definition get_order :: "string \<Rightarrow> handler_error + order_out" where
  "get_order oid = Inl (NoOrder oid)"

definition ORDER_ID :: string where
  "ORDER_ID = ''00000000-0000-0000-0000-000000000000''"

text \<open>\<open>Uuid::try_from\<close> is generated code: \<open>valid_uuid\<close>.\<close>

definition order_response :: "(string \<Rightarrow> bool) \<Rightarrow> string \<Rightarrow> handler_error + order_out" where
  "order_response valid_uuid coffee =
     (if valid_uuid ORDER_ID
      then Inr \<lparr>oo_id = ORDER_ID, oo_coffee_type = coffee, oo_status = ''IN_PROGRESS''\<rparr>
      else Inl (HandlerPanic ''valid uuid''))"

definition smithy_create_order :: "(string \<Rightarrow> bool) \<Rightarrow> string \<Rightarrow> handler_error + order_out" where
  "smithy_create_order valid_uuid coffee = order_response valid_uuid coffee"

section \<open>smithyfull\<close>

record order_state =
  os_table :: string
  os_kms_key_id :: string
  os_bucket :: string
  os_order_pk :: string
  os_receipt_key :: string

text \<open>A variable that is not set panics in the init phase.\<close>

definition env_var_expected :: "'x platform \<Rightarrow> string \<Rightarrow> ('x, string) act" where
  "env_var_expected p name =
     hres (ok_or (HandlerPanic (name @ '' not set'')) (var p name))"

definition smithyfull_init :: "'x platform \<Rightarrow> ('x, order_state) act" where
  "smithyfull_init p =
     hbind (env_var_expected p ''LAMBDABENCH_TABLE'') (\<lambda>t.
     hbind (env_var_expected p ''LAMBDABENCH_KMS_KEY_ID'') (\<lambda>k.
     hbind (env_var_expected p ''LAMBDABENCH_BUCKET'') (\<lambda>b.
     hbind (env_var_expected p ''LAMBDABENCH_ORDER_PK'') (\<lambda>pk.
     hbind (env_var_expected p ''LAMBDABENCH_RECEIPT_KEY'') (\<lambda>r.
       hret \<lparr>os_table = t, os_kms_key_id = k, os_bucket = b, os_order_pk = pk,
         os_receipt_key = r\<rparr>)))))"

definition order_item :: "order_state \<Rightarrow> string \<Rightarrow> string option \<Rightarrow> (string \<times> attr) list" where
  "order_item st coffee signature =
     [(''pk'', AttrS (os_order_pk st)), (''coffeeType'', AttrS coffee),
      (''status'', AttrS ''IN_PROGRESS'')] @
     (case signature of None \<Rightarrow> [] | Some sig \<Rightarrow> [(''signature'', AttrB sig)])"

definition run_work :: "'x platform \<Rightarrow> order_state \<Rightarrow> string \<Rightarrow> ('x, unit) act" where
  "run_work p st coffee =
     (let text_in = ''order:'' @ coffee
      in hbind (request (Encrypt (os_kms_key_id st) text_in)
             (encrypt p (os_kms_key_id st) text_in)) (\<lambda>signature.
         let it = order_item st coffee signature
         in hbind (request (PutItem (os_table st) it) (put_item p (os_table st) it)) (\<lambda>_.
            let receipt = ''receipt for '' @ coffee @ '' order''
            in request (PutObject (os_bucket st) (os_receipt_key st) receipt)
                 (put_object p (os_bucket st) (os_receipt_key st) receipt))))"

text \<open>A failed write flow panics.\<close>

definition smithyfull_create_order ::
    "'x platform \<Rightarrow> (string \<Rightarrow> bool) \<Rightarrow> order_state \<Rightarrow> string \<Rightarrow> ('x, order_out) act" where
  "smithyfull_create_order p valid_uuid st coffee s =
     (case run_work p st coffee s of
        (Inl e, t) \<Rightarrow> (Inl (HandlerPanic ''smithyfull AWS write flow failed''), t)
      | (Inr _, t) \<Rightarrow> hres (order_response valid_uuid coffee) t)"

definition smithyfull_get_menu :: "coffee_item list" where
  "smithyfull_get_menu = [\<lparr>ci_type = ''Drip'', ci_description = ''lambdabench''\<rparr>]"

definition smithyfull_get_order :: "string \<Rightarrow> handler_error + order_out" where
  "smithyfull_get_order oid = Inl (NoOrder oid)"

section \<open>The registered operations\<close>

text \<open>
  An event of a service after the generated routing: the layer of \<open>main\<close> reports the host CPU if it
  is asked to and passes the request on to the operation registered for it.
\<close>

datatype coffee_request = GetMenu | GetOrder string | CreateOrder string

datatype coffee_reply = Menu "coffee_item list" | Order order_out

definition smithy_event ::
    "'x platform \<Rightarrow> (string \<Rightarrow> bool) \<Rightarrow> 64 word \<Rightarrow> (string \<Rightarrow> string option) option \<Rightarrow> coffee_request \<Rightarrow>
     ('x, coffee_reply \<times> 64 word) act" where
  "smithy_event p valid_uuid requests custom q =
     hbind (report_if_requested p custom) (\<lambda>_.
       case q of
         GetMenu \<Rightarrow> (case smithy_get_menu requests of (items, n) \<Rightarrow> hret (Menu items, n))
       | GetOrder oid \<Rightarrow> hbind (hres (get_order oid)) (\<lambda>r. hret (Order r, requests))
       | CreateOrder coffee \<Rightarrow>
           hbind (hres (smithy_create_order valid_uuid coffee)) (\<lambda>r. hret (Order r, requests)))"

definition smithyfull_event ::
    "'x platform \<Rightarrow> (string \<Rightarrow> bool) \<Rightarrow> order_state \<Rightarrow> (string \<Rightarrow> string option) option \<Rightarrow>
     coffee_request \<Rightarrow> ('x, coffee_reply) act" where
  "smithyfull_event p valid_uuid st custom q =
     hbind (report_if_requested p custom) (\<lambda>_.
       case q of
         GetMenu \<Rightarrow> hret (Menu smithyfull_get_menu)
       | GetOrder oid \<Rightarrow> hbind (hres (smithyfull_get_order oid)) (\<lambda>r. hret (Order r))
       | CreateOrder coffee \<Rightarrow>
           hbind (smithyfull_create_order p valid_uuid st coffee) (\<lambda>r. hret (Order r)))"

section \<open>What the authorizer hands on\<close>

definition claim_of :: "'k jwt_lib \<Rightarrow> json \<Rightarrow> (string \<times> claim_type) list \<Rightarrow> string \<Rightarrow> json option" where
  "claim_of lib claims config name =
     (case map_of config name of
        None \<Rightarrow> None
      | Some ty \<Rightarrow> (case json_get name claims of
          None \<Rightarrow> None
        | Some v \<Rightarrow> if v = JNull then None else map_claim lib ty v))"

lemma extract_claims_lookup:
  "distinct (map fst config) \<Longrightarrow>
     map_of (extract_claims lib claims config m) name =
       (case claim_of lib claims config name of None \<Rightarrow> map_of m name | Some v \<Rightarrow> Some v)"
proof (induction config arbitrary: m)
  case Nil
  then show ?case by (simp add: claim_of_def)
next
  case (Cons c config)
  obtain nm ty where c: "c = (nm, ty)" by force
  have "map_of config nm = None" using Cons.prems c by (simp add: map_of_eq_None_iff)
  then have none: "claim_of lib claims config nm = None" by (simp add: claim_of_def)
  have other: "nm \<noteq> name \<Longrightarrow> claim_of lib claims (c # config) name = claim_of lib claims config name"
    by (simp add: claim_of_def c)
  have here: "claim_of lib claims (c # config) nm =
      (case json_get nm claims of None \<Rightarrow> None | Some v \<Rightarrow> if v = JNull then None else map_claim lib ty v)"
    by (simp add: claim_of_def c)
  show ?case
    using Cons none other here
    by (cases "nm = name") (auto simp: c split: option.splits)
qed

lemma extract_claims_ok: "bt_ok m \<Longrightarrow> bt_ok (extract_claims lib claims config m)"
  by (induction config arbitrary: m) (auto split: option.splits prod.splits)

definition claim_typed :: "claim_type \<Rightarrow> json \<Rightarrow> bool" where
  "claim_typed ty v =
     (case ty of
        ClaimString \<Rightarrow> \<exists>t. v = JStr t
      | ClaimBool \<Rightarrow> \<exists>b. v = JBool b
      | ClaimSet \<Rightarrow> \<exists>ts. v = JArr (map JStr ts))"

lemma as_str_Some: "as_str v = Some t \<longleftrightarrow> v = JStr t"
  by (cases v) auto

lemma strings_only: "\<exists>ts. filter (\<lambda>v. as_str v \<noteq> None) vs = map JStr ts"
proof (induction vs)
  case Nil
  then show ?case by simp
next
  case (Cons v vs)
  then obtain ts where "filter (\<lambda>v. as_str v \<noteq> None) vs = map JStr ts" by blast
  then show ?case
    by (cases "as_str v") (auto simp: as_str_Some intro: exI [of _ "_ # ts"])
qed

lemma map_claim_typed: "map_claim lib ty v = Some w \<Longrightarrow> claim_typed ty w"
  using strings_only
  by (cases ty; cases v) (auto simp: map_claim_def claim_typed_def split: if_splits intro: exI [of _ "[_]"])

lemma distinct_config: "distinct (map fst CLAIM_CONFIG)"
  by code_simp

text \<open>
  C17. The Rust authorizer answers only for a token of the payload that the JWT library verified
  under the pinned rules (RS256, \<open>nbf\<close> checked, one audience and one issuer, \<open>exp\<close>, \<open>iss\<close> and
  \<open>aud\<close> required). The claims it hands on are exactly the configured ones that are present, not
  null and of a convertible kind, each of the type its configuration names, under ascending names.
\<close>

theorem authz_claims_typed:
  assumes "authz_init lib = Inr st" "authz_event p lib st event custom s = (Inr r, t)"
  shows "\<exists>token claims m.
    json_get ''token'' event = Some (JStr token) \<and>
    decode_token lib token (fst st) \<lparr>va_algorithm = RS256, va_nbf = True,
      va_aud = [''lambdabench-gateway''], va_iss = [''https://idp.lambdabench.example/''],
      va_required = [''exp'', ''iss'', ''aud'']\<rparr> = Some claims \<and>
    json_get ''claims'' r = Some (JObj m) \<and> sorted_wrt (<) (map fst m) \<and>
    (\<forall>name v. map_of m name = Some v \<longleftrightarrow>
      (\<exists>ty w. map_of CLAIM_CONFIG name = Some ty \<and> json_get name claims = Some w \<and> w \<noteq> JNull \<and>
        map_claim lib ty w = Some v \<and> claim_typed ty v))"
proof -
  from assms(1) have st: "snd st = authz_validation"
    by (auto simp: authz_init_def res_bind_def split: sum.splits)
  from assms(2) obtain token claims where tok: "str_member ''token'' event = Some token"
    "decode_token lib token (fst st) (snd st) = Some claims"
    "r = JObj [(''scenario'', JStr ''authz''), (''authorized'', JBool True),
      (''claims'', JObj (extract_claims lib claims CLAIM_CONFIG []))]"
    by (auto simp: authz_event_def hbind_Inr hres_def authorize_def res_bind_def ok_or_def hret_def
        split: option.splits sum.splits)
  let ?m = "extract_claims lib claims CLAIM_CONFIG []"
  have look: "map_of ?m name = claim_of lib claims CLAIM_CONFIG name" for name
    by (simp add: extract_claims_lookup distinct_config split: option.split)
  have "map_of ?m name = Some v \<longleftrightarrow>
      (\<exists>ty w. map_of CLAIM_CONFIG name = Some ty \<and> json_get name claims = Some w \<and> w \<noteq> JNull \<and>
        map_claim lib ty w = Some v \<and> claim_typed ty v)" for name v
    using map_claim_typed [of lib _ _ v]
    by (auto simp: look claim_of_def split: option.splits if_splits)
  moreover have "json_get ''token'' event = Some (JStr token)"
    using tok(1) by (auto simp: str_member_def as_str_Some split: option.splits)
  moreover have "sorted_wrt (<) (map fst ?m)"
    using extract_claims_ok [of "[]" lib claims CLAIM_CONFIG] by (simp add: bt_ok_def)
  moreover have "authz_validation = \<lparr>va_algorithm = RS256, va_nbf = True,
      va_aud = [''lambdabench-gateway''], va_iss = [''https://idp.lambdabench.example/''],
      va_required = [''exp'', ''iss'', ''aud'']\<rparr>"
    by (simp add: authz_validation_def new_validation_def EXPECTED_AUD_def EXPECTED_ISS_def)
  ultimately show ?thesis using tok(2,3) st by (intro exI [of _ token] exI [of _ claims] exI [of _ ?m]) simp
qed

text \<open>A library whose one key verifies the token \<open>t\<close>.\<close>

definition sim_jwt :: "unit jwt_lib" where
  "sim_jwt =
     \<lparr>jwk_text = ''jwk'', value_from_str = (\<lambda>_. Some (JObj [(''n'', JStr ''9''), (''e'', JStr ''3'')])),
      rsa_key = (\<lambda>_ _. Some ()),
      decode_token = (\<lambda>t k v. if t = ''t'' then Some (JObj [(''roles'', JArr [JStr ''a'', JInt 1]),
        (''email_verified'', JStr ''true''), (''extra'', JInt 2), (''sub'', JNull)]) else None),
      value_text = (\<lambda>_. Some []), number_text = (\<lambda>_. [])\<rparr>"

theorem authz_claims_typed_witness:
  "\<exists>r t. authz_event sim_platform sim_jwt ((), authz_validation) (JObj [(''token'', JStr ''t'')]) None
      \<lparr>world = (), stderr = [], sent = []\<rparr> = (Inr r, t) \<and>
     (\<exists>m. json_get ''claims'' r = Some (JObj m) \<and> map_of m ''roles'' = Some (JArr [JStr ''a'']) \<and>
        map_of m ''extra'' = None)"
proof -
  have i: "authz_init sim_jwt = Inr ((), authz_validation)"
    by (simp add: authz_init_def decoding_key_from_jwk_def sim_jwt_def ok_or_def str_member_def)
  obtain r t where e: "authz_event sim_platform sim_jwt ((), authz_validation)
      (JObj [(''token'', JStr ''t'')]) None \<lparr>world = (), stderr = [], sent = []\<rparr> = (Inr r, t)"
    by (simp add: authz_event_def report_if_requested_def requested_def str_member_def ok_or_def
        authorize_def sim_jwt_def hbind_def hret_def hres_def)
  from authz_claims_typed [OF i e] obtain m where m: "json_get ''claims'' r = Some (JObj m)"
    "\<And>name v. map_of m name = Some v \<longleftrightarrow>
      (\<exists>ty w. map_of CLAIM_CONFIG name = Some ty \<and> json_get name (JObj [(''roles'', JArr [JStr ''a'', JInt 1]),
        (''email_verified'', JStr ''true''), (''extra'', JInt 2), (''sub'', JNull)]) = Some w \<and> w \<noteq> JNull \<and>
        map_claim sim_jwt ty w = Some v \<and> claim_typed ty v)"
    by (auto simp: sim_jwt_def)
  have "map_of m ''roles'' = Some (JArr [JStr ''a''])"
    unfolding m(2) by (auto simp: CLAIM_CONFIG_def map_claim_def claim_typed_def intro: exI [of _ "[''a'']"])
  moreover have "map_of m ''extra'' = None"
    using m(2) [of "''extra''"] by (cases "map_of m ''extra''") (auto simp: CLAIM_CONFIG_def)
  ultimately show ?thesis using e m(1) by blast
qed

end
