(* ===== verification/Deployed_Handlers.thy ===== *)
theory Deployed_Handlers
  imports Scenario_Handlers Server_Handlers Sim
begin

text \<open>
  The driver and the Rust handlers together: the environment a deployment sets is the one the
  handlers read, no two functions share a write target, and the batch that is seeded groups into
  the configured number of keys.
\<close>

section \<open>The environment\<close>

lemma env_var_set_Some: "var p name = Some v \<Longrightarrow> env_var_set p name = hret v"
  by (rule ext) (simp add: env_var_set_def ok_or_def)

lemma env_var_expected_Some: "var p name = Some v \<Longrightarrow> env_var_expected p name = hret v"
  by (rule ext) (simp add: env_var_expected_def ok_or_def)

lemmas env_found = env_var_set_Some env_var_expected_Some oneclient_init_def threeclient_init_def
  lettercount_init_def batch_init_def fetch_payload_def smithyfull_init_def

lemmas wired = environment_vars_def Let_def ok_or_def res_bind_def needs_ddb_def needs_s3_def
  needs_kms_s3_def

text \<open>
  C15. The environment the driver deploys a function with holds every variable the Rust handler of
  its scenario reads in the init phase, and each is the resource the driver provisions: the init
  phase never fails on the environment. KMS scenarios are only wired with a known key.
\<close>

theorem handlers_find_environment:
  assumes "environment_vars aws key_id c = Inr (var p)"
  shows "case scenario c of
      OneClient \<Rightarrow> oneclient_init p s = (Inr (TABLE_NAME, SEED_KEY), s)
    | ThreeClient \<Rightarrow> (\<exists>k. key_id = Some k \<and>
        threeclient_init p s = (Inr \<lparr>cl_table = TABLE_NAME, cl_key = SEED_KEY, cl_kms_key_id = k,
          cl_bucket = bucket_name aws, cl_object_key = S3_OBJECT_KEY\<rparr>, s))
    | LetterCount \<Rightarrow> lettercount_init p utf8 =
        hbind (request (GetObject (bucket_name aws) S3_LETTERCOUNT_KEY)
          (get_object p (bucket_name aws) S3_LETTERCOUNT_KEY))
          (\<lambda>bytes. hres (ok_or (DecodeFailed ''utf8'') (utf8 bytes)))
    | Batch \<Rightarrow> batch_init p utf8 =
        hbind (request (GetObject (bucket_name aws) S3_BATCH_KEY)
          (get_object p (bucket_name aws) S3_BATCH_KEY))
          (\<lambda>bytes. hres (ok_or (DecodeFailed ''utf8'') (utf8 bytes)))
    | SmithyFull \<Rightarrow> (\<exists>k. key_id = Some k \<and>
        smithyfull_init p s = (Inr \<lparr>os_table = TABLE_NAME, os_kms_key_id = k,
          os_bucket = bucket_name aws, os_order_pk = ORDER_PK @ ''-'' @ function_name c,
          os_receipt_key = function_name c @ ''/'' @ S3_RECEIPT_KEY\<rparr>, s))
    | _ \<Rightarrow> True"
proof (cases "scenario c")
  case OneClient
  with assms [symmetric] have "var p ''LAMBDABENCH_TABLE'' = Some TABLE_NAME" "var p ''LAMBDABENCH_KEY'' = Some SEED_KEY"
    by (simp_all add: wired)
  with OneClient show ?thesis by (simp add: env_found hret_def)
next
  case ThreeClient
  then obtain k where k: "key_id = Some k"
    using assms by (cases key_id) (simp_all add: wired)
  with assms [symmetric] ThreeClient have "var p ''LAMBDABENCH_TABLE'' = Some TABLE_NAME"
    "var p ''LAMBDABENCH_KEY'' = Some SEED_KEY" "var p ''LAMBDABENCH_KMS_KEY_ID'' = Some k"
    "var p ''LAMBDABENCH_BUCKET'' = Some (bucket_name aws)"
    "var p ''LAMBDABENCH_OBJECT_KEY'' = Some S3_OBJECT_KEY"
    by (simp_all add: wired)
  with ThreeClient k show ?thesis by (simp add: env_found hret_def)
next
  case LetterCount
  with assms [symmetric] have "var p ''LAMBDABENCH_BUCKET'' = Some (bucket_name aws)"
    "var p ''LAMBDABENCH_LETTERCOUNT_KEY'' = Some S3_LETTERCOUNT_KEY"
    by (simp_all add: wired)
  with LetterCount show ?thesis by (simp add: env_found)
next
  case Batch
  with assms [symmetric] have "var p ''LAMBDABENCH_BUCKET'' = Some (bucket_name aws)"
    "var p ''LAMBDABENCH_BATCH_KEY'' = Some S3_BATCH_KEY"
    by (simp_all add: wired)
  with Batch show ?thesis by (simp add: env_found)
next
  case SmithyFull
  then obtain k where k: "key_id = Some k"
    using assms by (cases key_id) (simp_all add: wired)
  with assms [symmetric] SmithyFull have "var p ''LAMBDABENCH_TABLE'' = Some TABLE_NAME"
    "var p ''LAMBDABENCH_KMS_KEY_ID'' = Some k"
    "var p ''LAMBDABENCH_BUCKET'' = Some (bucket_name aws)"
    "var p ''LAMBDABENCH_ORDER_PK'' = Some (ORDER_PK @ ''-'' @ function_name c)"
    "var p ''LAMBDABENCH_RECEIPT_KEY'' = Some (function_name c @ ''/'' @ S3_RECEIPT_KEY)"
    by (simp_all add: wired)
  with SmithyFull k show ?thesis by (simp add: env_found hret_def)
qed simp_all

theorem handlers_find_environment_witness:
  "\<exists>vars. environment_vars sim None rust_oneclient_jitter = Inr vars \<and>
     oneclient_init (sim_platform\<lparr>var := vars\<rparr>) \<lparr>world = (), stderr = [], sent = []\<rparr> =
       (Inr (TABLE_NAME, SEED_KEY), \<lparr>world = (), stderr = [], sent = []\<rparr>)"
proof -
  have c: "scenario rust_oneclient_jitter = OneClient" by (simp add: rust_oneclient_jitter_def)
  obtain vars where v: "environment_vars sim None rust_oneclient_jitter = Inr vars"
    by (simp add: wired c)
  then have "environment_vars sim None rust_oneclient_jitter = Inr (var (sim_platform\<lparr>var := vars\<rparr>))"
    by simp
  from handlers_find_environment [OF this] v c show ?thesis by simp
qed

section \<open>Write targets\<close>

text \<open>
  C22. No two functions of the matrix write the same order item or the same receipt object: the
  write targets wired for different \<open>smithyfull\<close> and \<open>threeclient\<close> cells are different.
\<close>

theorem write_targets_distinct:
  assumes "c \<in> set all_cells" "d \<in> set all_cells" "c \<noteq> d"
    and "needs_kms_s3 (scenario c)" "needs_kms_s3 (scenario d)"
    and "environment_vars aws key_id c = Inr v" "environment_vars aws key_id d = Inr w"
  shows "v ''LAMBDABENCH_ORDER_PK'' \<noteq> w ''LAMBDABENCH_ORDER_PK'' \<and>
    v ''LAMBDABENCH_RECEIPT_KEY'' \<noteq> w ''LAMBDABENCH_RECEIPT_KEY''"
proof -
  have targets: "u ''LAMBDABENCH_ORDER_PK'' = Some (ORDER_PK @ ''-'' @ function_name e)"
    "u ''LAMBDABENCH_RECEIPT_KEY'' = Some (function_name e @ ''/'' @ S3_RECEIPT_KEY)"
    if "needs_kms_s3 (scenario e)" "environment_vars aws key_id e = Inr u" for e u
    using that(2) [symmetric] that(1)
    by (auto simp: environment_vars_def Let_def ok_or_def res_bind_def split: option.splits)
  have "function_name c \<noteq> function_name d"
    using assms(1-3) fns.name_inj in_matrix_nameable by (auto simp: mem_all_cells)
  then show ?thesis by (simp add: targets [OF assms(4,6)] targets [OF assms(5,7)])
qed

definition smithyfull_cell :: "int \<Rightarrow> cell" where
  "smithyfull_cell mb =
     \<lparr>lang = Rust, scenario = SmithyFull, arch = Arm64, memory_mb = mb, opt = Some O3,
      snapstart = False, jitter = Some Off\<rparr>"

theorem write_targets_distinct_witness:
  "\<exists>v w. environment_vars sim (Some ''k'') (smithyfull_cell 512) = Inr v \<and>
     environment_vars sim (Some ''k'') (smithyfull_cell 1024) = Inr w \<and>
     v ''LAMBDABENCH_ORDER_PK'' \<noteq> w ''LAMBDABENCH_ORDER_PK''"
proof -
  have mem: "smithyfull_cell 512 \<in> set all_cells" "smithyfull_cell 1024 \<in> set all_cells"
    by (simp_all add: mem_all_cells in_matrix_def smithyfull_cell_def supports_def MEMORY_MB_def
        min_memory_mb_def assert_valid_def is_jitter_ab_def JITTER_AB_SCENARIOS_def)
  have ne: "smithyfull_cell 512 \<noteq> smithyfull_cell 1024" by (simp add: smithyfull_cell_def)
  have kms: "needs_kms_s3 (scenario (smithyfull_cell mb))" for mb
    by (simp add: smithyfull_cell_def needs_kms_s3_def)
  obtain v w where e: "environment_vars sim (Some ''k'') (smithyfull_cell 512) = Inr v"
    "environment_vars sim (Some ''k'') (smithyfull_cell 1024) = Inr w"
    by (simp add: wired smithyfull_cell_def)
  from write_targets_distinct [OF mem ne kms kms e] e show ?thesis by blast
qed

section \<open>The seeded batch\<close>

lemma read_nat_zeros: "read_nat (replicate k (CHR ''0'') @ s) = read_nat s"
proof (induction k)
  case (Suc k)
  have "digit_val (CHR ''0'') = 0" by (simp add: digit_val_def)
  with Suc show ?case by (simp add: read_nat_def)
qed simp

lemma pad4_inj: "pad4 m = pad4 n \<longleftrightarrow> m = n"
proof
  assume "pad4 m = pad4 n"
  then have "read_nat (pad4 m) = read_nat (pad4 n)" by simp
  then show "m = n" by (simp add: pad4_def read_nat_zeros)
qed simp

text \<open>What entry \<open>i\<close> of the seeded batch decodes to.\<close>

definition seeded_record :: "nat \<Rightarrow> nat \<Rightarrow> event_record" where
  "seeded_record c i = (''k'' @ pad4 (i mod c), of_nat (i mod 997 + 1))"

lemma seeded_keys:
  assumes "0 < c" "c \<le> n"
  shows "card (fst ` set (map (seeded_record c) [0..<n])) = c"
proof -
  have "fst ` set (map (seeded_record c) [0..<n]) = (\<lambda>k. ''k'' @ pad4 k) ` {0..<c}"
  proof
    show "fst ` set (map (seeded_record c) [0..<n]) \<subseteq> (\<lambda>k. ''k'' @ pad4 k) ` {0..<c}"
      using assms(1) by (auto simp: seeded_record_def)
    show "(\<lambda>k. ''k'' @ pad4 k) ` {0..<c} \<subseteq> fst ` set (map (seeded_record c) [0..<n])"
    proof
      fix x assume "x \<in> (\<lambda>k. ''k'' @ pad4 k) ` {0..<c}"
      then obtain k where "k < c" "x = ''k'' @ pad4 k" by auto
      with assms(2) show "x \<in> fst ` set (map (seeded_record c) [0..<n])"
        by (auto simp: seeded_record_def image_image intro!: rev_image_eqI [of k])
    qed
  qed
  moreover have "inj_on (\<lambda>k. ''k'' @ pad4 k) {0..<c}" by (simp add: inj_on_def pad4_inj)
  ultimately show ?thesis by (simp add: card_image)
qed

lemma show_nat_length: "n < 10 ^ k \<Longrightarrow> 0 < k \<Longrightarrow> length (show_nat n) \<le> k"
proof (induction k arbitrary: n)
  case (Suc k)
  show ?case
  proof (cases "n < 10")
    case True
    then show ?thesis by (simp add: show_nat.simps)
  next
    case False
    with Suc.prems have "n div 10 < 10 ^ k" "0 < k" by (cases k; auto)+
    with Suc.IH [of "n div 10"] False show ?thesis by (simp add: show_nat.simps [of n])
  qed
qed simp

lemma batch_entry_length:
  assumes "0 < c" "c \<le> 10000"
  shows "length (batch_entry c i) \<le> 27"
proof -
  have "length (show_nat (i mod c)) \<le> 4"
    using assms by (intro show_nat_length) (auto intro: less_le_trans [OF mod_less_divisor])
  then have "length (pad4 (i mod c)) = 4" by (simp add: pad4_def)
  moreover have "length (show_nat (i mod 997 + 1)) \<le> 3"
    by (intro show_nat_length) (use mod_less_divisor [of 997 i] in simp_all)
  ultimately show ?thesis by (simp add: batch_entry_def quote_def)
qed

lemma open_array_length:
  "(\<And>i. length (e i) \<le> b) \<Longrightarrow> length (open_array e n) \<le> 1 + n * (b + 1)"
proof (induction n)
  case (Suc n)
  from Suc.prems [of n] Suc.IH [OF Suc.prems] show ?case by (auto simp: open_array_Suc open_array_0)
qed (simp add: open_array_0)

lemma seeded_batch_entries:
  "\<exists>n. generate_batch_payload S3_BATCH_PAYLOAD_BYTES S3_BATCH_KEY_CARDINALITY =
     Some (''['' @ join_with '','' (map (batch_entry S3_BATCH_KEY_CARDINALITY) [0..<n]) @ '']'') \<and>
     S3_BATCH_KEY_CARDINALITY \<le> n"
proof -
  let ?c = "S3_BATCH_KEY_CARDINALITY"
  have c: "0 < ?c" "?c \<le> 10000" by (simp_all add: S3_BATCH_KEY_CARDINALITY_def)
  have "\<exists>n. generate_batch_payload S3_BATCH_PAYLOAD_BYTES ?c =
      Some (''['' @ join_with '','' (map (batch_entry ?c) [0..<n]) @ '']'') \<and>
    S3_BATCH_PAYLOAD_BYTES \<le> length (open_array (batch_entry ?c) n) \<and>
    (\<forall>k<n. length (open_array (batch_entry ?c) k) < S3_BATCH_PAYLOAD_BYTES)"
    unfolding generate_batch_payload_def
    by (rule build_json_array_exact) (use c in \<open>simp_all add: batch_entry_def\<close>)
  then obtain n where n: "generate_batch_payload S3_BATCH_PAYLOAD_BYTES ?c =
      Some (''['' @ join_with '','' (map (batch_entry ?c) [0..<n]) @ '']'')"
    "S3_BATCH_PAYLOAD_BYTES \<le> length (open_array (batch_entry ?c) n)" by blast
  from n(2) open_array_length [of "batch_entry ?c" 27 n] batch_entry_length [OF c]
  have "16000000 \<le> 1 + n * 28" by (simp add: S3_BATCH_PAYLOAD_BYTES_def)
  then have "?c \<le> n" by (simp add: S3_BATCH_KEY_CARDINALITY_def)
  with n(1) show ?thesis by blast
qed


text \<open>A decoder of exactly these arrays.\<close>

definition array_reader :: "nat \<Rightarrow> string \<Rightarrow> event_record list option" where
  "array_reader c t =
     map_option (\<lambda>n. map (seeded_record c) [0..<n])
       (List.find (\<lambda>n. open_array (batch_entry c) n @ '']'' = t) [0..<length t])"

lemma array_reader_reads: "array_reader c (open_array (batch_entry c) n @ '']'') = Some (map (seeded_record c) [0..<n])"
proof -
  let ?o = "open_array (batch_entry c)"
  have step: "length (?o k) < length (?o (Suc k))" for k
    by (simp add: open_array_Suc batch_entry_def)
  have mono: "i < j \<Longrightarrow> length (?o i) < length (?o j)" for i j
    by (rule lift_Suc_mono_less [where f = "\<lambda>k. length (?o k)"]) (rule step)
  have inj: "?o i = ?o j \<Longrightarrow> i = j" for i j
    using mono [of i j] mono [of j i] by (cases i j rule: linorder_cases) auto
  have "n \<le> length (?o n)" by (rule strict_mono_imp_increasing [of "\<lambda>k. length (?o k)"])
      (simp add: strict_mono_Suc_iff step)
  then have "List.find (\<lambda>k. ?o k @ '']'' = ?o n @ '']'') [0..<length (?o n @ '']'')] = Some n"
    using inj by (intro find_unique) auto
  then show ?thesis by (simp add: array_reader_def)
qed


end
