(* ===== verification/Cli.thy ===== *)
theory Cli
  imports Teardown Probes Pipeline
begin

text \<open>
  The commands of \<open>bencher/src/main.rs\<close>: the environment check \<open>doctor\<close> and the dispatch of the
  parsed command line. The parser (\<open>clap\<close>), the log subscriber and the root of the checkout,
  fixed at compile time, are parameters.
\<close>

section \<open>The environment check\<close>

definition doctor_tools :: "(string \<times> string \<times> string list) list" where
  "doctor_tools =
     [(''cargo'', ''cargo'', [''--version'']),
      (''cargo-lambda'', ''cargo'', [''lambda'', ''--version'']),
      (''node'', ''node'', [''--version'']),
      (''npm'', ''npm'', [''--version'']),
      (''java'', ''java'', [''--version'']),
      (''python'', ''python3'', [''--version'']),
      (''pip'', ''python3'', [''-m'', ''pip'', ''--version'']),
      (''go'', ''go'', [''version'']),
      (''crane'', ''crane'', [''version''])]"

definition tool_command :: "string \<Rightarrow> string list \<Rightarrow> command" where
  "tool_command tool args = \<lparr>cmd_program = tool, cmd_args = args, cmd_dir = None, cmd_env = []\<rparr>"

text \<open>The labels that are missing, after the tools of the list have been asked in order.\<close>

fun check_tools ::
    "'x host \<Rightarrow> (string \<times> string \<times> string list) list \<Rightarrow> string list \<Rightarrow> ('x, string list) eff" where
  "check_tools h [] missing = ret missing"
| "check_tools h ((label, tool, args) # tools) missing =
     bindE (call (EvService ''output'' tool) (spawn h (tool_command tool args))) (\<lambda>r.
       check_tools h tools
         (case r of Inr (True, _) \<Rightarrow> missing | _ \<Rightarrow> missing @ [label]))"

text \<open>\<open>{:?}\<close> of a list of plain strings.\<close>

definition debug_strs :: "string list \<Rightarrow> string" where
  "debug_strs xs = ''['' @ join_with '', '' (map quote xs) @ '']''"

definition doctor :: "'x aws \<Rightarrow> 'x cloud \<Rightarrow> 'x host \<Rightarrow> ('x, unit) eff" where
  "doctor aws cl h =
     bindE (check_tools h doctor_tools []) (\<lambda>missing.
     bindE (catching (aws_load aws cl)) (\<lambda>identity.
       let missing = missing @ (case identity of Inr _ \<Rightarrow> [] | Inl _ \<Rightarrow> [''aws-credentials''])
       in if missing = [] then ret ()
          else fail (Message (''doctor: missing prerequisites: '' @ debug_strs missing))))"

section \<open>The commands\<close>

datatype cmd =
    Doctor
  | Build "string list"
  | Run run_args
  | Probe probe_args
  | TeardownAll bool

text \<open>
  The end of the program on a parsed command. \<open>outputs\<close> are the serializers, \<open>writer_at\<close> the
  results writer on a path, and \<open>answer\<close> what the user types at the confirmation of a teardown.
\<close>

inductive bencher_main ::
    "'x aws \<Rightarrow> 'x cloud \<Rightarrow> 'x host \<Rightarrow>
     (run_meta \<Rightarrow> string option) \<times> (probe_output \<Rightarrow> string option) \<times>
       (synthetic_output \<Rightarrow> string option) \<times> (image_output \<Rightarrow> string option) \<Rightarrow>
     (string \<Rightarrow> 'x writer) \<Rightarrow> string \<Rightarrow> string \<Rightarrow> cmd \<Rightarrow> 'x drv \<Rightarrow> (err + unit) \<times> 'x drv \<Rightarrow> bool"
    for aws cl h outputs writer_at repo_root answer where
  doctor: "bencher_main aws cl h outputs writer_at repo_root answer Doctor s (doctor aws cl h s)"
| build_bad: "parse_langs ls = Inl e \<Longrightarrow>
    bencher_main aws cl h outputs writer_at repo_root answer (Build ls) s (Inl (Message e), s)"
| build: "parse_langs ls = Inr langs \<Longrightarrow> build_artifacts h repo_root langs s = (r, t) \<Longrightarrow>
    bencher_main aws cl h outputs writer_at repo_root answer (Build ls) s
      (map_sum id (\<lambda>_. ()) r, t)"
| run: "outputs = (meta_json, probe_json, synth_json, image_json) \<Longrightarrow>
    cmd_run aws cl h meta_json writer_at repo_root args s (r, t) \<Longrightarrow>
    bencher_main aws cl h outputs writer_at repo_root answer (Run args) s (map_sum id (\<lambda>_. ()) r, t)"
| probe: "outputs = (meta_json, probe_json, synth_json, image_json) \<Longrightarrow>
    bencher_main aws cl h outputs writer_at repo_root answer (Probe pargs) s
      (run_probe aws cl h probe_json synth_json image_json repo_root pargs s)"
| teardown: "bencher_main aws cl h outputs writer_at repo_root answer (TeardownAll yes) s
      (cmd_teardown aws cl yes answer s)"

inductive_cases bencher_main_doctorE [elim!]:
  "bencher_main aws cl h outputs writer_at repo_root answer Doctor s rt"
inductive_cases bencher_main_runE [elim!]:
  "bencher_main aws cl h outputs writer_at repo_root answer (Run args) s rt"
inductive_cases bencher_main_teardownE [elim!]:
  "bencher_main aws cl h outputs writer_at repo_root answer (TeardownAll yes) s rt"

section \<open>What the check finds\<close>

text \<open>The world's answers to the version queries, in order, and the world after them.\<close>

fun tool_answers ::
    "'x host \<Rightarrow> (string \<times> string \<times> string list) list \<Rightarrow> 'x \<Rightarrow> (string \<times> bool) list \<times> 'x" where
  "tool_answers h [] x = ([], x)"
| "tool_answers h ((label, tool, args) # tools) x =
     (let (r, y) = spawn h (tool_command tool args) x;
          (rest, z) = tool_answers h tools y
      in ((label, case r of Inr (ok, _) \<Rightarrow> ok | Inl _ \<Rightarrow> False) # rest, z))"

lemma check_tools_answers:
  "check_tools h tools missing s =
     (case tool_answers h tools (ext s) of (answers, x) \<Rightarrow>
        (Inr (missing @ map fst (filter (\<lambda>a. \<not> snd a) answers)),
         s\<lparr>ext := x, calls := calls s @ map (\<lambda>(_, tool, _). EvService ''output'' tool) tools\<rparr>))"
proof (induction tools arbitrary: missing s)
  case Nil
  then show ?case by (simp add: ret_def)
next
  case (Cons t tools)
  obtain label tool args where t: "t = (label, tool, args)" by (metis prod.exhaust)
  obtain r y where r: "spawn h (tool_command tool args) (ext s) = (r, y)" by force
  obtain rest z where rest: "tool_answers h tools y = (rest, z)" by force
  show ?case
    by (cases r; cases "fst (projr r)") (auto simp: t r rest Cons bindE_def call_def split: sum.splits prod.splits bool.splits)
qed

text \<open>
  \<open>doctor\<close> only asks: its calls are the version queries of its nine tools, each once and in
  order, and then the identity query, whatever the answers. It succeeds exactly when every tool
  ran successfully and the identity query named an account; otherwise its error lists exactly the
  labels of the failed checks, in that order.
\<close>

theorem doctor_exact:
  "let (answers, x) = tool_answers h doctor_tools (ext s);
       missing = map fst (filter (\<lambda>a. \<not> snd a) answers) @
         (case fst (sts_account cl x) of Inr (Some _) \<Rightarrow> [] | _ \<Rightarrow> [''aws-credentials'']);
       (r, t) = doctor aws cl h s
   in calls t = calls s @ map (\<lambda>(_, tool, _). EvService ''output'' tool) doctor_tools @
        [EvService ''sts.GetCallerIdentity'' []] \<and>
      r = (if missing = [] then Inr ()
           else Inl (Message (''doctor: missing prerequisites: '' @ debug_strs missing)))"
proof -
  obtain answers x where a: "tool_answers h doctor_tools (ext s) = (answers, x)" by force
  obtain who y where w: "sts_account cl x = (who, y)" by force
  obtain now z where n: "now_ns aws y = (now, z)" by force
  show ?thesis
    unfolding doctor_def bindE_def check_tools_answers a aws_load_def catching_def svc_def send_def
      sdk_ok_def call_def peek_def per_second_def CONTROL_PLANE_TPS_def ok_or_def Let_def
    by (simp add: w n fail_def ret_def split: sum.split option.split)
qed

end
