(* ===== verification/Procfs.thy ===== *)
theory Procfs
  imports Report Lambda_Api "HOL-Library.Word"
begin

text \<open>
  What the one-off experiments under \<open>oneoff/\<close> share: their process, as a state with the machine
  as a parameter, the text readers they use on \<open>/proc\<close> files, and the counters common to more than
  one of them. An experiment stops at the first failed \<open>expect\<close> or \<open>unwrap\<close>; it has no other
  error. \<open>f64\<close> values are rationals.
\<close>

section \<open>The process\<close>

text \<open>
  The machine: environment variables, text files (\<open>None\<close> when unreadable), exact reads at an
  offset, the clocks in milliseconds, the page fault counters, and the raw exchange with the
  runtime API. \<open>True\<close> asks for the calling thread, \<open>False\<close> for the process.
\<close>

record 'x os =
  os_var :: "string \<Rightarrow> 'x \<Rightarrow> string option \<times> 'x"
  exe_link :: "'x \<Rightarrow> string option \<times> 'x"
  read_text :: "string \<Rightarrow> 'x \<Rightarrow> string option \<times> 'x"
  can_open :: "string \<Rightarrow> 'x \<Rightarrow> bool \<times> 'x"
  read_at :: "string \<Rightarrow> nat \<Rightarrow> nat \<Rightarrow> 'x \<Rightarrow> string option \<times> 'x"
  wall_ms :: "'x \<Rightarrow> rat \<times> 'x"
  cpu_clock :: "bool \<Rightarrow> 'x \<Rightarrow> rat \<times> 'x"
  page_faults :: "bool \<Rightarrow> 'x \<Rightarrow> (int \<times> int) \<times> 'x"
  exchange :: "string \<Rightarrow> string \<Rightarrow> 'x \<Rightarrow> string option \<times> 'x"

record 'x proc =
  machine :: 'x
  http_log :: "(string \<times> string) list"
  out_lines :: "string list"
  touched :: "64 word list"

type_synonym ('x, 'a) prog = "'x proc \<Rightarrow> (string + 'a) \<times> 'x proc"

definition pret :: "'a \<Rightarrow> ('x, 'a) prog" where
  "pret v s = (Inr v, s)"

definition panic :: "string \<Rightarrow> ('x, 'a) prog" where
  "panic e s = (Inl e, s)"

definition pbind :: "('x, 'a) prog \<Rightarrow> ('a \<Rightarrow> ('x, 'b) prog) \<Rightarrow> ('x, 'b) prog" where
  "pbind m k s = (case m s of (Inl e, t) \<Rightarrow> (Inl e, t) | (Inr v, t) \<Rightarrow> k v t)"

definition sys :: "('x \<Rightarrow> 'a \<times> 'x) \<Rightarrow> ('x, 'a) prog" where
  "sys f s = (case f (machine s) of (v, x) \<Rightarrow> (Inr v, s\<lparr>machine := x\<rparr>))"

definition expect :: "string \<Rightarrow> 'a option \<Rightarrow> ('x, 'a) prog" where
  "expect e v = (case v of None \<Rightarrow> panic e | Some x \<Rightarrow> pret x)"

definition print_line :: "string \<Rightarrow> ('x, unit) prog" where
  "print_line l s = (Inr (), s\<lparr>out_lines := out_lines s @ [l]\<rparr>)"

fun pmap :: "('a \<Rightarrow> ('x, 'b) prog) \<Rightarrow> 'a list \<Rightarrow> ('x, 'b list) prog" where
  "pmap f [] = pret []"
| "pmap f (x # xs) = pbind (f x) (\<lambda>y. pbind (pmap f xs) (\<lambda>ys. pret (y # ys)))"

lemma pbind_simps [simp]:
  "pbind (pret v) k = k v" "pbind (panic e) k = panic e"
  by (rule ext, simp add: pbind_def pret_def panic_def)+

lemma expect_simps [simp]: "expect e None = panic e" "expect e (Some x) = pret x"
  by (simp_all add: expect_def)

lemma pret_Inr [simp]: "pret v s = (Inr w, t) \<longleftrightarrow> w = v \<and> t = s"
  by (auto simp: pret_def)

lemma panic_Inr [simp]: "panic e s \<noteq> (Inr w, t)"
  by (simp add: panic_def)

lemma expect_Inr [simp]: "expect e v s = (Inr w, t) \<longleftrightarrow> v = Some w \<and> t = s"
  by (cases v) auto

lemma pbind_Inr:
  "pbind m k s = (Inr v, t) \<longleftrightarrow> (\<exists>x u. m s = (Inr x, u) \<and> k x u = (Inr v, t))"
  by (auto simp: pbind_def split: prod.splits sum.splits)

lemma sys_Inr [simp]:
  "sys f s = (Inr v, t) \<longleftrightarrow> (\<exists>x. f (machine s) = (v, x) \<and> t = s\<lparr>machine := x\<rparr>)"
  by (auto simp: sys_def split: prod.splits)

text \<open>A step that leaves the program's own records alone, whatever the machine does.\<close>

definition silent :: "('x, 'a) prog \<Rightarrow> bool" where
  "silent m \<longleftrightarrow> (\<forall>s r t. m s = (r, t) \<longrightarrow>
     http_log t = http_log s \<and> out_lines t = out_lines s \<and> touched t = touched s)"

named_theorems silent_intros

lemma silent_pret [silent_intros]: "silent (pret v)"
  by (simp add: silent_def pret_def)

lemma silent_panic [silent_intros]: "silent (panic e)"
  by (simp add: silent_def panic_def)

lemma silent_expect [silent_intros]: "silent (expect e v)"
  by (cases v) (simp_all add: silent_pret silent_panic)

lemma silent_sys [silent_intros]: "silent (sys f)"
  by (auto simp: silent_def sys_def split: prod.splits)

lemma silent_pbind [silent_intros]:
  assumes "silent m" "\<And>v. silent (k v)"
  shows "silent (pbind m k)"
  using assms unfolding silent_def pbind_def by (auto split: prod.splits sum.splits)

lemma silent_pmap [silent_intros]: "(\<And>x. silent (f x)) \<Longrightarrow> silent (pmap f xs)"
  by (induction xs) (auto intro!: silent_intros)

lemma silent_if [silent_intros]: "silent a \<Longrightarrow> silent b \<Longrightarrow> silent (if c then a else b)"
  by simp

lemma silent_option [silent_intros]:
  "silent a \<Longrightarrow> (\<And>x. silent (f x)) \<Longrightarrow> silent (case v of None \<Rightarrow> a | Some x \<Rightarrow> f x)"
  by (cases v) simp_all

lemma silent_sum [silent_intros]:
  "(\<And>e. silent (f e)) \<Longrightarrow> (\<And>x. silent (g x)) \<Longrightarrow> silent (case v of Inl e \<Rightarrow> f e | Inr x \<Rightarrow> g x)"
  by (cases v) simp_all

lemma silent_prod [silent_intros]:
  "(\<And>x y. silent (f x y)) \<Longrightarrow> silent (case p of (x, y) \<Rightarrow> f x y)"
  by (cases p) simp

section \<open>Text\<close>

definition split_whitespace :: "string \<Rightarrow> string list" where
  "split_whitespace s =
     filter (\<lambda>w. w \<noteq> []) (split_on (CHR '' '') (map (\<lambda>c. if is_ws c then CHR '' '' else c) s))"

definition strip_pre :: "string \<Rightarrow> string \<Rightarrow> string option" where
  "strip_pre p s = (if prefix p s then Some (drop (length p) s) else None)"

function trim_end_matches :: "string \<Rightarrow> string \<Rightarrow> string" where
  "trim_end_matches p s =
     (if p \<noteq> [] \<and> suffix p s then trim_end_matches p (take (length s - length p) s) else s)"
  by pat_completeness auto
termination
  by (relation "measure (length \<circ> snd)") (auto simp: suffix_def)

declare trim_end_matches.simps [simp del]

definition nth_opt :: "'a list \<Rightarrow> nat \<Rightarrow> 'a option" where
  "nth_opt xs i = (if i < length xs then Some (xs ! i) else None)"

text \<open>\<open>parse::<u64>()\<close> and \<open>u64::from_str_radix(_, 16)\<close>: an optional plus sign, digits, in range.\<close>

definition unsigned :: "string \<Rightarrow> string" where
  "unsigned s = (case s of CHR ''+'' # t \<Rightarrow> t | _ \<Rightarrow> s)"

definition parse_u64 :: "string \<Rightarrow> nat option" where
  "parse_u64 s =
     (let d = unsigned s
      in if d \<noteq> [] \<and> list_all is_digit d \<and> read_nat d < 2 ^ 64 then Some (read_nat d) else None)"

definition hex_val :: "char \<Rightarrow> nat option" where
  "hex_val c =
     (let n = of_char c :: nat
      in if 48 \<le> n \<and> n \<le> 57 then Some (n - 48)
         else if 97 \<le> n \<and> n \<le> 102 then Some (n - 87)
         else if 65 \<le> n \<and> n \<le> 70 then Some (n - 55) else None)"

definition parse_hex_u64 :: "string \<Rightarrow> 64 word option" where
  "parse_hex_u64 s =
     (let d = unsigned s; v = foldl (\<lambda>a c. 16 * a + the (hex_val c)) 0 d
      in if d \<noteq> [] \<and> list_all (\<lambda>c. hex_val c \<noteq> None) d \<and> v < 2 ^ 64
         then Some (of_nat v) else None)"

text \<open>\<open>{:.k}\<close> of a number: the nearest decimal with \<open>k\<close> places, ties to the even one.\<close>

definition round_even :: "rat \<Rightarrow> int" where
  "round_even x =
     (let f = \<lfloor>x\<rfloor>; d = x - of_int f
      in if d < 1 / 2 \<or> d = 1 / 2 \<and> even f then f else f + 1)"

definition fixed :: "nat \<Rightarrow> rat \<Rightarrow> string" where
  "fixed k x =
     (let n = nat (round_even (\<bar>x\<bar> * 10 ^ k));
          frac = show_nat (n mod 10 ^ k)
      in (if x < 0 then ''-'' else []) @ show_nat (n div 10 ^ k) @
         (if k = 0 then [] else ''.'' @ replicate (k - length frac) (CHR ''0'') @ frac))"

text \<open>Little-endian bytes.\<close>

definition le_bytes :: "string \<Rightarrow> nat" where
  "le_bytes bs = foldr (\<lambda>b n. of_char b + 256 * n) bs 0"

definition or_empty :: "string option \<Rightarrow> string" where
  "or_empty v = (case v of None \<Rightarrow> [] | Some s \<Rightarrow> s)"

definition show_opt :: "('a \<Rightarrow> string) \<Rightarrow> 'a option \<Rightarrow> string" where
  "show_opt f v = (case v of None \<Rightarrow> ''null'' | Some x \<Rightarrow> f x)"

text \<open>A JSON object as the experiments write it, in order and without white space.\<close>

definition json_obj :: "(string \<times> string) list \<Rightarrow> string" where
  "json_obj fs = ''{'' @ join_with '','' (map (\<lambda>(k, v). quote k @ '':'' @ v) fs) @ ''}''"

end
