(* ===== verification/Runtime_Loop.thy ===== *)
theory Runtime_Loop
  imports Procfs
begin

text \<open>
  The custom runtime of three experiments (\<open>oneoff/rust-sdk-init\<close>, \<open>oneoff/ecs-express-latency/caller\<close>
  and \<open>oneoff/rust-sdk-tuning/first-touch\<close>): a blocking HTTP/1.1 exchange with the Lambda runtime
  API and an endless loop that fetches an event and posts its response. The loop is run for a
  number of events, which is the platform's choice. TCP, the SDK and the HTTP client are parameters.
\<close>

section \<open>The runtime API\<close>

definition crlf :: string where
  "crlf = [CHR 0x0D, nl]"

definition request_text :: "string \<Rightarrow> string \<Rightarrow> string \<Rightarrow> string \<Rightarrow> string" where
  "request_text api meth path body =
     meth @ '' '' @ path @ '' HTTP/1.1'' @ crlf @ ''Host: '' @ api @ crlf @
     ''Content-Length: '' @ show_nat (length body) @ crlf @ ''Connection: close'' @ crlf @ crlf @ body"

definition runtime_request ::
    "'x os \<Rightarrow> string \<Rightarrow> string \<Rightarrow> string \<Rightarrow> string \<Rightarrow> ('x, string) prog" where
  "runtime_request os api meth path body =
     (let text' = request_text api meth path body
      in pbind (sys (exchange os api text')) (\<lambda>r.
         pbind (expect ''runtime API'' r) (\<lambda>response s.
           (Inr response, s\<lparr>http_log := http_log s @ [(text', response)]\<rparr>))))"

definition ascii_lower :: "char \<Rightarrow> char" where
  "ascii_lower c =
     (let n = of_char c :: nat in if 65 \<le> n \<and> n \<le> 90 then char_of (n + 32) else c)"

definition request_id :: "string \<Rightarrow> string option" where
  "request_id next' =
     first_some (\<lambda>line.
       case split_once (CHR '':'') line of
         None \<Rightarrow> None
       | Some (name, val) \<Rightarrow>
           if map ascii_lower name = ''lambda-runtime-aws-request-id'' then Some (trim val) else None)
       (rust_lines next')"

definition next_path :: string where
  "next_path = ''/2018-06-01/runtime/invocation/next''"

definition response_path :: "string \<Rightarrow> string" where
  "response_path i = ''/2018-06-01/runtime/invocation/'' @ i @ ''/response''"

definition next_event :: "'x os \<Rightarrow> string \<Rightarrow> ('x, string \<times> string) prog" where
  "next_event os api =
     pbind (runtime_request os api ''GET'' next_path []) (\<lambda>n.
     pbind (expect ''request id header'' (request_id n)) (\<lambda>i. pret (n, i)))"

section \<open>A probe that measures once\<close>

definition serve_probe ::
    "'x os \<Rightarrow> string \<Rightarrow> ('x, 'r) prog \<Rightarrow> ('r \<Rightarrow> string) \<Rightarrow> 'r option \<Rightarrow> ('x, 'r option) prog" where
  "serve_probe os api meas render result =
     pbind (next_event os api) (\<lambda>(n, i).
     pbind (case result of None \<Rightarrow> meas | Some r \<Rightarrow> pret r) (\<lambda>r.
     pbind (runtime_request os api ''POST'' (response_path i) (render r)) (\<lambda>_. pret (Some r))))"

fun serve_events ::
    "'x os \<Rightarrow> string \<Rightarrow> ('x, 'r) prog \<Rightarrow> ('r \<Rightarrow> string) \<Rightarrow> nat \<Rightarrow> 'r option \<Rightarrow>
     ('x, 'r option) prog" where
  "serve_events os api meas render 0 result = pret result"
| "serve_events os api meas render (Suc n) result =
     pbind (serve_probe os api meas render result) (serve_events os api meas render n)"

definition probe_main ::
    "'x os \<Rightarrow> ('x, 'r) prog \<Rightarrow> ('r \<Rightarrow> string) \<Rightarrow> nat \<Rightarrow> ('x, 'r option) prog" where
  "probe_main os meas render n =
     pbind (sys (os_var os ''PROBE_PHASE'')) (\<lambda>phase.
     pbind (if phase = Some ''invoke'' then pret None else pbind meas (\<lambda>r. pret (Some r))) (\<lambda>result.
     pbind (sys (os_var os ''AWS_LAMBDA_RUNTIME_API'')) (\<lambda>v.
     pbind (expect ''AWS_LAMBDA_RUNTIME_API not set'' v) (\<lambda>api.
       serve_events os api meas render n result))))"

section \<open>\<open>rust-sdk-init\<close>\<close>

datatype load_variant = LoadDefault | LoadNoop | LoadStatic | LoadCerts

definition load_variant_of :: "string \<Rightarrow> load_variant option" where
  "load_variant_of mode =
     (if mode = ''default'' then Some LoadDefault
      else if mode = ''noop'' then Some LoadNoop
      else if mode = ''static'' then Some LoadStatic
      else if mode = ''certs'' then Some LoadCerts
      else None)"

function measure_load ::
    "'x os \<Rightarrow> (load_variant \<Rightarrow> 'x \<Rightarrow> unit \<times> 'x) \<Rightarrow> string \<Rightarrow> ('x, rat) prog" where
  "measure_load os load mode =
     (case split_once (CHR ''+'') mode of
        Some (warm, timed) \<Rightarrow>
          pbind (measure_load os load warm) (\<lambda>_. measure_load os load timed)
      | None \<Rightarrow>
          pbind (sys (wall_ms os)) (\<lambda>start.
          pbind (expect (''unknown PROBE_MODE '' @ mode) (load_variant_of mode)) (\<lambda>v.
          pbind (sys (load v)) (\<lambda>_.
          pbind (sys (wall_ms os)) (\<lambda>now. pret (now - start))))))"
  by pat_completeness auto
termination
  by (relation "measure (\<lambda>(_, _, mode). length mode)") (auto simp: split_once_Some)

declare measure_load.simps [simp del]

definition sdk_init_main ::
    "'x os \<Rightarrow> (load_variant \<Rightarrow> 'x \<Rightarrow> unit \<times> 'x) \<Rightarrow> nat \<Rightarrow> ('x, rat option) prog" where
  "sdk_init_main os load n =
     pbind (sys (os_var os ''PROBE_MODE'')) (\<lambda>v.
     pbind (expect ''PROBE_MODE not set'' v) (\<lambda>mode.
       probe_main os (measure_load os load mode) (\<lambda>ms. json_obj [(''ms'', fixed 3 ms)]) n))"

section \<open>\<open>ecs-express-latency/caller\<close>\<close>

text \<open>A response: its HTTP version, its status and its body.\<close>

definition timed_get ::
    "'x os \<Rightarrow> (string \<Rightarrow> 'x \<Rightarrow> (string \<times> nat \<times> string) option \<times> 'x) \<Rightarrow> string \<Rightarrow>
     ('x, rat \<times> string) prog" where
  "timed_get os get url =
     pbind (sys (wall_ms os)) (\<lambda>start.
     pbind (sys (get url)) (\<lambda>r.
     pbind (expect ''GET'' r) (\<lambda>(version, status, body).
     pbind (sys (wall_ms os)) (\<lambda>now.
       if status = 200 \<and> body = ''hello'' then pret (now - start, version)
       else panic ''unexpected response''))))"

fun timed_gets ::
    "'x os \<Rightarrow> (string \<Rightarrow> 'x \<Rightarrow> (string \<times> nat \<times> string) option \<times> 'x) \<Rightarrow> string \<Rightarrow> nat \<Rightarrow>
     string \<Rightarrow> string list \<Rightarrow> ('x, string \<times> string list) prog" where
  "timed_gets os get url 0 version samples = pret (version, samples)"
| "timed_gets os get url (Suc n) version samples =
     pbind (timed_get os get url) (\<lambda>(ms, v).
       timed_gets os get url n v (samples @ [fixed 3 ms]))"

definition event_count :: "string \<Rightarrow> nat option" where
  "event_count n =
     (case split_once_str (crlf @ crlf) n of None \<Rightarrow> None | Some (_, e) \<Rightarrow> parse_u64 (trim e))"

definition caller_body :: "string \<Rightarrow> string \<Rightarrow> string list \<Rightarrow> string" where
  "caller_body version first samples =
     json_obj [(''version'', quote version), (''first_ms'', first),
       (''samples'', ''['' @ join_with '','' samples @ '']'')]"

text \<open>The vector of samples is allocated first: 24 bytes for each string.\<close>

definition serve_caller ::
    "'x os \<Rightarrow> (string \<Rightarrow> 'x \<Rightarrow> (string \<times> nat \<times> string) option \<times> 'x) \<Rightarrow> string \<Rightarrow> string \<Rightarrow>
     rat option \<Rightarrow> ('x, rat option) prog" where
  "serve_caller os get api url first_ms =
     pbind (next_event os api) (\<lambda>(e, i).
     pbind (expect ''event must be a JSON number'' (event_count e)) (\<lambda>n.
     pbind (case first_ms of
         None \<Rightarrow> pbind (timed_get os get url) (\<lambda>(ms, _). pret (Some ms, fixed 3 ms))
       | Some ms \<Rightarrow> pret (Some ms, ''null'')) (\<lambda>(first_ms, first).
     if 2 ^ 63 \<le> n * 24 then panic ''capacity overflow''
     else
     pbind (timed_gets os get url n [] []) (\<lambda>(version, samples).
     pbind (runtime_request os api ''POST'' (response_path i) (caller_body version first samples)) (\<lambda>_.
       pret first_ms)))))"

fun serve_calls ::
    "'x os \<Rightarrow> (string \<Rightarrow> 'x \<Rightarrow> (string \<times> nat \<times> string) option \<times> 'x) \<Rightarrow> string \<Rightarrow> string \<Rightarrow>
     nat \<Rightarrow> rat option \<Rightarrow> ('x, rat option) prog" where
  "serve_calls os get api url 0 first_ms = pret first_ms"
| "serve_calls os get api url (Suc n) first_ms =
     pbind (serve_caller os get api url first_ms) (serve_calls os get api url n)"

definition caller_main ::
    "'x os \<Rightarrow> (string \<Rightarrow> 'x \<Rightarrow> (string \<times> nat \<times> string) option \<times> 'x) \<Rightarrow> nat \<Rightarrow>
     ('x, rat option) prog" where
  "caller_main os get n =
     pbind (sys (os_var os ''TARGET_URL'')) (\<lambda>u.
     pbind (expect ''TARGET_URL not set'' u) (\<lambda>url.
     pbind (sys (os_var os ''AWS_LAMBDA_RUNTIME_API'')) (\<lambda>v.
     pbind (expect ''AWS_LAMBDA_RUNTIME_API not set'' v) (\<lambda>api.
       serve_calls os get api url n None))))"

section \<open>Every event is answered\<close>

lemma silent_measure_load: "silent (measure_load os load mode)"
proof (induction os load mode rule: measure_load.induct)
  case (1 os load mode)
  show ?case
  proof (cases "split_once (CHR ''+'') mode")
    case None
    then show ?thesis by (subst measure_load.simps) (auto intro!: silent_intros)
  next
    case (Some wt)
    with 1(1,2) show ?thesis
      by (subst measure_load.simps) (auto intro!: silent_intros split: prod.split)
  qed
qed

lemma runtime_request_Inr:
  assumes "runtime_request os api meth path body s = (Inr r, t)"
  shows "http_log t = http_log s @ [(request_text api meth path body, r)]"
  using assms by (auto simp: runtime_request_def Let_def pbind_Inr sys_def split: prod.splits)

lemma silent_log: "silent m \<Longrightarrow> m s = (r, t) \<Longrightarrow> http_log t = http_log s"
  by (simp add: silent_def)

text \<open>One exchange: the fetched event, its id, the answer to the posted response.\<close>

definition served :: "string \<Rightarrow> string \<Rightarrow> string \<times> string \<times> string \<Rightarrow> (string \<times> string) list" where
  "served api body e =
     (case e of (n, i, ack) \<Rightarrow>
        [(request_text api ''GET'' next_path [], n),
         (request_text api ''POST'' (response_path i) body, ack)])"

definition identified :: "string \<times> string \<times> string \<Rightarrow> bool" where
  "identified e = (request_id (fst e) = Some (fst (snd e)))"

text \<open>
  What the loop asks of a measurement: it does not talk to the runtime API itself. Everything the
  loop promises follows from that, for every program that is built on it.
\<close>

locale measured =
  fixes meas :: "('x, 'r) prog"
  assumes quiet: "silent meas"
begin

lemma serve_probe_Inr:
  assumes "serve_probe os api meas render result s = (Inr r, t)"
  shows "\<exists>v e. r = Some v \<and> (result = None \<or> result = Some v) \<and> identified e \<and>
    http_log t = http_log s @ served api (render v) e"
proof -
  from assms obtain n i s1 v s2 ack where
    n: "next_event os api s = (Inr (n, i), s1)" and
    m: "(case result of None \<Rightarrow> meas | Some r \<Rightarrow> pret r) s1 = (Inr v, s2)" and
    p: "runtime_request os api ''POST'' (response_path i) (render v) s2 = (Inr ack, t)" "r = Some v"
    by (auto simp: serve_probe_def pbind_Inr)
  from n have n': "http_log s1 = http_log s @ [(request_text api ''GET'' next_path [], n)]"
    "request_id n = Some i"
    by (auto simp: next_event_def pbind_Inr dest: runtime_request_Inr)
  have "http_log s2 = http_log s1" using m silent_log [OF quiet] by (cases result) auto
  with n' p runtime_request_Inr [OF p(1)] m show ?thesis
    by (intro exI [of _ v] exI [of _ "(n, i, ack)"]) (cases result; simp add: served_def identified_def)
qed

lemma serve_events_Inr:
  assumes "serve_events os api meas render n result s = (Inr r, t)"
  shows "\<exists>v events. length events = n \<and> list_all identified events \<and>
    (result = None \<or> result = Some v) \<and> (n = 0 \<and> r = result \<or> r = Some v) \<and>
    http_log t = http_log s @ concat (map (served api (render v)) events)"
  using assms
proof (induction n arbitrary: result s)
  case 0
  then show ?case by (cases result) auto
next
  case (Suc n)
  then obtain r1 s1 where one: "serve_probe os api meas render result s = (Inr r1, s1)"
    and rest: "serve_events os api meas render n r1 s1 = (Inr r, t)"
    by (auto simp: pbind_Inr)
  from serve_probe_Inr [OF one] obtain v e where
    e: "r1 = Some v" "result = None \<or> result = Some v" "identified e"
      "http_log s1 = http_log s @ served api (render v) e" by blast
  from Suc.IH [OF rest] e(1) obtain events where
    "length events = n" "list_all identified events" "n = 0 \<and> r = r1 \<or> r = Some v"
    "http_log t = http_log s1 @ concat (map (served api (render v)) events)" by auto
  with e show ?case by (intro exI [of _ v] exI [of _ "e # events"]) auto
qed

lemma probe_main_Inr:
  assumes "probe_main os meas render n s = (Inr r, t)"
  shows "\<exists>api v events. length events = n \<and> list_all identified events \<and> (n = 0 \<or> r = Some v) \<and>
    http_log t = http_log s @ concat (map (served api (render v)) events)"
proof -
  from assms obtain api result s1 where run:
    "serve_events os api meas render n result s1 = (Inr r, t)" "http_log s1 = http_log s"
    by (fastforce simp: probe_main_def pbind_Inr dest: silent_log [OF quiet] split: if_splits)
  from serve_events_Inr [OF run(1)] obtain v events where
    "length events = n" "list_all identified events" "n = 0 \<and> r = result \<or> r = Some v"
    "http_log t = http_log s1 @ concat (map (served api (render v)) events)" by blast
  with run(2) show ?thesis by (intro exI [of _ api] exI [of _ v] exI [of _ events]) auto
qed

end

interpretation sdk_init: measured "measure_load os load mode" for os load mode
  by unfold_locales (rule silent_measure_load)

text \<open>
  The \<open>rust-sdk-init\<close> probe answers every event exactly once: after \<open>n\<close> events its exchanges
  with the runtime API are \<open>n\<close> pairs of a fetch and a posted response, in turn, each response under
  the request id of the event fetched just before it, and all of them carry one and the same
  measurement, whether it was taken at init or in the first invocation.
\<close>

theorem sdk_init_answers:
  assumes "sdk_init_main os load n s = (Inr r, t)"
  shows "\<exists>api ms events. length events = n \<and> list_all identified events \<and> (n = 0 \<or> r = Some ms) \<and>
    http_log t = http_log s @
      concat (map (served api (json_obj [(''ms'', fixed 3 ms)])) events)"
proof -
  from assms obtain mode s1 where run:
    "probe_main os (measure_load os load mode) (\<lambda>ms. json_obj [(''ms'', fixed 3 ms)]) n s1 = (Inr r, t)"
    "http_log s1 = http_log s"
    by (fastforce simp: sdk_init_main_def pbind_Inr)
  from sdk_init.probe_main_Inr [OF run(1)] run(2) show ?thesis by simp
qed

lemma silent_timed_get [silent_intros]: "silent (timed_get os get url)"
  unfolding timed_get_def by (intro silent_intros)

lemma timed_gets_Inr:
  assumes "timed_gets os get url n v samples s = (Inr (version, out), t)"
  shows "length out = length samples + n \<and> http_log t = http_log s"
  using assms
proof (induction n arbitrary: v samples s)
  case 0
  then show ?case by simp
next
  case (Suc n)
  then obtain ms v1 s1 where one: "timed_get os get url s = (Inr (ms, v1), s1)"
    and rest: "timed_gets os get url n v1 (samples @ [fixed 3 ms]) s1 = (Inr (version, out), t)"
    by (auto simp: pbind_Inr)
  from Suc.IH [OF rest] silent_log [OF silent_timed_get one] show ?case by simp
qed

text \<open>
  The caller answers an event with the number of samples it asks for; the first request of the
  process is reported in the first answer only and is not one of the samples.
\<close>

theorem caller_answers:
  assumes "serve_caller os get api url first_ms s = (Inr r, t)"
  shows "\<exists>e i n version first samples ack.
    request_id e = Some i \<and> event_count e = Some n \<and> length samples = n \<and>
    (case first_ms of
       None \<Rightarrow> \<exists>ms. r = Some ms \<and> first = fixed 3 ms
     | Some ms \<Rightarrow> r = Some ms \<and> first = ''null'') \<and>
    http_log t = http_log s @
      [(request_text api ''GET'' next_path [], e),
       (request_text api ''POST'' (response_path i) (caller_body version first samples), ack)]"
proof -
  let ?first = "case first_ms of
      None \<Rightarrow> pbind (timed_get os get url) (\<lambda>(ms, _). pret (Some ms, fixed 3 ms))
    | Some ms \<Rightarrow> pret (Some ms, ''null'')"
  from assms obtain e i n s1 first s2 version samples s3 ack where
    e: "next_event os api s = (Inr (e, i), s1)" "event_count e = Some n" and
    f: "?first s1 = (Inr (r, first), s2)" and
    g: "timed_gets os get url n [] [] s2 = (Inr (version, samples), s3)" and
    p: "runtime_request os api ''POST'' (response_path i) (caller_body version first samples) s3 =
      (Inr ack, t)"
    by (auto simp: serve_caller_def pbind_Inr split: if_splits)
  have "http_log s1 = http_log s @ [(request_text api ''GET'' next_path [], e)]" "request_id e = Some i"
    using e(1) by (auto simp: next_event_def pbind_Inr dest: runtime_request_Inr)
  moreover have "silent ?first" by (intro silent_intros)
  then have "http_log s2 = http_log s1" using f silent_log by blast
  moreover have "case first_ms of None \<Rightarrow> \<exists>ms. r = Some ms \<and> first = fixed 3 ms
      | Some ms \<Rightarrow> r = Some ms \<and> first = ''null''"
    using f by (cases first_ms) (auto simp: pbind_Inr)
  ultimately show ?thesis
    using e(2) timed_gets_Inr [OF g] runtime_request_Inr [OF p]
    by (intro exI [of _ e] exI [of _ i] exI [of _ n] exI [of _ version] exI [of _ first]
        exI [of _ samples] exI [of _ ack]) simp
qed

text \<open>A sandbox whose runtime API hands out the same event again and again, on a ticking clock.\<close>

definition tick_event :: string where
  "tick_event =
     ''HTTP/1.1 200 OK'' @ crlf @ ''Lambda-Runtime-Aws-Request-Id: id-1'' @ crlf @ crlf @ ''3''"

definition tick_os :: "nat os" where
  "tick_os =
     \<lparr>os_var = (\<lambda>v x. (if v = ''PROBE_MODE'' then Some ''default+noop''
        else if v = ''PROBE_PHASE'' then Some ''invoke''
        else if v = ''AWS_LAMBDA_RUNTIME_API'' then Some ''127.0.0.1:9001'' else None, x)),
      exe_link = (\<lambda>x. (None, x)), read_text = (\<lambda>p x. (None, x)), can_open = (\<lambda>p x. (False, x)),
      read_at = (\<lambda>p a n x. (None, x)), wall_ms = (\<lambda>x. (of_nat x, x + 1)),
      cpu_clock = (\<lambda>b x. (0, x)), page_faults = (\<lambda>b x. ((0, 0), x)),
      exchange = (\<lambda>a q x. (Some tick_event, x))\<rparr>"

definition fresh_proc :: "'x \<Rightarrow> 'x proc" where
  "fresh_proc x = \<lparr>machine = x, http_log = [], out_lines = [], touched = []\<rparr>"

lemma tick_id: "request_id tick_event = Some ''id-1''"
  by code_simp

lemma tick_request:
  "runtime_request tick_os api meth path body s =
     (Inr tick_event, s\<lparr>http_log := http_log s @ [(request_text api meth path body, tick_event)]\<rparr>)"
  by (simp add: runtime_request_def pbind_def sys_def tick_os_def Let_def)

lemma tick_measure:
  "measure_load tick_os (\<lambda>_ x. ((), x)) ''default+noop'' s = (Inr 1, s\<lparr>machine := machine s + 4\<rparr>)"
proof -
  have one: "measure_load tick_os (\<lambda>_ x. ((), x)) m s = (Inr 1, s\<lparr>machine := machine s + 2\<rparr>)"
    if "m = ''default'' \<or> m = ''noop''" for m s
  proof -
    from that have "split_once (CHR ''+'') m = None" "\<exists>v. load_variant_of m = Some v"
      by (auto simp: split_once_def load_variant_of_def)
    then show ?thesis
      by (subst measure_load.simps) (auto simp: pbind_def sys_def tick_os_def pret_def)
  qed
  have "split_once (CHR ''+'') ''default+noop'' = Some (''default'', ''noop'')"
    by (simp add: split_once_def)
  then show ?thesis by (subst measure_load.simps) (simp add: one pbind_def)
qed

lemma tick_serves:
  "\<exists>t. serve_probe tick_os api (measure_load tick_os (\<lambda>_ x. ((), x)) ''default+noop'') render r s =
    (Inr (Some (case r of None \<Rightarrow> 1 | Some v \<Rightarrow> v)), t)"
  by (cases r)
    (simp_all add: serve_probe_def next_event_def pbind_def tick_request tick_id tick_measure pret_def)

lemma tick_runs: "\<exists>t. sdk_init_main tick_os (\<lambda>_ x. ((), x)) 2 (fresh_proc 7) = (Inr (Some 1), t)"
proof -
  let ?m = "measure_load tick_os (\<lambda>_ x. ((), x)) ''default+noop''"
  have step: "\<exists>t. serve_events tick_os api ?m render (Suc n) r s =
      serve_events tick_os api ?m render n (Some (case r of None \<Rightarrow> 1 | Some v \<Rightarrow> v)) t"
    for api render n r s
    using tick_serves [of api render r s] by (auto simp: pbind_def)
  have two: "\<exists>t. serve_events tick_os api ?m render 2 None s = (Inr (Some 1), t)" for api render s
    using step [of api render 1 None s] step [of api render 0 "Some 1"]
    by (auto simp: numeral_2_eq_2 pret_def)
  show ?thesis
    using two by (simp add: sdk_init_main_def probe_main_def pbind_def sys_def tick_os_def)
qed

theorem sdk_init_answers_witness:
  "\<exists>api events t. sdk_init_main tick_os (\<lambda>_ x. ((), x)) 2 (fresh_proc 7) = (Inr (Some 1), t) \<and>
    length events = 2 \<and> list_all identified events \<and>
    http_log t = concat (map (served api (json_obj [(''ms'', fixed 3 1)])) events)"
proof -
  obtain t where t: "sdk_init_main tick_os (\<lambda>_ x. ((), x)) 2 (fresh_proc 7) = (Inr (Some 1), t)"
    using tick_runs by blast
  from sdk_init_answers [OF t] t show ?thesis by (auto simp: fresh_proc_def)
qed

end
