(* ===== verification/Probe_Counters.thy ===== *)
theory Probe_Counters
  imports Procfs
begin

text \<open>
  \<open>oneoff/rust-sdk-tuning/smithyfull/probe_counters.rs\<close>: the counters of a process at the end of
  its initialisation and after each request, and the pages of its executable that are mapped,
  printed as ranges. The write-once statics are a record that the operations pass on.
\<close>

section \<open>Readers of \<open>/proc\<close>\<close>

text \<open>The address range and the file offset of a line of \<open>/proc/self/maps\<close>.\<close>

definition map_line :: "string \<Rightarrow> (64 word \<times> 64 word \<times> 64 word) option" where
  "map_line l =
     (case split_whitespace l of
        addrs # perms # offset # _ \<Rightarrow>
          (case split_once (CHR ''-'') addrs of
             None \<Rightarrow> None
           | Some (a, b) \<Rightarrow>
               (case (parse_hex_u64 a, parse_hex_u64 b, parse_hex_u64 offset) of
                  (Some start, Some stop, Some off) \<Rightarrow> Some (start, stop, off)
                | _ \<Rightarrow> None))
      | _ \<Rightarrow> None)"

text \<open>The file pages whose entry in a stretch of the page map has the present bit.\<close>

definition present_pages :: "64 word \<Rightarrow> string \<Rightarrow> nat list" where
  "present_pages off buf =
     map (\<lambda>i. unat off div 4096 + i)
       (filter (\<lambda>i. bit (of_nat (le_bytes (take 8 (drop (8 * i) buf))) :: 64 word) 63)
         [0..<length buf div 8])"

fun exe_page_loop :: "'x os \<Rightarrow> string list \<Rightarrow> nat list \<Rightarrow> ('x, nat list) prog" where
  "exe_page_loop os [] pages = pret pages"
| "exe_page_loop os (l # ls) pages =
     (case map_line l of
        None \<Rightarrow> exe_page_loop os ls pages
      | Some (start, stop, off) \<Rightarrow>
          pbind (sys (read_at os ''/proc/self/pagemap'' (unat (start div 4096) * 8)
              (unat ((stop - start) div 4096) * 8))) (\<lambda>r.
            case r of
              None \<Rightarrow> exe_page_loop os ls pages
            | Some buf \<Rightarrow> exe_page_loop os ls (pages @ present_pages off buf)))"

text \<open>Runs of consecutive pages, and their text.\<close>

fun run_end :: "nat \<Rightarrow> nat list \<Rightarrow> nat \<times> nat list" where
  "run_end p [] = (p, [])"
| "run_end p (q # qs) = (if q = p + 1 then run_end q qs else (p, q # qs))"

lemma run_end_length: "length (snd (run_end p qs)) \<le> length qs"
  by (induction p qs rule: run_end.induct) auto

function page_ranges :: "nat list \<Rightarrow> (nat \<times> nat) list" where
  "page_ranges [] = []"
| "page_ranges (p # ps) = (p, fst (run_end p ps)) # page_ranges (snd (run_end p ps))"
  by pat_completeness auto
termination
  by (relation "measure length") (auto simp: less_Suc_eq_le run_end_length)

definition show_range :: "nat \<times> nat \<Rightarrow> string" where
  "show_range r =
     (if fst r = snd r then show_nat (fst r) else show_nat (fst r) @ ''-'' @ show_nat (snd r))"

definition page_text :: "nat list \<Rightarrow> string" where
  "page_text pages = join_with '','' (map show_range (page_ranges (remdups_adj (sort pages))))"

definition exe_pages :: "'x os \<Rightarrow> ('x, string) prog" where
  "exe_pages os =
     pbind (sys (exe_link os)) (\<lambda>exe. case exe of None \<Rightarrow> pret [] | Some exe \<Rightarrow>
     pbind (sys (read_text os ''/proc/self/maps'')) (\<lambda>maps. case maps of None \<Rightarrow> pret [] | Some maps \<Rightarrow>
     pbind (sys (can_open os ''/proc/self/pagemap'')) (\<lambda>opened.
       if \<not> opened then pret []
       else pbind (exe_page_loop os (filter (suffix exe) (rust_lines maps)) []) (\<lambda>pages.
         pret (page_text pages)))))"

text \<open>The summed \<open>Rss\<close> of the mappings whose header line ends in the executable's path.\<close>

fun exe_rss_loop :: "string \<Rightarrow> string list \<Rightarrow> bool \<Rightarrow> nat \<Rightarrow> nat" where
  "exe_rss_loop exe [] in_exe kb = kb"
| "exe_rss_loop exe (l # ls) in_exe kb =
     (if (case split_whitespace l of f # _ \<Rightarrow> CHR ''-'' \<in> set f | [] \<Rightarrow> False)
      then exe_rss_loop exe ls (suffix exe l) kb
      else
        (case (if in_exe then strip_pre ''Rss:'' l else None) of
           Some v \<Rightarrow>
             exe_rss_loop exe ls in_exe
               ((kb + (case parse_u64 (trim (trim_end_matches ''kB'' (trim v))) of
                   None \<Rightarrow> 0 | Some n \<Rightarrow> n)) mod 2 ^ 64)
         | None \<Rightarrow> exe_rss_loop exe ls in_exe kb))"

definition exe_rss_kb :: "'x os \<Rightarrow> ('x, nat) prog" where
  "exe_rss_kb os =
     pbind (sys (exe_link os)) (\<lambda>exe. case exe of None \<Rightarrow> pret 0 | Some exe \<Rightarrow>
     pbind (sys (read_text os ''/proc/self/smaps'')) (\<lambda>smaps. case smaps of None \<Rightarrow> pret 0
       | Some smaps \<Rightarrow> pret (exe_rss_loop exe (rust_lines smaps) False 0)))"

definition read_bytes_value :: "string \<Rightarrow> rat option" where
  "read_bytes_value io =
     Option.bind (first_some (strip_pre ''read_bytes: '') (rust_lines io))
       (\<lambda>v. read_decimal (trim v))"

definition meminfo_field :: "string \<Rightarrow> string \<Rightarrow> string" where
  "meminfo_field info key =
     show_opt show_nat
       (Option.bind
         (first_some (\<lambda>l. Option.bind (strip_pre key l) (strip_pre '':'')) (rust_lines info))
         (\<lambda>v. parse_u64 (trim (trim_end_matches ''kB'' (trim v)))))"

fun read_first :: "'x os \<Rightarrow> string list \<Rightarrow> ('x, string option) prog" where
  "read_first os [] = pret None"
| "read_first os (p # ps) =
     pbind (sys (read_text os p)) (\<lambda>v. case v of Some t \<Rightarrow> pret (Some t) | None \<Rightarrow> read_first os ps)"

definition counters_memory :: "'x os \<Rightarrow> ('x, string) prog" where
  "counters_memory os =
     pbind (sys (read_text os ''/proc/meminfo'')) (\<lambda>text'. let info = or_empty text' in
     pbind (read_first os [''/sys/fs/cgroup/memory.current'',
         ''/sys/fs/cgroup/memory/memory.usage_in_bytes'']) (\<lambda>current.
     pbind (read_first os [''/sys/fs/cgroup/memory.max'',
         ''/sys/fs/cgroup/memory/memory.limit_in_bytes'']) (\<lambda>limit.
       pret (json_obj
         [(''total'', meminfo_field info ''MemTotal''), (''free'', meminfo_field info ''MemFree''),
          (''available'', meminfo_field info ''MemAvailable''),
          (''cached'', meminfo_field info ''Cached''), (''anon'', meminfo_field info ''AnonPages''),
          (''active_file'', meminfo_field info ''Active(file)''),
          (''inactive_file'', meminfo_field info ''Inactive(file)''),
          (''cg_current'', show_opt (\<lambda>v. quote (trim v)) current),
          (''cg_max'', show_opt (\<lambda>v. quote (trim v)) limit)]))))"

definition counters_cpu_model :: "string \<Rightarrow> string" where
  "counters_cpu_model info =
     (case Option.bind
         (List.find (\<lambda>l. prefix ''CPU part'' l \<or> prefix ''model name'' l) (rust_lines info))
         (\<lambda>l. nth_opt (split_on (CHR '':'') l) 1) of
        None \<Rightarrow> []
      | Some v \<Rightarrow> filter (\<lambda>c. c \<noteq> CHR 0x22) (trim v))"

section \<open>Snapshots\<close>

record snapshot =
  sn_cpu_ms :: rat
  sn_majflt :: int
  sn_minflt :: int
  sn_read_kb :: rat
  sn_exe_rss_kb :: nat

definition snap :: "'x os \<Rightarrow> ('x, snapshot) prog" where
  "snap os =
     pbind (sys (cpu_clock os False)) (\<lambda>cpu.
     pbind (sys (page_faults os False)) (\<lambda>(maj, minor).
     pbind (sys (read_text os ''/proc/self/io'')) (\<lambda>io.
     pbind (exe_rss_kb os) (\<lambda>rss.
       pret \<lparr>sn_cpu_ms = cpu, sn_majflt = maj, sn_minflt = minor,
         sn_read_kb = (case Option.bind io read_bytes_value of None \<Rightarrow> 0 | Some b \<Rightarrow> b) / 1024,
         sn_exe_rss_kb = rss\<rparr>))))"

record statics =
  st_init :: "snapshot option"
  st_init_mem :: "string option"
  st_init_pages :: "string option"
  st_count :: "32 word"

definition set_once :: "'a option \<Rightarrow> 'a \<Rightarrow> 'a option" where
  "set_once old v = (case old of None \<Rightarrow> Some v | Some w \<Rightarrow> Some w)"

definition mark_init :: "'x os \<Rightarrow> statics \<Rightarrow> ('x, statics) prog" where
  "mark_init os st =
     pbind (snap os) (\<lambda>i.
     pbind (counters_memory os) (\<lambda>mem.
       let st = st\<lparr>st_init := set_once (st_init st) i, st_init_mem := set_once (st_init_mem st) mem\<rparr>
       in pbind (sys (os_var os ''SF_PAGES'')) (\<lambda>v.
            if v = Some ''1''
            then pbind (exe_pages os) (\<lambda>p. pret (st\<lparr>st_init_pages := set_once (st_init_pages st) p\<rparr>))
            else pret st)))"

definition counters_report :: "'x os \<Rightarrow> statics \<Rightarrow> ('x, statics) prog" where
  "counters_report os st =
     (let n = st_count st + 1; st = st\<lparr>st_count := n\<rparr>
      in pbind (case st_init_pages st of
             Some init \<Rightarrow>
               if n = 1
               then pbind (print_line (''PAGES init '' @ init)) (\<lambda>_.
                 pbind (exe_pages os) (\<lambda>p. print_line (''PAGES req1 '' @ p)))
               else pret ()
           | None \<Rightarrow> pret ()) (\<lambda>_.
         pbind (snap os) (\<lambda>now.
           case st_init st of
             None \<Rightarrow> pret st
           | Some i \<Rightarrow>
               pbind (sys (read_text os ''/proc/cpuinfo'')) (\<lambda>info.
               pbind (counters_memory os) (\<lambda>mem.
               pbind (print_line (''PROBE '' @ json_obj
                 [(''n'', show_nat (unat n)), (''cpu'', quote (counters_cpu_model (or_empty info))),
                  (''mem_init'', show_opt id (st_init_mem st)), (''mem_now'', mem),
                  (''init_cpu_ms'', fixed 3 (sn_cpu_ms i)), (''init_majflt'', show_int (sn_majflt i)),
                  (''init_minflt'', show_int (sn_minflt i)),
                  (''init_read_kb'', fixed 0 (sn_read_kb i)),
                  (''init_exe_rss_kb'', show_nat (sn_exe_rss_kb i)),
                  (''cpu_ms'', fixed 3 (sn_cpu_ms now - sn_cpu_ms i)),
                  (''majflt'', show_int (sn_majflt now - sn_majflt i)),
                  (''minflt'', show_int (sn_minflt now - sn_minflt i)),
                  (''read_kb'', fixed 0 (sn_read_kb now - sn_read_kb i)),
                  (''exe_rss_kb'', show_nat (sn_exe_rss_kb now))])) (\<lambda>_.
                 pret st))))))"

section \<open>The page ranges are exact\<close>

lemma run_end_spec:
  assumes "run_end p ps = (e, rest)"
  shows "p \<le> e \<and> p # ps = [p..<Suc e] @ rest \<and> (rest = [] \<or> hd rest \<noteq> Suc e)"
  using assms
proof (induction p ps rule: run_end.induct)
  case (1 p)
  then show ?case by simp
next
  case (2 p q qs)
  show ?case
  proof (cases "q = p + 1")
    case True
    with 2 have "q \<le> e \<and> q # qs = [q..<Suc e] @ rest \<and> (rest = [] \<or> hd rest \<noteq> Suc e)" by simp
    with True show ?thesis by (simp add: upt_conv_Cons)
  next
    case False
    with 2 show ?thesis by auto
  qed
qed

lemma page_ranges_spec:
  assumes "sorted_wrt (<) ps"
  shows "concat (map (\<lambda>(a, b). [a..<Suc b]) (page_ranges ps)) = ps \<and>
    list_all (\<lambda>(a, b). a \<le> b) (page_ranges ps) \<and>
    sorted_wrt (\<lambda>(a, b) (c, d). b + 1 < c) (page_ranges ps) \<and>
    (\<forall>r \<in> set (page_ranges ps). fst r \<in> set ps)"
  using assms
proof (induction ps rule: page_ranges.induct)
  case 1
  then show ?case by simp
next
  case (2 p ps)
  obtain e rest where r: "run_end p ps = (e, rest)" by force
  from run_end_spec [OF r] have e: "p \<le> e" "p # ps = [p..<Suc e] @ rest"
    "rest = [] \<or> hd rest \<noteq> Suc e" by blast+
  with 2(2) have s: "sorted_wrt (<) rest" "\<forall>q \<in> set rest. e < q"
    by (auto simp: sorted_wrt_append)
  have gap: "\<forall>q \<in> set rest. e + 1 < q"
  proof (cases rest)
    case (Cons x xs)
    with s e(3) have "Suc e < x" "\<forall>q \<in> set xs. x < q" by (auto simp: Suc_lessI)
    with Cons show ?thesis by auto
  qed simp
  from 2(1) r s(1) have IH: "concat (map (\<lambda>(a, b). [a..<Suc b]) (page_ranges rest)) = rest"
    "list_all (\<lambda>(a, b). a \<le> b) (page_ranges rest)"
    "sorted_wrt (\<lambda>(a, b) (c, d). b + 1 < c) (page_ranges rest)"
    "\<forall>r \<in> set (page_ranges rest). fst r \<in> set rest" by simp_all
  have pr: "page_ranges (p # ps) = (p, e) # page_ranges rest" by (simp add: r)
  have "concat (map (\<lambda>(a, b). [a..<Suc b]) (page_ranges (p # ps))) = [p..<Suc e] @ rest"
    unfolding pr list.map concat.simps IH(1) by simp
  then have "concat (map (\<lambda>(a, b). [a..<Suc b]) (page_ranges (p # ps))) = p # ps"
    unfolding e(2) .
  moreover have "list_all (\<lambda>(a, b). a \<le> b) (page_ranges (p # ps))"
    unfolding pr using IH(2) e(1) by simp
  moreover have "sorted_wrt (\<lambda>(a, b) (c, d). b + 1 < c) (page_ranges (p # ps))"
    unfolding pr using IH(3,4) gap by (auto simp: case_prod_beta)
  moreover have "set rest \<subseteq> set (p # ps)" unfolding e(2) by auto
  with IH(4) have "\<forall>r \<in> set (page_ranges (p # ps)). fst r \<in> set (p # ps)"
    unfolding pr by auto
  ultimately show ?case by blast
qed

text \<open>Reading the text back.\<close>

definition read_range :: "string \<Rightarrow> nat list" where
  "read_range t =
     (case split_once (CHR ''-'') t of
        None \<Rightarrow> [read_nat t]
      | Some (a, b) \<Rightarrow> [read_nat a..<Suc (read_nat b)])"

definition read_page_ranges :: "string \<Rightarrow> nat list" where
  "read_page_ranges s = (if s = [] then [] else concat (map read_range (split_on (CHR '','') s)))"

lemma show_nat_no_comma: "CHR '','' \<notin> set (show_nat n)"
  using show_nat_digits [of n] by (force simp: list.pred_set is_digit_def)

lemma read_show_range: "fst r \<le> snd r \<Longrightarrow> read_range (show_range r) = [fst r..<Suc (snd r)]"
proof (cases "fst r = snd r")
  case True
  have "split_once (CHR ''-'') (show_nat n) = None" for n
  proof -
    have "dropWhile (\<lambda>x. x \<noteq> CHR ''-'') (show_nat n) = []"
      using show_nat_no_minus [of n] by (auto simp: dropWhile_eq_Nil_conv)
    then show ?thesis by (simp only: split_once_def list.case)
  qed
  with True show ?thesis by (simp add: read_range_def show_range_def)
next
  case False
  then have "split_once (CHR ''-'') (show_range r) = Some (show_nat (fst r), show_nat (snd r))"
    by (simp add: show_range_def split_once_Some show_nat_no_minus)
  then show ?thesis by (simp add: read_range_def)
qed

lemma show_range_no_comma: "CHR '','' \<notin> set (show_range r)"
  by (simp add: show_range_def show_nat_no_comma)

lemma show_range_ne: "show_range r \<noteq> []"
  by (simp add: show_range_def)

lemma join_with_eq_Nil: "xs \<noteq> [] \<Longrightarrow> (\<And>x. x \<in> set xs \<Longrightarrow> x \<noteq> []) \<Longrightarrow> join_with sep xs \<noteq> []"
  by (induction sep xs rule: join_with.induct) auto

lemma sorted_pages: "remdups_adj (sort pages) = sorted_list_of_set (set pages)"
  by (rule sorted_distinct_set_unique)
    (simp_all add: sorted_remdups_adj distinct_remdups_adj_sorted)

text \<open>
  C39. The mapped pages are printed without loss: whatever pages are found, in any order and with
  repetitions, reading the ranges of the text back gives exactly these pages, ascending and each
  once; and the ranges are maximal, so consecutive pages never straddle two of them.
\<close>

theorem page_text_round_trip:
  "read_page_ranges (page_text pages) = sorted_list_of_set (set pages) \<and>
   sorted_wrt (\<lambda>(a, b) (c, d). b + 1 < c) (page_ranges (remdups_adj (sort pages))) \<and>
   list_all (\<lambda>(a, b). a \<le> b) (page_ranges (remdups_adj (sort pages)))"
proof -
  let ?rs = "page_ranges (remdups_adj (sort pages))"
  have sorted: "sorted_wrt (<) (remdups_adj (sort pages))"
    unfolding sorted_pages by simp
  note spec = page_ranges_spec [OF sorted]
  have "read_page_ranges (page_text pages) = concat (map (\<lambda>(a, b). [a..<Suc b]) ?rs)"
  proof (cases "?rs = []")
    case True
    then show ?thesis by (simp add: page_text_def read_page_ranges_def)
  next
    case False
    then have ne: "map show_range ?rs \<noteq> []" by simp
    have split: "split_on (CHR '','') (join_with '','' (map show_range ?rs)) = map show_range ?rs"
      by (rule split_on_join [OF ne]) (auto simp: show_range_no_comma)
    have "join_with '','' (map show_range ?rs) \<noteq> []"
      by (rule join_with_eq_Nil [OF ne]) (auto simp: show_range_ne)
    moreover have "map read_range (map show_range ?rs) = map (\<lambda>(a, b). [a..<Suc b]) ?rs"
      using spec by (auto simp: read_show_range list.pred_set)
    ultimately show ?thesis
      by (simp only: page_text_def read_page_ranges_def split if_False)
  qed
  with spec sorted_pages show ?thesis by simp
qed

end
