(* ===== verification/First_Touch.thy ===== *)
theory First_Touch
  imports Runtime_Loop Probe_Counters
begin

text \<open>
  \<open>oneoff/rust-sdk-tuning/first-touch/src/main.rs\<close>: the first use of crypto steps and handshakes,
  each measured as the difference of two snapshots, the facts of the sandbox, and the reads of
  untouched blocks of the executable. Addresses are 64-bit words; the build profile inherits the
  release profile, so their arithmetic wraps. The crypto and TLS libraries, name resolution and
  the system calls are parameters.
\<close>

section \<open>The sandbox\<close>

record 'x ft_world =
  base :: "'x os"
  task_dev :: "'x \<Rightarrow> (nat \<times> nat) option \<times> 'x"
  madvise :: "64 word \<Rightarrow> 64 word \<Rightarrow> string \<Rightarrow> 'x \<Rightarrow> bool \<times> 'x"
  read_head :: "string \<Rightarrow> nat \<Rightarrow> 'x \<Rightarrow> (string + string) \<times> 'x"
  file_copy :: "string \<Rightarrow> 'x \<Rightarrow> nat option \<times> 'x"
  load_byte :: "64 word \<Rightarrow> 'x \<Rightarrow> 'x"
  resolve :: "string \<Rightarrow> 'x \<Rightarrow> nat option \<times> 'x"
  crypto :: "string \<Rightarrow> string \<Rightarrow> 'x \<Rightarrow> bool \<times> 'x"
  lookup_host :: "string \<Rightarrow> 'x \<Rightarrow> string option \<times> 'x"
  tcp_connect :: "string \<Rightarrow> 'x \<Rightarrow> bool \<times> 'x"
  tls_connect :: "string \<Rightarrow> string \<Rightarrow> 'x \<Rightarrow> string option \<times> 'x"

definition text_of :: "'x ft_world \<Rightarrow> string \<Rightarrow> ('x, string) prog" where
  "text_of w p = pbind (sys (read_text (base w) p)) (\<lambda>v. pret (or_empty v))"

definition ft_read_bytes :: "'x ft_world \<Rightarrow> ('x, rat option) prog" where
  "ft_read_bytes w =
     pbind (sys (read_text (base w) ''/proc/self/io'')) (\<lambda>io. pret (Option.bind io read_bytes_value))"

definition stat_value :: "string \<Rightarrow> string \<Rightarrow> string option" where
  "stat_value key stat = first_some (strip_pre key) (rust_lines stat)"

definition throttled_ms :: "'x ft_world \<Rightarrow> ('x, rat option) prog" where
  "throttled_ms w =
     pbind (sys (read_text (base w) ''/sys/fs/cgroup/cpu.stat'')) (\<lambda>v2.
       case Option.bind v2 (stat_value ''throttled_usec '') of
         Some v \<Rightarrow> pret (map_option (\<lambda>us. us / 1000) (read_decimal (trim v)))
       | None \<Rightarrow>
           pbind (sys (read_text (base w) ''/sys/fs/cgroup/cpu/cpu.stat'')) (\<lambda>v1.
             pret (map_option (\<lambda>ns. ns / 1000000)
               (Option.bind (Option.bind v1 (stat_value ''throttled_time ''))
                 (\<lambda>v. read_decimal (trim v))))))"

record ft_snap =
  fs_wall :: rat
  fs_cpu :: rat
  fs_maj :: int
  fs_min :: int
  fs_rb :: "rat option"
  fs_thr :: "rat option"

definition snap_now :: "'x ft_world \<Rightarrow> ('x, ft_snap) prog" where
  "snap_now w =
     pbind (sys (page_faults (base w) False)) (\<lambda>(maj, minor).
     pbind (ft_read_bytes w) (\<lambda>rb.
     pbind (throttled_ms w) (\<lambda>thr.
     pbind (sys (cpu_clock (base w) False)) (\<lambda>cpu.
     pbind (sys (wall_ms (base w))) (\<lambda>wall.
       pret \<lparr>fs_wall = wall, fs_cpu = cpu, fs_maj = maj, fs_min = minor, fs_rb = rb, fs_thr = thr\<rparr>)))))"

definition opt_delta :: "rat option \<Rightarrow> rat option \<Rightarrow> string" where
  "opt_delta a b =
     (case (a, b) of (Some a, Some b) \<Rightarrow> fixed 3 (b - a) | _ \<Rightarrow> ''null'')"

definition lap :: "'x ft_world \<Rightarrow> ft_snap \<Rightarrow> ('x, string \<times> ft_snap) prog" where
  "lap w old =
     pbind (sys (wall_ms (base w))) (\<lambda>wall.
     pbind (snap_now w) (\<lambda>now.
     pbind (snap_now w) (\<lambda>next'.
       pret (json_obj
         [(''wall'', fixed 3 (wall - fs_wall old)), (''cpu'', fixed 3 (fs_cpu now - fs_cpu old)),
          (''majflt'', show_int (fs_maj now - fs_maj old)),
          (''minflt'', show_int (fs_min now - fs_min old)),
          (''read_kb'', opt_delta (map_option (\<lambda>b. b / 1024) (fs_rb old))
             (map_option (\<lambda>b. b / 1024) (fs_rb now))),
          (''throttled'', opt_delta (fs_thr old) (fs_thr now))], next'))))"

definition json_str :: "string \<Rightarrow> string" where
  "json_str v =
     quote (filter (\<lambda>c. (let n = of_char c :: nat in 32 \<le> n \<and> n \<noteq> 127) \<and>
       c \<noteq> CHR 0x22 \<and> c \<noteq> CHR 0x5C) v)"

definition ft_meminfo :: "'x ft_world \<Rightarrow> ('x, string) prog" where
  "ft_meminfo w =
     pbind (text_of w ''/proc/meminfo'') (\<lambda>info.
       pret (json_obj
         [(''total'', meminfo_field info ''MemTotal''), (''free'', meminfo_field info ''MemFree''),
          (''available'', meminfo_field info ''MemAvailable''),
          (''cached'', meminfo_field info ''Cached''), (''anon'', meminfo_field info ''AnonPages'')]))"

fun cpu_lines :: "string list \<Rightarrow> string list \<Rightarrow> string list" where
  "cpu_lines [] seen = seen"
| "cpu_lines (l # ls) seen =
     cpu_lines ls
       (if trim (hd (split_on (CHR '':'') l)) \<in>
            {''model name'', ''CPU implementer'', ''CPU part'', ''CPU variant''} \<and> l \<notin> set seen
        then seen @ [l] else seen)"

definition ft_cpu_model :: "'x ft_world \<Rightarrow> ('x, string) prog" where
  "ft_cpu_model w =
     pbind (text_of w ''/proc/cpuinfo'') (\<lambda>info.
       pret (filter (\<lambda>c. c \<noteq> CHR 0x09) (join_with '' | '' (cpu_lines (rust_lines info) [])) @
         '' | vcpus '' @ show_nat (length (filter (prefix ''processor'') (rust_lines info)))))"

definition compression_name :: "nat \<Rightarrow> string" where
  "compression_name n =
     (if n = 1 then ''gzip'' else if n = 2 then ''lzma'' else if n = 3 then ''lzo''
      else if n = 4 then ''xz'' else if n = 5 then ''lz4'' else if n = 6 then ''zstd''
      else ''unknown'')"

definition slice :: "nat \<Rightarrow> nat \<Rightarrow> string \<Rightarrow> string" where
  "slice a b s = take (b - a) (drop a s)"

definition superblock :: "'x ft_world \<Rightarrow> string \<Rightarrow> ('x, string) prog" where
  "superblock w device =
     pbind (sys (read_head w device 96)) (\<lambda>r.
       case r of
         Inl e \<Rightarrow> pret (''unreadable '' @ device @ '': '' @ e)
       | Inr sb \<Rightarrow>
           if slice 0 4 sb \<noteq> ''hsqs'' then pret (''no squashfs magic on '' @ device)
           else pret (''compression='' @ compression_name (le_bytes (slice 20 22 sb)) @
             '' block_size='' @ show_nat (le_bytes (slice 12 16 sb)) @
             '' bytes_used='' @ show_nat (le_bytes (slice 40 48 sb))))"

definition read_ahead_kb :: "'x ft_world \<Rightarrow> ('x, string) prog" where
  "read_ahead_kb w =
     pbind (sys (task_dev w)) (\<lambda>d.
       case d of
         None \<Rightarrow> pret []
       | Some (major, minor) \<Rightarrow>
           let dev = show_nat major @ '':'' @ show_nat minor
           in pbind (sys (read_text (base w) (''/sys/dev/block/'' @ dev @ ''/queue/read_ahead_kb''))) (\<lambda>v.
                pret (case v of Some t \<Rightarrow> trim t | None \<Rightarrow> ''none for '' @ dev)))"

section \<open>Mappings of the executable\<close>

text \<open>The address range and the remaining fields of a line whose path is the executable.\<close>

definition exe_line :: "string \<Rightarrow> string \<Rightarrow> (64 word \<times> 64 word \<times> string) option" where
  "exe_line exe l =
     (let f = split_whitespace l
      in if length f < 6 \<or> f ! 5 \<noteq> exe then None
         else (case split_once (CHR ''-'') (f ! 0) of
             None \<Rightarrow> None
           | Some (a, b) \<Rightarrow>
               (case (parse_hex_u64 a, parse_hex_u64 b) of
                  (Some start, Some stop) \<Rightarrow> Some (start, stop, f ! 2)
                | _ \<Rightarrow> None)))"

fun madvise_lines ::
    "'x ft_world \<Rightarrow> string \<Rightarrow> string \<Rightarrow> string list \<Rightarrow> 64 word \<Rightarrow> 64 word \<Rightarrow> ('x, 64 word \<times> 64 word) prog" where
  "madvise_lines w advice exe [] n kb = pret (n, kb)"
| "madvise_lines w advice exe (l # ls) n kb =
     (case exe_line exe l of
        None \<Rightarrow> madvise_lines w advice exe ls n kb
      | Some (a, b, _) \<Rightarrow>
          pbind (sys (madvise w a (b - a) advice)) (\<lambda>ok.
            if ok then madvise_lines w advice exe ls (n + 1) (kb + (b - a) div 1024)
            else madvise_lines w advice exe ls n kb))"

definition madvise_exe :: "'x ft_world \<Rightarrow> string \<Rightarrow> ('x, 64 word \<times> 64 word) prog" where
  "madvise_exe w advice =
     pbind (sys (exe_link (base w))) (\<lambda>exe.
     pbind (text_of w ''/proc/self/maps'') (\<lambda>maps.
       madvise_lines w advice (or_empty exe) (rust_lines maps) 0 0))"

definition BLK :: "64 word" where "BLK = 128 * 1024"

definition page_present :: "'x ft_world \<Rightarrow> 64 word \<Rightarrow> ('x, bool) prog" where
  "page_present w va =
     pbind (sys (read_at (base w) ''/proc/self/pagemap'' (unat (va div 4096) * 8) 8)) (\<lambda>r.
       pret (case r of None \<Rightarrow> True | Some b \<Rightarrow> bit (of_nat (le_bytes b) :: 64 word) 63))"

fun any_present :: "'x ft_world \<Rightarrow> 64 word list \<Rightarrow> ('x, bool) prog" where
  "any_present w [] = pret False"
| "any_present w (va # vas) =
     pbind (page_present w va) (\<lambda>p. if p then pret True else any_present w vas)"

definition step_pages :: "64 word \<Rightarrow> 64 word \<Rightarrow> 64 word list" where
  "step_pages lo hi =
     (if lo < hi then map (\<lambda>k. lo + of_nat (4096 * k)) [0..<(unat (hi - lo) + 4095) div 4096]
      else [])"

definition thread_read_kb :: "'x ft_world \<Rightarrow> ('x, rat) prog" where
  "thread_read_kb w =
     pbind (sys (read_text (base w) ''/proc/thread-self/io'')) (\<lambda>io.
       pret (case Option.bind io read_bytes_value of None \<Rightarrow> - 1 | Some b \<Rightarrow> b / 1024))"

definition thread_cost :: "'x ft_world \<Rightarrow> ('x, rat \<times> int \<times> rat) prog" where
  "thread_cost w =
     pbind (sys (cpu_clock (base w) True)) (\<lambda>c.
     pbind (sys (page_faults (base w) True)) (\<lambda>(m, _).
     pbind (thread_read_kb w) (\<lambda>r. pret (c, m, r))))"

text \<open>The volatile read of one byte; the address is kept as a record of what the program touched.\<close>

definition touch_byte :: "'x ft_world \<Rightarrow> 64 word \<Rightarrow> ('x, unit) prog" where
  "touch_byte w va s =
     (Inr (), s\<lparr>machine := load_byte w va (machine s), touched := touched s @ [va]\<rparr>)"

text \<open>One block: untouched when none of its pages and of its neighbours' pages is mapped in.\<close>

definition touch_block :: "'x ft_world \<Rightarrow> 64 word \<Rightarrow> 64 word \<Rightarrow> string list \<Rightarrow> ('x, string list) prog" where
  "touch_block w va fo out =
     pbind (any_present w (step_pages (va - BLK) (va + 2 * BLK))) (\<lambda>busy.
       if busy then pret out
       else
         pbind (thread_cost w) (\<lambda>(c0, m0, r0).
         pbind (touch_byte w va) (\<lambda>_.
         pbind (thread_cost w) (\<lambda>(c1, m1, r1).
           pret (out @ [json_obj
             [(''off_kb'', show_nat (unat (fo div 1024))), (''cpu'', fixed 3 (c1 - c0)),
              (''majflt'', show_int (m1 - m0)), (''read_kb'', fixed 0 (r1 - r0))]])))))"

text \<open>The \<open>while\<close> loop over the blocks of a mapping: no value when it does not end.\<close>

partial_function (option) touch_loop ::
    "'x ft_world \<Rightarrow> nat \<Rightarrow> 64 word \<Rightarrow> 64 word \<Rightarrow> 64 word \<Rightarrow> 64 word \<Rightarrow> string list \<Rightarrow> 'x proc \<Rightarrow>
     ((string + string list) \<times> 'x proc) option" where
  "touch_loop w n start stop off fo out s =
     (if fo + 2 * BLK \<le> off + (stop - start) \<and> length out < n
      then (case touch_block w (start + (fo - off)) fo out s of
          (Inl e, t) \<Rightarrow> Some (Inl e, t)
        | (Inr out', t) \<Rightarrow> touch_loop w n start stop off (fo + 3 * BLK) out' t)
      else Some (Inr out, s))"

definition first_block :: "64 word \<Rightarrow> 64 word" where
  "first_block off = (off div BLK + (if off mod BLK = 0 then 0 else 1)) * BLK + BLK"

fun touch_lines ::
    "'x ft_world \<Rightarrow> nat \<Rightarrow> string \<Rightarrow> string list \<Rightarrow> string list \<Rightarrow> 'x proc \<Rightarrow>
     ((string + string list) \<times> 'x proc) option" where
  "touch_lines w n exe [] out s = Some (Inr out, s)"
| "touch_lines w n exe (l # ls) out s =
     (case exe_line exe l of
        None \<Rightarrow> touch_lines w n exe ls out s
      | Some (start, stop, off_text) \<Rightarrow>
          (case parse_hex_u64 off_text of
             None \<Rightarrow> touch_lines w n exe ls out s
           | Some off \<Rightarrow>
               (case touch_loop w n start stop off (first_block off) out s of
                  None \<Rightarrow> None
                | Some (Inl e, t) \<Rightarrow> Some (Inl e, t)
                | Some (Inr out', t) \<Rightarrow> touch_lines w n exe ls out' t)))"

definition touch_blocks :: "'x ft_world \<Rightarrow> nat \<Rightarrow> 'x proc \<Rightarrow> ((string + string) \<times> 'x proc) option" where
  "touch_blocks w n s =
     (case pbind (sys (exe_link (base w))) (\<lambda>exe.
           pbind (text_of w ''/proc/self/maps'') (\<lambda>maps.
           pbind (sys (can_open (base w) ''/proc/self/pagemap'')) (\<lambda>opened.
             pret (or_empty exe, maps, opened)))) s of
        (Inl e, t) \<Rightarrow> Some (Inl e, t)
      | (Inr (exe, maps, opened), t) \<Rightarrow>
          if \<not> opened then Some (Inr (json_obj [(''error'', quote ''pagemap'')]), t)
          else map_option (\<lambda>(r, u). (map_sum id (\<lambda>out. ''['' @ join_with '','' out @ '']'') r, u))
            (touch_lines w n exe (rust_lines maps) [] t))"

section \<open>Where the probe reads\<close>

definition total_prog :: "('x, 'a) prog \<Rightarrow> bool" where
  "total_prog m \<longleftrightarrow> (\<forall>s. \<exists>v t. m s = (Inr v, t))"

lemma total_pret: "total_prog (pret v)"
  by (simp add: total_prog_def pret_def)

lemma total_sys: "total_prog (sys f)"
  by (simp add: total_prog_def sys_def split: prod.splits)

lemma total_pbind: "total_prog m \<Longrightarrow> (\<And>v. total_prog (k v)) \<Longrightarrow> total_prog (pbind m k)"
  unfolding total_prog_def pbind_Inr by metis

lemma total_touch_byte: "total_prog (touch_byte w va)"
  by (simp add: total_prog_def touch_byte_def)

lemmas total_intros = total_pret total_sys total_pbind total_touch_byte

lemma page_present_quiet: "silent (page_present w va)" "total_prog (page_present w va)"
  unfolding page_present_def by (intro silent_intros total_intros)+

lemma any_present_quiet: "silent (any_present w vas) \<and> total_prog (any_present w vas)"
  by (induction vas) (auto intro!: silent_intros total_intros page_present_quiet)

lemma thread_cost_quiet: "silent (thread_cost w)" "total_prog (thread_cost w)"
  unfolding thread_cost_def thread_read_kb_def case_prod_beta by (intro silent_intros total_intros)+

lemma silent_touched: "silent m \<Longrightarrow> m s = (r, t) \<Longrightarrow> touched t = touched s"
  by (simp add: silent_def)

lemma touch_block_result:
  "\<exists>out' t. touch_block w va fo out s = (Inr out', t) \<and>
    (out' = out \<and> touched t = touched s \<or>
     length out' = Suc (length out) \<and> touched t = touched s @ [va])"
proof -
  let ?busy = "any_present w (step_pages (va - BLK) (va + 2 * BLK))"
  obtain b t1 where b: "?busy s = (Inr b, t1)" "touched t1 = touched s"
    using any_present_quiet [of w] unfolding total_prog_def silent_def by metis
  obtain c t2 where c: "thread_cost w t1 = (Inr c, t2)" "touched t2 = touched t1"
    using thread_cost_quiet [of w] unfolding total_prog_def silent_def by metis
  obtain t3 where t3: "touch_byte w va t2 = (Inr (), t3)" "touched t3 = touched t2 @ [va]"
    by (simp add: touch_byte_def)
  obtain d t4 where d: "thread_cost w t3 = (Inr d, t4)" "touched t4 = touched t3"
    using thread_cost_quiet [of w] unfolding total_prog_def silent_def by metis
  show ?thesis
  proof (cases b)
    case True
    with b show ?thesis by (simp add: touch_block_def pbind_def pret_def)
  next
    case False
    with b c t3 d show ?thesis
      by (simp add: touch_block_def pbind_def pret_def split: prod.splits)
  qed
qed

definition sane_mapping :: "64 word \<Rightarrow> 64 word \<Rightarrow> 64 word \<Rightarrow> bool" where
  "sane_mapping start stop off \<longleftrightarrow>
     start \<le> stop \<and> unat off + (unat stop - unat start) + 4 * 131072 < 2 ^ 64"

definition well_inside :: "64 word \<Rightarrow> 64 word \<Rightarrow> 64 word \<Rightarrow> bool" where
  "well_inside start stop va \<longleftrightarrow>
     unat start + 131072 \<le> unat va \<and> unat va + 2 * 131072 \<le> unat stop"

lemma BLK_nat: "unat BLK = 131072" "unat (2 * BLK) = 262144" "unat (3 * BLK) = 393216"
  by (simp_all add: BLK_def)

lemma unat_below: "unat (a :: 64 word) < 2 ^ 64"
  using unsigned_less [of a] by simp

lemma unat_add_small: "unat (a :: 64 word) + unat b < 2 ^ 64 \<Longrightarrow> unat (a + b) = unat a + unat b"
  by (simp add: unat_word_ariths)

lemma touch_loop_inside:
  assumes "sane_mapping start stop off"
    and "unat off + 131072 \<le> unat fo" "unat fo + 262144 < 2 ^ 64"
  shows "\<exists>out' t vas. touch_loop w n start stop off fo out s = Some (Inr out', t) \<and>
    touched t = touched s @ vas \<and> list_all (well_inside start stop) vas \<and>
    length out' = length out + length vas \<and> length out' \<le> max n (length out)"
  using assms(2,3)
proof (induction "2 ^ 64 - unat fo" arbitrary: fo out s rule: less_induct)
  case less
  let ?B = "131072 :: nat"
  let ?len = "unat stop - unat start"
  have le: "unat start \<le> unat stop"
    using assms(1) by (simp add: sane_mapping_def word_le_nat_alt)
  have fit: "unat off + ?len + 4 * ?B < 2 ^ 64"
    using assms(1) unfolding sane_mapping_def by blast
  have len: "unat (stop - start) = ?len" using le by (simp add: unat_sub word_le_nat_alt)
  have stop: "unat stop < 2 ^ 64" using unat_below .
  have lim: "unat (off + (stop - start)) = unat off + ?len"
    using fit len by (subst unat_add_small) simp_all
  have two: "unat (fo + 2 * BLK) = unat fo + 2 * ?B"
    using less.prems(2) by (subst unat_add_small) (simp_all add: BLK_nat)
  show ?case
  proof (cases "fo + 2 * BLK \<le> off + (stop - start) \<and> length out < n")
    case False
    then show ?thesis
      by (subst touch_loop.simps) (auto intro!: exI [of _ "[]"])
  next
    case True
    then have cond: "unat fo + 2 * ?B \<le> unat off + ?len"
      by (simp add: word_le_nat_alt lim two)
    have diff: "unat (fo - off) = unat fo - unat off"
      using less.prems(1) by (simp add: unat_sub word_le_nat_alt)
    have va: "unat (start + (fo - off)) = unat start + (unat fo - unat off)"
      using cond stop le by (subst unat_add_small) (simp_all add: diff)
    have inside: "well_inside start stop (start + (fo - off))"
      unfolding well_inside_def va using cond le less.prems(1) by (intro conjI; arith)
    have three: "unat (fo + 3 * BLK) = unat fo + 3 * ?B"
      using cond fit by (subst unat_add_small) (simp_all add: BLK_nat)
    obtain out1 t1 where one: "touch_block w (start + (fo - off)) fo out s = (Inr out1, t1)"
      "out1 = out \<and> touched t1 = touched s \<or>
       length out1 = Suc (length out) \<and> touched t1 = touched s @ [start + (fo - off)]"
      using touch_block_result by blast
    have "2 ^ 64 - unat (fo + 3 * BLK) < 2 ^ 64 - unat fo"
      using three unat_below [of "fo + 3 * BLK"] less.prems(2) by simp
    moreover have "unat off + 131072 \<le> unat (fo + 3 * BLK)"
      using three less.prems(1) by simp
    moreover have "unat (fo + 3 * BLK) + 262144 < 2 ^ 64"
      unfolding three using cond fit by arith
    ultimately obtain out' t vas where rest:
      "touch_loop w n start stop off (fo + 3 * BLK) out1 t1 = Some (Inr out', t)"
      "touched t = touched t1 @ vas" "list_all (well_inside start stop) vas"
      "length out' = length out1 + length vas" "length out' \<le> max n (length out1)"
      using less.hyps [of "fo + 3 * BLK" out1 t1] by blast
    have "touch_loop w n start stop off fo out s = Some (Inr out', t)"
      using True one(1) rest(1) by (subst touch_loop.simps) simp
    then show ?thesis
      using one(2) rest(2-) inside True
      by (elim disjE) (auto intro: exI [of _ vas] exI [of _ "(start + (fo - off)) # vas"])
  qed
qed

lemma block_up:
  fixes a d m :: nat
  assumes "a = d * 131072 + m" "m < 131072"
  shows "a \<le> (d + (if m = 0 then 0 else 1)) * 131072 \<and>
    (d + (if m = 0 then 0 else 1)) * 131072 < a + 131072"
  using assms by (cases "m = 0") auto

lemma first_block_nat:
  assumes "unat off + 262144 \<le> 2 ^ 64 - 1"
  shows "unat off + 131072 \<le> unat (first_block off) \<and> unat (first_block off) < unat off + 262144"
proof -
  let ?q = "off div BLK + (if off mod BLK = 0 then 0 else 1)"
  let ?r = "unat off div 131072 + (if unat off mod 131072 = 0 then 0 else 1)"
  have e: "unat off = unat off div 131072 * 131072 + unat off mod 131072" by simp
  have m: "unat off mod 131072 < 131072" by simp
  have bounds: "unat off \<le> ?r * 131072 \<and> ?r * 131072 < unat off + 131072"
    by (rule block_up [OF e m])
  have zero: "off mod BLK = 0 \<longleftrightarrow> unat off mod 131072 = 0"
    by (metis BLK_nat(1) unat_mod_distrib unat_0 unat_eq_zero)
  have q: "unat ?q = ?r"
  proof (cases "off mod BLK = 0")
    case True
    then show ?thesis using zero by (simp add: unat_div_distrib BLK_nat)
  next
    case False
    have "unat (off div BLK) + unat (1 :: 64 word) < 2 ^ 64"
      using assms by (simp add: unat_div_distrib BLK_nat)
    from unat_add_small [OF this] False zero show ?thesis
      by (simp add: unat_div_distrib BLK_nat)
  qed
  have "unat (?q * BLK) = ?r * 131072"
    using q bounds assms by (simp add: unat_word_ariths BLK_nat)
  moreover have "unat (?q * BLK + BLK) = ?r * 131072 + 131072"
    using bounds assms calculation by (subst unat_add_small) (simp_all add: BLK_nat)
  ultimately show ?thesis using bounds by (simp add: first_block_def)
qed

lemma sane_mapping_first:
  assumes "sane_mapping start stop off"
  shows "unat off + 131072 \<le> unat (first_block off)" "unat (first_block off) + 262144 < 2 ^ 64"
proof -
  have fit: "unat off + 4 * 131072 < (2 :: nat) ^ 64"
    using assms unfolding sane_mapping_def by arith
  then have "unat off + 262144 \<le> 2 ^ 64 - 1" by simp
  from first_block_nat [OF this] fit
  show "unat off + 131072 \<le> unat (first_block off)" "unat (first_block off) + 262144 < 2 ^ 64"
    by simp_all
qed

text \<open>A mapping of the executable among the lines that holds the address with its neighbours.\<close>

definition held_by :: "string \<Rightarrow> string list \<Rightarrow> 64 word \<Rightarrow> bool" where
  "held_by exe ls va \<longleftrightarrow>
     (\<exists>l \<in> set ls. \<exists>start stop t. exe_line exe l = Some (start, stop, t) \<and> well_inside start stop va)"

definition sane_line :: "string \<Rightarrow> string \<Rightarrow> bool" where
  "sane_line exe l =
     (case exe_line exe l of
        None \<Rightarrow> True
      | Some (start, stop, t) \<Rightarrow>
          (case parse_hex_u64 t of None \<Rightarrow> True | Some off \<Rightarrow> sane_mapping start stop off))"

lemma touch_lines_inside:
  assumes "list_all (sane_line exe) ls" "length out \<le> n"
  shows "\<exists>out' t vas. touch_lines w n exe ls out s = Some (Inr out', t) \<and>
    touched t = touched s @ vas \<and> list_all (held_by exe ls) vas \<and>
    length out' = length out + length vas \<and> length out' \<le> n"
  using assms
proof (induction ls arbitrary: out s)
  case Nil
  then show ?case by simp
next
  case (Cons l ls)
  have weaken: "list_all (held_by exe (l # ls)) vas" if "list_all (held_by exe ls) vas" for vas
    using that by (auto simp: list.pred_set held_by_def)
  show ?case
  proof (cases "\<exists>start stop t off. exe_line exe l = Some (start, stop, t) \<and> parse_hex_u64 t = Some off")
    case False
    then have "touch_lines w n exe (l # ls) out s = touch_lines w n exe ls out s"
      by (auto split: option.split)
    with Cons.IH [of out s] Cons.prems weaken show ?thesis by auto
  next
    case True
    then obtain start stop t off where l: "exe_line exe l = Some (start, stop, t)"
      "parse_hex_u64 t = Some off" by blast
    with Cons.prems(1) have sane: "sane_mapping start stop off" by (simp add: sane_line_def)
    from touch_loop_inside [OF sane sane_mapping_first [OF sane]]
    obtain out1 t1 vas1 where one:
      "touch_loop w n start stop off (first_block off) out s = Some (Inr out1, t1)"
      "touched t1 = touched s @ vas1" "list_all (well_inside start stop) vas1"
      "length out1 = length out + length vas1" "length out1 \<le> max n (length out)" by blast
    then have "length out1 \<le> n" using Cons.prems(2) by simp
    with Cons.IH [of out1 t1] Cons.prems(1) obtain out' t2 vas where rest:
      "touch_lines w n exe ls out1 t1 = Some (Inr out', t2)" "touched t2 = touched t1 @ vas"
      "list_all (held_by exe ls) vas" "length out' = length out1 + length vas" "length out' \<le> n"
      by auto
    have "list_all (held_by exe (l # ls)) vas1"
      using one(3) l(1) by (auto simp: list.pred_set held_by_def)
    with weaken [OF rest(3)] l one rest show ?thesis
      by (intro exI [of _ out'] exI [of _ t2] exI [of _ "vas1 @ vas"]) simp
  qed
qed

text \<open>
  C40. The safety comment of the block probe: for a process whose mappings are sane (each starts
  before it ends, and its end in the file is half a megabyte below the wrap-around), the probe
  returns, touches at most the requested number of addresses, and every address it reads lies in
  a mapping of the executable, at least one block after its start and two before its end.
\<close>

theorem touch_blocks_inside:
  assumes "exe_link (base w) (machine s) = (Some exe, x)"
    and "read_text (base w) ''/proc/self/maps'' x = (Some maps, y)"
    and "list_all (sane_line exe) (rust_lines maps)"
  shows "\<exists>result t vas. touch_blocks w n s = Some (Inr result, t) \<and>
    touched t = touched s @ vas \<and> length vas \<le> n \<and> list_all (held_by exe (rust_lines maps)) vas"
proof -
  obtain opened z where o: "can_open (base w) ''/proc/self/pagemap'' y = (opened, z)" by force
  let ?s = "s\<lparr>machine := z\<rparr>"
  have pre: "touch_blocks w n s =
      (if \<not> opened then Some (Inr (json_obj [(''error'', quote ''pagemap'')]), ?s)
       else map_option (\<lambda>(r, u). (map_sum id (\<lambda>out. ''['' @ join_with '','' out @ '']'') r, u))
         (touch_lines w n exe (rust_lines maps) [] ?s))"
    by (simp add: touch_blocks_def pbind_def sys_def assms(1,2) text_of_def o pret_def or_empty_def)
  show ?thesis
  proof (cases opened)
    case False
    then show ?thesis unfolding pre by (auto intro!: exI [of _ "[]"])
  next
    case True
    from touch_lines_inside [OF assms(3), of "[]" n w ?s] obtain out t vas where
      "touch_lines w n exe (rust_lines maps) [] ?s = Some (Inr out, t)" "touched t = touched s @ vas"
      "list_all (held_by exe (rust_lines maps)) vas" "length vas \<le> n" by auto
    with True show ?thesis unfolding pre by auto
  qed
qed

text \<open>A sandbox with one mapping of a megabyte, none of whose pages is mapped in.\<close>

definition sample_maps :: string where
  "sample_maps = ''10000000-10100000 r-xp 00000000 00:05 7 /var/task/bootstrap'' @ [nl]"

definition cold_os :: "nat os" where
  "cold_os =
     tick_os\<lparr>exe_link := (\<lambda>x. (Some ''/var/task/bootstrap'', x)),
       read_text := (\<lambda>p x. (if p = ''/proc/self/maps'' then Some sample_maps else None, x)),
       can_open := (\<lambda>p x. (True, x)),
       read_at := (\<lambda>p a n x. (Some (replicate n (CHR 0x00)), x))\<rparr>"

definition cold_world :: "nat ft_world" where
  "cold_world =
     \<lparr>base = cold_os, task_dev = (\<lambda>x. (None, x)), madvise = (\<lambda>a n v x. (True, x)),
      read_head = (\<lambda>p n x. (Inl ''denied'', x)), file_copy = (\<lambda>p x. (Some 0, x)),
      load_byte = (\<lambda>a x. x), resolve = (\<lambda>h x. (Some 1, x)), crypto = (\<lambda>l p x. (True, x)),
      lookup_host = (\<lambda>h x. (Some h, x)), tcp_connect = (\<lambda>a x. (True, x)),
      tls_connect = (\<lambda>m h x. (Some ''X25519'', x))\<rparr>"

lemma sample_line:
  "exe_line ''/var/task/bootstrap'' ''10000000-10100000 r-xp 00000000 00:05 7 /var/task/bootstrap'' =
     Some (0x10000000, 0x10100000, ''00000000'')"
  by code_simp

lemma sample_lines:
  "rust_lines sample_maps = [''10000000-10100000 r-xp 00000000 00:05 7 /var/task/bootstrap'']"
  by code_simp

theorem touch_blocks_inside_witness:
  "\<exists>result t vas. touch_blocks cold_world 2 (fresh_proc 0) = Some (Inr result, t) \<and>
    touched t = vas \<and> length vas \<le> 2 \<and>
    list_all (well_inside 0x10000000 0x10100000) vas"
proof -
  have "parse_hex_u64 ''00000000'' = Some 0" by code_simp
  then have sane: "list_all (sane_line ''/var/task/bootstrap'') (rust_lines sample_maps)"
    by (simp add: sample_lines sane_line_def sample_line sane_mapping_def)
  have "exe_link (base cold_world) (machine (fresh_proc 0)) = (Some ''/var/task/bootstrap'', 0)"
    "read_text (base cold_world) ''/proc/self/maps'' 0 = (Some sample_maps, 0)"
    by (simp_all add: cold_world_def cold_os_def fresh_proc_def)
  from touch_blocks_inside [OF this sane, of 2] show ?thesis
    by (auto simp: sample_lines held_by_def sample_line fresh_proc_def list.pred_set)
qed

end
