(* ===== verification/First_Touch_Main.thy ===== *)
theory First_Touch_Main
  imports First_Touch
begin

text \<open>
  The rest of \<open>oneoff/rust-sdk-tuning/first-touch/src/main.rs\<close>: the report on the sandbox, the
  measured steps (crypto primitives, handshakes, name lookups, file reads) and the program itself,
  which answers every event with one report through the runtime API of \<open>Runtime_Loop\<close>.
\<close>

section \<open>The report on the sandbox\<close>

record ft_statics =
  ft_mem_start :: "string option"
  ft_io_start :: "rat option"
  ft_madvise :: "string option"
  ft_reads :: "string option"
  ft_touch :: "string option"
  ft_prefault :: "string option"

definition no_statics :: ft_statics where
  "no_statics =
     \<lparr>ft_mem_start = None, ft_io_start = None, ft_madvise = None, ft_reads = None, ft_touch = None,
      ft_prefault = None\<rparr>"

definition nl_to_bar :: "string \<Rightarrow> string" where
  "nl_to_bar s = concat (map (\<lambda>c. if c = nl then '' | '' else [c]) s)"

definition mount_source :: "string \<Rightarrow> string" where
  "mount_source task_mount =
     or_empty (Option.bind
       (map_option (\<lambda>(_, r). case split_once_str '' - '' r of None \<Rightarrow> r | Some (a, _) \<Rightarrow> a)
         (split_once_str '' - '' task_mount))
       (\<lambda>s. nth_opt (split_whitespace s) 1))"

function trim_start_matches :: "string \<Rightarrow> string \<Rightarrow> string" where
  "trim_start_matches p s =
     (if p \<noteq> [] \<and> prefix p s then trim_start_matches p (drop (length p) s) else s)"
  by pat_completeness auto
termination
  by (relation "measure (length \<circ> snd)") (auto simp: prefix_def)

declare trim_start_matches.simps [simp del]

definition comp_ops :: "string \<Rightarrow> string list" where
  "comp_ops kallsyms =
     filter (\<lambda>n. prefix ''squashfs_'' n \<and> suffix ''_comp_ops'' n)
       (List.map_filter (\<lambda>l. nth_opt (split_whitespace l) 2) (rust_lines kallsyms))"

definition full_environment :: "'x ft_world \<Rightarrow> ft_statics \<Rightarrow> string \<Rightarrow> ('x, (string \<times> string) list) prog" where
  "full_environment w st task_mount =
     (let source = mount_source task_mount; dev = trim_start_matches ''/dev/'' source
      in pbind (text_of w ''/proc/kallsyms'') (\<lambda>kallsyms.
         pbind (ft_meminfo w) (\<lambda>mem.
         pbind (text_of w ''/proc/partitions'') (\<lambda>partitions.
         pbind (text_of w (''/sys/class/block/'' @ dev @ ''/size'')) (\<lambda>size'.
         pbind (superblock w source) (\<lambda>sb.
           pret
             [(''mem_start'', show_opt id (ft_mem_start st)), (''mem_now'', mem),
              (''io_start_kb'', show_opt (\<lambda>b. fixed 0 (b / 1024)) (ft_io_start st)),
              (''partitions'', json_str (nl_to_bar partitions)),
              (''dev_size_sectors'', json_str (trim size')),
              (''superblock'', json_str sb),
              (''kallsyms_comp_ops'', json_str (join_with '' '' (comp_ops kallsyms)))]))))))"

definition ft_environment :: "'x ft_world \<Rightarrow> ft_statics \<Rightarrow> ('x, string) prog" where
  "ft_environment w st =
     pbind (text_of w ''/proc/self/mountinfo'') (\<lambda>mounts.
       let task_mount = or_empty (List.find
             (\<lambda>l. nth_opt (split_whitespace l) 4 = Some ''/var/task'') (rust_lines mounts))
       in pbind (text_of w ''/sys/fs/cgroup/cpu.max'') (\<lambda>v2.
          pbind (if v2 \<noteq> [] then pret v2
              else pbind (text_of w ''/sys/fs/cgroup/cpu/cpu.cfs_quota_us'') (\<lambda>quota.
                pbind (text_of w ''/sys/fs/cgroup/cpu/cpu.cfs_period_us'') (\<lambda>period.
                  pret (trim quota @ '' '' @ trim period)))) (\<lambda>cpu_max.
          pbind (sys (os_var (base w) ''PROBE_ENV_FULL'')) (\<lambda>v.
          pbind (if v = Some ''1'' then full_environment w st task_mount else pret []) (\<lambda>full.
          pbind (text_of w ''/proc/sys/kernel/osrelease'') (\<lambda>kernel.
          pbind (ft_cpu_model w) (\<lambda>cpu.
          pbind (read_ahead_kb w) (\<lambda>ahead.
            pret (json_obj
              ([(''kernel'', json_str (trim kernel)), (''cpu'', json_str cpu),
                (''task_mount'', json_str task_mount), (''cpu_max'', json_str (trim cpu_max)),
                (''readahead_kb'', json_str ahead)] @ full))))))))))"

section \<open>The measured steps\<close>

text \<open>Primitives in order, each followed by a lap under its name; a failed one is a panic.\<close>

fun timed_steps ::
    "'x ft_world \<Rightarrow> string \<Rightarrow> string list \<Rightarrow> ft_snap \<Rightarrow> (string \<times> string) list \<Rightarrow>
     ('x, (string \<times> string) list) prog" where
  "timed_steps w lib [] t out = pret out"
| "timed_steps w lib (p # ps) t out =
     pbind (sys (crypto w lib p)) (\<lambda>ok.
       if \<not> ok then panic p
       else pbind (lap w t) (\<lambda>(l, t'). timed_steps w lib ps t' (out @ [(p, l)])))"

definition micro_awslc :: "'x ft_world \<Rightarrow> ('x, string) prog" where
  "micro_awslc w =
     pbind (snap_now w) (\<lambda>t.
     pbind (sys (os_var (base w) ''PROBE_AWSLC_INIT'')) (\<lambda>v.
     pbind (if v = Some ''1'' then sys (crypto w ''awslc'' ''init'') else pret True) (\<lambda>_.
     pbind (lap w t) (\<lambda>(l, t').
     pbind (timed_steps w ''awslc''
         [''rand'', ''rand2'', ''rand_thread'', ''x25519'', ''mlkem'', ''rsa'', ''aes'', ''sha''] t'
         [(''init'', l)]) (\<lambda>out.
       pret (json_obj out))))))"

definition micro_ring :: "'x ft_world \<Rightarrow> ('x, string) prog" where
  "micro_ring w =
     pbind (snap_now w) (\<lambda>t.
     pbind (timed_steps w ''ring'' [''rand'', ''x25519'', ''rsa'', ''aes'', ''sha''] t []) (\<lambda>out.
       pret (json_obj out)))"

definition handshake :: "'x ft_world \<Rightarrow> string \<Rightarrow> string \<Rightarrow> ('x, string) prog" where
  "handshake w mode host =
     pbind (snap_now w) (\<lambda>t.
     pbind (sys (lookup_host w host)) (\<lambda>a. pbind (expect ''lookup_host'' a) (\<lambda>addr.
     pbind (lap w t) (\<lambda>(dns, t).
     pbind (sys (tcp_connect w addr)) (\<lambda>ok. if \<not> ok then panic ''connect'' else
     pbind (lap w t) (\<lambda>(tcp, t).
     pbind (sys (tls_connect w mode host)) (\<lambda>g. pbind (expect ''tls'' g) (\<lambda>grp.
     pbind (lap w t) (\<lambda>(tls', _).
       pret (json_obj [(''dns'', dns), (''tcp'', tcp), (''tls'', tls'), (''group'', quote grp)]))))))))))"

definition region_of :: "'x ft_world \<Rightarrow> ('x, string) prog" where
  "region_of w =
     pbind (sys (os_var (base w) ''AWS_REGION'')) (\<lambda>v.
       pret (case v of None \<Rightarrow> ''eu-central-1'' | Some r \<Rightarrow> r))"

definition tls_steps :: "'x ft_world \<Rightarrow> string \<Rightarrow> ('x, string) prog" where
  "tls_steps w mode =
     pbind (snap_now w) (\<lambda>t.
       if mode \<notin> {''awslc-pq'', ''awslc-x25519'', ''ring''} then panic (''unknown PROBE_TLS '' @ mode)
       else
         pbind (lap w t) (\<lambda>(config, _).
         pbind (region_of w) (\<lambda>region.
         pbind (handshake w mode (''dynamodb.'' @ region @ ''.amazonaws.com'')) (\<lambda>first.
         pbind (handshake w mode (''kms.'' @ region @ ''.amazonaws.com'')) (\<lambda>second.
           pret (json_obj [(''config'', config), (''first'', first), (''second'', second)]))))))"

fun dns_lookups :: "'x ft_world \<Rightarrow> string list \<Rightarrow> ft_snap \<Rightarrow> string list \<Rightarrow> ('x, string list) prog" where
  "dns_lookups w [] t out = pret out"
| "dns_lookups w (h # hs) t out =
     pbind (sys (resolve w h)) (\<lambda>n.
     pbind (lap w t) (\<lambda>(l, t').
       dns_lookups w hs t' (out @ [json_obj
         [(''host'', json_str h), (''addrs'', show_nat (case n of None \<Rightarrow> 0 | Some k \<Rightarrow> k)),
          (''step'', l)]])))"

definition dns_steps :: "'x ft_world \<Rightarrow> ('x, string) prog" where
  "dns_steps w =
     pbind (region_of w) (\<lambda>region.
     pbind (snap_now w) (\<lambda>t.
     pbind (dns_lookups w
         (map (\<lambda>svc. svc @ ''.'' @ region @ ''.amazonaws.com'')
           [''dynamodb'', ''dynamodb'', ''dynamodb'', ''kms'', ''kms'', ''s3'', ''sts'']) t []) (\<lambda>steps.
     pbind (text_of w ''/etc/resolv.conf'') (\<lambda>resolv.
     pbind (text_of w ''/etc/nsswitch.conf'') (\<lambda>nsswitch.
       pret (json_obj
         [(''resolv'', json_str (nl_to_bar resolv)),
          (''nsswitch_hosts'',
            json_str (or_empty (List.find (prefix ''hosts:'') (rust_lines nsswitch)))),
          (''lookups'', ''['' @ join_with '','' steps @ '']'')]))))))"

definition read_file :: "'x ft_world \<Rightarrow> string \<Rightarrow> string \<Rightarrow> ('x, string) prog" where
  "read_file w pass path =
     pbind (snap_now w) (\<lambda>t.
     pbind (sys (file_copy w path)) (\<lambda>r.
     pbind (expect ''read PROBE_READ_FILE'' r) (\<lambda>n.
     pbind (lap w t) (\<lambda>(l, _).
     pbind (ft_meminfo w) (\<lambda>mem.
       pret (json_obj
         [(''pass'', quote pass), (''path'', json_str path), (''kb'', show_nat (n div 1024)),
          (''step'', l), (''mem'', mem)]))))))"

definition read_files :: "'x ft_world \<Rightarrow> string list \<Rightarrow> string \<Rightarrow> ('x, string list) prog" where
  "read_files w paths pass = pmap (read_file w pass) paths"

definition ft_measure :: "'x ft_world \<Rightarrow> ft_statics \<Rightarrow> ('x, string) prog" where
  "ft_measure w st =
     pbind (snap_now w) (\<lambda>t.
     pbind (sys (os_var (base w) ''PROBE_STEPS'')) (\<lambda>v. pbind (expect ''PROBE_STEPS'' v) (\<lambda>steps.
     pbind (if steps = ''micro'' then
           pbind (sys (os_var (base w) ''PROBE_LIB'')) (\<lambda>v. pbind (expect ''PROBE_LIB'' v) (\<lambda>lib.
             if lib = ''awslc'' then micro_awslc w
             else if lib = ''ring'' then micro_ring w
             else panic (''unknown PROBE_LIB '' @ lib)))
         else if steps = ''tls'' then
           pbind (sys (os_var (base w) ''PROBE_TLS'')) (\<lambda>v. pbind (expect ''PROBE_TLS'' v) (tls_steps w))
         else if steps = ''dns'' then dns_steps w
         else panic (''unknown PROBE_STEPS '' @ steps)) (\<lambda>out.
     pbind (lap w t) (\<lambda>(total, _).
     pbind (ft_environment w st) (\<lambda>env.
       pret (json_obj
         [(''total'', total), (''prefault'', show_opt id (ft_prefault st)),
          (''madvise'', show_opt id (ft_madvise st)), (''touch'', show_opt id (ft_touch st)),
          (''reads'', show_opt id (ft_reads st)), (''env'', env), (''steps'', out)])))))))"

section \<open>The program\<close>

definition ft_advise :: "'x ft_world \<Rightarrow> ft_statics \<Rightarrow> ('x, ft_statics) prog" where
  "ft_advise w st =
     pbind (sys (os_var (base w) ''PROBE_MADVISE'')) (\<lambda>v.
       case v of
         None \<Rightarrow> pret st
       | Some mode \<Rightarrow>
           if mode \<notin> {''random'', ''sequential'', ''normal''} then panic (''unknown PROBE_MADVISE '' @ mode)
           else pbind (madvise_exe w mode) (\<lambda>(n, kb).
             pret (st\<lparr>ft_madvise := set_once (ft_madvise st) (json_obj
               [(''mappings'', show_nat (unat n)), (''kb'', show_nat (unat kb))])\<rparr>)))"

definition ft_before_touch :: "'x ft_world \<Rightarrow> ('x, ft_statics \<times> string option) prog" where
  "ft_before_touch w =
     pbind (ft_advise w no_statics) (\<lambda>st.
     pbind (ft_read_bytes w) (\<lambda>b.
       let st = (case b of None \<Rightarrow> st | Some b \<Rightarrow> st\<lparr>ft_io_start := set_once (ft_io_start st) b\<rparr>)
       in pbind (ft_meminfo w) (\<lambda>mem.
          let st = st\<lparr>ft_mem_start := set_once (ft_mem_start st) mem\<rparr>
          in pbind (sys (os_var (base w) ''PROBE_TOUCH'')) (\<lambda>v. pret (st, v)))))"

definition ft_after_touch :: "'x ft_world \<Rightarrow> ft_statics \<Rightarrow> ('x, ft_statics) prog" where
  "ft_after_touch w st =
     pbind (sys (os_var (base w) ''PROBE_READ_FILE'')) (\<lambda>v.
     pbind (case v of
         None \<Rightarrow> pret st
       | Some ls \<Rightarrow>
           let paths = split_on (CHR '','') ls
           in pbind (read_files w paths ''first'') (\<lambda>first.
              pbind (sys (os_var (base w) ''PROBE_REREAD'')) (\<lambda>again.
              pbind (if again = Some ''1'' then read_files w paths ''second'' else pret []) (\<lambda>second.
                pret (st\<lparr>ft_reads := set_once (ft_reads st)
                  (''['' @ join_with '','' (first @ second) @ '']'')\<rparr>))))) (\<lambda>st.
     pbind (sys (os_var (base w) ''PROBE_PREFAULT'')) (\<lambda>p.
       if p \<noteq> Some ''read'' then pret st
       else
         pbind (snap_now w) (\<lambda>t.
         pbind (sys (file_copy w ''/proc/self/exe'')) (\<lambda>r.
         pbind (expect ''read /proc/self/exe'' r) (\<lambda>_.
         pbind (lap w t) (\<lambda>(l, _).
           pret (st\<lparr>ft_prefault := set_once (ft_prefault st) l\<rparr>))))))))"

definition first_touch_main ::
    "'x ft_world \<Rightarrow> nat \<Rightarrow> 'x proc \<Rightarrow> ((string + string option) \<times> 'x proc) option" where
  "first_touch_main w n s =
     (case ft_before_touch w s of
        (Inl e, t) \<Rightarrow> Some (Inl e, t)
      | (Inr (st, v), t) \<Rightarrow>
          (let serve = (\<lambda>st. pbind (ft_after_touch w st) (\<lambda>st.
                 probe_main (base w) (ft_measure w st) id n))
           in case v of
                None \<Rightarrow> Some (serve st t)
              | Some k \<Rightarrow>
                  (case parse_u64 k of
                     None \<Rightarrow> Some (Inl ''PROBE_TOUCH'', t)
                   | Some k \<Rightarrow>
                       (case touch_blocks w k t of
                          None \<Rightarrow> None
                        | Some (Inl e, u) \<Rightarrow> Some (Inl e, u)
                        | Some (Inr out, u) \<Rightarrow>
                            Some (serve (st\<lparr>ft_touch := set_once (ft_touch st) out\<rparr>) u)))))"

section \<open>Every event is answered\<close>

lemma silent_measured [silent_intros]:
  "silent (text_of w p)" "silent (ft_read_bytes w)" "silent (throttled_ms w)" "silent (region_of w)"
  unfolding text_of_def ft_read_bytes_def throttled_ms_def region_of_def by (intro silent_intros)+

lemma silent_sandbox [silent_intros]:
  "silent (snap_now w)" "silent (ft_meminfo w)" "silent (ft_cpu_model w)" "silent (superblock w d)"
  "silent (read_ahead_kb w)"
  unfolding snap_now_def ft_meminfo_def ft_cpu_model_def superblock_def read_ahead_kb_def Let_def
  by (intro silent_intros)+

lemma silent_lap [silent_intros]: "silent (lap w t)"
  unfolding lap_def by (intro silent_intros)

lemma silent_timed_steps [silent_intros]: "silent (timed_steps w lib ps t out)"
proof (induction ps arbitrary: t out)
  case (Cons p ps)
  show ?case unfolding timed_steps.simps by (intro silent_intros Cons)
qed (simp add: silent_pret)

lemma silent_dns_lookups [silent_intros]: "silent (dns_lookups w hs t out)"
proof (induction hs arbitrary: t out)
  case (Cons h hs)
  show ?case unfolding dns_lookups.simps by (intro silent_intros Cons)
qed (simp add: silent_pret)

lemma silent_handshake [silent_intros]: "silent (handshake w mode host)"
  unfolding handshake_def by (intro silent_intros)

lemma silent_environment [silent_intros]: "silent (ft_environment w st)"
  unfolding ft_environment_def full_environment_def Let_def by (intro silent_intros)

lemma silent_steps [silent_intros]:
  "silent (micro_awslc w)" "silent (micro_ring w)" "silent (tls_steps w mode)" "silent (dns_steps w)"
  unfolding micro_awslc_def micro_ring_def tls_steps_def dns_steps_def by (intro silent_intros)+

lemma silent_ft_measure: "silent (ft_measure w st)"
  unfolding ft_measure_def by (intro silent_intros)

interpretation first_touch: measured "ft_measure w st" for w st
  by unfold_locales (rule silent_ft_measure)

text \<open>
  The events are answered as by every probe of \<open>Runtime_Loop\<close>: \<open>n\<close> pairs of a fetch and a posted
  report, all with the one report of this process.
\<close>

lemma first_touch_answers:
  assumes "probe_main (base w) (ft_measure w st) id n s = (Inr r, t)"
  shows "\<exists>api report events. length events = n \<and> list_all identified events \<and>
    (n = 0 \<or> r = Some report) \<and>
    http_log t = http_log s @ concat (map (served api report) events)"
  using first_touch.probe_main_Inr [OF assms] by simp

end
