(* ===== verification/Sdk_Tuning.thy ===== *)
theory Sdk_Tuning
  imports Probe_Counters
begin

text \<open>
  \<open>oneoff/rust-sdk-tuning/src/main.rs\<close>: the levers on the cold start of the Rust SDK, in the build
  with default features. The configuration is read from \<open>PROBE_*\<close> variables, the work of an event
  is one or three AWS calls, and each client may be warmed by a request at init. The SDK and the
  Lambda runtime crate are parameters; every request is kept with the endpoint it was sent to,
  empty for the service's own.
\<close>

section \<open>The clients\<close>

record 'x sdk =
  sdk_os :: "'x os"
  sdk_load :: "bool \<Rightarrow> bool \<Rightarrow> string option \<Rightarrow> 'x \<Rightarrow> unit \<times> 'x"
  sdk_get_item :: "string option \<Rightarrow> string \<Rightarrow> string \<Rightarrow> 'x \<Rightarrow> (string + bool) \<times> 'x"
  sdk_encrypt :: "string option \<Rightarrow> string \<Rightarrow> string \<Rightarrow> 'x \<Rightarrow> (string + string option) \<times> 'x"
  sdk_head :: "string option \<Rightarrow> string \<Rightarrow> string \<Rightarrow> 'x \<Rightarrow> (string + unit) \<times> 'x"
  sdk_put_item :: "string \<Rightarrow> (string \<times> string) list \<Rightarrow> 'x \<Rightarrow> (string + unit) \<times> 'x"
  sdk_put_object :: "string \<Rightarrow> string \<Rightarrow> string \<Rightarrow> 'x \<Rightarrow> (string + unit) \<times> 'x"
  sdk_fadvise :: "'x \<Rightarrow> bool \<times> 'x"
  sdk_read_exe :: "'x \<Rightarrow> bool \<times> 'x"
  sdk_spawn_read :: "'x \<Rightarrow> unit \<times> 'x"

definition DEAD_ENDPOINT :: string where
  "DEAD_ENDPOINT = ''https://127.0.0.1:9''"

text \<open>A request: the endpoint and the operation are logged; the answer is a value.\<close>

definition sdk_call ::
    "string option \<Rightarrow> string \<Rightarrow> ('x \<Rightarrow> (string + 'a) \<times> 'x) \<Rightarrow> ('x, string + 'a) prog" where
  "sdk_call endpoint op f s =
     (case f (machine s) of (r, x) \<Rightarrow>
        (Inr r, s\<lparr>machine := x, http_log := http_log s @ [(or_empty endpoint, op)]\<rparr>))"

text \<open>\<open>?\<close> in a function that returns a \<open>Result\<close>.\<close>

definition pbind_ok ::
    "('x, string + 'a) prog \<Rightarrow> ('a \<Rightarrow> ('x, string + 'b) prog) \<Rightarrow> ('x, string + 'b) prog" where
  "pbind_ok m k = pbind m (\<lambda>r. case r of Inl e \<Rightarrow> pret (Inl e) | Inr v \<Rightarrow> k v)"

definition var_set :: "'x sdk \<Rightarrow> string \<Rightarrow> ('x, string) prog" where
  "var_set k name =
     pbind (sys (os_var (sdk_os k) name)) (\<lambda>v. expect (name @ '' not set'') v)"

definition var_opt :: "'x sdk \<Rightarrow> string \<Rightarrow> string \<Rightarrow> ('x, string) prog" where
  "var_opt k name dflt =
     pbind (sys (os_var (sdk_os k) name)) (\<lambda>v. pret (case v of None \<Rightarrow> dflt | Some s \<Rightarrow> s))"

definition usage :: "'x sdk \<Rightarrow> ('x, rat \<times> int \<times> int) prog" where
  "usage k =
     pbind (sys (cpu_clock (sdk_os k) False)) (\<lambda>cpu.
     pbind (sys (page_faults (sdk_os k) False)) (\<lambda>(maj, minor). pret (cpu, maj, minor)))"

definition tuning_exe_rss_kb :: "'x sdk \<Rightarrow> ('x, nat) prog" where
  "tuning_exe_rss_kb k =
     pbind (sys (exe_link (sdk_os k))) (\<lambda>exe. case exe of None \<Rightarrow> pret 0 | Some exe \<Rightarrow>
     pbind (sys (read_text (sdk_os k) ''/proc/self/smaps'')) (\<lambda>smaps. case smaps of None \<Rightarrow> pret 0
       | Some smaps \<Rightarrow> pret (exe_rss_loop exe (rust_lines smaps) False 0)))"

record tuning_state =
  ts_three :: bool
  ts_table :: string
  ts_key :: string
  ts_kms_key_id :: string
  ts_bucket :: string
  ts_order_pk :: string
  ts_receipt_key :: string

section \<open>The work\<close>

definition tuning_get_item ::
    "'x sdk \<Rightarrow> tuning_state \<Rightarrow> string option \<Rightarrow> ('x, string + unit) prog" where
  "tuning_get_item k st endpoint =
     pbind_ok (sdk_call endpoint ''GetItem'' (sdk_get_item k endpoint (ts_table st) (ts_key st))) (\<lambda>found.
       pret (if found then Inr () else Inl ''seeded item not found''))"

definition tuning_encrypt ::
    "'x sdk \<Rightarrow> tuning_state \<Rightarrow> string option \<Rightarrow> ('x, string + string) prog" where
  "tuning_encrypt k st endpoint =
     (if \<not> ts_three st then panic ''three flow''
      else pbind_ok
        (sdk_call endpoint ''Encrypt'' (sdk_encrypt k endpoint (ts_kms_key_id st) ''order:drip''))
        (\<lambda>blob. pret (Inr (or_empty blob))))"

definition tuning_head_receipt ::
    "'x sdk \<Rightarrow> tuning_state \<Rightarrow> string option \<Rightarrow> ('x, string + unit) prog" where
  "tuning_head_receipt k st endpoint =
     (if \<not> ts_three st then panic ''three flow''
      else pbind
        (sdk_call endpoint ''HeadObject'' (sdk_head k endpoint (ts_bucket st) (ts_receipt_key st)))
        (\<lambda>_. pret (Inr ())))"

definition tuning_work :: "'x sdk \<Rightarrow> tuning_state \<Rightarrow> ('x, string + unit) prog" where
  "tuning_work k st =
     (if \<not> ts_three st then tuning_get_item k st None
      else
        pbind_ok (tuning_encrypt k st None) (\<lambda>signature.
        pbind_ok (sdk_call None ''PutItem'' (sdk_put_item k (ts_table st)
            [(''pk'', ts_order_pk st), (''coffeeType'', ''DRIP''), (''status'', ''IN_PROGRESS''),
             (''signature'', signature)])) (\<lambda>_.
        pbind_ok (sdk_call None ''PutObject''
            (sdk_put_object k (ts_bucket st) (ts_receipt_key st) ''receipt for DRIP order'')) (\<lambda>_.
          pret (Inr ())))))"

text \<open>
  The three requests of \<open>prewarm\<close> are polled together and each completes on its own; they are
  run here in the order of the \<open>join\<close>.
\<close>

definition prewarm_endpoint :: "string \<Rightarrow> string option option option" where
  "prewarm_endpoint mode =
     (if mode = ''none'' then Some None
      else if mode = ''local'' then Some (Some (Some DEAD_ENDPOINT))
      else if mode = ''network'' then Some (Some None)
      else None)"

definition prewarm :: "'x sdk \<Rightarrow> tuning_state \<Rightarrow> string \<Rightarrow> ('x, unit) prog" where
  "prewarm k st mode =
     (case prewarm_endpoint mode of
        None \<Rightarrow> panic (''unknown PROBE_PREWARM '' @ mode)
      | Some None \<Rightarrow> pret ()
      | Some (Some endpoint) \<Rightarrow>
          pbind (tuning_get_item k st endpoint) (\<lambda>ddb.
          pbind (if ts_three st
              then pbind (tuning_encrypt k st endpoint) (\<lambda>r. pret (map_sum id (\<lambda>_. ()) r))
              else pret (Inr ())) (\<lambda>kms.
          pbind (if ts_three st then tuning_head_receipt k st endpoint else pret (Inr ())) (\<lambda>s3.
            if endpoint = None \<and> \<not> (is_ok ddb \<and> is_ok kms \<and> is_ok s3)
            then panic ''network prewarm failed'' else pret ()))))"

section \<open>The program\<close>

record tuning_init =
  ti_state :: tuning_state
  ti_load_ms :: rat
  ti_clients_ms :: rat
  ti_prewarm_ms :: rat
  ti_init_ms :: rat
  ti_cpu :: rat
  ti_majflt :: int
  ti_minflt :: int
  ti_exe_rss_kb :: nat
  ti_prefault_ms :: rat

definition elapsed_ms :: "'x sdk \<Rightarrow> rat \<Rightarrow> ('x, rat) prog" where
  "elapsed_ms k t = pbind (sys (wall_ms (sdk_os k))) (\<lambda>now. pret (now - t))"

definition tuning_init_run :: "'x sdk \<Rightarrow> rat \<Rightarrow> rat \<Rightarrow> ('x, tuning_init) prog" where
  "tuning_init_run k t0 prefault_ms =
     pbind (var_opt k ''PROBE_FLOW'' ''one'') (\<lambda>flow.
       if flow \<notin> {''one'', ''three''} then panic (''unknown PROBE_FLOW '' @ flow)
       else
     pbind (sys (wall_ms (sdk_os k))) (\<lambda>t.
     pbind (var_opt k ''PROBE_REGION'' ''chain'') (\<lambda>region.
     pbind (if region = ''explicit''
         then pbind (var_set k ''AWS_REGION'') (\<lambda>r. pret (Some r)) else pret None) (\<lambda>explicit.
     pbind (var_opt k ''PROBE_CREDS'' ''chain'') (\<lambda>creds.
     pbind (var_opt k ''PROBE_CHECKSUM'' ''default'') (\<lambda>checksum.
     pbind (sys (sdk_load k (creds = ''env'') (checksum = ''required'') explicit)) (\<lambda>_.
     pbind (elapsed_ms k t) (\<lambda>load_ms.
     pbind (sys (wall_ms (sdk_os k))) (\<lambda>t.
     pbind (var_set k ''PROBE_TABLE'') (\<lambda>table.
     pbind (var_set k ''PROBE_KEY'') (\<lambda>key.
     pbind (var_set k ''PROBE_KMS_KEY_ID'') (\<lambda>kms_key_id.
     pbind (var_set k ''PROBE_BUCKET'') (\<lambda>bucket.
     pbind (var_set k ''PROBE_ORDER_PK'') (\<lambda>order_pk.
     pbind (var_set k ''PROBE_RECEIPT_KEY'') (\<lambda>receipt_key.
       let st = \<lparr>ts_three = (flow = ''three''), ts_table = table, ts_key = key,
             ts_kms_key_id = kms_key_id, ts_bucket = bucket, ts_order_pk = order_pk,
             ts_receipt_key = receipt_key\<rparr>
       in
     pbind (elapsed_ms k t) (\<lambda>clients_ms.
     pbind (sys (wall_ms (sdk_os k))) (\<lambda>t.
     pbind (var_opt k ''PROBE_PREWARM'' ''none'') (\<lambda>mode.
     pbind (prewarm k st mode) (\<lambda>_.
     pbind (elapsed_ms k t) (\<lambda>prewarm_ms.
     pbind (elapsed_ms k t0) (\<lambda>init_ms.
     pbind (usage k) (\<lambda>(cpu, maj, minor).
     pbind (tuning_exe_rss_kb k) (\<lambda>rss.
       pret \<lparr>ti_state = st, ti_load_ms = load_ms, ti_clients_ms = clients_ms,
         ti_prewarm_ms = prewarm_ms, ti_init_ms = init_ms, ti_cpu = cpu, ti_majflt = maj,
         ti_minflt = minor, ti_exe_rss_kb = rss, ti_prefault_ms = prefault_ms\<rparr>)))))))))))))))))))))))"

record tuning_report =
  tr_n :: "32 word"
  tr_handler_ms :: rat
  tr_handler_cpu_ms :: rat
  tr_handler_majflt :: int
  tr_handler_minflt :: int
  tr_exe_rss_kb :: nat
  tr_init :: tuning_init

text \<open>One event: the new count and the response.\<close>

definition tuning_handler ::
    "'x sdk \<Rightarrow> tuning_init \<Rightarrow> 32 word \<Rightarrow> ('x, 32 word \<times> (string + tuning_report)) prog" where
  "tuning_handler k i n =
     (let n = n + 1
      in pbind (sys (wall_ms (sdk_os k))) (\<lambda>t.
         pbind (usage k) (\<lambda>(cpu0, maj0, min0).
         pbind (tuning_work k (ti_state i)) (\<lambda>r.
           case r of
             Inl e \<Rightarrow> pret (n, Inl e)
           | Inr _ \<Rightarrow>
               pbind (usage k) (\<lambda>(cpu1, maj1, min1).
               pbind (tuning_exe_rss_kb k) (\<lambda>rss.
               pbind (elapsed_ms k t) (\<lambda>ms.
                 pret (n, Inr \<lparr>tr_n = n, tr_handler_ms = ms, tr_handler_cpu_ms = cpu1 - cpu0,
                   tr_handler_majflt = maj1 - maj0, tr_handler_minflt = min1 - min0,
                   tr_exe_rss_kb = rss, tr_init = i\<rparr>))))))))"

definition prefault :: "'x sdk \<Rightarrow> string \<Rightarrow> ('x, rat) prog" where
  "prefault k mode =
     pbind (sys (wall_ms (sdk_os k))) (\<lambda>t.
     pbind (if mode = ''none'' then pret ()
         else if mode = ''read'' then
           pbind (sys (sdk_read_exe k)) (\<lambda>ok. if ok then pret () else panic ''read /proc/self/exe'')
         else if mode = ''thread'' then sys (sdk_spawn_read k)
         else if mode = ''fadvise'' then
           pbind (sys (sdk_fadvise k)) (\<lambda>ok. if ok then pret () else panic ''posix_fadvise failed'')
         else panic (''unknown PROBE_PREFAULT '' @ mode)) (\<lambda>_. elapsed_ms k t))"

definition tuning_main :: "'x sdk \<Rightarrow> ('x, tuning_init) prog" where
  "tuning_main k =
     pbind (sys (wall_ms (sdk_os k))) (\<lambda>t0.
     pbind (var_opt k ''PROBE_PREFAULT'' ''none'') (\<lambda>mode.
     pbind (prefault k mode) (\<lambda>prefault_ms.
     pbind (var_opt k ''PROBE_RT'' ''multi'') (\<lambda>rt.
       if rt \<notin> {''multi'', ''current''} then panic (''unknown PROBE_RT '' @ rt)
       else tuning_init_run k t0 prefault_ms))))"

section \<open>Where the warm-up requests go\<close>

lemma tuning_request:
  "\<exists>r t. tuning_get_item k st endpoint s = (Inr r, t) \<and>
     http_log t = http_log s @ [(or_empty endpoint, ''GetItem'')]"
  "ts_three st \<Longrightarrow> \<exists>r t. tuning_encrypt k st endpoint s = (Inr r, t) \<and>
     http_log t = http_log s @ [(or_empty endpoint, ''Encrypt'')]"
  "ts_three st \<Longrightarrow> \<exists>t. tuning_head_receipt k st endpoint s = (Inr (Inr ()), t) \<and>
     http_log t = http_log s @ [(or_empty endpoint, ''HeadObject'')]"
  by (simp_all add: tuning_get_item_def tuning_encrypt_def tuning_head_receipt_def pbind_ok_def
      pbind_def sdk_call_def pret_def split: prod.split sum.split)

text \<open>
  The local warm-up cannot fail and does no network work: whatever the clients answer, it returns,
  and its requests, one per client of the flow, all go to the closed local port.
\<close>

theorem prewarm_local:
  "\<exists>t. prewarm k st ''local'' s = (Inr (), t) \<and>
     http_log t = http_log s @ map (\<lambda>op. (DEAD_ENDPOINT, op))
       (if ts_three st then [''GetItem'', ''Encrypt'', ''HeadObject''] else [''GetItem''])"
proof -
  let ?e = "Some DEAD_ENDPOINT"
  obtain r t1 where g: "tuning_get_item k st ?e s = (Inr r, t1)"
    "http_log t1 = http_log s @ [(DEAD_ENDPOINT, ''GetItem'')]"
    using tuning_request(1) [of k st ?e s] by (auto simp: or_empty_def)
  show ?thesis
  proof (cases "ts_three st")
    case False
    with g show ?thesis by (simp add: prewarm_def prewarm_endpoint_def pbind_def pret_def)
  next
    case True
    obtain r2 t2 where e: "tuning_encrypt k st ?e t1 = (Inr r2, t2)"
      "http_log t2 = http_log t1 @ [(DEAD_ENDPOINT, ''Encrypt'')]"
      using tuning_request(2) [OF True, of k ?e t1] by (auto simp: or_empty_def)
    obtain t3 where h: "tuning_head_receipt k st ?e t2 = (Inr (Inr ()), t3)"
      "http_log t3 = http_log t2 @ [(DEAD_ENDPOINT, ''HeadObject'')]"
      using tuning_request(3) [OF True, of k ?e t2] by (auto simp: or_empty_def)
    from True g e h show ?thesis by (simp add: prewarm_def prewarm_endpoint_def pbind_def pret_def)
  qed
qed

end
