(* ===== verification/Oneoff_Servers.thy ===== *)
theory Oneoff_Servers
  imports Runtime_Loop
begin

text \<open>
  Two more experiments. \<open>oneoff/web-functions/rust-execve\<close>: the server that takes over a process by
  \<open>execve\<close>, completes its environment from the runtime API, reports readiness and serves items with
  its timings. \<open>oneoff/init-timeout/rust\<close>: an initialisation of a chosen length and a hang that
  leaves a marker. The SDK, the HTTP server and the JSON parser are parameters.
\<close>

unbundle bit_operations_syntax

section \<open>The execve server\<close>

text \<open>
  \<open>config_entries\<close> gives the strings of the \<open>applicationConfiguration\<close> array of a JSON text, none
  where there is no such array; \<open>item_payload\<close> is the \<open>GetItem\<close> call, with the item's payload.
\<close>

record 'x execve =
  x_os :: "'x os"
  x_unix_ms :: "'x \<Rightarrow> rat \<times> 'x"
  x_unix_nanos :: "'x \<Rightarrow> nat \<times> 'x"
  x_pid :: "32 word"
  x_set_var :: "string \<Rightarrow> string \<Rightarrow> 'x \<Rightarrow> unit \<times> 'x"
  x_exchange :: "string \<Rightarrow> string \<Rightarrow> 'x \<Rightarrow> (string + string) \<times> 'x"
  config_entries :: "string \<Rightarrow> string list"
  read_f64 :: "string \<Rightarrow> rat option"
  load_client :: "'x \<Rightarrow> unit \<times> 'x"
  item_payload :: "string \<Rightarrow> string \<Rightarrow> 'x \<Rightarrow> (string + string option) \<times> 'x"
  x_bind :: "string \<Rightarrow> 'x \<Rightarrow> bool \<times> 'x"
  x_sleep :: "nat \<Rightarrow> 'x \<Rightarrow> unit \<times> 'x"

text \<open>Tenths of a millisecond since the origin; \<open>None\<close> is the value that is not a number.\<close>

definition round_away :: "rat \<Rightarrow> int" where
  "round_away x = (if 0 \<le> x then \<lfloor>x + 1 / 2\<rfloor> else \<lceil>x - 1 / 2\<rceil>)"

definition tenths :: "rat \<Rightarrow> rat" where
  "tenths x = of_int (round_away (x * 10)) / 10"

definition x_now_ms :: "'x execve \<Rightarrow> rat option \<Rightarrow> ('x, rat option) prog" where
  "x_now_ms w origin =
     pbind (sys (x_unix_ms w)) (\<lambda>t. pret (map_option (\<lambda>o'. tenths (t - o')) origin))"

definition rsplit_once :: "char \<Rightarrow> string \<Rightarrow> (string \<times> string) option" where
  "rsplit_once c s = map_option (\<lambda>(b, a). (rev a, rev b)) (split_once c (rev s))"

definition stat_ticks :: "string list \<Rightarrow> nat \<Rightarrow> nat" where
  "stat_ticks f i = (case Option.bind (nth_opt f i) parse_u64 of None \<Rightarrow> 0 | Some n \<Rightarrow> n)"

definition x_cpu_ms :: "'x execve \<Rightarrow> ('x, nat) prog" where
  "x_cpu_ms w =
     pbind (sys (read_text (x_os w) ''/proc/self/stat'')) (\<lambda>stat.
       let after = (case rsplit_once (CHR '')'') (or_empty stat) of None \<Rightarrow> [] | Some (_, r) \<Rightarrow> r);
           f = split_whitespace after
       in pret ((stat_ticks f 11 + stat_ticks f 12) * 10 mod 2 ^ 64))"

definition graviton_name :: "string option \<Rightarrow> string" where
  "graviton_name part =
     (case part of
        None \<Rightarrow> ''unknown''
      | Some p \<Rightarrow>
          if p = ''0xd0c'' then ''Graviton2''
          else if p = ''0xd40'' then ''Graviton3''
          else if p = ''0xd4f'' then ''Graviton4'' else p)"

definition x_host_cpu :: "'x execve \<Rightarrow> ('x, string) prog" where
  "x_host_cpu w =
     pbind (sys (read_text (x_os w) ''/proc/cpuinfo'')) (\<lambda>info.
       pret (graviton_name (map_option trim (Option.bind
         (List.find (prefix ''CPU part'') (rust_lines (or_empty info)))
         (\<lambda>l. nth_opt (split_on (CHR '':'') l) 1)))))"

definition post_text :: "string \<Rightarrow> string \<Rightarrow> string" where
  "post_text api path =
     ''POST '' @ path @ '' HTTP/1.1'' @ crlf @ ''Host: '' @ api @ crlf @
     ''Content-Type: application/json'' @ crlf @ ''Content-Length: 2'' @ crlf @
     ''Connection: close'' @ crlf @ crlf @ ''{}''"

definition runtime_api_post :: "'x execve \<Rightarrow> string \<Rightarrow> ('x, string + string) prog" where
  "runtime_api_post w path =
     pbind (sys (os_var (x_os w) ''AWS_LAMBDA_RUNTIME_API'')) (\<lambda>v. case v of
       None \<Rightarrow> pret (Inl ''AWS_LAMBDA_RUNTIME_API not set'')
     | Some api \<Rightarrow>
         pbind (sys (x_exchange w api (post_text api path))) (\<lambda>r. case r of
           Inl e \<Rightarrow> pret (Inl e)
         | Inr resp \<Rightarrow>
             let status = or_empty (nth_opt (split_whitespace resp) 1)
             in pret (if \<not> prefix ''2'' status
                  then Inl (path @ '': '' @ or_empty (nth_opt (rust_lines resp) 0))
                  else Inr (case split_once_str (crlf @ crlf) resp of
                      None \<Rightarrow> [] | Some (_, b) \<Rightarrow> b))))"

text \<open>Entries \<open>name=value\<close> whose name is not set yet, in order.\<close>

fun complete_env :: "'x execve \<Rightarrow> string list \<Rightarrow> ('x, unit) prog" where
  "complete_env w [] = pret ()"
| "complete_env w (kv # kvs) =
     (case split_once (CHR ''='') kv of
        None \<Rightarrow> complete_env w kvs
      | Some (k, val) \<Rightarrow>
          pbind (sys (os_var (x_os w) k)) (\<lambda>old.
          pbind (case old of None \<Rightarrow> sys (x_set_var w k val) | Some _ \<Rightarrow> pret ()) (\<lambda>_.
            complete_env w kvs)))"

record boot =
  b_origin :: "rat option"
  b_variant :: string
  b_boot_id :: string
  b_cpu :: string
  b_execve_at :: "rat option"
  b_main_ms :: "rat option"
  b_load_ms :: "rat option option"
  b_table_from :: string
  b_client_ms :: "rat option"
  b_listen_ms :: "rat option"
  b_ready_ms :: "rat option"

record app_state =
  as_boot :: "boot option"
  as_table :: string
  as_key :: string
  as_req_n :: "64 word"
  as_first_req :: "rat option option"
  as_first_get :: "rat option option"

record item_response =
  ir_uptime :: "rat option"
  ir_payload :: "string option"
  ir_ok :: bool
  ir_req_n :: "64 word"
  ir_first_req :: "rat option"
  ir_first_get :: "rat option"
  ir_this_get :: "rat option"
  ir_cpu_ms :: nat
  ir_boot :: boot

text \<open>One request for the item; the header values and the body are the response.\<close>

definition get_or_init :: "'a option \<Rightarrow> 'a \<Rightarrow> 'a" where
  "get_or_init old v = (case old of None \<Rightarrow> v | Some w \<Rightarrow> w)"

definition serve_item ::
    "'x execve \<Rightarrow> app_state \<Rightarrow> nat option \<Rightarrow> ('x, app_state \<times> item_response) prog" where
  "serve_item w st pause =
     pbind (expect ''boot set before serving'' (as_boot st)) (\<lambda>b.
     pbind (x_now_ms w (b_origin b)) (\<lambda>t_in.
       let first_req = get_or_init (as_first_req st) t_in; n = as_req_n st + 1
       in
     pbind (sys (item_payload w (as_table st) (as_key st))) (\<lambda>out.
     pbind (x_now_ms w (b_origin b)) (\<lambda>t_done.
       let first_get = get_or_init (as_first_get st) t_done
       in
     pbind (case pause of None \<Rightarrow> pret () | Some ms \<Rightarrow> sys (x_sleep w (min ms 5000))) (\<lambda>_.
     pbind (x_now_ms w (b_origin b)) (\<lambda>up.
     pbind (x_cpu_ms w) (\<lambda>cpu.
       pret (st\<lparr>as_req_n := n, as_first_req := Some first_req, as_first_get := Some first_get\<rparr>,
         \<lparr>ir_uptime = up,
          ir_payload = (case out of Inl e \<Rightarrow> Some (''error: '' @ e) | Inr p \<Rightarrow> p),
          ir_ok = is_ok out, ir_req_n = n, ir_first_req = first_req, ir_first_get = first_get,
          ir_this_get = (case (t_done, t_in) of (Some a, Some b) \<Rightarrow> Some (tenths (a - b)) | _ \<Rightarrow> None),
          ir_cpu_ms = cpu, ir_boot = b\<rparr>))))))))"

definition env_f64 :: "'x execve \<Rightarrow> string \<Rightarrow> ('x, rat option) prog" where
  "env_f64 w name =
     pbind (sys (os_var (x_os w) name)) (\<lambda>v. pret (Option.bind v (read_f64 w)))"

definition or_panic :: "string \<Rightarrow> string + 'a \<Rightarrow> ('x, 'a) prog" where
  "or_panic what r = (case r of Inl e \<Rightarrow> panic (what @ e) | Inr v \<Rightarrow> pret v)"

definition x_load :: "'x execve \<Rightarrow> rat option \<Rightarrow> ('x, rat option option) prog" where
  "x_load w origin =
     pbind (sys (os_var (x_os w) ''CALL_LOAD'')) (\<lambda>v.
       if v \<noteq> Some ''1'' then pret None
       else
         pbind (runtime_api_post w ''/2025-09-01/load'') (\<lambda>r.
         pbind (or_panic ''load failed: '' r) (\<lambda>body.
         pbind (x_now_ms w origin) (\<lambda>ms.
         pbind (complete_env w (config_entries w body)) (\<lambda>_. pret (Some ms))))))"

fun hex_digits :: "nat \<Rightarrow> nat \<Rightarrow> string" where
  "hex_digits 0 n = []"
| "hex_digits (Suc k) n =
     hex_digits k (n div 16) @ [let d = n mod 16 in char_of (if d < 10 then 48 + d else 87 + d)]"

definition execve_main :: "'x execve \<Rightarrow> ('x, app_state) prog" where
  "execve_main w =
     pbind (env_f64 w ''NODE_TIME_ORIGIN'') (\<lambda>origin.
     pbind (x_now_ms w origin) (\<lambda>main_ms.
     pbind (env_f64 w ''EXECVE_AT_MS'') (\<lambda>execve_at.
     pbind (sys (os_var (x_os w) ''VARIANT'')) (\<lambda>variant.
     pbind (sys (os_var (x_os w) ''LAMBDABENCH_TABLE'')) (\<lambda>at_start.
     pbind (x_load w origin) (\<lambda>load_ms.
     pbind (if at_start \<noteq> None then pret None
         else sys (os_var (x_os w) ''LAMBDABENCH_TABLE'')) (\<lambda>later.
       let table_from = (if at_start \<noteq> None then ''env'' else if later \<noteq> None then ''load'' else ''missing'')
       in
     pbind (sys (load_client w)) (\<lambda>_.
     pbind (x_now_ms w origin) (\<lambda>client_ms.
     pbind (sys (os_var (x_os w) ''LAMBDABENCH_TABLE'')) (\<lambda>v.
     pbind (expect ''LAMBDABENCH_TABLE not set'' v) (\<lambda>table.
     pbind (sys (os_var (x_os w) ''LAMBDABENCH_KEY'')) (\<lambda>key.
     pbind (sys (os_var (x_os w) ''AWS_LAMBDA_HTTP_ENDPOINT'')) (\<lambda>addr.
     pbind (sys (x_bind w (case addr of None \<Rightarrow> ''0.0.0.0:3000'' | Some a \<Rightarrow> a))) (\<lambda>bound.
       if \<not> bound then panic ''bind'' else
     pbind (x_now_ms w origin) (\<lambda>listen_ms.
     pbind (runtime_api_post w ''/2025-09-01/ready'') (\<lambda>r.
     pbind (or_panic ''ready failed: '' r) (\<lambda>_.
     pbind (x_now_ms w origin) (\<lambda>ready_ms.
     pbind (sys (x_unix_nanos w)) (\<lambda>nanos.
     pbind (x_host_cpu w) (\<lambda>cpu.
       let boot_id = hex_digits 8 (unat (((of_nat nanos :: 64 word) XOR ucast (x_pid w)) AND 0xffffffff));
           b = \<lparr>b_origin = origin, b_variant = or_empty variant, b_boot_id = boot_id, b_cpu = cpu,
             b_execve_at = execve_at, b_main_ms = main_ms, b_load_ms = load_ms,
             b_table_from = table_from, b_client_ms = client_ms, b_listen_ms = listen_ms,
             b_ready_ms = ready_ms\<rparr>
       in pret \<lparr>as_boot = Some b, as_table = table,
            as_key = (case key of None \<Rightarrow> ''seed'' | Some k \<Rightarrow> k), as_req_n = 0,
            as_first_req = None, as_first_get = None\<rparr>))))))))))))))))))))"

section \<open>The init timeout\<close>

definition MARKER :: string where
  "MARKER = ''/tmp/hung''"

definition env_ms :: "'x os \<Rightarrow> string \<Rightarrow> ('x, nat option) prog" where
  "env_ms w name =
     pbind (sys (os_var w name)) (\<lambda>v. pret (Option.bind v parse_u64))"

text \<open>How long the initialisation sleeps: the marker of a hang selects the second length.\<close>

definition init_sleep_ms :: "'x os \<Rightarrow> (string \<Rightarrow> 'x \<Rightarrow> bool \<times> 'x) \<Rightarrow> ('x, nat) prog" where
  "init_sleep_ms w exists =
     pbind (env_ms w ''REINIT_MS'') (\<lambda>re.
     pbind (case re of
         None \<Rightarrow> pret None
       | Some ms \<Rightarrow> pbind (sys (exists MARKER)) (\<lambda>hung. pret (if hung then Some ms else None))) (\<lambda>reinit.
     pbind (env_ms w ''INIT_MS'') (\<lambda>init.
       pret (case reinit of Some ms \<Rightarrow> ms | None \<Rightarrow> (case init of Some ms \<Rightarrow> ms | None \<Rightarrow> 0)))))"

text \<open>One event: whether it asks to hang, and the write of the marker.\<close>

definition hang_handler ::
    "(string \<Rightarrow> 'x \<Rightarrow> (string + unit) \<times> 'x) \<Rightarrow> (nat \<Rightarrow> 'x \<Rightarrow> unit \<times> 'x) \<Rightarrow> bool option \<Rightarrow>
     string \<times> nat \<Rightarrow> ('x, string + string \<times> nat) prog" where
  "hang_handler write_marker sleep_s hang ready =
     (if hang \<noteq> Some True then pret (Inr ready)
      else
        pbind (sys (write_marker MARKER)) (\<lambda>r.
          case r of
            Inl e \<Rightarrow> pret (Inl e)
          | Inr _ \<Rightarrow> pbind (sys (sleep_s 900)) (\<lambda>_. pret (Inr ready))))"

section \<open>First times are kept\<close>

text \<open>
  Over any sequence of requests the time of the first request and of its first answer stay what
  the first request made them, and the request number counts the requests, modulo \<open>2 ^ 64\<close>.
\<close>

fun serve_items :: "'x execve \<Rightarrow> app_state \<Rightarrow> nat option list \<Rightarrow> ('x, app_state \<times> item_response list) prog" where
  "serve_items w st [] = pret (st, [])"
| "serve_items w st (q # qs) =
     pbind (serve_item w st q) (\<lambda>(st', r).
     pbind (serve_items w st' qs) (\<lambda>(st'', rs). pret (st'', r # rs)))"

lemma serve_item_Inr:
  assumes "serve_item w st q s = (Inr (st', r), t)"
  shows "as_req_n st' = as_req_n st + 1 \<and> ir_req_n r = as_req_n st' \<and>
    as_first_req st' = Some (ir_first_req r) \<and> as_first_get st' = Some (ir_first_get r) \<and>
    (\<forall>v. as_first_req st = Some v \<longrightarrow> ir_first_req r = v) \<and>
    (\<forall>v. as_first_get st = Some v \<longrightarrow> ir_first_get r = v)"
  using assms by (auto simp: serve_item_def Let_def pbind_Inr get_or_init_def)

lemma serve_items_first:
  assumes "serve_items w st qs s = (Inr (st', rs), t)"
    and "as_first_req st = Some a" "as_first_get st = Some b"
  shows "map ir_req_n rs = map (\<lambda>i. as_req_n st + of_nat i) [1..<Suc (length qs)] \<and>
    list_all (\<lambda>r. ir_first_req r = a \<and> ir_first_get r = b) rs"
  using assms
proof (induction qs arbitrary: st s rs)
  case Nil
  then show ?case by simp
next
  case (Cons q qs)
  then obtain st1 r s1 rs1 where one: "serve_item w st q s = (Inr (st1, r), s1)"
    and rest: "serve_items w st1 qs s1 = (Inr (st', rs1), t)" "rs = r # rs1"
    by (auto simp: pbind_Inr)
  from serve_item_Inr [OF one] Cons.prems(2,3) have r: "as_req_n st1 = as_req_n st + 1"
    "ir_req_n r = as_req_n st + 1" "ir_first_req r = a" "ir_first_get r = b"
    "as_first_req st1 = Some a" "as_first_get st1 = Some b" by auto
  have "map (\<lambda>i. as_req_n st + of_nat i) [1..<Suc (length (q # qs))] =
      (as_req_n st + 1) # map (\<lambda>i. as_req_n st1 + of_nat i) [1..<Suc (length qs)]"
    unfolding r(1) by (simp add: upt_conv_Cons map_Suc_upt [symmetric] del: upt_Suc)
  with Cons.IH [OF rest(1) r(5,6)] rest(2) r show ?case by simp
qed

end
