(* ===== verification/Spec2Isabelle.thy ===== *)
theory Spec2Isabelle
  imports Effort Sim_Run Report Stats Selection Run_Spec Teardown Sim_Pipeline Probes
    Deployed_Handlers Cli First_Touch_Main Sdk_Tuning Oneoff_Servers
begin

text \<open>
  LambdaBench measures cold and warm starts of AWS Lambda functions: one matrix of languages,
  scenarios, architectures and memory tiers, one driver (\<open>bencher/\<close>), the handlers it deploys
  (\<open>scenarios/\<close>) and a few stand-alone experiments (\<open>oneoff/\<close>). This development models the Rust
  code: every definition translates a piece of it, under the name the code gives it where Isabelle
  allows that, and \<open>PROJECT.json\<close> maps each to its file and lines.

  The parts and how they meet. \<open>config.rs\<close> generates the matrix, and with it the names of
  functions, artifacts and payload objects that every other part relies on. \<open>bencher build\<close> turns
  artifact keys into zips; \<open>bencher run\<close> selects cells, builds or reuses, deploys or checks, writes
  the metadata, runs a pool of cells and writes the metadata again; \<open>bencher probe\<close> samples cold
  starts of deployed or padded functions; \<open>bencher teardown\<close> deletes everything that carries a
  managed name; \<open>bencher doctor\<close> only asks. A cell is a number of cold cycles, each a forced cold
  start and a series of warm invokes, whose rows reach the results file only when the whole cell is
  clean. The SnapStart cells publish a version per cycle; a cancelled cell leaves its version on
  the leaked list, and the run deletes these on the way out.

  How effects are modelled. Operations of the driver are functions from a state to a result and a
  state (\<open>Effects\<close>, type \<open>eff\<close>). The state \<open>drv\<close> holds what the process itself keeps (the KMS key
  id, the limiter's slot, the leaked versions, the rows counter), the log of the calls made, and an
  outside world of arbitrary type. The services (\<open>aws\<close> in \<open>Services\<close>, \<open>cloud\<close> in \<open>Cloud\<close>), the
  machine (\<open>host\<close> in \<open>Host\<close>) and the results file (\<open>writer\<close> in \<open>Writer\<close>) are records of functions
  over that world: nothing is assumed of them, so a theorem without a hypothesis about them holds
  whatever AWS, the clock or the file system do. Errors are values of the sum type, panics among
  them. The scenario handlers and the experiments are programs of their own and have their own
  states (\<open>act\<close> in \<open>Handler\<close>, \<open>prog\<close> in \<open>Procfs\<close>).

  Shared base.
  \<^item> \<open>Prelude\<close>, \<open>Rust_Str\<close>, \<open>Btree\<close>: results, lists, the \<open>str\<close> operations of Rust, \<open>BTreeMap\<close>.
  \<^item> \<open>Interfaces\<close>: the locales \<open>tag_enum\<close> (names that are read back; interpreted on the three
    enumerations), \<open>name_space\<close> (names that key resources; on function names and artifact labels),
    \<open>step_system\<close> and \<open>step_refinement\<close> (invariants and simulation of step relations; on the pool
    and its ledger). \<open>Services\<close> has \<open>cold_invariant\<close> and \<open>run_invariant\<close> (what every call of the run
    loop keeps), \<open>Effort\<close> has \<open>effort\<close> (weights of calls, interpreted on sleeps, invokes and
    back-offs), \<open>Runtime_Loop\<close> has \<open>measured\<close> (a measurement the runtime loop may call).

  The driver.
  \<^item> \<open>Config\<close>: \<open>config.rs\<close>. The matrix holds exactly the hosted, valid cells above their memory
    floor, 674 of them; artifact labels and function names identify what they name.
  \<^item> \<open>Selection\<close>: the filters of \<open>main.rs\<close> and \<open>probe/download_start.rs\<close>, equal to set
    comprehensions over the matrix.
  \<^item> \<open>Report\<close>: \<open>parse.rs\<close> over an arbitrary regex engine, with the documented leftmost-first search
    as the reference engine of its witness.
  \<^item> \<open>Rate_Limiter\<close>: \<open>aws/rate_limiter.rs\<close> on nanoseconds; spacing and the number of slots in any second.
  \<^item> \<open>Lambda_Api\<close>: \<open>aws/lambda.rs\<close>; \<open>Provision\<close>: \<open>aws/iam.rs\<close>, \<open>ddb.rs\<close>, \<open>kms.rs\<close>, \<open>ecr.rs\<close>, \<open>logs.rs\<close>;
    \<open>S3\<close>: \<open>aws/s3.rs\<close> with the generated payloads; \<open>Cloud\<close>: \<open>Aws::load\<close> and the shared helpers of
    \<open>aws.rs\<close>.
  \<^item> \<open>Build\<close>: \<open>build.rs\<close>; \<open>Deploy\<close>: \<open>deploy.rs\<close> and the preflight check; \<open>Teardown\<close>: \<open>teardown.rs\<close>,
    with a calculus of the calls that are made whatever the services answer.
  \<^item> \<open>Writer\<close>: rows and results writer of \<open>record.rs\<close>; \<open>Run_Loop\<close>: a cell of \<open>run.rs\<close>; \<open>Effort\<close>: what
    a cell may cost; \<open>Run_Pool\<close>: the pool as a step relation, with cancellation at any call;
    \<open>Run_Spec\<close>: the abstract ledger the pool refines; \<open>Pipeline\<close>: \<open>cmd_run\<close> and the metadata;
    \<open>Cli\<close>: \<open>doctor\<close> and the dispatch of \<open>main\<close>.
  \<^item> \<open>Stats\<close>, \<open>Sampling\<close>, \<open>Synthetic\<close>, \<open>Image\<close>, \<open>Scaling\<close>, \<open>Probes\<close>: \<open>probe.rs\<close> and \<open>probe/\<close>.
  \<^item> \<open>Sim\<close>, \<open>Sim_Run\<close>, \<open>Sim_Pipeline\<close>: a small healthy world in which every cell runs to its end
    and \<open>bencher run\<close> succeeds on the whole matrix. It is the instance of the properties' hypotheses.

  The handlers. \<open>Handler\<close> is the sandbox and the host CPU report of \<open>scenarios/rust/cpuinfo\<close>, which
  the driver reads back; \<open>Scenario_Handlers\<close> and \<open>Server_Handlers\<close> are the Rust scenarios;
  \<open>Deployed_Handlers\<close> joins them to the driver: the environment a deployment sets is the one they
  read, and the batch the driver seeds is the one they group.

  The experiments. \<open>Procfs\<close> is their process and the readers of \<open>/proc\<close> text; \<open>Probe_Counters\<close>,
  \<open>First_Touch\<close>, \<open>First_Touch_Main\<close> and \<open>Sdk_Tuning\<close> are those under \<open>oneoff/rust-sdk-tuning\<close>;
  \<open>Runtime_Loop\<close> is the custom runtime with \<open>oneoff/rust-sdk-init\<close> and the ECS caller, and
  \<open>Oneoff_Servers\<close> the execve server and the init-timeout function.

  What the lemmas show. Functional behaviour of the operations on every branch (\<open>_exact\<close>,
  \<open>_records_\<close>, \<open>_outcome\<close>); invariants that every call keeps, by rule induction over the step
  relations; bounds on time, calls and rates; what is done whatever the services answer (teardown,
  drain); refinement of the ledger by the pool; and agreement between programs that never share
  code (handler and driver, seeder and handler).

  Bounds and fuel. The payload loop has its size in bytes as fuel: each entry adds at least one
  byte, so it ends earlier (\<open>seed_payloads_exact\<close>). The directory walk of the build has a fuel field
  in \<open>host\<close>; only a cyclic tree exhausts it, and that is an error value. Polls and retries carry the
  attempt counts of the code. The block probe is a \<open>partial_function\<close>, since its wrapping 64-bit
  loop need not end on absurd mappings; \<open>touch_blocks_inside\<close> shows that it returns on sane ones.
  The runtime loops, endless in the code, are run for a number of events.

  Abstractions. Binary64 values are rationals, without rounding, infinities or payloads of a value
  that is not a number. Strings are byte lists; white space is the ASCII one. Concurrent jobs of a
  deploy or a teardown are atomic and end in an order the world chooses; a cell of the pool runs in
  one step, except that a cancelled one may have made any of its calls. Printed progress is left
  out. Sizes of files and counts of rows are unbounded naturals; words are used where the code's
  arithmetic can wrap (padding, checksums, letter counts, addresses, request counters).

  Not modelled. The argument parser (clap), the log subscriber and the printed text of the commands;
  the JSON serializers and parsers, the zip, tar, base64, regex and JWT libraries, the AWS SDK and
  its retries, TLS, TCP and the Lambda runtime crate, all of which are parameters; the generated
  Smithy server SDK, which is not in the repository; \<open>bencher/build.rs\<close>, \<open>devtools\<close>, the build script
  of \<open>authz\<close> and the ECS hello server, which only call a generator or a library; the padding, ring
  and diagnostics features of the SDK tuning probe; the site, the CDK stacks and the handlers in
  Node, Java, Python and Go, which are not in the implementation language; and the tests.
\<close>

end
